(* ===== verification/Prelude.thy ===== *)
theory Prelude
  imports "HOL-Library.AList" "HOL-Library.Char_ord" "HOL-Library.List_Lexorder"
begin

text \<open>
  Shared ground of the development: the operations of Python's \<open>str\<close>, \<open>bytes\<close> and
  \<open>int\<close> that the program uses, association lists as the model of dictionaries, the type of
  results that may be exceptions, and the collections of rewrite rules the component theories
  draw on.

  A Python \<open>str\<close> is a \<open>string\<close>, one \<open>char\<close> per code point: the model covers the
  code points below 256, which are exactly the ones an HTTP header can carry (they are decoded
  as Latin-1), and on these the classification functions below agree with Python's. A
  \<open>bytes\<close> value is a \<open>string\<close> too, one \<open>char\<close> per byte; \<open>utf8_encode\<close> and
  \<open>utf8_decode\<close> are the boundary between the two.
\<close>

named_theorems str_simps \<open>evaluation rules for the string operations\<close>
named_theorems result_iff \<open>when an operation returns, and what\<close>

section \<open>Results and exceptions\<close>

type_synonym ('e, 'a) result = "'e + 'a"

definition is_ok :: "('e + 'a) \<Rightarrow> bool" where
  "is_ok r = (case r of Inl _ \<Rightarrow> False | Inr _ \<Rightarrow> True)"

lemma is_ok_simps [simp]: "is_ok (Inl e) = False" "is_ok (Inr x) = True"
  by (simp_all add: is_ok_def)

lemma is_ok_iff [result_iff]: "is_ok r \<longleftrightarrow> (\<exists>x. r = Inr x)"
  by (cases r) simp_all

text \<open>
  The exceptions of the program. \<open>StorageError\<close> and its three subclasses are the storage
  layer's; an \<open>HTTPException\<close> carries the status, the detail and the headers of the
  response FastAPI makes of it. The rest are exceptions nothing in the program turns into a
  response: FastAPI answers them with 500.
\<close>

datatype storage_error = ResourceNotFound | NotABinaryResource | PrefixViolation | StorageError

datatype exn =
    Storage storage_error
  | HTTPException nat "string option" "(string \<times> string) list"
  | ValueError string
  | RuntimeError string
  | OSError
  | UnicodeError
  | LibraryError
  | UpstreamError nat
  | UpstreamNotFound string

section \<open>Strings\<close>

definition startswith :: "string \<Rightarrow> string \<Rightarrow> bool" where
  "startswith s p = (take (length p) s = p)"

definition endswith :: "string \<Rightarrow> string \<Rightarrow> bool" where
  "endswith s p = startswith (rev s) (rev p)"

definition removeprefix :: "string \<Rightarrow> string \<Rightarrow> string" where
  "removeprefix s p = (if startswith s p then drop (length p) s else s)"

definition removesuffix :: "string \<Rightarrow> string \<Rightarrow> string" where
  "removesuffix s p = (if endswith s p then take (length s - length p) s else s)"

lemma startswith_iff: "startswith s p \<longleftrightarrow> (\<exists>t. s = p @ t)"
  by (auto simp: startswith_def) (metis append_take_drop_id)

lemma startswith_append [simp]: "startswith (p @ t) p"
  by (simp add: startswith_def)

lemma startswith_Nil [simp]: "startswith s []"
  by (simp add: startswith_def)

lemma startswith_refl [simp]: "startswith s s"
  by (simp add: startswith_def)

lemma startswith_Cons [simp, str_simps]:
  "startswith (c # s) (d # p) \<longleftrightarrow> c = d \<and> startswith s p"
  "startswith [] (d # p) \<longleftrightarrow> False"
  by (auto simp: startswith_def)

lemma startswith_trans: "startswith s p \<Longrightarrow> startswith p q \<Longrightarrow> startswith s q"
  by (auto simp: startswith_iff)

lemma startswith_same_append [simp]: "startswith (p @ s) (p @ q) \<longleftrightarrow> startswith s q"
  by (auto simp: startswith_iff)

lemma endswith_iff: "endswith s p \<longleftrightarrow> (\<exists>t. s = t @ p)"
proof
  assume "endswith s p"
  then obtain t where "rev s = rev p @ t" by (auto simp: endswith_def startswith_iff)
  then have "s = rev t @ p" by (metis rev_append rev_rev_ident)
  then show "\<exists>t. s = t @ p" by blast
qed (auto simp: endswith_def startswith_iff)

lemma endswith_append [simp]: "endswith (t @ p) p"
  by (auto simp: endswith_iff)

lemma removeprefix_append [simp]: "removeprefix (p @ t) p = t"
  by (simp add: removeprefix_def)

lemma removesuffix_append [simp]: "removesuffix (t @ p) p = t"
  by (simp add: removesuffix_def)

lemma removeprefix_id: "\<not> startswith s p \<Longrightarrow> removeprefix s p = s"
  by (simp add: removeprefix_def)

text \<open>\<open>s.rstrip(c)\<close>, \<open>s.strip(c)\<close> for one character, and \<open>s.strip()\<close>.\<close>

definition rstrip_by :: "(char \<Rightarrow> bool) \<Rightarrow> string \<Rightarrow> string" where
  "rstrip_by P s = rev (dropWhile P (rev s))"

definition strip_by :: "(char \<Rightarrow> bool) \<Rightarrow> string \<Rightarrow> string" where
  "strip_by P s = rstrip_by P (dropWhile P s)"

definition rstrip_char :: "char \<Rightarrow> string \<Rightarrow> string" where
  "rstrip_char c s = rstrip_by (\<lambda>d. d = c) s"

definition strip_char :: "char \<Rightarrow> string \<Rightarrow> string" where
  "strip_char c s = strip_by (\<lambda>d. d = c) s"

lemma rstrip_by_snoc [simp]:
  "rstrip_by P (s @ [c]) = (if P c then rstrip_by P s else s @ [c])"
  by (simp add: rstrip_by_def)

lemma rstrip_by_Nil [simp]: "rstrip_by P [] = []"
  by (simp add: rstrip_by_def)

lemma set_rstrip_by: "set (rstrip_by P s) \<subseteq> set s"
  by (auto simp: rstrip_by_def dest: set_dropWhileD)

lemma set_strip_by: "set (strip_by P s) \<subseteq> set s"
  using set_rstrip_by [of P "dropWhile P s"] by (auto simp: strip_by_def dest: set_dropWhileD)

lemma rstrip_by_last: "rstrip_by P s \<noteq> [] \<Longrightarrow> \<not> P (last (rstrip_by P s))"
  by (induction s rule: rev_induct) auto

lemma rstrip_by_take: "\<exists>n. rstrip_by P s = take n s"
proof (induction s rule: rev_induct)
  case (snoc c s)
  then obtain n where n: "rstrip_by P s = take n s" by blast
  show ?case
  proof (cases "P c")
    case True
    with n have "rstrip_by P (s @ [c]) = take (min n (length s)) (s @ [c])"
      by (simp add: min_def)
    then show ?thesis by blast
  next
    case False
    then have "rstrip_by P (s @ [c]) = take (Suc (length s)) (s @ [c])" by simp
    then show ?thesis by blast
  qed
qed simp

lemma length_rstrip_by: "length (rstrip_by P s) \<le> length s"
  using rstrip_by_take [of P s] by (auto simp: min_def)

lemma length_strip_by: "length (strip_by P s) \<le> length s"
  unfolding strip_by_def
  using length_rstrip_by [of P "dropWhile P s"] length_dropWhile_le [of P s] by linarith

lemma hd_strip_by: "strip_by P s \<noteq> [] \<Longrightarrow> \<not> P (hd (strip_by P s))"
proof -
  assume ne: "strip_by P s \<noteq> []"
  obtain n where n: "strip_by P s = take n (dropWhile P s)"
    using rstrip_by_take [of P "dropWhile P s"] by (auto simp: strip_by_def)
  with ne have d: "dropWhile P s \<noteq> []" and "0 < n" by auto
  then have "hd (strip_by P s) = hd (dropWhile P s)" by (simp add: n)
  with hd_dropWhile [OF d] show ?thesis by simp
qed

lemma last_strip_by: "strip_by P s \<noteq> [] \<Longrightarrow> \<not> P (last (strip_by P s))"
  by (simp add: strip_by_def rstrip_by_last)

text \<open>\<open>s.split(c)\<close> for a one-character separator: never empty.\<close>

fun split_on :: "char \<Rightarrow> string \<Rightarrow> string list" where
  "split_on c [] = [[]]"
| "split_on c (x # xs) =
     (if x = c then [] # split_on c xs
      else (case split_on c xs of [] \<Rightarrow> [[x]] | w # ws \<Rightarrow> (x # w) # ws))"

lemma split_on_nonempty [simp]: "split_on c s \<noteq> []"
  by (cases s) (auto split: list.splits)

lemma split_on_none: "c \<notin> set s \<Longrightarrow> split_on c s = [s]"
  by (induction s) auto

lemma split_on_append:
  "c \<notin> set w \<Longrightarrow> split_on c (w @ c # s) = w # split_on c s"
  by (induction w) auto

lemma split_on_no_sep: "w \<in> set (split_on c s) \<Longrightarrow> c \<notin> set w"
  by (induction s arbitrary: w) (auto split: list.splits if_splits)

fun join :: "string \<Rightarrow> string list \<Rightarrow> string" where
  "join sep [] = []"
| "join sep [w] = w"
| "join sep (w # v # ws) = w @ sep @ join sep (v # ws)"

lemma join_split_on: "join [c] (split_on c s) = s"
proof (induction s)
  case (Cons x xs)
  show ?case
  proof (cases "split_on c xs")
    case (Cons w ws)
    with Cons.IH show ?thesis by (cases ws) auto
  qed simp
qed simp

lemma split_on_join:
  "ws \<noteq> [] \<Longrightarrow> \<forall>w\<in>set ws. c \<notin> set w \<Longrightarrow> split_on c (join [c] ws) = ws"
  by (induction "[c]" ws rule: join.induct) (auto simp: split_on_none split_on_append)

text \<open>\<open>s.rsplit(c, 1)[0]\<close> where \<open>c\<close> occurs in \<open>s\<close>: all before its last occurrence.\<close>

definition before_last :: "char \<Rightarrow> string \<Rightarrow> string" where
  "before_last c s = rev (drop 1 (dropWhile (\<lambda>d. d \<noteq> c) (rev s)))"

lemma before_last_append: "c \<notin> set w \<Longrightarrow> before_last c (s @ c # w) = s"
proof -
  assume "c \<notin> set w"
  then have "dropWhile (\<lambda>d. d \<noteq> c) (rev w @ c # rev s) = c # rev s"
    by (subst dropWhile_append2) (auto simp: takeWhile_eq_all_conv)
  then show ?thesis by (simp add: before_last_def)
qed

section \<open>Character classes (Latin-1)\<close>

definition ord_of :: "char \<Rightarrow> nat" where
  "ord_of c = of_char c"

lemma ord_of_char_of [simp]: "n < 256 \<Longrightarrow> ord_of (char_of n) = n"
  by (simp add: ord_of_def)

lemma char_of_ord_of [simp]: "char_of (ord_of c) = c"
  by (simp add: ord_of_def)

lemma ord_of_less [simp]: "ord_of c < 256"
  unfolding ord_of_def by (cases c) (simp add: of_char_Char horner_sum_simps)

lemma ord_of_inject [simp]: "ord_of c = ord_of d \<longleftrightarrow> c = d"
  by (metis char_of_ord_of)

definition is_digit :: "char \<Rightarrow> bool" where
  "is_digit c = (48 \<le> ord_of c \<and> ord_of c \<le> 57)"

definition is_ascii_lower :: "char \<Rightarrow> bool" where
  "is_ascii_lower c = (97 \<le> ord_of c \<and> ord_of c \<le> 122)"

definition is_ascii_upper :: "char \<Rightarrow> bool" where
  "is_ascii_upper c = (65 \<le> ord_of c \<and> ord_of c \<le> 90)"

text \<open>\<open>str.isspace\<close> on one character.\<close>

definition is_space :: "char \<Rightarrow> bool" where
  "is_space c = (let n = ord_of c in
     (9 \<le> n \<and> n \<le> 13) \<or> (28 \<le> n \<and> n \<le> 32) \<or> n = 133 \<or> n = 160)"

text \<open>\<open>str.isalpha\<close> and \<open>str.isalnum\<close> on one character; \<open>is_word\<close> is the class \<open>\w\<close>.\<close>

definition is_alpha :: "char \<Rightarrow> bool" where
  "is_alpha c = (let n = ord_of c in
     is_ascii_lower c \<or> is_ascii_upper c \<or> n = 170 \<or> n = 181 \<or> n = 186
     \<or> (192 \<le> n \<and> n \<noteq> 215 \<and> n \<noteq> 247))"

definition is_alnum :: "char \<Rightarrow> bool" where
  "is_alnum c = (is_alpha c \<or> is_digit c \<or> ord_of c \<in> {178, 179, 185, 188, 189, 190})"

definition is_word :: "char \<Rightarrow> bool" where
  "is_word c = (is_alnum c \<or> c = CHR ''_'')"

text \<open>
  \<open>str.lower\<close> and \<open>str.upper\<close>. Upper case of the three characters whose upper case
  lies beyond U+00FF (or is two characters) is left as it is: the program only compares
  upper-cased text with ASCII words, and none of the three maps to ASCII letters it compares with.
\<close>

definition lower_char :: "char \<Rightarrow> char" where
  "lower_char c = (let n = ord_of c in
     if is_ascii_upper c \<or> (192 \<le> n \<and> n \<le> 222 \<and> n \<noteq> 215) then char_of (n + 32) else c)"

definition upper_char :: "char \<Rightarrow> char" where
  "upper_char c = (let n = ord_of c in
     if is_ascii_lower c \<or> (224 \<le> n \<and> n \<le> 254 \<and> n \<noteq> 247) then char_of (n - 32) else c)"

definition lower :: "string \<Rightarrow> string" where
  "lower s = map lower_char s"

definition upper :: "string \<Rightarrow> string" where
  "upper s = map upper_char s"

definition strip :: "string \<Rightarrow> string" where
  "strip s = strip_by is_space s"

text \<open>\<open>s.split()\<close>: the maximal runs of non-space characters.\<close>

fun split_ws_aux :: "string \<Rightarrow> string \<Rightarrow> string list" where
  "split_ws_aux acc [] = (if acc = [] then [] else [rev acc])"
| "split_ws_aux acc (c # cs) =
     (if is_space c then (if acc = [] then split_ws_aux [] cs else rev acc # split_ws_aux [] cs)
      else split_ws_aux (c # acc) cs)"

definition split_ws :: "string \<Rightarrow> string list" where
  "split_ws s = split_ws_aux [] s"

text \<open>\<open>s.splitlines()\<close>: \<open>\r\n\<close> is one boundary, and there is no line after a last one.\<close>

definition is_line_break :: "char \<Rightarrow> bool" where
  "is_line_break c = (let n = ord_of c in
     (10 \<le> n \<and> n \<le> 13) \<or> (28 \<le> n \<and> n \<le> 30) \<or> n = 133)"

fun splitlines_aux :: "string \<Rightarrow> string \<Rightarrow> string list" where
  "splitlines_aux acc [] = (if acc = [] then [] else [rev acc])"
| "splitlines_aux acc [c] = (if is_line_break c then [rev acc] else [rev (c # acc)])"
| "splitlines_aux acc (c # d # cs) =
     (if ord_of c = 13 \<and> ord_of d = 10 then rev acc # splitlines_aux [] cs
      else if is_line_break c then rev acc # splitlines_aux [] (d # cs)
      else splitlines_aux (c # acc) (d # cs))"

definition splitlines :: "string \<Rightarrow> string list" where
  "splitlines s = splitlines_aux [] s"

text \<open>Reading a file in text mode turns each \<open>\r\n\<close> and each \<open>\r\<close> into \<open>\n\<close>.\<close>

fun universal_newlines :: "string \<Rightarrow> string" where
  "universal_newlines [] = []"
| "universal_newlines [c] = (if ord_of c = 13 then [char_of (10 :: nat)] else [c])"
| "universal_newlines (c # d # cs) =
     (if ord_of c = 13
      then char_of (10 :: nat) # universal_newlines (if ord_of d = 10 then cs else d # cs)
      else c # universal_newlines (d # cs))"

lemma universal_newlines_id: "\<forall>c\<in>set s. ord_of c \<noteq> 13 \<Longrightarrow> universal_newlines s = s"
  by (induction s rule: universal_newlines.induct) auto

lemma lower_char_idem [simp]: "lower_char (lower_char c) = lower_char c"
  by (auto simp: lower_char_def is_ascii_upper_def Let_def)

lemma lower_idem [simp]: "lower (lower s) = lower s"
  by (simp add: lower_def)

lemma length_lower [simp]: "length (lower s) = length s"
  by (simp add: lower_def)

section \<open>Integers as text\<close>

text \<open>
  \<open>int(s)\<close>: surrounding white space, an optional sign, then decimal digits with single
  underscores allowed between two digits. (CPython's limit of 4300 digits is not modelled.)
\<close>

definition digit_val :: "char \<Rightarrow> int" where
  "digit_val c = int (ord_of c) - 48"

fun int_digits :: "bool \<Rightarrow> int \<Rightarrow> string \<Rightarrow> int option" where
  "int_digits after_digit acc [] = (if after_digit then Some acc else None)"
| "int_digits after_digit acc (c # cs) =
     (if is_digit c then int_digits True (acc * 10 + digit_val c) cs
      else if c = CHR ''_'' \<and> after_digit \<and> cs \<noteq> [] then int_digits False acc cs
      else None)"

definition py_int :: "string \<Rightarrow> int option" where
  "py_int s = (case strip s of
     [] \<Rightarrow> None
   | c # cs \<Rightarrow>
       if c = CHR ''+'' then int_digits False 0 cs
       else if c = CHR ''-'' then map_option uminus (int_digits False 0 cs)
       else int_digits False 0 (c # cs))"

definition digit_char :: "nat \<Rightarrow> char" where
  "digit_char n = char_of (48 + n mod 10)"

fun str_of_nat :: "nat \<Rightarrow> string" where
  "str_of_nat n =
     (if n < 10 then [digit_char n] else str_of_nat (n div 10) @ [digit_char (n mod 10)])"

declare str_of_nat.simps [simp del]

definition str_of_int :: "int \<Rightarrow> string" where
  "str_of_int i = (if i < 0 then CHR ''-'' # str_of_nat (nat (- i)) else str_of_nat (nat i))"

lemma is_digit_digit_char [simp]: "is_digit (digit_char n)"
  by (simp add: is_digit_def digit_char_def)

lemma digit_val_digit_char: "n < 10 \<Longrightarrow> digit_val (digit_char n) = int n"
  by (simp add: digit_val_def digit_char_def)

lemma str_of_nat_nonempty [simp]: "str_of_nat n \<noteq> []"
  by (subst str_of_nat.simps) simp

lemma str_of_nat_digits: "c \<in> set (str_of_nat n) \<Longrightarrow> is_digit c"
proof (induction n rule: str_of_nat.induct)
  case (1 n)
  then show ?case by (subst (asm) (2) str_of_nat.simps) (auto split: if_splits)
qed

lemma int_digits_append:
  "w \<noteq> [] \<Longrightarrow> \<forall>c\<in>set w. is_digit c \<Longrightarrow>
   int_digits b acc (w @ s) = int_digits True (foldl (\<lambda>a c. a * 10 + digit_val c) acc w) s"
proof (induction w arbitrary: b acc)
  case (Cons c w)
  show ?case
  proof (cases "w = []")
    case False
    with Cons.prems have "int_digits True (acc * 10 + digit_val c) (w @ s) =
        int_digits True (foldl (\<lambda>a c. a * 10 + digit_val c) (acc * 10 + digit_val c) w) s"
      by (intro Cons.IH) auto
    with Cons.prems show ?thesis by simp
  qed (use Cons.prems in simp)
qed simp

lemma foldl_str_of_nat:
  "foldl (\<lambda>a c. a * 10 + digit_val c) 0 (str_of_nat n) = int n"
proof (induction n rule: str_of_nat.induct)
  case (1 n)
  show ?case
  proof (cases "n < 10")
    case True
    then show ?thesis by (subst str_of_nat.simps) (simp add: digit_val_digit_char)
  next
    case False
    have "int (n div 10) * 10 + int (n mod 10) = int n" by (metis div_mult_mod_eq of_nat_add of_nat_mult of_nat_numeral)
    with 1 False show ?thesis
      by (subst str_of_nat.simps) (simp add: digit_val_digit_char)
  qed
qed

lemma int_digits_str_of_nat: "int_digits False 0 (str_of_nat n) = Some (int n)"
  using int_digits_append [of "str_of_nat n" False 0 "[]"]
  by (auto simp: str_of_nat_digits foldl_str_of_nat)

lemma strip_by_id:
  "(s \<noteq> [] \<Longrightarrow> \<not> P (hd s)) \<Longrightarrow> (s \<noteq> [] \<Longrightarrow> \<not> P (last s)) \<Longrightarrow> strip_by P s = s"
proof (cases s rule: rev_cases)
  case (snoc t c)
  assume h: "s \<noteq> [] \<Longrightarrow> \<not> P (hd s)" and l: "s \<noteq> [] \<Longrightarrow> \<not> P (last s)"
  from h have "dropWhile P s = s" by (cases s) simp_all
  with l snoc show ?thesis by (simp add: strip_by_def)
qed (simp add: strip_by_def)

lemma digit_not_space: "is_digit c \<Longrightarrow> \<not> is_space c"
  by (auto simp: is_digit_def is_space_def Let_def)

lemma strip_no_space: "\<forall>c\<in>set s. \<not> is_space c \<Longrightarrow> strip s = s"
  unfolding strip_def by (rule strip_by_id) auto

lemma py_int_str_of_nat: "py_int (str_of_nat n) = Some (int n)"
proof -
  have st: "strip (str_of_nat n) = str_of_nat n"
    by (rule strip_no_space) (auto dest: str_of_nat_digits digit_not_space)
  obtain c cs where s: "str_of_nat n = c # cs" by (cases "str_of_nat n") auto
  then have "is_digit c" using str_of_nat_digits [of c n] by simp
  then have "c \<noteq> CHR ''+''" "c \<noteq> CHR ''-''" by (auto simp: is_digit_def ord_of_def)
  moreover have "strip (c # cs) = c # cs" using st s by simp
  moreover have "int_digits False 0 (c # cs) = Some (int n)"
    using int_digits_str_of_nat [of n] s by simp
  ultimately show ?thesis by (simp only: py_int_def s list.case if_False)
qed

text \<open>Reading back what \<open>str\<close> printed.\<close>

lemma py_int_str_of_int [simp]: "py_int (str_of_int i) = Some i"
proof (cases "i < 0")
  case True
  let ?w = "str_of_nat (nat (- i))"
  have "strip (CHR ''-'' # ?w) = CHR ''-'' # ?w"
  proof (rule strip_no_space)
    have "\<not> is_space CHR ''-''" by (simp add: is_space_def ord_of_def)
    then show "\<forall>c\<in>set (CHR ''-'' # ?w). \<not> is_space c"
      by (auto dest!: str_of_nat_digits digit_not_space)
  qed
  with True show ?thesis
    by (simp add: str_of_int_def py_int_def int_digits_str_of_nat)
next
  case False
  then show ?thesis by (simp add: str_of_int_def py_int_str_of_nat)
qed

section \<open>repr\<close>

text \<open>\<open>repr(s)\<close> of a text: the quotes it chooses, and what it escapes.\<close>

definition hex_digit :: "nat \<Rightarrow> char" where
  "hex_digit n = (if n < 10 then char_of (48 + n) else char_of (87 + n))"

definition repr_char :: "char \<Rightarrow> char \<Rightarrow> string" where
  "repr_char q c = (let n = ord_of c in
     if c = q \<or> n = 92 then [CHR 0x5C, c]
     else if n = 9 then [CHR 0x5C, CHR ''t'']
     else if n = 10 then [CHR 0x5C, CHR ''n'']
     else if n = 13 then [CHR 0x5C, CHR ''r'']
     else if n < 32 \<or> (127 \<le> n \<and> n \<le> 160) \<or> n = 173
       then [CHR 0x5C, CHR ''x'', hex_digit (n div 16), hex_digit (n mod 16)]
     else [c])"

definition py_repr :: "string \<Rightarrow> string" where
  "py_repr s = (let q = (if CHR 0x27 \<in> set s \<and> CHR 0x22 \<notin> set s then CHR 0x22 else CHR 0x27)
     in [q] @ concat (map (repr_char q) s) @ [q])"

definition py_repr_list :: "string list \<Rightarrow> string" where
  "py_repr_list ws = ''['' @ join '', '' (map py_repr ws) @ '']''"

section \<open>UTF-8\<close>

fun utf8_encode :: "string \<Rightarrow> string" where
  "utf8_encode [] = []"
| "utf8_encode (c # cs) = (let n = ord_of c in
     if n < 128 then c # utf8_encode cs
     else char_of (192 + n div 64) # char_of (128 + n mod 64) # utf8_encode cs)"

text \<open>
  \<open>bytes.decode("utf-8")\<close>: \<open>None\<close> where the bytes are not UTF-8 (the
  \<open>UnicodeDecodeError\<close>) or decode to text outside the modelled alphabet.
\<close>

fun utf8_decode :: "string \<Rightarrow> string option" where
  "utf8_decode [] = Some []"
| "utf8_decode [c] = (if ord_of c < 128 then Some [c] else None)"
| "utf8_decode (c # d # cs) = (let n = ord_of c; m = ord_of d in
     if n < 128 then map_option (Cons c) (utf8_decode (d # cs))
     else if (n = 194 \<or> n = 195) \<and> 128 \<le> m \<and> m < 192
       then map_option (Cons (char_of ((n - 192) * 64 + (m - 128)))) (utf8_decode cs)
     else None)"

lemma utf8_decode_ascii:
  "ord_of c < 128 \<Longrightarrow> utf8_decode (c # cs) = map_option (Cons c) (utf8_decode cs)"
  by (cases cs) simp_all

lemma utf8_decode_encode [simp]: "utf8_decode (utf8_encode s) = Some s"
proof (induction s)
  case (Cons c s)
  let ?n = "ord_of c"
  show ?case
  proof (cases "?n < 128")
    case True
    with Cons show ?thesis by (simp add: utf8_decode_ascii)
  next
    case False
    have lt: "?n < 256" by simp
    from False lt have d: "?n div 64 = 2 \<or> ?n div 64 = 3" by linarith
    have m: "?n mod 64 < 64" by simp
    from d have lead: "ord_of (char_of (192 + ?n div 64)) = 192 + ?n div 64"
      by (intro ord_of_char_of) linarith
    from m have cont: "ord_of (char_of (128 + ?n mod 64)) = 128 + ?n mod 64"
      by (intro ord_of_char_of) linarith
    have val: "(192 + ?n div 64 - 192) * 64 + (128 + ?n mod 64 - 128) = ?n" by simp
    have enc: "utf8_encode (c # s) =
        char_of (192 + ?n div 64) # char_of (128 + ?n mod 64) # utf8_encode s"
      using False by (simp add: Let_def)
    show ?thesis
      unfolding enc utf8_decode.simps Let_def lead cont val
      using d m Cons by auto
  qed
qed simp

end
