(* ===== verification/Rdf.thy ===== *)
theory Rdf
  imports Prelude
begin

text \<open>
  The data the program works on: RDF terms, triples and graphs, the vocabulary of
  \<open>ldp_common/vocabulary.py\<close>, and the record \<open>rdflib\<close> of the third-party operations that
  are parameters of the model (parsing, serialising, canonicalising and querying RDF, and the
  digest functions).

  A graph is a \<open>rdflib.Graph\<close>: a set of triples with an iteration order. It is a list of
  triples here; \<open>g_add\<close> leaves a graph that already holds the triple alone, and every
  theorem holds for every order of the list.
\<close>

section \<open>Terms, triples, graphs\<close>

datatype node =
    URIRef string
  | BNode string
  | Lit string "string option" "string option"   \<comment> \<open>lexical form, datatype IRI, language\<close>

text \<open>\<open>str(term)\<close>\<close>

fun node_str :: "node \<Rightarrow> string" where
  "node_str (URIRef u) = u"
| "node_str (BNode b) = b"
| "node_str (Lit l _ _) = l"

fun is_uri :: "node \<Rightarrow> bool" where
  "is_uri (URIRef _) = True"
| "is_uri _ = False"

fun is_bnode :: "node \<Rightarrow> bool" where
  "is_bnode (BNode _) = True"
| "is_bnode _ = False"

lemma is_uri_iff: "is_uri n \<longleftrightarrow> (\<exists>u. n = URIRef u)"
  by (cases n) simp_all

type_synonym triple = "node \<times> node \<times> node"
type_synonym graph = "triple list"

definition g_add :: "graph \<Rightarrow> triple \<Rightarrow> graph" where
  "g_add g t = (if t \<in> set g then g else g @ [t])"

definition g_adds :: "graph \<Rightarrow> triple list \<Rightarrow> graph" where
  "g_adds g ts = foldl g_add g ts"

text \<open>\<open>graph.remove((s, p, o))\<close>, where \<open>None\<close> matches every term.\<close>

definition pat_match :: "node option \<Rightarrow> node option \<Rightarrow> node option \<Rightarrow> triple \<Rightarrow> bool" where
  "pat_match s p q t = ((s = None \<or> s = Some (fst t)) \<and> (p = None \<or> p = Some (fst (snd t)))
     \<and> (q = None \<or> q = Some (snd (snd t))))"

definition g_remove :: "graph \<Rightarrow> node option \<Rightarrow> node option \<Rightarrow> node option \<Rightarrow> graph" where
  "g_remove g s p q = filter (\<lambda>t. \<not> pat_match s p q t) g"

text \<open>\<open>graph.objects(s, p)\<close>, \<open>graph.subjects(p, o)\<close> and \<open>graph.value(s, p)\<close>.\<close>

definition g_objects :: "graph \<Rightarrow> node option \<Rightarrow> node \<Rightarrow> node list" where
  "g_objects g s p = map (\<lambda>t. snd (snd t)) (filter (pat_match s (Some p) None) g)"

definition g_subjects :: "graph \<Rightarrow> node \<Rightarrow> node \<Rightarrow> node list" where
  "g_subjects g p q = map fst (filter (pat_match None (Some p) (Some q)) g)"

definition g_value :: "graph \<Rightarrow> node \<Rightarrow> node \<Rightarrow> node option" where
  "g_value g s p = (case g_objects g (Some s) p of [] \<Rightarrow> None | v # _ \<Rightarrow> Some v)"

lemma set_g_add [simp]: "set (g_add g t) = insert t (set g)"
  by (auto simp: g_add_def)

lemma distinct_g_add [simp]: "distinct g \<Longrightarrow> distinct (g_add g t)"
  by (simp add: g_add_def)

lemma g_adds_simps [simp]:
  "g_adds g [] = g" "g_adds g (t # ts) = g_adds (g_add g t) ts"
  by (simp_all add: g_adds_def)

lemma set_g_adds [simp]: "set (g_adds g ts) = set g \<union> set ts"
  by (induction ts arbitrary: g) auto

lemma distinct_g_adds [simp]: "distinct g \<Longrightarrow> distinct (g_adds g ts)"
  by (induction ts arbitrary: g) auto

lemma g_adds_disjoint:
  "distinct ts \<Longrightarrow> set g \<inter> set ts = {} \<Longrightarrow> g_adds g ts = g @ ts"
  by (induction ts arbitrary: g) (auto simp: g_add_def)

lemma pat_match_simps [simp]:
  "pat_match (Some s) (Some p) (Some q) (s', p', q') \<longleftrightarrow> s = s' \<and> p = p' \<and> q = q'"
  "pat_match (Some s) (Some p) None (s', p', q') \<longleftrightarrow> s = s' \<and> p = p'"
  "pat_match None (Some p) None (s', p', q') \<longleftrightarrow> p = p'"
  "pat_match None (Some p) (Some q) (s', p', q') \<longleftrightarrow> p = p' \<and> q = q'"
  by (auto simp: pat_match_def)

lemma set_g_remove [simp]: "t \<in> set (g_remove g s p q) \<longleftrightarrow> t \<in> set g \<and> \<not> pat_match s p q t"
  by (auto simp: g_remove_def)

lemma distinct_g_remove [simp]: "distinct g \<Longrightarrow> distinct (g_remove g s p q)"
  by (simp add: g_remove_def)

lemma set_g_objects [simp]:
  "x \<in> set (g_objects g (Some s) p) \<longleftrightarrow> (s, p, x) \<in> set g"
  by (force simp: g_objects_def)

lemma set_g_objects_any [simp]:
  "x \<in> set (g_objects g None p) \<longleftrightarrow> (\<exists>s. (s, p, x) \<in> set g)"
  by (force simp: g_objects_def)

lemma set_g_subjects [simp]:
  "x \<in> set (g_subjects g p q) \<longleftrightarrow> (x, p, q) \<in> set g"
  by (force simp: g_subjects_def)

lemma g_value_Some: "g_value g s p = Some v \<Longrightarrow> (s, p, v) \<in> set g"
proof -
  assume "g_value g s p = Some v"
  then have "v \<in> set (g_objects g (Some s) p)"
    by (cases "g_objects g (Some s) p") (simp_all add: g_value_def)
  then show ?thesis by simp
qed

lemma g_value_None: "g_value g s p = None \<longleftrightarrow> (\<forall>v. (s, p, v) \<notin> set g)"
proof -
  have "g_value g s p = None \<longleftrightarrow> set (g_objects g (Some s) p) = {}"
    by (cases "g_objects g (Some s) p") (simp_all add: g_value_def)
  then show ?thesis by (simp only: set_eq_iff) simp
qed

text \<open>
  A property with one value in the graph reads back as that value, whatever the order.
\<close>

lemma g_value_unique:
  assumes "(s, p, v) \<in> set g" and "\<And>v'. (s, p, v') \<in> set g \<Longrightarrow> v' = v"
  shows "g_value g s p = Some v"
proof (cases "g_value g s p")
  case None
  with assms(1) show ?thesis by (simp add: g_value_None)
next
  case (Some w)
  then have "w = v" by (intro assms(2) g_value_Some)
  with Some show ?thesis by simp
qed

lemma g_objects_append: "g_objects (g @ h) s p = g_objects g s p @ g_objects h s p"
  by (simp add: g_objects_def)

lemma g_value_append:
  "g_value (g @ h) s p = (case g_value g s p of None \<Rightarrow> g_value h s p | Some v \<Rightarrow> Some v)"
  by (simp add: g_value_def g_objects_append split: list.splits)

lemma g_value_Nil [simp]: "g_value [] s p = None"
  by (simp add: g_value_def g_objects_def)

lemma g_value_Cons [simp]:
  "g_value ((s', p', v) # g) s p = (if s' = s \<and> p' = p then Some v else g_value g s p)"
  by (auto simp: g_value_def g_objects_def)

text \<open>A copy made by adding every triple to a new graph.\<close>

definition g_copy :: "graph \<Rightarrow> graph" where
  "g_copy g = g_adds [] g"

lemma set_g_copy [simp]: "set (g_copy g) = set g"
  by (simp add: g_copy_def)

lemma distinct_g_copy [simp]: "distinct (g_copy g)"
  by (simp add: g_copy_def)

lemma g_copy_id: "distinct g \<Longrightarrow> g_copy g = g"
  by (simp add: g_copy_def g_adds_disjoint)

section \<open>Isomorphism of graphs\<close>

text \<open>
  Two graphs are isomorphic when one is the other with its blank nodes renamed by an
  injective renaming. This is what a serialisation preserves: labels of blank nodes do not
  survive a round trip through Turtle, everything else does.
\<close>

fun rename_node :: "(string \<Rightarrow> string) \<Rightarrow> node \<Rightarrow> node" where
  "rename_node f (BNode b) = BNode (f b)"
| "rename_node f n = n"

definition rename_triple :: "(string \<Rightarrow> string) \<Rightarrow> triple \<Rightarrow> triple" where
  "rename_triple f t = (rename_node f (fst t), rename_node f (fst (snd t)), rename_node f (snd (snd t)))"

definition ground :: "triple \<Rightarrow> bool" where
  "ground t = (\<not> is_bnode (fst t) \<and> \<not> is_bnode (fst (snd t)) \<and> \<not> is_bnode (snd (snd t)))"

definition graph_iso :: "graph \<Rightarrow> graph \<Rightarrow> bool" where
  "graph_iso g h \<longleftrightarrow> (\<exists>f. inj f \<and> set h = rename_triple f ` set g)"

lemma rename_node_id [simp]: "rename_node (\<lambda>b. b) n = n"
  by (cases n) simp_all

lemma rename_triple_id [simp]: "rename_triple (\<lambda>b. b) t = t"
  by (simp add: rename_triple_def)

lemma rename_node_ground [simp]: "\<not> is_bnode n \<Longrightarrow> rename_node f n = n"
  by (cases n) simp_all

lemma is_bnode_rename [simp]: "is_bnode (rename_node f n) = is_bnode n"
  by (cases n) simp_all

lemma rename_node_uri [simp]: "rename_node f n = URIRef u \<longleftrightarrow> n = URIRef u"
  by (cases n) simp_all

lemma ground_rename: "ground t \<Longrightarrow> rename_triple f t = t"
  by (cases t) (simp add: ground_def rename_triple_def)

lemma ground_simps [simp]:
  "ground (s, p, q) \<longleftrightarrow> \<not> is_bnode s \<and> \<not> is_bnode p \<and> \<not> is_bnode q"
  by (simp add: ground_def)

lemma graph_iso_set_eq: "set g = set h \<Longrightarrow> graph_iso g h"
  unfolding graph_iso_def by (intro exI [of _ "\<lambda>b. b"]) (simp add: inj_on_def)

lemma graph_iso_refl [simp]: "graph_iso g g"
  by (rule graph_iso_set_eq) simp

text \<open>Isomorphic graphs hold the same ground triples.\<close>

lemma graph_iso_ground:
  assumes "graph_iso g h" and "ground t"
  shows "t \<in> set h \<longleftrightarrow> t \<in> set g"
proof -
  from assms(1) obtain f where h: "set h = rename_triple f ` set g"
    by (auto simp: graph_iso_def)
  show ?thesis
  proof
    assume "t \<in> set h"
    with h obtain u where u: "u \<in> set g" "t = rename_triple f u" by auto
    with assms(2) have "ground u" by (cases u) (simp add: rename_triple_def)
    with u show "t \<in> set g" by (simp add: ground_rename)
  next
    assume "t \<in> set g"
    with h assms(2) show "t \<in> set h" by (metis ground_rename imageI)
  qed
qed

text \<open>Which predicates a URI subject has is not changed by renaming blank nodes.\<close>

lemma rename_triple_mem:
  "(URIRef s, URIRef p, v) \<in> rename_triple f ` T \<longleftrightarrow>
   (\<exists>w. v = rename_node f w \<and> (URIRef s, URIRef p, w) \<in> T)"
proof
  assume "(URIRef s, URIRef p, v) \<in> rename_triple f ` T"
  then obtain a b c where t: "(a, b, c) \<in> T"
    and eq: "URIRef s = rename_node f a" "URIRef p = rename_node f b" "v = rename_node f c"
    by (auto simp: rename_triple_def)
  from eq(1,2) have "a = URIRef s" "b = URIRef p"
    by (metis rename_node_uri)+
  with t eq(3) show "\<exists>w. v = rename_node f w \<and> (URIRef s, URIRef p, w) \<in> T" by blast
next
  assume "\<exists>w. v = rename_node f w \<and> (URIRef s, URIRef p, w) \<in> T"
  then obtain w where "v = rename_node f w" "(URIRef s, URIRef p, w) \<in> T" by blast
  then show "(URIRef s, URIRef p, v) \<in> rename_triple f ` T"
    by (intro image_eqI [of _ _ "(URIRef s, URIRef p, w)"]) (simp_all add: rename_triple_def)
qed

lemma graph_iso_no_value:
  assumes "graph_iso g h"
  shows "(\<exists>v. (URIRef s, URIRef p, v) \<in> set h) \<longleftrightarrow> (\<exists>v. (URIRef s, URIRef p, v) \<in> set g)"
  using assms by (auto simp: graph_iso_def rename_triple_mem)

text \<open>
  Where all values of a property are ground (URIs and literals), isomorphic graphs have the
  same values.
\<close>

lemma graph_iso_values:
  assumes "graph_iso g h"
    and "\<And>v. (URIRef s, URIRef p, v) \<in> set g \<Longrightarrow> \<not> is_bnode v"
  shows "(URIRef s, URIRef p, v) \<in> set h \<longleftrightarrow> (URIRef s, URIRef p, v) \<in> set g"
proof -
  from assms(1) obtain f where h: "set h = rename_triple f ` set g"
    by (auto simp: graph_iso_def)
  show ?thesis
    unfolding h rename_triple_mem using assms(2) by (metis rename_node_ground)
qed

lemma graph_iso_value_unique:
  assumes "graph_iso g h" and "g_value g (URIRef s) (URIRef p) = Some v" and "\<not> is_bnode v"
    and "\<And>v'. (URIRef s, URIRef p, v') \<in> set g \<Longrightarrow> v' = v"
  shows "g_value h (URIRef s) (URIRef p) = Some v"
proof (rule g_value_unique)
  have vals: "\<And>w. (URIRef s, URIRef p, w) \<in> set g \<Longrightarrow> \<not> is_bnode w"
    using assms(3,4) by blast
  note iff = graph_iso_values [OF assms(1), OF vals]
  from assms(2) show "(URIRef s, URIRef p, v) \<in> set h"
    by (simp add: iff g_value_Some)
  show "(URIRef s, URIRef p, v') \<in> set h \<Longrightarrow> v' = v" for v'
    using assms(4) by (simp add: iff)
qed

section \<open>Vocabulary\<close>

definition LDP :: "string \<Rightarrow> node" where
  "LDP name = URIRef (''http://www.w3.org/ns/ldp#'' @ name)"

definition DCTERMS :: "string \<Rightarrow> node" where
  "DCTERMS name = URIRef (''http://purl.org/dc/terms/'' @ name)"

definition POD_iri :: string where
  "POD_iri = ''https://lukasberka.github.io/ldp-personal-store/vocab#''"

definition POD :: "string \<Rightarrow> node" where
  "POD name = URIRef (POD_iri @ name)"

definition XSD :: "string \<Rightarrow> string" where
  "XSD name = ''http://www.w3.org/2001/XMLSchema#'' @ name"

definition RDF_type :: node where
  "RDF_type = URIRef ''http://www.w3.org/1999/02/22-rdf-syntax-ns#type''"

abbreviation LDP_Resource :: node where "LDP_Resource \<equiv> LDP ''Resource''"
abbreviation LDP_RDFSource :: node where "LDP_RDFSource \<equiv> LDP ''RDFSource''"
abbreviation LDP_NonRDFSource :: node where "LDP_NonRDFSource \<equiv> LDP ''NonRDFSource''"
abbreviation LDP_Container :: node where "LDP_Container \<equiv> LDP ''Container''"
abbreviation LDP_BasicContainer :: node where "LDP_BasicContainer \<equiv> LDP ''BasicContainer''"
abbreviation LDP_DirectContainer :: node where "LDP_DirectContainer \<equiv> LDP ''DirectContainer''"
abbreviation LDP_contains :: node where "LDP_contains \<equiv> LDP ''contains''"
abbreviation LDP_membershipResource :: node where "LDP_membershipResource \<equiv> LDP ''membershipResource''"
abbreviation LDP_hasMemberRelation :: node where "LDP_hasMemberRelation \<equiv> LDP ''hasMemberRelation''"
abbreviation LDP_isMemberOfRelation :: node where "LDP_isMemberOfRelation \<equiv> LDP ''isMemberOfRelation''"

abbreviation DC_format :: node where "DC_format \<equiv> DCTERMS ''format''"
abbreviation DC_title :: node where "DC_title \<equiv> DCTERMS ''title''"
abbreviation DC_description :: node where "DC_description \<equiv> DCTERMS ''description''"

abbreviation POD_Token :: node where "POD_Token \<equiv> POD ''Token''"
abbreviation POD_ConsumerToken :: node where "POD_ConsumerToken \<equiv> POD ''ConsumerToken''"
abbreviation POD_AdminToken :: node where "POD_AdminToken \<equiv> POD ''AdminToken''"
abbreviation POD_EngineToken :: node where "POD_EngineToken \<equiv> POD ''EngineToken''"
abbreviation POD_tokenHash :: node where "POD_tokenHash \<equiv> POD ''tokenHash''"
abbreviation POD_tokenSecret :: node where "POD_tokenSecret \<equiv> POD ''tokenSecret''"
abbreviation POD_linkedView :: node where "POD_linkedView \<equiv> POD ''linkedView''"
abbreviation POD_policyRef :: node where "POD_policyRef \<equiv> POD ''policyRef''"
abbreviation POD_enforcementCount :: node where "POD_enforcementCount \<equiv> POD ''enforcementCount''"
abbreviation POD_lastUsedAt :: node where "POD_lastUsedAt \<equiv> POD ''lastUsedAt''"
abbreviation POD_View :: node where "POD_View \<equiv> POD ''View''"
abbreviation POD_constructTemplate :: node where "POD_constructTemplate \<equiv> POD ''constructTemplate''"
abbreviation POD_contentTypeHint :: node where "POD_contentTypeHint \<equiv> POD ''contentTypeHint''"
abbreviation POD_parameter :: node where "POD_parameter \<equiv> POD ''parameter''"
abbreviation POD_paramName :: node where "POD_paramName \<equiv> POD ''paramName''"
abbreviation POD_paramType :: node where "POD_paramType \<equiv> POD ''paramType''"
abbreviation POD_Policy :: node where "POD_Policy \<equiv> POD ''Policy''"
abbreviation POD_expiresAt :: node where "POD_expiresAt \<equiv> POD ''expiresAt''"
abbreviation POD_validFrom :: node where "POD_validFrom \<equiv> POD ''validFrom''"
abbreviation POD_validUntil :: node where "POD_validUntil \<equiv> POD ''validUntil''"
abbreviation POD_maxRetrievals :: node where "POD_maxRetrievals \<equiv> POD ''maxRetrievals''"
abbreviation POD_minInterval :: node where "POD_minInterval \<equiv> POD ''minInterval''"
abbreviation POD_maxViewRetrievals :: node where "POD_maxViewRetrievals \<equiv> POD ''maxViewRetrievals''"
abbreviation POD_viewRetrievalCount :: node where "POD_viewRetrievalCount \<equiv> POD ''viewRetrievalCount''"
abbreviation POD_AccessLogEntry :: node where "POD_AccessLogEntry \<equiv> POD ''AccessLogEntry''"
abbreviation POD_accessLogView :: node where "POD_accessLogView \<equiv> POD ''accessLogView''"
abbreviation POD_accessLogToken :: node where "POD_accessLogToken \<equiv> POD ''accessLogToken''"
abbreviation POD_accessLogTimestamp :: node where "POD_accessLogTimestamp \<equiv> POD ''accessLogTimestamp''"

lemma vocabulary_inject [simp]:
  "LDP a = LDP b \<longleftrightarrow> a = b" "DCTERMS a = DCTERMS b \<longleftrightarrow> a = b" "POD a = POD b \<longleftrightarrow> a = b"
  "XSD a = XSD b \<longleftrightarrow> a = b"
  by (simp_all add: LDP_def DCTERMS_def POD_def XSD_def)

lemma vocabulary_distinct [simp]:
  "LDP a \<noteq> POD b" "POD b \<noteq> LDP a" "LDP a \<noteq> DCTERMS b" "DCTERMS b \<noteq> LDP a"
  "POD a \<noteq> DCTERMS b" "DCTERMS b \<noteq> POD a" "LDP a \<noteq> RDF_type" "RDF_type \<noteq> LDP a"
  "POD a \<noteq> RDF_type" "RDF_type \<noteq> POD a" "DCTERMS a \<noteq> RDF_type" "RDF_type \<noteq> DCTERMS a"
  by (simp_all add: LDP_def DCTERMS_def POD_def POD_iri_def RDF_type_def)

lemma vocabulary_uri [simp]:
  "\<not> is_bnode (LDP a)" "\<not> is_bnode (POD a)" "\<not> is_bnode (DCTERMS a)" "\<not> is_bnode RDF_type"
  "is_uri (LDP a)" "is_uri (POD a)" "is_uri (DCTERMS a)" "is_uri RDF_type"
  by (simp_all add: LDP_def DCTERMS_def POD_def RDF_type_def)

definition make_system_ns :: "string \<Rightarrow> string" where
  "make_system_ns base_uri = rstrip_char CHR ''/'' base_uri @ ''/.system/''"

definition make_engine_ns :: "string \<Rightarrow> string" where
  "make_engine_ns base_uri = rstrip_char CHR ''/'' base_uri @ ''/.engine/''"

section \<open>Third-party operations: the parameters of the model\<close>

text \<open>
  What the program asks of rdflib and pydantic, and the SHA-256 digest. Nothing here is
  defined: a definition that uses one of these takes a value of type \<open>libs\<close>, and a theorem
  that relies on documented behaviour of one names it as a hypothesis.
  \<^item> \<open>parse_graph data format publicID\<close>: \<open>Graph().parse\<close>; \<open>None\<close> is an exception.
  \<^item> \<open>serialize_graph format g\<close>: \<open>g.serialize(format=...)\<close>; \<open>None\<close> is an exception
    (rdflib refuses a URI that is not valid in the syntax).
  \<^item> \<open>canonical_nt g\<close>: \<open>to_canonical_graph(g).serialize(format="nt")\<close>.
  \<^item> \<open>isomorphic g h\<close>: \<open>rdflib.compare.isomorphic\<close>.
  \<^item> \<open>lit_lexical datatype v\<close>: the lexical form of \<open>Literal(v, datatype=...)\<close>, which rdflib
    normalises; \<open>lit_ill_typed\<close> is that literal's \<open>ill_typed\<close>.
  \<^item> \<open>term_n3\<close>: \<open>term.n3()\<close>; \<open>None\<close> is an exception.
  \<^item> \<open>parse_query\<close>: \<open>parseQuery\<close>, reduced to what the program reads off the parse.
  \<^item> \<open>run_query scope text bindings\<close>: \<open>Dataset.query\<close> and \<open>ReadOnlyGraphAggregate.query\<close>;
    \<open>serialize_answer\<close> is \<open>result.serialize(format=...)\<close>, and \<open>results_json\<close> reads the
    SPARQL JSON of a SELECT back: the values of each row.
  \<^item> \<open>term_truthy\<close>: the truth value of a term, as \<open>x or 0\<close> tests it (a literal of value zero is
    false).
  \<^item> \<open>valid_int\<close>: whether pydantic's \<open>TypeAdapter(int)\<close> accepts the text.
  \<^item> \<open>sha256_hex\<close>: \<open>hashlib.sha256(data).hexdigest()\<close>.
\<close>

datatype query_scope =
    WholeDataset "(string \<times> graph) list"
  | UnionOf "graph list"

datatype query_error = ParseException | SPARQLError | OtherQueryError

datatype query_answer =
    SelectAnswer "(string \<times> node) list list"
  | AskAnswer bool
  | GraphAnswer graph

record query_shape =
  query_name :: string
  dataset_clause :: bool
  has_template :: bool

record libs =
  parse_graph :: "string \<Rightarrow> string \<Rightarrow> string option \<Rightarrow> graph option"
  serialize_graph :: "string \<Rightarrow> graph \<Rightarrow> string option"
  canonical_nt :: "graph \<Rightarrow> string"
  isomorphic :: "graph \<Rightarrow> graph \<Rightarrow> bool"
  lit_lexical :: "string \<Rightarrow> string \<Rightarrow> string"
  lit_ill_typed :: "string \<Rightarrow> string \<Rightarrow> bool"
  term_n3 :: "node \<Rightarrow> string option"
  parse_query :: "string \<Rightarrow> query_shape option"
  run_query :: "query_scope \<Rightarrow> string \<Rightarrow> (string \<times> node) list option \<Rightarrow> query_error + query_answer"
  serialize_answer :: "string \<Rightarrow> query_answer \<Rightarrow> query_error + string"
  results_json :: "string \<Rightarrow> (string \<times> string) list list option"
  term_truthy :: "node \<Rightarrow> bool"
  valid_int :: "string \<Rightarrow> bool"
  sha256_hex :: "string \<Rightarrow> string"

text \<open>\<open>Literal(v, datatype=dt)\<close>\<close>

definition typed_lit :: "libs \<Rightarrow> string \<Rightarrow> string \<Rightarrow> node" where
  "typed_lit L dt v = Lit (lit_lexical L dt v) (Some dt) None"

lemma node_str_typed_lit [simp]: "node_str (typed_lit L dt v) = lit_lexical L dt v"
  by (simp add: typed_lit_def)

lemma typed_lit_not_bnode [simp]: "\<not> is_bnode (typed_lit L dt v)" "\<not> is_uri (typed_lit L dt v)"
  by (simp_all add: typed_lit_def)

text \<open>
  The documented laws the theorems name. Turtle is a faithful serialisation: what it prints
  holds no raw carriage return (the serialiser escapes it) and reads back isomorphic. The
  canonical form of isomorphic graphs is one text. Decimal integers are their own lexical forms.
\<close>

definition turtle_roundtrip :: "libs \<Rightarrow> bool" where
  "turtle_roundtrip L \<longleftrightarrow> (\<forall>g txt base. serialize_graph L ''turtle'' g = Some txt \<longrightarrow>
     (\<forall>c\<in>set txt. ord_of c \<noteq> 13) \<and>
     (\<exists>h. parse_graph L (utf8_encode txt) ''turtle'' base = Some h \<and> distinct h \<and> graph_iso g h))"

definition etag_invariant :: "libs \<Rightarrow> bool" where
  "etag_invariant L \<longleftrightarrow> (\<forall>g h. graph_iso g h \<longrightarrow> canonical_nt L g = canonical_nt L h)"

definition integer_lexical :: "libs \<Rightarrow> bool" where
  "integer_lexical L \<longleftrightarrow> (\<forall>i. lit_lexical L (XSD ''integer'') (str_of_int i) = str_of_int i)"

text \<open>A hexadecimal digest is lower-case hexadecimal; a plain string is its own lexical form.\<close>

definition is_hex :: "char \<Rightarrow> bool" where
  "is_hex c = (is_digit c \<or> (97 \<le> ord_of c \<and> ord_of c \<le> 102))"

definition digest_hex :: "libs \<Rightarrow> bool" where
  "digest_hex L \<longleftrightarrow> (\<forall>d. list_all is_hex (sha256_hex L d))"

definition string_lexical :: "libs \<Rightarrow> bool" where
  "string_lexical L \<longleftrightarrow> (\<forall>s. lit_lexical L (XSD ''string'') s = s)"

definition integer_truthy :: "libs \<Rightarrow> bool" where
  "integer_truthy L \<longleftrightarrow> (\<forall>i. i \<noteq> 0 \<longrightarrow> term_truthy L (Lit (str_of_int i) (Some (XSD ''integer'')) None))"

text \<open>\<open>x or 0\<close>, printed and read as an integer.\<close>

definition int_or_zero :: "libs \<Rightarrow> node option \<Rightarrow> int option" where
  "int_or_zero L v = (case v of None \<Rightarrow> py_int ''0''
     | Some n \<Rightarrow> if term_truthy L n then py_int (node_str n) else py_int ''0'')"

lemma turtle_roundtripE:
  assumes "turtle_roundtrip L" and "serialize_graph L ''turtle'' g = Some txt"
  obtains h where "parse_graph L (utf8_encode txt) ''turtle'' base = Some h"
    and "distinct h" and "graph_iso g h" and "universal_newlines txt = txt"
  using assms unfolding turtle_roundtrip_def by (meson universal_newlines_id)

end
