(* ===== verification/Filesystem.thy ===== *)
theory Filesystem
  imports Rdf
begin

text \<open>
  The storage layer: \<open>storage/backend.py\<close> (the exceptions are in \<open>Prelude\<close>),
  \<open>storage/system.py\<close> and \<open>storage/filesystem.py\<close>. A backend is the file tree below the
  storage root together with the in-memory dataset of named graphs; both are changed by every
  operation the way the code changes them, so that paths that alias, directories that are in
  the way and files that another resource's path names are visible in the model.

  The file tree is an association list from absolute paths (lists of segments) to directories
  and files. The model has no symbolic links, and the operating system fails only where the
  tree is in the way (a file where a directory is needed, and the converse).
\<close>

section \<open>Paths\<close>

type_synonym path = "string list"

datatype fnode = Dir | File string

definition path_segments :: "string \<Rightarrow> path" where
  "path_segments s = filter (\<lambda>w. w \<noteq> [] \<and> w \<noteq> ''.'') (split_on CHR ''/'' s)"

text \<open>\<open>root / rel\<close>: an absolute \<open>rel\<close> replaces the root.\<close>

definition join_path :: "path \<Rightarrow> string \<Rightarrow> path" where
  "join_path root rel =
     (if startswith rel ''/'' then path_segments rel else root @ path_segments rel)"

text \<open>\<open>path.resolve()\<close>: \<open>..\<close> goes up, and stays at the top of the tree.\<close>

fun resolve_from :: "path \<Rightarrow> path \<Rightarrow> path" where
  "resolve_from acc [] = acc"
| "resolve_from acc (s # ss) =
     resolve_from (if s = ''..'' then butlast acc else acc @ [s]) ss"

definition resolve :: "path \<Rightarrow> path" where
  "resolve p = resolve_from [] p"

definition is_relative_to :: "path \<Rightarrow> path \<Rightarrow> bool" where
  "is_relative_to p root = (take (length root) p = root)"

text \<open>\<open>Path(f"{p}{suffix}")\<close>: the suffix goes onto the last segment.\<close>

definition append_name :: "path \<Rightarrow> string \<Rightarrow> path" where
  "append_name p sfx = (if p = [] then [sfx] else butlast p @ [last p @ sfx])"

lemma resolve_from_append:
  "resolve_from acc (p @ q) = resolve_from (resolve_from acc p) q"
  by (induction p arbitrary: acc) auto

lemma resolve_from_clean: "''..'' \<notin> set p \<Longrightarrow> resolve_from acc p = acc @ p"
  by (induction p arbitrary: acc) auto

lemma is_relative_to_append [simp]: "is_relative_to (root @ p) root"
  by (simp add: is_relative_to_def)

lemma resolve_no_dots: "''..'' \<notin> set acc \<Longrightarrow> ''..'' \<notin> set (resolve_from acc p)"
  by (induction p arbitrary: acc) (auto dest: in_set_butlastD)

section \<open>The reserved names (system.py)\<close>

definition SYSTEM_SEGMENT :: string where
  "SYSTEM_SEGMENT = ''.system''"

definition RESERVED_SEGMENTS :: "string list" where
  "RESERVED_SEGMENTS = [SYSTEM_SEGMENT, ''.engine'', ''sparql'', ''health'']"

text \<open>\<open>uri.removeprefix(base_uri).split("/")[0]\<close>\<close>

definition first_segment :: "string \<Rightarrow> string \<Rightarrow> string" where
  "first_segment uri base = hd (split_on CHR ''/'' (removeprefix uri base))"

definition assert_public_uri :: "string \<Rightarrow> string \<Rightarrow> (exn, unit) result" where
  "assert_public_uri uri base =
     (if first_segment uri base \<in> set RESERVED_SEGMENTS then Inl (Storage PrefixViolation)
      else Inr ())"

lemma assert_public_uri_iff [result_iff]:
  "assert_public_uri uri base = Inr u \<longleftrightarrow> first_segment uri base \<notin> set RESERVED_SEGMENTS"
  "assert_public_uri uri base = Inl e \<longleftrightarrow>
     first_segment uri base \<in> set RESERVED_SEGMENTS \<and> e = Storage PrefixViolation"
  by (auto simp: assert_public_uri_def)

section \<open>The backend\<close>

record backend =
  storage_root :: path
  backend_base :: string
  files :: "(path \<times> fnode) list"
  contexts :: "(string \<times> graph) list"

definition file_at :: "backend \<Rightarrow> path \<Rightarrow> fnode option" where
  "file_at b p = (if p = [] then Some Dir else map_of (files b) p)"

definition path_exists :: "backend \<Rightarrow> path \<Rightarrow> bool" where
  "path_exists b p = (file_at b p \<noteq> None)"

definition is_dir :: "backend \<Rightarrow> path \<Rightarrow> bool" where
  "is_dir b p = (file_at b p = Some Dir)"

definition is_file :: "backend \<Rightarrow> path \<Rightarrow> bool" where
  "is_file b p = (case file_at b p of Some (File _) \<Rightarrow> True | _ \<Rightarrow> False)"

text \<open>
  \<open>exists()\<close> on a path that has not been resolved: the operating system walks the segments,
  and every one it passes through must be a directory.
\<close>

fun os_walk :: "backend \<Rightarrow> path \<Rightarrow> path \<Rightarrow> path option" where
  "os_walk b cur [] = Some cur"
| "os_walk b cur (s # ss) =
     (if is_dir b cur then os_walk b (if s = ''..'' then butlast cur else cur @ [s]) ss else None)"

definition os_exists :: "backend \<Rightarrow> path \<Rightarrow> bool" where
  "os_exists b p = (case os_walk b [] p of None \<Rightarrow> False | Some q \<Rightarrow> path_exists b q)"

definition context_graph :: "backend \<Rightarrow> string \<Rightarrow> graph" where
  "context_graph b name = (case map_of (contexts b) name of None \<Rightarrow> [] | Some g \<Rightarrow> g)"

text \<open>\<open>_uri_to_rdf_path\<close>, \<open>_uri_to_bin_path\<close>, \<open>_path_to_uri\<close>, \<open>_guard_within_root\<close>\<close>

definition uri_to_rdf_path :: "backend \<Rightarrow> string \<Rightarrow> path" where
  "uri_to_rdf_path b uri =
     join_path (storage_root b) (removeprefix uri (backend_base b) @ ''.ttl'')"

definition uri_to_bin_path :: "backend \<Rightarrow> string \<Rightarrow> path" where
  "uri_to_bin_path b uri = join_path (storage_root b) (removeprefix uri (backend_base b))"

definition path_to_uri :: "path \<Rightarrow> path \<Rightarrow> string \<Rightarrow> string" where
  "path_to_uri p root base =
     base @ removesuffix (join ''/'' (drop (length root) p)) ''.ttl''"

definition guard_within_root :: "backend \<Rightarrow> path \<Rightarrow> (exn, path) result" where
  "guard_within_root b candidate =
     (let r = resolve candidate
      in if is_relative_to r (storage_root b) then Inr r else Inl (Storage StorageError))"

lemma guard_within_root_iff [result_iff]:
  "guard_within_root b c = Inr p \<longleftrightarrow> p = resolve c \<and> is_relative_to p (storage_root b)"
  "guard_within_root b c = Inl e \<longleftrightarrow>
     \<not> is_relative_to (resolve c) (storage_root b) \<and> e = Storage StorageError"
  by (auto simp: guard_within_root_def Let_def)

subsection \<open>The file tree\<close>

text \<open>
  \<open>path.mkdir(parents=True, exist_ok=True)\<close> makes what is missing on the way down, and
  fails before making anything when a file is on the way.
\<close>

fun add_dirs :: "path \<Rightarrow> path \<Rightarrow> (path \<times> fnode) list \<Rightarrow> (path \<times> fnode) list" where
  "add_dirs done [] fs = fs"
| "add_dirs done (s # ss) fs = (let p = done @ [s]
     in add_dirs p ss (if map_of fs p = None then AList.update p Dir fs else fs))"

definition blocked :: "backend \<Rightarrow> path \<Rightarrow> bool" where
  "blocked b p = list_ex (\<lambda>k. is_file b (take k p)) [1..<Suc (length p)]"

definition mkdirs :: "backend \<Rightarrow> path \<Rightarrow> (exn, backend) result" where
  "mkdirs b p =
     (if blocked b p then Inl OSError else Inr (b\<lparr>files := add_dirs [] p (files b)\<rparr>))"

definition write_bytes :: "backend \<Rightarrow> path \<Rightarrow> string \<Rightarrow> (exn, backend) result" where
  "write_bytes b p data =
     (if is_dir b p then Inl OSError else Inr (b\<lparr>files := AList.update p (File data) (files b)\<rparr>))"

definition read_text :: "backend \<Rightarrow> path \<Rightarrow> (exn, string) result" where
  "read_text b p = (case file_at b p of
     Some (File data) \<Rightarrow>
       (case utf8_decode data of None \<Rightarrow> Inl UnicodeError | Some t \<Rightarrow> Inr (universal_newlines t))
   | _ \<Rightarrow> Inl OSError)"

definition unlink :: "backend \<Rightarrow> path \<Rightarrow> (exn, backend) result" where
  "unlink b p = (case file_at b p of
     Some (File _) \<Rightarrow> Inr (b\<lparr>files := AList.delete p (files b)\<rparr>)
   | _ \<Rightarrow> Inl OSError)"

text \<open>
  \<open>self._graph.remove_graph(g)\<close>, and then \<open>self._graph.graph(name).parse(...)\<close> of the file
  just written: the context is empty while the file is read, and stays so if that raises.
\<close>

definition reload_context :: "libs \<Rightarrow> backend \<Rightarrow> string \<Rightarrow> path \<Rightarrow> string \<Rightarrow> (exn, unit) result \<times> backend"
  where
  "reload_context L b name p public_id =
     (let b0 = b\<lparr>contexts := AList.update name [] (contexts b)\<rparr> in
      case read_text b0 p of Inl e \<Rightarrow> (Inl e, b0)
      | Inr t \<Rightarrow> (case parse_graph L (utf8_encode t) ''turtle'' (Some public_id) of
          None \<Rightarrow> (Inl LibraryError, b0)
        | Some h \<Rightarrow> (Inr (), b0\<lparr>contexts := AList.update name h (contexts b0)\<rparr>)))"

definition remove_context :: "backend \<Rightarrow> string \<Rightarrow> backend" where
  "remove_context b name = b\<lparr>contexts := AList.delete name (contexts b)\<rparr>"

subsection \<open>Reading and writing RDF\<close>

definition backend_read :: "backend \<Rightarrow> string \<Rightarrow> (exn, graph) result" where
  "backend_read b uri = (case guard_within_root b (uri_to_rdf_path b uri) of
     Inl e \<Rightarrow> Inl e
   | Inr p \<Rightarrow> if \<not> path_exists b p then Inl (Storage ResourceNotFound)
              else Inr (g_copy (context_graph b uri)))"

definition write_system :: "libs \<Rightarrow> backend \<Rightarrow> string \<Rightarrow> graph \<Rightarrow> (exn, unit) result \<times> backend"
  where
  "write_system L b uri g = (case guard_within_root b (uri_to_rdf_path b uri) of
     Inl e \<Rightarrow> (Inl e, b)
   | Inr p \<Rightarrow> (case serialize_graph L ''turtle'' g of
       None \<Rightarrow> (Inl LibraryError, b)
     | Some txt \<Rightarrow> (case mkdirs b (butlast p) of
         Inl e \<Rightarrow> (Inl e, b)
       | Inr b1 \<Rightarrow> (case write_bytes b1 p (utf8_encode txt) of
           Inl e \<Rightarrow> (Inl e, b1)
         | Inr b2 \<Rightarrow> reload_context L b2 uri p uri))))"

definition backend_write :: "libs \<Rightarrow> backend \<Rightarrow> string \<Rightarrow> graph \<Rightarrow> (exn, unit) result \<times> backend"
  where
  "backend_write L b uri g = (case assert_public_uri uri (backend_base b) of
     Inl e \<Rightarrow> (Inl e, b)
   | Inr _ \<Rightarrow> write_system L b uri g)"

subsection \<open>Binaries\<close>

definition binary_meta :: "string \<Rightarrow> string \<Rightarrow> graph" where
  "binary_meta uri content_type = g_adds []
     [(URIRef uri, RDF_type, LDP_NonRDFSource), (URIRef uri, DC_format, Lit content_type None None)]"

definition write_binary ::
  "libs \<Rightarrow> backend \<Rightarrow> string \<Rightarrow> string \<Rightarrow> string \<Rightarrow> (exn, unit) result \<times> backend" where
  "write_binary L b uri data content_type = (case assert_public_uri uri (backend_base b) of
     Inl e \<Rightarrow> (Inl e, b)
   | Inr _ \<Rightarrow> (case guard_within_root b (uri_to_bin_path b uri) of
       Inl e \<Rightarrow> (Inl e, b)
     | Inr p \<Rightarrow> (case serialize_graph L ''turtle'' (binary_meta uri content_type) of
         None \<Rightarrow> (Inl LibraryError, b)
       | Some txt \<Rightarrow> (case mkdirs b (butlast p) of
           Inl e \<Rightarrow> (Inl e, b)
         | Inr b1 \<Rightarrow> (case write_bytes b1 p data of
             Inl e \<Rightarrow> (Inl e, b1)
           | Inr b2 \<Rightarrow> (case write_bytes b2 (append_name p ''.meta.ttl'') (utf8_encode txt) of
               Inl e \<Rightarrow> (Inl e, b2)
             | Inr b3 \<Rightarrow>
                 reload_context L b3 (uri @ ''.meta'') (append_name p ''.meta.ttl'') uri))))))"

text \<open>\<open>f.read(chunk_size)\<close> until it returns nothing.\<close>

function chunks :: "nat \<Rightarrow> string \<Rightarrow> string list" where
  "chunks n s = (if s = [] \<or> n = 0 then [] else take n s # chunks n (drop n s))"
  by pat_completeness auto
termination
  by (relation "measure (\<lambda>(n, s). length s)") auto

declare chunks.simps [simp del]

definition CHUNK_SIZE :: nat where
  "CHUNK_SIZE = 65536"

definition stream_binary :: "backend \<Rightarrow> string \<Rightarrow> (exn, string list) result" where
  "stream_binary b uri = (case guard_within_root b (uri_to_bin_path b uri) of
     Inl e \<Rightarrow> Inl e
   | Inr p \<Rightarrow> (case file_at b p of
       Some (File data) \<Rightarrow> Inr (chunks CHUNK_SIZE data)
     | _ \<Rightarrow> if os_exists b (uri_to_rdf_path b uri) then Inl (Storage NotABinaryResource)
            else Inl (Storage ResourceNotFound)))"

subsection \<open>Deleting\<close>

definition delete_system :: "backend \<Rightarrow> string \<Rightarrow> (exn, unit) result \<times> backend" where
  "delete_system b uri = (case guard_within_root b (uri_to_rdf_path b uri) of
     Inl e \<Rightarrow> (Inl e, b)
   | Inr rdf_path \<Rightarrow> (case guard_within_root b (uri_to_bin_path b uri) of
       Inl e \<Rightarrow> (Inl e, b)
     | Inr bin_path \<Rightarrow>
         if path_exists b rdf_path then
           (case unlink b rdf_path of Inl e \<Rightarrow> (Inl e, b)
            | Inr b1 \<Rightarrow> (Inr (), remove_context b1 uri))
         else if path_exists b bin_path then
           (case unlink b bin_path of Inl e \<Rightarrow> (Inl e, b)
            | Inr b1 \<Rightarrow>
                let meta_path = append_name bin_path ''.meta.ttl'' in
                if path_exists b1 meta_path then
                  (case unlink b1 meta_path of Inl e \<Rightarrow> (Inl e, b1)
                   | Inr b2 \<Rightarrow> (Inr (), remove_context b2 (uri @ ''.meta'')))
                else (Inr (), remove_context b1 (uri @ ''.meta'')))
         else (Inl (Storage ResourceNotFound), b)))"

definition backend_delete :: "backend \<Rightarrow> string \<Rightarrow> (exn, unit) result \<times> backend" where
  "backend_delete b uri = (case assert_public_uri uri (backend_base b) of
     Inl e \<Rightarrow> (Inl e, b)
   | Inr _ \<Rightarrow> delete_system b uri)"

subsection \<open>Compare and replace\<close>

definition replace_if_unchanged ::
  "libs \<Rightarrow> backend \<Rightarrow> string \<Rightarrow> graph \<Rightarrow> string \<Rightarrow> (graph \<Rightarrow> string) \<Rightarrow> (exn, bool) result \<times> backend"
  where
  "replace_if_unchanged L b uri g expected_etag etag_of =
     (case guard_within_root b (uri_to_rdf_path b uri) of
        Inl e \<Rightarrow> (Inl e, b)
      | Inr p \<Rightarrow>
          if \<not> path_exists b p then (Inr False, b)
          else if etag_of (g_copy (context_graph b uri)) \<noteq> expected_etag then (Inr False, b)
          else (case write_system L b uri g of
                  (Inl e, b') \<Rightarrow> (Inl e, b')
                | (Inr _, b') \<Rightarrow> (Inr True, b')))"

subsection \<open>Queries\<close>

text \<open>The pattern \<open>^[a-zA-Z][a-zA-Z0-9+.-]*:\<close> at the start of a text.\<close>

definition is_scheme_char :: "char \<Rightarrow> bool" where
  "is_scheme_char c = (is_ascii_lower c \<or> is_ascii_upper c \<or> is_digit c \<or> c \<in> set ''+.-'')"

definition iri_scheme :: "string \<Rightarrow> bool" where
  "iri_scheme s = (case s of [] \<Rightarrow> False
     | c # cs \<Rightarrow> (is_ascii_lower c \<or> is_ascii_upper c)
         \<and> startswith (dropWhile is_scheme_char cs) '':'')"

definition to_term :: "libs \<Rightarrow> string \<Rightarrow> string option \<Rightarrow> node" where
  "to_term L value datatype = (case datatype of
     Some dt \<Rightarrow> typed_lit L dt value
   | None \<Rightarrow> if iri_scheme value then URIRef value else Lit value None None)"

definition system_prefix :: "backend \<Rightarrow> string" where
  "system_prefix b = rstrip_char CHR ''/'' (backend_base b) @ ''/'' @ SYSTEM_SEGMENT @ ''/''"

definition public_contexts :: "backend \<Rightarrow> (string \<times> graph) list" where
  "public_contexts b = filter (\<lambda>(name, g). \<not> startswith name (system_prefix b)) (contexts b)"

definition query_scope_of :: "backend \<Rightarrow> bool \<Rightarrow> query_scope" where
  "query_scope_of b include_system =
     (if include_system then WholeDataset (contexts b) else UnionOf (map snd (public_contexts b)))"

definition bind_terms ::
  "libs \<Rightarrow> (string \<times> string) list option \<Rightarrow> (string \<times> string) list option \<Rightarrow> (string \<times> node) list option"
  where
  "bind_terms L init_bindings types = map_option
     (map (\<lambda>(var, v). (var, to_term L v (case types of None \<Rightarrow> None | Some ts \<Rightarrow> map_of ts var))))
     init_bindings"

definition backend_query ::
  "libs \<Rightarrow> backend \<Rightarrow> string \<Rightarrow> (string \<times> string) list option \<Rightarrow> bool
    \<Rightarrow> (string \<times> string) list option \<Rightarrow> query_error + query_answer" where
  "backend_query L b sparql init_bindings include_system types =
     run_query L (query_scope_of b include_system) sparql (bind_terms L init_bindings types)"

subsection \<open>Opening the backend\<close>

definition system_subdirs :: "path list" where
  "system_subdirs = [[''views''], [''tokens''], [''tokens'', ''policies''], [''access-log'']]"

fun ensure_dirs :: "backend \<Rightarrow> path list \<Rightarrow> (exn, backend) result" where
  "ensure_dirs b [] = Inr b"
| "ensure_dirs b (p # ps) = (case mkdirs b p of Inl e \<Rightarrow> Inl e | Inr b' \<Rightarrow> ensure_dirs b' ps)"

definition ensure_system_subtree :: "backend \<Rightarrow> (exn, backend) result" where
  "ensure_system_subtree b =
     ensure_dirs b (map (\<lambda>d. storage_root b @ [SYSTEM_SEGMENT] @ d) system_subdirs)"

text \<open>\<open>storage_root.rglob("*.ttl")\<close>: files and directories alike, hidden ones too.\<close>

definition rglob_ttl :: "backend \<Rightarrow> path list" where
  "rglob_ttl b = map fst (filter (\<lambda>(p, n). is_relative_to p (storage_root b)
     \<and> length (storage_root b) < length p \<and> endswith (last p) ''.ttl'') (files b))"

definition load_file :: "libs \<Rightarrow> backend \<Rightarrow> path \<Rightarrow> (exn, backend) result" where
  "load_file L b p = (let uri = path_to_uri p (storage_root b) (backend_base b) in
     case read_text b p of Inl e \<Rightarrow> Inl e
     | Inr t \<Rightarrow> (case parse_graph L (utf8_encode t) ''turtle'' (Some uri) of
         None \<Rightarrow> Inl LibraryError
       | Some h \<Rightarrow>
           Inr (b\<lparr>contexts := AList.update uri (g_adds (context_graph b uri) h) (contexts b)\<rparr>)))"

fun load_files :: "libs \<Rightarrow> backend \<Rightarrow> path list \<Rightarrow> (exn, backend) result" where
  "load_files L b [] = Inr b"
| "load_files L b (p # ps) = (case load_file L b p of Inl e \<Rightarrow> Inl e | Inr b' \<Rightarrow> load_files L b' ps)"

definition backend_init ::
  "libs \<Rightarrow> path \<Rightarrow> string \<Rightarrow> (path \<times> fnode) list \<Rightarrow> (exn, backend) result" where
  "backend_init L root base disk =
     (let b = \<lparr>storage_root = root, backend_base = base, files = disk, contexts = []\<rparr> in
      case mkdirs b root of Inl e \<Rightarrow> Inl e
      | Inr b1 \<Rightarrow> (case ensure_system_subtree b1 of Inl e \<Rightarrow> Inl e
        | Inr b2 \<Rightarrow> load_files L b2 (rglob_ttl b2)))"

end
