(* ===== verification/Backend.thy ===== *)
theory Backend
  imports Filesystem "HOL-Library.Sublist"
begin

text \<open>
  What the storage operations do: the effect of each on the file tree and on the contexts, the
  interface the HTTP layer relies on (locale \<open>rdf_store\<close>), its interpretation by the
  filesystem backend, and the properties of the backend.
\<close>

section \<open>The file tree under the operations\<close>

lemma map_of_add_dirs:
  "map_of (add_dirs d p fs) q =
    (if map_of fs q = None \<and> (\<exists>k\<le>length p. 0 < k \<and> q = d @ take k p) then Some Dir
     else map_of fs q)"
proof (induction d p fs rule: add_dirs.induct)
  case (1 d fs)
  then show ?case by auto
next
  case (2 d s ss fs)
  let ?fs = "if map_of fs (d @ [s]) = None then AList.update (d @ [s]) Dir fs else fs"
  have step: "map_of ?fs q = (if map_of fs q = None \<and> q = d @ [s] then Some Dir else map_of fs q)"
    by (auto simp: update_conv')
  have split: "(\<exists>k\<le>length (s # ss). 0 < k \<and> q = d @ take k (s # ss)) \<longleftrightarrow>
      q = d @ [s] \<or> (\<exists>k\<le>length ss. 0 < k \<and> q = (d @ [s]) @ take k ss)"
    (is "?l \<longleftrightarrow> ?r")
  proof
    assume ?l
    then obtain k where k: "k \<le> length (s # ss)" "0 < k" "q = d @ take k (s # ss)" by blast
    then show ?r by (cases k; cases "k - 1") auto
  next
    assume ?r
    then show ?l
    proof
      assume "q = d @ [s]"
      then show ?l by (intro exI [of _ 1]) simp
    next
      assume "\<exists>k\<le>length ss. 0 < k \<and> q = (d @ [s]) @ take k ss"
      then obtain k where "k \<le> length ss" "0 < k" "q = (d @ [s]) @ take k ss" by blast
      then show ?l by (intro exI [of _ "Suc k"]) simp
    qed
  qed
  show ?case
    using 2 [OF refl] by (simp only: add_dirs.simps Let_def split step) auto
qed

lemma file_at_mkdirs:
  assumes "mkdirs b p = Inr b'"
  shows "file_at b' q = (if file_at b q = None \<and> prefix q p then Some Dir else file_at b q)"
proof -
  have b': "b' = b\<lparr>files := add_dirs [] p (files b)\<rparr>"
    using assms by (simp add: mkdirs_def split: if_splits)
  have "prefix q p \<longleftrightarrow> q = [] \<or> (\<exists>k\<le>length p. 0 < k \<and> q = take k p)"
  proof
    assume "prefix q p"
    then obtain r where r: "p = q @ r" by (auto simp: prefix_def)
    show "q = [] \<or> (\<exists>k\<le>length p. 0 < k \<and> q = take k p)"
    proof (cases q)
      case (Cons x xs)
      with r show ?thesis by (intro disjI2 exI [of _ "length q"]) simp
    qed simp
  next
    assume "q = [] \<or> (\<exists>k\<le>length p. 0 < k \<and> q = take k p)"
    then show "prefix q p" by (auto simp: take_is_prefix)
  qed
  then show ?thesis unfolding b' by (auto simp: file_at_def map_of_add_dirs)
qed

lemma mkdirs_fields:
  assumes "mkdirs b p = Inr b'"
  shows "storage_root b' = storage_root b" "backend_base b' = backend_base b"
    "contexts b' = contexts b"
  using assms by (auto simp: mkdirs_def split: if_splits)

lemma mkdirs_errors: "mkdirs b p = Inl e \<Longrightarrow> e = OSError"
  by (simp add: mkdirs_def split: if_splits)

lemma file_at_write_bytes:
  assumes "write_bytes b p data = Inr b'"
  shows "file_at b' q = (if q = p then Some (File data) else file_at b q)" and "p \<noteq> []"
proof -
  from assms have p: "p \<noteq> []" by (auto simp: write_bytes_def is_dir_def file_at_def)
  then show "p \<noteq> []" .
  from assms p show "file_at b' q = (if q = p then Some (File data) else file_at b q)"
    by (auto simp: write_bytes_def file_at_def update_conv' split: if_splits)
qed

lemma write_bytes_fields:
  assumes "write_bytes b p data = Inr b'"
  shows "storage_root b' = storage_root b" "backend_base b' = backend_base b"
    "contexts b' = contexts b"
  using assms by (auto simp: write_bytes_def split: if_splits)

lemma write_bytes_errors: "write_bytes b p data = Inl e \<Longrightarrow> e = OSError"
  by (simp add: write_bytes_def split: if_splits)

lemma file_at_unlink:
  assumes "unlink b p = Inr b'"
  shows "file_at b' q = (if q = p then None else file_at b q)"
  using assms
  by (auto simp: unlink_def file_at_def delete_conv' split: option.splits fnode.splits if_splits)

lemma unlink_fields:
  assumes "unlink b p = Inr b'"
  shows "storage_root b' = storage_root b" "backend_base b' = backend_base b"
    "contexts b' = contexts b"
  using assms by (auto simp: unlink_def split: option.splits fnode.splits)

lemma reload_context_fields:
  assumes "reload_context L b name p pub = (r, b')"
  shows "storage_root b' = storage_root b" "backend_base b' = backend_base b"
    "files b' = files b" "file_at b' q = file_at b q"
    "v \<noteq> name \<Longrightarrow> map_of (contexts b') v = map_of (contexts b) v"
    "v \<noteq> name \<Longrightarrow> context_graph b' v = context_graph b v"
  using assms
  by (auto simp: reload_context_def Let_def file_at_def context_graph_def update_conv'
      split: sum.splits option.splits)

lemma remove_context_fields [simp]:
  "storage_root (remove_context b n) = storage_root b"
  "backend_base (remove_context b n) = backend_base b"
  "file_at (remove_context b n) q = file_at b q"
  by (simp_all add: remove_context_def file_at_def)

lemma context_remove_context:
  "context_graph (remove_context b n) v = (if v = n then [] else context_graph b v)"
  by (simp add: context_graph_def remove_context_def delete_conv')

lemma store_same_contexts: "contexts b' = contexts b \<Longrightarrow> context_graph b' v = context_graph b v"
  by (simp add: context_graph_def)

lemmas store_fields = mkdirs_fields write_bytes_fields unlink_fields
lemmas store_contexts = store_same_contexts [OF mkdirs_fields(3)]
  store_same_contexts [OF write_bytes_fields(3)] store_same_contexts [OF unlink_fields(3)]

section \<open>Reading back what was written\<close>

definition rdf_location :: "backend \<Rightarrow> string \<Rightarrow> path" where
  "rdf_location b uri = resolve (uri_to_rdf_path b uri)"

definition bin_location :: "backend \<Rightarrow> string \<Rightarrow> path" where
  "bin_location b uri = resolve (uri_to_bin_path b uri)"

definition same_config :: "backend \<Rightarrow> backend \<Rightarrow> bool" where
  "same_config b b' \<longleftrightarrow> storage_root b' = storage_root b \<and> backend_base b' = backend_base b"

lemma same_config_refl [simp]: "same_config b b"
  by (simp add: same_config_def)

lemma same_config_trans [trans]: "same_config a b \<Longrightarrow> same_config b c \<Longrightarrow> same_config a c"
  by (simp add: same_config_def)

lemma same_config_paths:
  assumes "same_config b b'"
  shows "uri_to_rdf_path b' u = uri_to_rdf_path b u" "uri_to_bin_path b' u = uri_to_bin_path b u"
    "rdf_location b' u = rdf_location b u" "bin_location b' u = bin_location b u"
    "guard_within_root b' p = guard_within_root b p" "system_prefix b' = system_prefix b"
  using assms
  by (simp_all add: same_config_def uri_to_rdf_path_def uri_to_bin_path_def rdf_location_def
      bin_location_def guard_within_root_def system_prefix_def Let_def)

text \<open>
  \<open>write_system\<close> case by case: the tree it leaves, and the contexts.
\<close>

lemma write_system_cases:
  assumes "write_system L b u g = (r, b')"
  obtains (unchanged) e where "r = Inl e" "b' = b"
  | (dirs) b1 where "r = Inl OSError" "mkdirs b (butlast (rdf_location b u)) = Inr b1" "b' = b1"
  | (written) b1 b2 doc where
      "is_relative_to (rdf_location b u) (storage_root b)"
      "serialize_graph L ''turtle'' g = Some doc"
      "mkdirs b (butlast (rdf_location b u)) = Inr b1"
      "write_bytes b1 (rdf_location b u) (utf8_encode doc) = Inr b2"
      "reload_context L b2 u (rdf_location b u) u = (r, b')"
  using assms unfolding write_system_def guard_within_root_def rdf_location_def [symmetric] Let_def
  by (auto split: if_splits sum.splits option.splits dest: write_bytes_errors)

lemma write_system_config:
  "write_system L b u g = (r, b') \<Longrightarrow> same_config b b'"
  by (erule write_system_cases)
    (auto simp: same_config_def mkdirs_fields write_bytes_fields reload_context_fields)

lemma write_system_other_contexts:
  "write_system L b u g = (r, b') \<Longrightarrow> v \<noteq> u \<Longrightarrow> map_of (contexts b') v = map_of (contexts b) v"
  by (erule write_system_cases)
    (auto simp: mkdirs_fields write_bytes_fields reload_context_fields)

text \<open>A write touches its own file, and may create directories above it; nothing else.\<close>

lemma write_system_files:
  assumes w: "write_system L b u g = (r, b')" and q: "\<not> prefix q (rdf_location b u)"
  shows "file_at b' q = file_at b q"
  using w
proof (cases rule: write_system_cases)
  case (dirs b1)
  have "\<not> prefix q (butlast (rdf_location b u))"
    using q by (meson prefix_order.trans prefixeq_butlast)
  with dirs show ?thesis by (simp add: file_at_mkdirs [OF dirs(2)])
next
  case (written b1 b2 doc)
  have "\<not> prefix q (butlast (rdf_location b u))"
    using q by (meson prefix_order.trans prefixeq_butlast)
  moreover have "q \<noteq> rdf_location b u" using q by auto
  ultimately show ?thesis
    by (simp add: reload_context_fields(4) [OF written(5)] file_at_write_bytes(1) [OF written(4)]
        file_at_mkdirs [OF written(3)])
qed simp

text \<open>
  What the store keeps of a graph: its Turtle text, read back. With a faithful serialisation
  that is an isomorphic graph.
\<close>

definition stored_as :: "libs \<Rightarrow> string \<Rightarrow> graph \<Rightarrow> graph \<Rightarrow> bool" where
  "stored_as L u g h \<longleftrightarrow> (\<exists>doc k. serialize_graph L ''turtle'' g = Some doc
     \<and> parse_graph L (utf8_encode (universal_newlines doc)) ''turtle'' (Some u) = Some k
     \<and> h = g_copy k)"

lemma stored_as_iso: "stored_as L u g h \<Longrightarrow> turtle_roundtrip L \<Longrightarrow> graph_iso g h"
  unfolding stored_as_def
  by (metis g_copy_id option.inject turtle_roundtripE)

lemma stored_as_ground:
  "stored_as L u g h \<Longrightarrow> turtle_roundtrip L \<Longrightarrow> ground t \<Longrightarrow> t \<in> set h \<longleftrightarrow> t \<in> set g"
  by (blast dest: stored_as_iso graph_iso_ground)

text \<open>After a successful write the document reads back as what was stored.\<close>

lemma write_system_ok:
  assumes w: "write_system L b u g = (Inr x, b')"
  shows "\<exists>h. backend_read b' u = Inr h \<and> stored_as L u g h"
  using w
proof (cases rule: write_system_cases)
  case (written b1 b2 doc)
  let ?p = "rdf_location b u"
  let ?b0 = "b2\<lparr>contexts := AList.update u [] (contexts b2)\<rparr>"
  have "file_at ?b0 ?p = file_at b2 ?p" by (simp add: file_at_def)
  also have "\<dots> = Some (File (utf8_encode doc))"
    by (simp add: file_at_write_bytes(1) [OF written(4)])
  finally have "file_at ?b0 ?p = Some (File (utf8_encode doc))" .
  then have "read_text ?b0 ?p = Inr (universal_newlines doc)" by (simp add: read_text_def)
  with written(5) obtain k
    where k: "parse_graph L (utf8_encode (universal_newlines doc)) ''turtle'' (Some u) = Some k"
      and b': "b' = ?b0\<lparr>contexts := AList.update u k (contexts ?b0)\<rparr>"
    by (auto simp: reload_context_def Let_def split: option.splits)
  from b' have ctx: "context_graph b' u = k" by (simp add: context_graph_def update_conv')
  have cfg: "same_config b b'" by (rule write_system_config [OF w])
  have ex: "path_exists b' ?p"
    using file_at_write_bytes(1) [OF written(4)]
    by (simp add: path_exists_def reload_context_fields(4) [OF written(5)])
  have "storage_root b' = storage_root b" using cfg by (simp add: same_config_def)
  with written(1) ex ctx have "backend_read b' u = Inr (g_copy k)"
    by (simp add: backend_read_def guard_within_root_def same_config_paths [OF cfg]
        rdf_location_def Let_def)
  with k written(2) show ?thesis unfolding stored_as_def by blast
qed simp_all

section \<open>The store as the HTTP layer sees it\<close>

text \<open>
  Two URIs are apart when no operation on the first can be seen through a read of the second:
  the second is not the first nor its description, and its file is neither the first one's file
  nor a directory above it, in either of the two places the first can be stored in.
\<close>

definition apart :: "backend \<Rightarrow> string \<Rightarrow> string \<Rightarrow> bool" where
  "apart b u v \<longleftrightarrow> v \<noteq> u \<and> v \<noteq> u @ ''.meta''
     \<and> \<not> prefix (rdf_location b v) (rdf_location b u)
     \<and> \<not> prefix (rdf_location b v) (bin_location b u)
     \<and> rdf_location b v \<noteq> append_name (bin_location b u) ''.meta.ttl''"

lemma backend_read_cong:
  assumes "same_config b b'" and "file_at b' (rdf_location b v) = file_at b (rdf_location b v)"
    and "context_graph b' v = context_graph b v"
  shows "backend_read b' v = backend_read b v"
  using assms
  by (simp add: backend_read_def guard_within_root_def same_config_def uri_to_rdf_path_def
      rdf_location_def path_exists_def Let_def)

lemma write_system_frame:
  assumes w: "write_system L b u g = (r, b')" and a: "apart b u v"
  shows "backend_read b' v = backend_read b v"
proof (rule backend_read_cong)
  show "same_config b b'" by (rule write_system_config [OF w])
  show "file_at b' (rdf_location b v) = file_at b (rdf_location b v)"
    by (rule write_system_files [OF w]) (use a in \<open>simp add: apart_def\<close>)
  show "context_graph b' v = context_graph b v"
    using write_system_other_contexts [OF w, of v] a by (simp add: apart_def context_graph_def)
qed

text \<open>The contract of \<open>StorageBackend\<close> for RDF documents.\<close>

locale rdf_store =
  fixes fetch :: "'s \<Rightarrow> string \<Rightarrow> (exn, graph) result"
    and store :: "'s \<Rightarrow> string \<Rightarrow> graph \<Rightarrow> (exn, unit) result \<times> 's"
    and discard :: "'s \<Rightarrow> string \<Rightarrow> (exn, unit) result \<times> 's"
    and separate :: "'s \<Rightarrow> string \<Rightarrow> string \<Rightarrow> bool"
    and kept :: "string \<Rightarrow> graph \<Rightarrow> graph \<Rightarrow> bool"
  assumes read_write:
      "store s u g = (Inr x, s') \<Longrightarrow> \<exists>h. fetch s' u = Inr h \<and> kept u g h"
    and read_write_separate:
      "store s u g = (r, s') \<Longrightarrow> separate s u v \<Longrightarrow> fetch s' v = fetch s v"
    and separate_write: "store s u g = (r, s') \<Longrightarrow> separate s' v w = separate s v w"
    and read_delete:
      "discard s u = (Inr x, s') \<Longrightarrow> fetch s' u = Inl (Storage ResourceNotFound)"
    and read_delete_separate:
      "discard s u = (r, s') \<Longrightarrow> separate s u v \<Longrightarrow> fetch s' v = fetch s v"
    and separate_delete: "discard s u = (r, s') \<Longrightarrow> separate s' v w = separate s v w"
begin

text \<open>Two writes to separate documents: both are there afterwards.\<close>

lemma write_two:
  assumes "store s u g = (Inr x, s')" and "store s' v k = (Inr y, s'')" and "separate s v u"
  shows "(\<exists>h. fetch s'' u = Inr h \<and> kept u g h) \<and> (\<exists>h. fetch s'' v = Inr h \<and> kept v k h)"
proof -
  have "separate s' v u" using assms(3) separate_write [OF assms(1)] by simp
  then have "fetch s'' u = fetch s' u" by (rule read_write_separate [OF assms(2)])
  with read_write [OF assms(1)] read_write [OF assms(2)] show ?thesis by simp
qed

text \<open>Deleting one document and rewriting another.\<close>

lemma delete_then_write:
  assumes "discard s u = (Inr x, s')" and "store s' v k = (r, s'')" and "separate s v u"
  shows "fetch s'' u = Inl (Storage ResourceNotFound)"
proof -
  have "separate s' v u" using assms(3) separate_delete [OF assms(1)] by simp
  then show ?thesis
    using read_write_separate [OF assms(2)] read_delete [OF assms(1)] by simp
qed

end

lemma delete_system_cases:
  assumes "delete_system b u = (r, b')"
  obtains (unchanged) e where "r = Inl e" "b' = b"
  | (rdf) b1 where "path_exists b (rdf_location b u)" "unlink b (rdf_location b u) = Inr b1"
      "r = Inr ()" "b' = remove_context b1 u"
  | (binary) b1 where "\<not> path_exists b (rdf_location b u)" "unlink b (bin_location b u) = Inr b1"
      "\<not> path_exists b1 (append_name (bin_location b u) ''.meta.ttl'')"
      "r = Inr ()" "b' = remove_context b1 (u @ ''.meta'')"
  | (binary_meta) b1 b2 where "\<not> path_exists b (rdf_location b u)"
      "unlink b (bin_location b u) = Inr b1"
      "unlink b1 (append_name (bin_location b u) ''.meta.ttl'') = Inr b2"
      "r = Inr ()" "b' = remove_context b2 (u @ ''.meta'')"
  | (meta_dir) b1 e where "\<not> path_exists b (rdf_location b u)"
      "unlink b (bin_location b u) = Inr b1" "r = Inl e" "b' = b1"
  using assms
  unfolding delete_system_def guard_within_root_def Let_def rdf_location_def [symmetric]
    bin_location_def [symmetric]
  by (auto split: if_splits sum.splits)

lemma delete_system_config: "delete_system b u = (r, b') \<Longrightarrow> same_config b b'"
  by (erule delete_system_cases) (auto simp: same_config_def unlink_fields)

lemma delete_system_frame:
  assumes d: "delete_system b u = (r, b')" and a: "apart b u v"
  shows "backend_read b' v = backend_read b v"
proof (rule backend_read_cong)
  show "same_config b b'" by (rule delete_system_config [OF d])
  have ne: "rdf_location b v \<noteq> rdf_location b u" "rdf_location b v \<noteq> bin_location b u"
    "rdf_location b v \<noteq> append_name (bin_location b u) ''.meta.ttl''"
    using a by (auto simp: apart_def)
  from d show "file_at b' (rdf_location b v) = file_at b (rdf_location b v)"
    by (cases rule: delete_system_cases) (auto simp: file_at_unlink ne)
  from d show "context_graph b' v = context_graph b v"
    by (cases rule: delete_system_cases)
      (use a in \<open>auto simp: context_remove_context apart_def store_contexts\<close>)
qed

lemma delete_system_ok:
  assumes d: "delete_system b u = (Inr x, b')"
  shows "backend_read b' u = Inl (Storage ResourceNotFound)"
proof -
  have cfg: "same_config b b'" by (rule delete_system_config [OF d])
  have g: "is_relative_to (rdf_location b u) (storage_root b)"
    using d by (auto simp: delete_system_def guard_within_root_def rdf_location_def Let_def
        split: if_splits)
  from d have "\<not> path_exists b' (rdf_location b u)"
    by (cases rule: delete_system_cases) (auto simp: path_exists_def file_at_unlink split: if_splits)
  moreover have "storage_root b' = storage_root b" using cfg by (simp add: same_config_def)
  ultimately show ?thesis using g
    by (simp add: backend_read_def guard_within_root_def same_config_paths [OF cfg]
        rdf_location_def Let_def)
qed

lemma apart_config: "same_config b b' \<Longrightarrow> apart b' u v = apart b u v"
  by (simp add: apart_def same_config_paths)

lemma backend_write_eq:
  "backend_write L b u g = (r, b') \<Longrightarrow>
   (r = Inl (Storage PrefixViolation) \<and> b' = b) \<or> write_system L b u g = (r, b')"
  by (auto simp: backend_write_def assert_public_uri_def split: if_splits)

lemma backend_delete_eq:
  "backend_delete b u = (r, b') \<Longrightarrow>
   (r = Inl (Storage PrefixViolation) \<and> b' = b) \<or> delete_system b u = (r, b')"
  by (auto simp: backend_delete_def assert_public_uri_def split: if_splits)

lemma backend_write_config: "backend_write L b u g = (r, b') \<Longrightarrow> same_config b b'"
  by (drule backend_write_eq) (auto dest: write_system_config)

lemma backend_delete_config: "backend_delete b u = (r, b') \<Longrightarrow> same_config b b'"
  by (drule backend_delete_eq) (auto dest: delete_system_config)

lemma backend_write_ok:
  "backend_write L b u g = (Inr x, b') \<Longrightarrow> \<exists>h. backend_read b' u = Inr h \<and> stored_as L u g h"
  by (drule backend_write_eq) (auto dest: write_system_ok)

text \<open>\<open>write_binary\<close> case by case, and what it leaves alone.\<close>

lemma write_binary_cases:
  assumes "write_binary L b u data ct = (r, b')"
  obtains (unchanged) e where "r = Inl e" "b' = b"
  | (dirs) b1 where "r = Inl OSError" "mkdirs b (butlast (bin_location b u)) = Inr b1" "b' = b1"
  | (half) b1 b2 where "r = Inl OSError" "mkdirs b (butlast (bin_location b u)) = Inr b1"
      "write_bytes b1 (bin_location b u) data = Inr b2" "b' = b2"
  | (written) b1 b2 b3 doc where
      "is_relative_to (bin_location b u) (storage_root b)"
      "first_segment u (backend_base b) \<notin> set RESERVED_SEGMENTS"
      "serialize_graph L ''turtle'' (binary_meta u ct) = Some doc"
      "mkdirs b (butlast (bin_location b u)) = Inr b1"
      "write_bytes b1 (bin_location b u) data = Inr b2"
      "write_bytes b2 (append_name (bin_location b u) ''.meta.ttl'') (utf8_encode doc) = Inr b3"
      "reload_context L b3 (u @ ''.meta'') (append_name (bin_location b u) ''.meta.ttl'') u = (r, b')"
  using assms
  unfolding write_binary_def guard_within_root_def assert_public_uri_def bin_location_def [symmetric]
    Let_def
  by (auto split: if_splits sum.splits option.splits dest: write_bytes_errors)

lemma write_binary_config: "write_binary L b u data ct = (r, b') \<Longrightarrow> same_config b b'"
  by (erule write_binary_cases)
    (auto simp: same_config_def mkdirs_fields write_bytes_fields reload_context_fields)

lemma write_binary_frame:
  assumes w: "write_binary L b u data ct = (r, b')" and a: "apart b u v"
  shows "backend_read b' v = backend_read b v"
proof (rule backend_read_cong)
  let ?q = "rdf_location b v"
  show "same_config b b'" by (rule write_binary_config [OF w])
  have ne: "?q \<noteq> bin_location b u" "?q \<noteq> append_name (bin_location b u) ''.meta.ttl''"
    "\<not> prefix ?q (butlast (bin_location b u))"
    using a by (auto simp: apart_def) (meson prefix_order.trans prefixeq_butlast)
  from w show "file_at b' ?q = file_at b ?q"
    by (cases rule: write_binary_cases)
      (auto simp: file_at_mkdirs file_at_write_bytes(1) reload_context_fields ne)
  from w show "context_graph b' v = context_graph b v"
    by (cases rule: write_binary_cases)
      (use a in \<open>auto simp: apart_def store_contexts reload_context_fields(6)\<close>)
qed

text \<open>The bytes and the description that were stored are what is found.\<close>

lemma concat_chunks: "0 < n \<Longrightarrow> concat (chunks n s) = s"
proof (induction n s rule: chunks.induct)
  case (1 n s)
  have "chunks n s = (if s = [] \<or> n = 0 then [] else take n s # chunks n (drop n s))"
    by (rule chunks.simps)
  with 1 show ?case by auto
qed

lemma write_binary_ok:
  assumes w: "write_binary L b u data ct = (Inr x, b')"
  shows "stream_binary b' u = Inr (chunks CHUNK_SIZE data)"
  using w
proof (cases rule: write_binary_cases)
  case (written b1 b2 b3 doc)
  let ?p = "bin_location b u"
  have cfg: "same_config b b'" by (rule write_binary_config [OF w])
  have p: "?p \<noteq> []" by (rule file_at_write_bytes(2) [OF written(5)])
  have "?p \<noteq> append_name ?p ''.meta.ttl''" using p
    by (cases ?p rule: rev_cases) (auto simp: append_name_def dest: arg_cong [where f = length])
  then have "file_at b' ?p = Some (File data)"
    by (simp add: reload_context_fields(4) [OF written(7)] file_at_write_bytes(1) [OF written(6)]
        file_at_write_bytes(1) [OF written(5)])
  moreover have "storage_root b' = storage_root b" using cfg by (simp add: same_config_def)
  ultimately show ?thesis using written(1)
    by (simp add: stream_binary_def guard_within_root_def same_config_paths [OF cfg]
        bin_location_def Let_def)
qed simp_all

text \<open>
  The filesystem backend meets the contract, through the public operations and through the ones
  without the prefix guard.
\<close>

interpretation public: rdf_store backend_read "backend_write L" backend_delete apart "stored_as L"
  for L
proof unfold_locales
  fix s s' u v w g x r
  show "backend_write L s u g = (Inr x, s') \<Longrightarrow> \<exists>h. backend_read s' u = Inr h \<and> stored_as L u g h"
    by (rule backend_write_ok)
  show "backend_write L s u g = (r, s') \<Longrightarrow> apart s u v \<Longrightarrow> backend_read s' v = backend_read s v"
    by (drule backend_write_eq) (auto dest: write_system_frame)
  show "backend_write L s u g = (r, s') \<Longrightarrow> apart s' v w = apart s v w"
    by (rule apart_config) (rule backend_write_config)
  show "backend_delete s u = (Inr x, s') \<Longrightarrow> backend_read s' u = Inl (Storage ResourceNotFound)"
    by (drule backend_delete_eq) (auto dest: delete_system_ok)
  show "backend_delete s u = (r, s') \<Longrightarrow> apart s u v \<Longrightarrow> backend_read s' v = backend_read s v"
    by (drule backend_delete_eq) (auto dest: delete_system_frame)
  show "backend_delete s u = (r, s') \<Longrightarrow> apart s' v w = apart s v w"
    by (rule apart_config) (rule backend_delete_config)
qed

interpretation system: rdf_store backend_read "write_system L" delete_system apart "stored_as L"
  for L
proof unfold_locales
  fix s s' u v w g x r
  show "write_system L s u g = (Inr x, s') \<Longrightarrow> \<exists>h. backend_read s' u = Inr h \<and> stored_as L u g h"
    by (rule write_system_ok)
  show "write_system L s u g = (r, s') \<Longrightarrow> apart s u v \<Longrightarrow> backend_read s' v = backend_read s v"
    by (rule write_system_frame)
  show "write_system L s u g = (r, s') \<Longrightarrow> apart s' v w = apart s v w"
    by (rule apart_config) (rule write_system_config)
  show "delete_system s u = (Inr x, s') \<Longrightarrow> backend_read s' u = Inl (Storage ResourceNotFound)"
    by (rule delete_system_ok)
  show "delete_system s u = (r, s') \<Longrightarrow> apart s u v \<Longrightarrow> backend_read s' v = backend_read s v"
    by (rule delete_system_frame)
  show "delete_system s u = (r, s') \<Longrightarrow> apart s' v w = apart s v w"
    by (rule apart_config) (rule delete_system_config)
qed

end
