(* ===== verification/RdfContent.thy ===== *)
theory RdfContent
  imports Rdf
begin

text \<open>
  \<open>ldp_common/rdfcontent.py\<close> and \<open>ldp_common/http.py\<close>: content negotiation, the
  \<open>Prefer\<close> header of containers, entity tags, the precondition check of every write, the
  guarded parse of request bodies, and the bearer header.
\<close>

section \<open>Media types\<close>

text \<open>\<open>SUPPORTED\<close> in server preference order; as a dictionary it is \<open>FORMAT_BY_CONTENT_TYPE\<close>.\<close>

definition SUPPORTED :: "(string \<times> string) list" where
  "SUPPORTED = [(''text/turtle'', ''turtle''), (''application/ld+json'', ''json-ld''),
     (''application/n-triples'', ''nt''), (''application/rdf+xml'', ''xml'')]"

definition RDF_CONTENT_TYPES :: "string list" where
  "RDF_CONTENT_TYPES = map fst SUPPORTED"

definition ACCEPT_POST :: string where
  "ACCEPT_POST = join '', '' (map fst SUPPORTED @ [''*/*''])"

definition ALLOW_RDF :: string where
  "ALLOW_RDF = ''GET, HEAD, PUT, DELETE, OPTIONS''"

definition ALLOW_CONTAINER :: string where
  "ALLOW_CONTAINER = ''GET, HEAD, POST, PUT, DELETE, OPTIONS''"

definition ALLOW_BINARY :: string where
  "ALLOW_BINARY = ''GET, HEAD, PUT, DELETE, OPTIONS''"

definition normalize_media_type :: "string option \<Rightarrow> string \<Rightarrow> string" where
  "normalize_media_type value default_type = (case value of
     None \<Rightarrow> default_type
   | Some v \<Rightarrow> if v = [] then default_type
       else (let m = lower (strip (hd (split_on CHR '';'' v))) in
             if m = [] then default_type else m))"

text \<open>
  \<open>negotiate_media\<close>: the entries are taken in the client's order. \<open>formats[default_media]\<close>
  is a dictionary access; both callers pass a key.
\<close>

fun negotiate_entries :: "string list \<Rightarrow> (string \<times> string) list \<Rightarrow> string \<Rightarrow> (exn, string \<times> string) result"
  where
  "negotiate_entries [] formats default_media =
     Inl (HTTPException 406
       (Some (''None of '' @ py_repr_list (sort (map fst formats)) @ '' acceptable'')) [])"
| "negotiate_entries (entry # entries) formats default_media =
     (let media_type = normalize_media_type (Some entry) '''' in
      if media_type = ''*/*'' then Inr (default_media, the (map_of formats default_media))
      else (case map_of formats media_type of
              Some fmt \<Rightarrow> Inr (media_type, fmt)
            | None \<Rightarrow> negotiate_entries entries formats default_media))"

definition negotiate_media ::
  "string option \<Rightarrow> (string \<times> string) list \<Rightarrow> string \<Rightarrow> (exn, string \<times> string) result" where
  "negotiate_media accept formats default_media = (case accept of
     None \<Rightarrow> Inr (default_media, the (map_of formats default_media))
   | Some a \<Rightarrow> if a = [] then Inr (default_media, the (map_of formats default_media))
       else negotiate_entries (split_on CHR '','' a) formats default_media)"

text \<open>\<open>negotiate\<close> answers format first.\<close>

definition negotiate :: "string option \<Rightarrow> (exn, string \<times> string) result" where
  "negotiate accept = (case negotiate_media accept SUPPORTED ''text/turtle'' of
     Inl e \<Rightarrow> Inl e
   | Inr (media_type, fmt) \<Rightarrow> Inr (fmt, media_type))"

definition rdflib_format_for :: "string \<Rightarrow> string option" where
  "rdflib_format_for content_type = map_of SUPPORTED (normalize_media_type (Some content_type) '''')"

section \<open>The Prefer header of containers\<close>

definition LDP_PREFER_CONTAINMENT :: string where
  "LDP_PREFER_CONTAINMENT = ''http://www.w3.org/ns/ldp#PreferContainment''"

definition LDP_PREFER_MEMBERSHIP :: string where
  "LDP_PREFER_MEMBERSHIP = ''http://www.w3.org/ns/ldp#PreferMembership''"

definition LDP_PREFER_MINIMAL_CONTAINER :: string where
  "LDP_PREFER_MINIMAL_CONTAINER = ''http://www.w3.org/ns/ldp#PreferMinimalContainer''"

text \<open>
  The pattern \<open>(include|omit)\s*=\s*"([^"]*)"\<close>, in any case, at the start of a text: the
  keyword in lower case, the quoted value and what follows it.
\<close>

definition prefer_keyword :: "string \<Rightarrow> (string \<times> string) option" where
  "prefer_keyword s =
     (if startswith (lower s) ''include'' then Some (''include'', drop 7 s)
      else if startswith (lower s) ''omit'' then Some (''omit'', drop 4 s) else None)"

definition prefer_value :: "string \<Rightarrow> (string \<times> string) option" where
  "prefer_value s = (case dropWhile is_space s of
     [] \<Rightarrow> None
   | e # s1 \<Rightarrow> if e \<noteq> CHR ''='' then None else
       (case dropWhile is_space s1 of
          [] \<Rightarrow> None
        | q # s2 \<Rightarrow> if q \<noteq> CHR 0x22 then None else
            (case dropWhile (\<lambda>c. c \<noteq> CHR 0x22) s2 of
               [] \<Rightarrow> None
             | _ # rest \<Rightarrow> Some (takeWhile (\<lambda>c. c \<noteq> CHR 0x22) s2, rest))))"

definition match_prefer :: "string \<Rightarrow> (string \<times> string \<times> string) option" where
  "match_prefer s = (case prefer_keyword s of None \<Rightarrow> None
     | Some (k, s1) \<Rightarrow> (case prefer_value s1 of None \<Rightarrow> None
       | Some (v, rest) \<Rightarrow> Some (k, v, rest)))"

lemma dropWhile_Cons_length: "dropWhile P s = c # t \<Longrightarrow> length t < length s"
  by (metis length_dropWhile_le length_Cons less_le_trans lessI)

lemma match_prefer_shorter:
  assumes "match_prefer s = Some (k, v, rest)"
  shows "length rest < length s"
proof -
  obtain s1 where 1: "prefer_keyword s = Some (k, s1)" "prefer_value s1 = Some (v, rest)"
    using assms by (auto simp: match_prefer_def split: option.splits)
  from 1(1) have "length s1 \<le> length s"
    by (auto simp: prefer_keyword_def split: if_splits)
  moreover from 1(2) have "length rest < length s1"
    by (auto simp: prefer_value_def split: list.splits if_splits dest!: dropWhile_Cons_length)
  ultimately show ?thesis by simp
qed

text \<open>\<open>_PREFER_PARAM.findall\<close>\<close>

function prefer_findall :: "string \<Rightarrow> (string \<times> string) list" where
  "prefer_findall s = (case s of [] \<Rightarrow> []
     | c # cs \<Rightarrow> (case match_prefer s of
         Some (k, v, rest) \<Rightarrow> (k, v) # prefer_findall rest
       | None \<Rightarrow> prefer_findall cs))"
  by pat_completeness auto
termination
  by (relation "measure length") (auto dest: match_prefer_shorter)

declare prefer_findall.simps [simp del]

definition prefer_tokens :: "string \<Rightarrow> (string \<times> string) list \<Rightarrow> string list" where
  "prefer_tokens keyword params =
     concat (map (\<lambda>(k, v). if k = keyword then split_ws v else []) params)"

definition container_prefer :: "string option \<Rightarrow> bool \<times> bool \<times> bool" where
  "container_prefer prefer = (case prefer of
     None \<Rightarrow> (True, True, False)
   | Some p \<Rightarrow> if p = [] then (True, True, False) else
       (let params = prefer_findall p;
            inc = set (prefer_tokens ''include'' params);
            omit = set (prefer_tokens ''omit'' params);
            minimal = LDP_PREFER_MINIMAL_CONTAINER \<in> inc;
            containment = (if minimal then LDP_PREFER_CONTAINMENT \<in> inc
                           else LDP_PREFER_CONTAINMENT \<notin> omit);
            membership = (if minimal then LDP_PREFER_MEMBERSHIP \<in> inc
                          else LDP_PREFER_MEMBERSHIP \<notin> omit);
            recognized =
              [LDP_PREFER_CONTAINMENT, LDP_PREFER_MEMBERSHIP, LDP_PREFER_MINIMAL_CONTAINER]
        in (containment, membership, list_ex (\<lambda>t. t \<in> inc \<or> t \<in> omit) recognized)))"

section \<open>Entity tags\<close>

definition quote_etag :: "string \<Rightarrow> string" where
  "quote_etag digest = [CHR 0x22] @ take 32 digest @ [CHR 0x22]"

definition etag_for_graph :: "libs \<Rightarrow> graph \<Rightarrow> string" where
  "etag_for_graph L g =
     quote_etag (sha256_hex L (utf8_encode
       (join [char_of (10::nat)] (sort (splitlines (strip (canonical_nt L g)))))))"

definition etag_for_binary :: "libs \<Rightarrow> string \<Rightarrow> string" where
  "etag_for_binary L data = quote_etag (sha256_hex L data)"

text \<open>
  The digest is updated chunk by chunk; \<open>update\<close> is documented to be the digest of the
  concatenation.
\<close>

definition etag_for_stream :: "libs \<Rightarrow> string list \<Rightarrow> string" where
  "etag_for_stream L chs = quote_etag (sha256_hex L (concat chs))"

definition link_header :: "string list \<Rightarrow> string" where
  "link_header types = join '', '' (map (\<lambda>t. ''<'' @ t @ ''>; rel=\"type\"'') types)"

section \<open>Preconditions\<close>

text \<open>The three checks in the order of the code: 428, then \<open>If-Match\<close>, then \<open>If-None-Match\<close>.\<close>

definition check_preconditions ::
  "string option \<Rightarrow> string option \<Rightarrow> string option \<Rightarrow> bool \<Rightarrow> (exn, unit) result" where
  "check_preconditions if_match if_none_match current_etag resource_exists =
     (if resource_exists \<and> if_match = None \<and> if_none_match \<noteq> Some ''*''
      then Inl (HTTPException 428 (Some ''If-Match required to update an existing resource'') [])
      else if if_match \<noteq> None \<and> if_match = Some ''*'' \<and> \<not> resource_exists
      then Inl (HTTPException 412 None [])
      else if if_match \<noteq> None \<and> if_match \<noteq> Some ''*''
        \<and> (\<not> resource_exists \<or> current_etag \<noteq> if_match)
      then Inl (HTTPException 412 None [])
      else if if_none_match = Some ''*'' \<and> resource_exists
      then Inl (HTTPException 412 None [])
      else Inr ())"

section \<open>Request bodies\<close>

text \<open>
  \<open>parse_rdf_body\<close>. The detail of the 400 ends in the parser's own message, which is not
  part of the model.
\<close>

definition parse_rdf_body ::
  "libs \<Rightarrow> string \<Rightarrow> string option \<Rightarrow> string \<Rightarrow> (exn, graph) result" where
  "parse_rdf_body L body content_type base_uri =
     (case map_of SUPPORTED (normalize_media_type content_type '''') of
        None \<Rightarrow> Inl (HTTPException 415 None [])
      | Some fmt \<Rightarrow> (case parse_graph L body fmt (Some base_uri) of
          None \<Rightarrow> Inl (HTTPException 400 (Some ''Invalid RDF body: '') [])
        | Some g \<Rightarrow> Inr g))"

section \<open>The bearer header\<close>

definition unauthorized :: exn where
  "unauthorized = HTTPException 401 None [(''WWW-Authenticate'', ''Bearer'')]"

definition require_bearer :: "string option \<Rightarrow> (exn, string) result" where
  "require_bearer authorization = (case authorization of
     None \<Rightarrow> Inl unauthorized
   | Some a \<Rightarrow> if \<not> startswith a ''Bearer '' then Inl unauthorized
              else Inr (removeprefix a ''Bearer ''))"

section \<open>What these functions compute\<close>

lemma RDF_CONTENT_TYPES_iff: "m \<in> set RDF_CONTENT_TYPES \<longleftrightarrow> map_of SUPPORTED m \<noteq> None"
  by (simp add: RDF_CONTENT_TYPES_def SUPPORTED_def)

lemma check_preconditions_ok [result_iff]:
  "check_preconditions im inm etag ex = Inr u \<longleftrightarrow>
     (if ex then inm \<noteq> Some ''*'' \<and> im \<noteq> None \<and> (im = Some ''*'' \<or> im = etag)
      else im = None)"
  by (cases im) (auto simp: check_preconditions_def split: if_splits)

lemma negotiate_entries_sound:
  assumes "negotiate_entries es formats d = Inr (m, f)" and "map_of formats d = Some f0"
  shows "map_of formats m = Some f \<and>
    (m = d \<or> m \<in> set (map (\<lambda>e. normalize_media_type (Some e) '''') es))"
  using assms(1)
  by (induction es) (use assms(2) in \<open>auto simp: Let_def split: if_splits option.splits\<close>)

lemma negotiate_entries_406:
  "negotiate_entries es formats d = Inl e \<longleftrightarrow>
    (\<forall>w\<in>set es. normalize_media_type (Some w) '''' \<noteq> ''*/*''
       \<and> map_of formats (normalize_media_type (Some w) '''') = None)
    \<and> e = HTTPException 406
       (Some (''None of '' @ py_repr_list (sort (map fst formats)) @ '' acceptable'')) []"
  by (induction es) (auto simp: Let_def split: if_splits option.splits)

lemma normalize_media_type_no_params:
  "normalize_media_type (Some (v @ '';'' @ params)) d = normalize_media_type (Some (v @ '';'')) d"
proof -
  have "hd (split_on CHR '';'' (v @ CHR '';'' # s)) = hd (split_on CHR '';'' (v @ [CHR '';'']))" for s
    by (induction v) (auto split: list.splits)
  from this [of params] show ?thesis by (simp add: normalize_media_type_def Let_def)
qed

end
