(* ===== verification/Containers.thy ===== *)
theory Containers
  imports RdfContent "HOL-Library.Sublist"
begin

text \<open>
  \<open>ldp/containers.py\<close>: the parent of a resource, slugs and minted member URIs, and the kind
  of a container.
\<close>

section \<open>Definitions\<close>

definition parent_container_uri :: "string \<Rightarrow> string \<Rightarrow> string" where
  "parent_container_uri uri base_uri =
     (let relative = rstrip_char CHR ''/'' (removeprefix uri base_uri) in
      if CHR ''/'' \<notin> set relative then base_uri
      else base_uri @ before_last CHR ''/'' relative @ ''/'')"

text \<open>
  \<open>sanitize_slug\<close>. The substitution of a class under \<open>+\<close> replaces every maximal run by one
  dash: \<open>sub_runs P\<close> is \<open>re.sub("[P]+", "-", s)\<close>.
\<close>

fun sub_runs :: "(char \<Rightarrow> bool) \<Rightarrow> bool \<Rightarrow> string \<Rightarrow> string" where
  "sub_runs P in_run [] = []"
| "sub_runs P in_run (c # cs) =
     (if P c then (if in_run then sub_runs P True cs else CHR ''-'' # sub_runs P True cs)
      else c # sub_runs P False cs)"

definition slug_allowed :: "char \<Rightarrow> bool" where
  "slug_allowed c = (is_ascii_lower c \<or> is_digit c \<or> c = CHR ''-'')"

definition SLUG_MAX_LEN :: nat where
  "SLUG_MAX_LEN = 64"

definition sanitize_slug :: "string \<Rightarrow> string" where
  "sanitize_slug slug =
     (let collapsed = sub_runs (\<lambda>c. c = CHR ''-'') False
                        (sub_runs (\<lambda>c. \<not> slug_allowed c) False (lower slug))
      in strip_char CHR ''-'' (take SLUG_MAX_LEN (strip_char CHR ''-'' collapsed)))"

text \<open>
  \<open>mint_member_uri\<close>; \<open>uuid\<close> is the \<open>uuid4().hex\<close> drawn by the call.
\<close>

definition mint_member_uri :: "string \<Rightarrow> string \<Rightarrow> string option \<Rightarrow> string" where
  "mint_member_uri uuid container_uri slug = (case slug of
     None \<Rightarrow> container_uri @ uuid
   | Some s \<Rightarrow>
       if s \<noteq> [] \<and> sanitize_slug s \<noteq> []
       then container_uri @ sanitize_slug s @ ''-'' @ take 8 uuid
       else container_uri @ uuid)"

datatype kind = Basic | Direct

definition container_kind :: "graph \<Rightarrow> string \<Rightarrow> kind option" where
  "container_kind g container_uri =
     (if (URIRef container_uri, RDF_type, LDP_BasicContainer) \<in> set g then Some Basic
      else if (URIRef container_uri, RDF_type, LDP_DirectContainer) \<in> set g then Some Direct
      else None)"

definition container_link_types :: "kind \<Rightarrow> string list" where
  "container_link_types k = map node_str
     [LDP_Resource, LDP_RDFSource, LDP_Container,
      (case k of Basic \<Rightarrow> LDP_BasicContainer | Direct \<Rightarrow> LDP_DirectContainer)]"

section \<open>Parents\<close>

lemma parent_of_top_level:
  "CHR ''/'' \<notin> set w \<Longrightarrow> parent_container_uri (base @ w) base = base"
proof -
  assume "CHR ''/'' \<notin> set w"
  then have "CHR ''/'' \<notin> set (rstrip_char CHR ''/'' w)"
    using set_rstrip_by unfolding rstrip_char_def by blast
  then show ?thesis by (simp add: parent_container_uri_def)
qed

lemma rstrip_char_id: "s = [] \<or> last s \<noteq> c \<Longrightarrow> rstrip_char c s = s"
  unfolding rstrip_char_def by (cases s rule: rev_cases) auto

lemma rstrip_char_append: "rstrip_char c (s @ [c]) = rstrip_char c s"
  by (simp add: rstrip_char_def)

text \<open>
  A member \<open>p/w\<close> or \<open>p/w/\<close> below the base has \<open>p/\<close> as its parent.
\<close>

lemma parent_of_member:
  assumes "CHR ''/'' \<notin> set w" and "w \<noteq> []"
  shows "parent_container_uri (base @ p @ ''/'' @ w) base = base @ p @ ''/''"
    and "parent_container_uri (base @ p @ ''/'' @ w @ ''/'') base = base @ p @ ''/''"
proof -
  have last: "last (p @ ''/'' @ w) \<noteq> CHR ''/''"
    using assms by (metis Nil_is_append_conv last_appendR last_in_set)
  then have r: "rstrip_char CHR ''/'' (p @ ''/'' @ w) = p @ ''/'' @ w"
    by (intro rstrip_char_id) simp
  have b: "before_last CHR ''/'' (p @ ''/'' @ w) = p"
    using before_last_append [OF assms(1), of p] by simp
  show "parent_container_uri (base @ p @ ''/'' @ w) base = base @ p @ ''/''"
    using r b by (simp add: parent_container_uri_def Let_def)
  have "rstrip_char CHR ''/'' (p @ ''/'' @ w @ ''/'') = p @ ''/'' @ w"
    using r rstrip_char_append [of "CHR ''/''" "p @ ''/'' @ w"] by simp
  then show "parent_container_uri (base @ p @ ''/'' @ w @ ''/'') base = base @ p @ ''/''"
    using b by (simp add: parent_container_uri_def Let_def)
qed

section \<open>Slugs\<close>

text \<open>No two dashes in a row.\<close>

fun no_double_dash :: "string \<Rightarrow> bool" where
  "no_double_dash (c # d # cs) = ((c \<noteq> CHR ''-'' \<or> d \<noteq> CHR ''-'') \<and> no_double_dash (d # cs))"
| "no_double_dash _ = True"

definition safe_slug :: "string \<Rightarrow> bool" where
  "safe_slug s \<longleftrightarrow> (\<forall>c\<in>set s. slug_allowed c) \<and> no_double_dash s \<and> length s \<le> SLUG_MAX_LEN
     \<and> (s \<noteq> [] \<longrightarrow> hd s \<noteq> CHR ''-'' \<and> last s \<noteq> CHR ''-'')"

lemma set_sub_runs: "c \<in> set (sub_runs P b s) \<Longrightarrow> c = CHR ''-'' \<or> (c \<in> set s \<and> \<not> P c)"
  by (induction P b s rule: sub_runs.induct) (auto split: if_splits)

lemma sub_runs_hd:
  "sub_runs (\<lambda>c. c = CHR ''-'') True s = d # ds \<Longrightarrow> d \<noteq> CHR ''-''"
  by (induction "\<lambda>c. c = CHR ''-''" True s rule: sub_runs.induct) (auto split: if_splits)

lemma no_double_dash_Cons:
  "no_double_dash s \<Longrightarrow> (s \<noteq> [] \<Longrightarrow> c \<noteq> CHR ''-'' \<or> hd s \<noteq> CHR ''-'') \<Longrightarrow> no_double_dash (c # s)"
  by (cases s) auto

lemma no_double_dash_sub_runs: "no_double_dash (sub_runs (\<lambda>c. c = CHR ''-'') b s)"
proof (induction "\<lambda>c. c = CHR ''-''" b s rule: sub_runs.induct)
  case (2 in_run c cs)
  show ?case
  proof (cases "c = CHR ''-''")
    case True
    show ?thesis
    proof (cases in_run)
      case False
      have "sub_runs (\<lambda>c. c = CHR ''-'') True cs \<noteq> [] \<Longrightarrow>
          hd (sub_runs (\<lambda>c. c = CHR ''-'') True cs) \<noteq> CHR ''-''"
        using sub_runs_hd [of cs] by (cases "sub_runs (\<lambda>c. c = CHR ''-'') True cs") auto
      with 2 True False show ?thesis by (simp add: no_double_dash_Cons)
    qed (use 2 True in simp)
  next
    case False
    with 2 show ?thesis by (simp add: no_double_dash_Cons)
  qed
qed simp

lemma no_double_dash_append: "no_double_dash (s @ t) \<Longrightarrow> no_double_dash s \<and> no_double_dash t"
proof (induction s rule: no_double_dash.induct)
  case (1 c d cs)
  then show ?case by auto
qed (cases t, auto)+

lemma no_double_dash_sublist: "no_double_dash s \<Longrightarrow> sublist t s \<Longrightarrow> no_double_dash t"
  by (auto simp: sublist_def dest!: no_double_dash_append)

lemma sublist_strip_by: "sublist (strip_by P s) s"
proof -
  obtain n where "strip_by P s = take n (dropWhile P s)"
    using rstrip_by_take [of P "dropWhile P s"] by (auto simp: strip_by_def)
  moreover have "sublist (take n (dropWhile P s)) (dropWhile P s)" by simp
  moreover have "sublist (dropWhile P s) s"
    by (metis sublist_append_rightI takeWhile_dropWhile_id sublist_appendI append_Nil2)
  ultimately show ?thesis by (metis sublist_order.order.trans)
qed

lemma safe_slug_sanitize: "safe_slug (sanitize_slug slug)"
proof -
  let ?a = "sub_runs (\<lambda>c. \<not> slug_allowed c) False (lower slug)"
  let ?b = "sub_runs (\<lambda>c. c = CHR ''-'') False ?a"
  let ?c = "take SLUG_MAX_LEN (strip_char CHR ''-'' ?b)"
  let ?r = "strip_char CHR ''-'' ?c"
  have r: "sanitize_slug slug = ?r" by (simp add: sanitize_slug_def Let_def)
  have sub: "sublist ?r ?b"
  proof -
    have "sublist ?r ?c" unfolding strip_char_def by (rule sublist_strip_by)
    also have "sublist ?c (strip_char CHR ''-'' ?b)" by simp
    also have "sublist (strip_char CHR ''-'' ?b) ?b" unfolding strip_char_def by (rule sublist_strip_by)
    finally show ?thesis .
  qed
  have "\<forall>c\<in>set ?a. slug_allowed c"
    by (auto dest!: set_sub_runs simp: slug_allowed_def)
  then have "\<forall>c\<in>set ?b. slug_allowed c"
    by (auto dest!: set_sub_runs simp: slug_allowed_def)
  then have allowed: "\<forall>c\<in>set ?r. slug_allowed c"
    using set_mono_sublist [OF sub] by blast
  have dash: "no_double_dash ?r"
    using no_double_dash_sub_runs sub by (rule no_double_dash_sublist)
  have "length ?r \<le> length ?c" unfolding strip_char_def by (rule length_strip_by)
  then have len: "length ?r \<le> SLUG_MAX_LEN" by simp
  have "?r \<noteq> [] \<Longrightarrow> hd ?r \<noteq> CHR ''-''" "?r \<noteq> [] \<Longrightarrow> last ?r \<noteq> CHR ''-''"
    using hd_strip_by [of "\<lambda>d. d = CHR ''-''" ?c] last_strip_by [of "\<lambda>d. d = CHR ''-''" ?c]
    by (simp_all add: strip_char_def)
  with allowed dash len show ?thesis unfolding r safe_slug_def by blast
qed

text \<open>A safe slug is left alone: sanitising twice is sanitising once.\<close>

lemma sub_runs_id: "(\<forall>c\<in>set s. \<not> P c) \<Longrightarrow> sub_runs P b s = s"
  by (induction P b s rule: sub_runs.induct) auto

lemma sub_runs_dash_id: "no_double_dash s \<Longrightarrow> sub_runs (\<lambda>c. c = CHR ''-'') False s = s"
proof (induction s rule: no_double_dash.induct)
  case (1 c d cs)
  then show ?case by auto
qed auto

lemma lower_slug_id: "\<forall>c\<in>set s. slug_allowed c \<Longrightarrow> lower s = s"
proof -
  have "slug_allowed c \<Longrightarrow> lower_char c = c" for c
    by (auto simp: slug_allowed_def lower_char_def is_ascii_upper_def is_ascii_lower_def
        is_digit_def ord_of_def Let_def)
  then show "\<forall>c\<in>set s. slug_allowed c \<Longrightarrow> lower s = s"
    by (induction s) (auto simp: lower_def)
qed

lemma sanitize_safe_slug: "safe_slug s \<Longrightarrow> sanitize_slug s = s"
proof -
  assume s: "safe_slug s"
  then have strip: "strip_char CHR ''-'' s = s"
    unfolding strip_char_def by (intro strip_by_id) (auto simp: safe_slug_def)
  from s show ?thesis
    by (simp add: sanitize_slug_def safe_slug_def lower_slug_id sub_runs_id sub_runs_dash_id
        strip Let_def)
qed

text \<open>A slug is one path segment and none of the reserved ones.\<close>

lemma safe_slug_chars:
  "safe_slug s \<Longrightarrow> c \<in> set s \<Longrightarrow> c \<noteq> CHR ''/'' \<and> c \<noteq> CHR ''.''"
  by (auto simp: safe_slug_def slug_allowed_def is_ascii_lower_def is_digit_def ord_of_def)

section \<open>Kinds\<close>

lemma container_kind_iff:
  "container_kind g u \<noteq> None \<longleftrightarrow>
     (URIRef u, RDF_type, LDP_BasicContainer) \<in> set g
     \<or> (URIRef u, RDF_type, LDP_DirectContainer) \<in> set g"
  by (simp add: container_kind_def)

lemma container_kind_set_cong: "set g = set h \<Longrightarrow> container_kind g u = container_kind h u"
  by (simp add: container_kind_def)

lemma container_kind_iso: "graph_iso g h \<Longrightarrow> container_kind h u = container_kind g u"
  by (simp add: container_kind_def graph_iso_ground)

end
