(* ===== verification/LdpRouter.thy ===== *)
theory LdpRouter
  imports Backend Containers
begin

text \<open>
  \<open>ldp/router.py\<close>, \<open>ldp/content.py\<close>, the error table of \<open>ldp/dependencies.py\<close> and
  \<open>bootstrap.py\<close>: the handlers of the data plane. Each handler is one definition that takes
  the backend and returns the response or the exception it raises, and the backend it leaves,
  also when it raises: nothing in the program rolls a partial write back.

  The sub-expression \<open>base_uri + path\<close> of the code is \<open>base @ path\<close> here.
\<close>

section \<open>Responses\<close>

record response =
  status_code :: nat
  headers :: "(string \<times> string) list"
  media_type :: "string option"
  content :: string

type_synonym outcome = "(exn, response) result"

definition plain_response :: "nat \<Rightarrow> (string \<times> string) list \<Rightarrow> response" where
  "plain_response st hs = \<lparr>status_code = st, headers = hs, media_type = None, content = []\<rparr>"

text \<open>What the client sees of an exception: FastAPI renders an \<open>HTTPException\<close>, and 500 else.\<close>

definition exn_response :: "exn \<Rightarrow> response" where
  "exn_response e = (case e of
     HTTPException st detail hs \<Rightarrow> \<lparr>status_code = st, headers = hs,
       media_type = Some ''application/json'', content = (case detail of None \<Rightarrow> [] | Some d \<Rightarrow> d)\<rparr>
   | _ \<Rightarrow> plain_response 500 [])"

definition http_error :: "storage_error \<Rightarrow> exn" where
  "http_error e = (case e of
     ResourceNotFound \<Rightarrow> HTTPException 404 None []
   | PrefixViolation \<Rightarrow> HTTPException 403 None []
   | NotABinaryResource \<Rightarrow> HTTPException 409 None []
   | StorageError \<Rightarrow> HTTPException 500 None [])"

text \<open>\<open>except StorageError as exc: raise http_error(exc)\<close>: other exceptions pass through.\<close>

definition storage_to_http :: "exn \<Rightarrow> exn" where
  "storage_to_http e = (case e of Storage se \<Rightarrow> http_error se | _ \<Rightarrow> e)"

definition RDF_LINK :: string where
  "RDF_LINK = link_header (map node_str [LDP_Resource, LDP_RDFSource])"

definition BINARY_LINK :: string where
  "BINARY_LINK = link_header (map node_str [LDP_Resource, LDP_NonRDFSource])"

definition binary_link :: "string \<Rightarrow> string" where
  "binary_link uri =
     BINARY_LINK @ '', <'' @ uri @ ''.meta>; rel=\"describedby\"; anchor=\"'' @ uri @ ''\"''"

definition CONSTRAINTS_PATH :: string where
  "CONSTRAINTS_PATH = ''.system/constraints''"

definition constrained_by_link :: "string \<Rightarrow> string" where
  "constrained_by_link base_uri = ''<'' @ rstrip_char CHR ''/'' base_uri @ ''/'' @ CONSTRAINTS_PATH
     @ ''>; rel=\"http://www.w3.org/ns/ldp#constrainedBy\"''"

definition head_of :: "response \<Rightarrow> response" where
  "head_of r = plain_response (status_code r) (headers r)"

section \<open>Reading\<close>

text \<open>
  \<open>_container_representation\<close>: the stored triples, less the containment ones when they are
  not asked for, the LDP types, and one membership triple per contained member.
\<close>

definition membership_triples :: "graph \<Rightarrow> node \<Rightarrow> triple list" where
  "membership_triples g subject = (case g_value g subject LDP_membershipResource of
     None \<Rightarrow> []
   | Some mr \<Rightarrow>
       (case g_value g subject LDP_hasMemberRelation of
          Some has_member \<Rightarrow> map (\<lambda>m. (mr, has_member, m)) (g_objects g (Some subject) LDP_contains)
        | None \<Rightarrow> (case g_value g subject LDP_isMemberOfRelation of
            Some is_member_of \<Rightarrow>
              map (\<lambda>m. (m, is_member_of, mr)) (g_objects g (Some subject) LDP_contains)
          | None \<Rightarrow> [])))"

definition container_representation :: "graph \<Rightarrow> string \<Rightarrow> bool \<Rightarrow> bool \<Rightarrow> graph" where
  "container_representation g uri include_containment include_membership =
     (let subject = URIRef uri;
          kept = filter (\<lambda>(s, p, q). \<not> (\<not> include_containment \<and> s = subject \<and> p = LDP_contains)) g;
          typed = g_adds (g_adds [] kept)
            [(subject, RDF_type, LDP_Resource), (subject, RDF_type, LDP_RDFSource),
             (subject, RDF_type, LDP_Container)]
      in if include_membership then g_adds typed (membership_triples g subject) else typed)"

text \<open>\<open>binary_content_type\<close>\<close>

definition CONTENT_TYPE_QUERY :: string where
  "CONTENT_TYPE_QUERY = ''SELECT ?ct WHERE { ?s <'' @ node_str DC_format @ ''> ?ct }''"

fun first_binding :: "string \<Rightarrow> (string \<times> node) list list \<Rightarrow> node option" where
  "first_binding var [] = None"
| "first_binding var (row # rows) =
     (case map_of row var of Some v \<Rightarrow> Some v | None \<Rightarrow> first_binding var rows)"

definition binary_content_type :: "libs \<Rightarrow> backend \<Rightarrow> string \<Rightarrow> (exn, string) result" where
  "binary_content_type L b uri =
     (case backend_query L b CONTENT_TYPE_QUERY (Some [(''s'', uri)]) False None of
        Inl _ \<Rightarrow> Inl LibraryError
      | Inr (SelectAnswer rows) \<Rightarrow> (case first_binding ''ct'' rows of
            Some v \<Rightarrow> Inr (node_str v) | None \<Rightarrow> Inr ''application/octet-stream'')
      | Inr _ \<Rightarrow> Inr ''application/octet-stream'')"

text \<open>\<open>if_none_match is not None and if_none_match in (etag, "*")\<close>\<close>

definition not_modified :: "string option \<Rightarrow> string \<Rightarrow> bool" where
  "not_modified if_none_match etag = (if_none_match = Some etag \<or> if_none_match = Some ''*'')"

definition get_binary_resource ::
  "libs \<Rightarrow> backend \<Rightarrow> string \<Rightarrow> string option \<Rightarrow> (exn, response option) result" where
  "get_binary_resource L b uri if_none_match = (case stream_binary b uri of
     Inl (Storage NotABinaryResource) \<Rightarrow> Inr None
   | Inl (Storage ResourceNotFound) \<Rightarrow> Inl (HTTPException 404 None [])
   | Inl e \<Rightarrow> Inl e
   | Inr chs \<Rightarrow>
       (let etag = etag_for_stream L chs in
        if not_modified if_none_match etag then Inr (Some (plain_response 304 [(''ETag'', etag)]))
        else (case binary_content_type L b uri of
                Inl e \<Rightarrow> Inl e
              | Inr ct \<Rightarrow> Inr (Some \<lparr>status_code = 200,
                  headers = [(''ETag'', etag), (''Link'', binary_link uri), (''Allow'', ALLOW_BINARY)],
                  media_type = Some ct, content = concat chs\<rparr>))))"

definition get_rdf_resource ::
  "libs \<Rightarrow> backend \<Rightarrow> string \<Rightarrow> string \<Rightarrow> string option \<Rightarrow> string option \<Rightarrow> string option \<Rightarrow> outcome"
  where
  "get_rdf_resource L b base path accept if_none_match prefer =
     (let uri = base @ path in
      case backend_read b uri of Inl e \<Rightarrow> Inl (storage_to_http e)
      | Inr g \<Rightarrow> (case negotiate accept of Inl e \<Rightarrow> Inl e
        | Inr (fmt, mt) \<Rightarrow>
           (let etag = etag_for_graph L g in
            if not_modified if_none_match etag then Inr (plain_response 304 [(''ETag'', etag)])
            else
              let (body_graph, hs) = (case container_kind g uri of
                    None \<Rightarrow> (g, [(''Link'', RDF_LINK), (''Allow'', ALLOW_RDF)])
                  | Some k \<Rightarrow> (let (ic, im, applied) = container_prefer prefer in
                      (container_representation g uri ic im,
                       [(''Link'', link_header (container_link_types k)),
                        (''Allow'', ALLOW_CONTAINER), (''Accept-Post'', ACCEPT_POST)]
                       @ (if applied then [(''Preference-Applied'', ''return=representation'')]
                          else []))))
              in (case serialize_graph L fmt body_graph of
                    None \<Rightarrow> Inl LibraryError
                  | Some text \<Rightarrow> Inr \<lparr>status_code = 200, headers = (''ETag'', etag) # hs,
                      media_type = Some mt, content = text\<rparr>))))"

definition get_resource ::
  "libs \<Rightarrow> backend \<Rightarrow> string \<Rightarrow> string \<Rightarrow> string option \<Rightarrow> string option \<Rightarrow> string option \<Rightarrow> outcome"
  where
  "get_resource L b base path accept if_none_match prefer =
     (case get_binary_resource L b (base @ path) if_none_match of
        Inl e \<Rightarrow> Inl e
      | Inr (Some r) \<Rightarrow> Inr r
      | Inr None \<Rightarrow> get_rdf_resource L b base path accept if_none_match prefer)"

definition head_resource ::
  "libs \<Rightarrow> backend \<Rightarrow> string \<Rightarrow> string \<Rightarrow> string option \<Rightarrow> string option \<Rightarrow> string option \<Rightarrow> outcome"
  where
  "head_resource L b base path accept if_none_match prefer =
     (case get_resource L b base path accept if_none_match prefer of
        Inl e \<Rightarrow> Inl e | Inr r \<Rightarrow> Inr (head_of r))"

section \<open>The parent's listing\<close>

text \<open>\<open>_attach_to_parent\<close> and \<open>_detach_from_parent\<close>\<close>

definition attach_to_parent ::
  "libs \<Rightarrow> backend \<Rightarrow> string \<Rightarrow> string \<Rightarrow> (exn, unit) result \<times> backend" where
  "attach_to_parent L b base member_uri =
     (let parent = parent_container_uri member_uri base in
      if parent = member_uri then (Inr (), b)
      else (case backend_read b parent of
         Inl (Storage ResourceNotFound) \<Rightarrow> (Inr (), b)
       | Inl e \<Rightarrow> (Inl (storage_to_http e), b)
       | Inr pg \<Rightarrow>
           if container_kind pg parent = None then (Inr (), b)
           else (case backend_write L b parent
                        (g_add pg (URIRef parent, LDP_contains, URIRef member_uri)) of
                   (Inl e, b') \<Rightarrow> (Inl (storage_to_http e), b')
                 | (Inr _, b') \<Rightarrow> (Inr (), b'))))"

definition detach_from_parent ::
  "libs \<Rightarrow> backend \<Rightarrow> string \<Rightarrow> string \<Rightarrow> (exn, unit) result \<times> backend" where
  "detach_from_parent L b base member_uri =
     (let parent = parent_container_uri member_uri base in
      if parent = member_uri then (Inr (), b)
      else (case backend_read b parent of
         Inl (Storage ResourceNotFound) \<Rightarrow> (Inr (), b)
       | Inl e \<Rightarrow> (Inl (storage_to_http e), b)
       | Inr pg \<Rightarrow>
           (case backend_write L b parent
                   (g_remove pg (Some (URIRef parent)) (Some LDP_contains) (Some (URIRef member_uri))) of
              (Inl e, b') \<Rightarrow> (Inl (storage_to_http e), b')
            | (Inr _, b') \<Rightarrow> (Inr (), b'))))"

section \<open>PUT\<close>

text \<open>
  What a \<open>PUT\<close> stores when the target or the body is a container: containment comes from the
  stored graph, membership triples are dropped; a body that states another containment is
  refused.
\<close>

definition strip_membership :: "graph \<Rightarrow> node \<Rightarrow> graph" where
  "strip_membership g subject = (case g_value g subject LDP_membershipResource of
     None \<Rightarrow> g
   | Some mr \<Rightarrow>
      (let has_member = g_value g subject LDP_hasMemberRelation;
           is_member_of = g_value g subject LDP_isMemberOfRelation;
           g1 = (case has_member of None \<Rightarrow> g | Some p \<Rightarrow> g_remove g (Some mr) (Some p) None)
       in (case is_member_of of None \<Rightarrow> g1 | Some p \<Rightarrow> g_remove g1 None (Some p) (Some mr))))"

definition merge_container :: "string \<Rightarrow> string \<Rightarrow> graph option \<Rightarrow> graph \<Rightarrow> (exn, graph) result"
  where
  "merge_container base uri stored g =
     (let subject = URIRef uri;
          stored_is_container =
            (case stored of None \<Rightarrow> False | Some sg \<Rightarrow> container_kind sg uri \<noteq> None);
          client_contains = g_objects g (Some subject) LDP_contains;
          stored_contains =
            (case stored of None \<Rightarrow> [] | Some sg \<Rightarrow> g_objects sg (Some subject) LDP_contains)
      in if \<not> (stored_is_container \<or> container_kind g uri \<noteq> None) then Inr g
         else if stored_is_container \<and> client_contains \<noteq> []
           \<and> set client_contains \<noteq> set stored_contains
         then Inl (HTTPException 409
                (Some ''PUT must not modify server-managed containment triples'')
                [(''Link'', constrained_by_link base)])
         else Inr (strip_membership
                (g_adds (g_remove g None (Some LDP_contains) None)
                   (map (\<lambda>m. (subject, LDP_contains, m)) stored_contains)) subject))"

definition put_response :: "bool \<Rightarrow> string \<Rightarrow> string \<Rightarrow> string \<Rightarrow> string \<Rightarrow> response" where
  "put_response existed etag uri link allow =
     plain_response (if existed then 200 else 201)
       [(''ETag'', etag), (''Location'', uri), (''Link'', link), (''Allow'', allow)]"

definition put_rdf_resource ::
  "libs \<Rightarrow> backend \<Rightarrow> string \<Rightarrow> string \<Rightarrow> string \<Rightarrow> string \<Rightarrow> string option \<Rightarrow> string option
    \<Rightarrow> outcome \<times> backend" where
  "put_rdf_resource L b base path body content_type if_match if_none_match =
     (let uri = base @ path;
          finish = (\<lambda>stored current_etag existed.
            (case check_preconditions if_match if_none_match current_etag existed of
               Inl e \<Rightarrow> (Inl e, b)
             | Inr _ \<Rightarrow> (case parse_rdf_body L body (Some content_type) uri of
                 Inl e \<Rightarrow> (Inl e, b)
               | Inr g0 \<Rightarrow> (case merge_container base uri stored g0 of
                   Inl e \<Rightarrow> (Inl e, b)
                 | Inr g \<Rightarrow> (case backend_write L b uri g of
                     (Inl e, b1) \<Rightarrow> (Inl (storage_to_http e), b1)
                   | (Inr _, b1) \<Rightarrow>
                       (case (if existed then (Inr (), b1) else attach_to_parent L b1 base uri) of
                          (Inl e, b2) \<Rightarrow> (Inl e, b2)
                        | (Inr _, b2) \<Rightarrow>
                            (Inr (put_response existed (etag_for_graph L g) uri RDF_LINK ALLOW_RDF), b2)))))))
      in case backend_read b uri of
           Inr sg \<Rightarrow> finish (Some sg) (Some (etag_for_graph L sg)) True
         | Inl (Storage ResourceNotFound) \<Rightarrow> finish None None False
         | Inl e \<Rightarrow> (Inl (storage_to_http e), b))"

definition put_binary_resource ::
  "libs \<Rightarrow> backend \<Rightarrow> string \<Rightarrow> string \<Rightarrow> string \<Rightarrow> string \<Rightarrow> string option \<Rightarrow> string option
    \<Rightarrow> outcome \<times> backend" where
  "put_binary_resource L b base path body content_type if_match if_none_match =
     (let uri = base @ path;
          finish = (\<lambda>current_etag existed.
            (case check_preconditions if_match if_none_match current_etag existed of
               Inl e \<Rightarrow> (Inl e, b)
             | Inr _ \<Rightarrow> (case write_binary L b uri body content_type of
                 (Inl e, b1) \<Rightarrow> (Inl (storage_to_http e), b1)
               | (Inr _, b1) \<Rightarrow>
                   (case (if existed then (Inr (), b1) else attach_to_parent L b1 base uri) of
                      (Inl e, b2) \<Rightarrow> (Inl e, b2)
                    | (Inr _, b2) \<Rightarrow>
                        (Inr (put_response existed (etag_for_binary L body) uri
                                (binary_link uri) ALLOW_BINARY), b2)))))
      in case stream_binary b uri of
           Inr chs \<Rightarrow> finish (Some (etag_for_stream L chs)) True
         | Inl (Storage NotABinaryResource) \<Rightarrow> finish None False
         | Inl (Storage ResourceNotFound) \<Rightarrow> finish None False
         | Inl e \<Rightarrow> (Inl e, b))"

definition put_resource ::
  "libs \<Rightarrow> backend \<Rightarrow> string \<Rightarrow> string \<Rightarrow> string \<Rightarrow> string option \<Rightarrow> string option \<Rightarrow> string option
    \<Rightarrow> outcome \<times> backend" where
  "put_resource L b base path body content_type if_match if_none_match =
     (let ct = normalize_media_type content_type ''application/octet-stream'' in
      if ct \<in> set RDF_CONTENT_TYPES
      then put_rdf_resource L b base path body ct if_match if_none_match
      else put_binary_resource L b base path body ct if_match if_none_match)"

section \<open>POST\<close>

definition post_member ::
  "libs \<Rightarrow> string \<Rightarrow> backend \<Rightarrow> string \<Rightarrow> string \<Rightarrow> string \<Rightarrow> string option \<Rightarrow> string option
    \<Rightarrow> outcome \<times> backend" where
  "post_member L uuid b base path body content_type slug =
     (let container_uri = base @ path in
      case backend_read b container_uri of
        Inl e \<Rightarrow> (Inl (storage_to_http e), b)
      | Inr cg \<Rightarrow>
          if container_kind cg container_uri = None
          then (Inl (HTTPException 405 None [(''Allow'', ALLOW_RDF)]), b)
          else
            (let ct = normalize_media_type content_type ''application/octet-stream'';
                 member_uri = mint_member_uri uuid container_uri slug;
                 link_and_reply = (\<lambda>etag link allow b1.
                   (case backend_write L b1 container_uri
                           (g_add cg (URIRef container_uri, LDP_contains, URIRef member_uri)) of
                      (Inl e, b2) \<Rightarrow> (Inl (storage_to_http e), b2)
                    | (Inr _, b2) \<Rightarrow>
                        (Inr (plain_response 201 [(''Location'', member_uri), (''ETag'', etag),
                                (''Link'', link), (''Allow'', allow)]), b2)))
             in if ct \<in> set RDF_CONTENT_TYPES then
                  (case parse_rdf_body L body (Some ct) member_uri of
                     Inl e \<Rightarrow> (Inl e, b)
                   | Inr mg \<Rightarrow> (case backend_write L b member_uri mg of
                       (Inl e, b1) \<Rightarrow> (Inl (storage_to_http e), b1)
                     | (Inr _, b1) \<Rightarrow>
                         link_and_reply (etag_for_graph L mg) RDF_LINK ALLOW_RDF b1))
                else
                  (case write_binary L b member_uri body ct of
                     (Inl e, b1) \<Rightarrow> (Inl (storage_to_http e), b1)
                   | (Inr _, b1) \<Rightarrow>
                       link_and_reply (etag_for_binary L body) (binary_link member_uri) ALLOW_BINARY b1)))"

section \<open>DELETE and OPTIONS\<close>

definition delete_resource :: "libs \<Rightarrow> backend \<Rightarrow> string \<Rightarrow> string \<Rightarrow> outcome \<times> backend" where
  "delete_resource L b base path =
     (let uri = base @ path;
          finish = (\<lambda>target.
            if (case target of None \<Rightarrow> False
                | Some g \<Rightarrow> container_kind g uri \<noteq> None
                    \<and> g_objects g (Some (URIRef uri)) LDP_contains \<noteq> [])
            then (Inl (HTTPException 409 None [(''Link'', constrained_by_link base)]), b)
            else (case backend_delete b uri of
                    (Inl e, b1) \<Rightarrow> (Inl (storage_to_http e), b1)
                  | (Inr _, b1) \<Rightarrow> (case detach_from_parent L b1 base uri of
                      (Inl e, b2) \<Rightarrow> (Inl e, b2)
                    | (Inr _, b2) \<Rightarrow> (Inr (plain_response 204 []), b2))))
      in case backend_read b uri of
           Inr g \<Rightarrow> finish (Some g)
         | Inl (Storage ResourceNotFound) \<Rightarrow> finish None
         | Inl e \<Rightarrow> (Inl (storage_to_http e), b))"

definition options_response :: "backend \<Rightarrow> string \<Rightarrow> string \<Rightarrow> outcome" where
  "options_response b base path =
     (let uri = base @ path in
      case backend_read b uri of
        Inr g \<Rightarrow>
          if container_kind g uri \<noteq> None
          then Inr (plain_response 200 [(''Allow'', ALLOW_CONTAINER), (''Accept-Post'', ACCEPT_POST)])
          else Inr (plain_response 200 [(''Allow'', ALLOW_RDF)])
      | Inl (Storage ResourceNotFound) \<Rightarrow>
          (case stream_binary b uri of
             Inr _ \<Rightarrow> Inr (plain_response 200 [(''Allow'', ALLOW_BINARY), (''Link'', binary_link uri)])
           | Inl (Storage _) \<Rightarrow> Inl (HTTPException 404 None [])
           | Inl e \<Rightarrow> Inl e)
      | Inl e \<Rightarrow> Inl (storage_to_http e))"

section \<open>The root container\<close>

definition init_root_container :: "libs \<Rightarrow> backend \<Rightarrow> string \<Rightarrow> (exn, unit) result \<times> backend" where
  "init_root_container L b base_uri = (case backend_read b base_uri of
     Inl (Storage ResourceNotFound) \<Rightarrow>
       backend_write L b base_uri (g_adds []
         [(URIRef base_uri, RDF_type, LDP_Resource), (URIRef base_uri, RDF_type, LDP_RDFSource),
          (URIRef base_uri, RDF_type, LDP_BasicContainer)])
   | Inl e \<Rightarrow> (Inl e, b)
   | Inr _ \<Rightarrow> (Inr (), b))"

end
