(* ===== verification/Locations.thy ===== *)
theory Locations
  imports Backend
begin

text \<open>
  Where the URIs of a container and of its members are stored, and that they are apart: no
  operation on the one shows through the other, for every member name but the few whose files
  collide with the container's own.
\<close>

lemma split_on_middle: "split_on c (a @ c # s) = split_on c a @ split_on c s"
proof (induction a)
  case (Cons x xs)
  then show ?case by (cases "split_on c xs") auto
qed simp

lemma path_segments_slash: "path_segments (a @ ''/'' @ s) = path_segments a @ path_segments s"
  by (simp add: path_segments_def split_on_middle)

lemma path_segments_name:
  "CHR ''/'' \<notin> set w \<Longrightarrow> w \<noteq> [] \<Longrightarrow> w \<noteq> ''.'' \<Longrightarrow> path_segments w = [w]"
  by (simp add: path_segments_def split_on_none)

lemma path_segments_Nil [simp]: "path_segments [] = []"
  by (simp add: path_segments_def)

text \<open>A relative URI that names a container: empty (the root), or ending in a slash.\<close>

definition container_path :: "string \<Rightarrow> bool" where
  "container_path P \<longleftrightarrow> P = [] \<or> last P = CHR ''/''"

lemma container_pathE:
  assumes "container_path P"
  obtains "P = []" | q where "P = q @ ''/''"
  using assms unfolding container_path_def by (metis append_butlast_last_id)

lemma join_path_append:
  assumes "container_path P" and "\<not> startswith w ''/''"
  shows "join_path root (P @ w) = join_path root P @ path_segments w"
  using assms(1)
proof (cases rule: container_pathE)
  case 1
  then show ?thesis using assms(2) by (simp add: join_path_def)
next
  case (2 q)
  have seg: "path_segments (q @ ''/'' @ w) = path_segments (q @ ''/'') @ path_segments w"
    using path_segments_slash [of q w] path_segments_slash [of q "[]"] by simp
  have "startswith (q @ ''/'' @ w) ''/'' = startswith (q @ ''/'') ''/''"
    by (cases q) simp_all
  with seg 2 show ?thesis by (simp add: join_path_def)
qed

text \<open>
  Names a member can have: one segment, and not one of the names whose file is the container's
  own document or description.
\<close>

definition plain_name :: "string \<Rightarrow> bool" where
  "plain_name w \<longleftrightarrow> w \<noteq> [] \<and> CHR ''/'' \<notin> set w \<and> w \<notin> {''.'', ''..'', ''.ttl'', ''.meta''}"

definition directory :: "backend \<Rightarrow> string \<Rightarrow> path" where
  "directory b P = resolve (join_path (storage_root b) P)"

lemma not_startswith_name: "CHR ''/'' \<notin> set w \<Longrightarrow> \<not> startswith (w @ s) ''/'' \<or> w = []"
  by (cases w) auto

lemma location_simps:
  assumes "container_path P" and "plain_name w"
  shows "rdf_location b (backend_base b @ P) = directory b P @ [''.ttl'']"
    and "bin_location b (backend_base b @ P) = directory b P"
    and "rdf_location b (backend_base b @ P @ w) = directory b P @ [w @ ''.ttl'']"
    and "bin_location b (backend_base b @ P @ w) = directory b P @ [w]"
    and "rdf_location b (backend_base b @ P @ w @ ''/'') = directory b P @ [w, ''.ttl'']"
    and "bin_location b (backend_base b @ P @ w @ ''/'') = directory b P @ [w]"
proof -
  have w: "w \<noteq> []" "CHR ''/'' \<notin> set w" "w \<noteq> ''.''" "w \<noteq> ''..''"
    using assms(2) by (auto simp: plain_name_def)
  have ns: "\<not> startswith w ''/''" "\<not> startswith (w @ s) ''/''" for s
    using not_startswith_name [OF w(2), of "[]"] not_startswith_name [OF w(2), of s] w(1) by auto
  have dot: "\<not> startswith ''.ttl'' ''/''" by simp
  have segs: "path_segments ''.ttl'' = [''.ttl'']" "path_segments w = [w]"
    "path_segments (w @ ''.ttl'') = [w @ ''.ttl'']"
    using w by (simp_all add: path_segments_name)
  have "path_segments (w @ ''/'' @ ''.ttl'') = [w] @ path_segments ''.ttl''"
    unfolding path_segments_slash using segs by simp
  then have segc: "path_segments (w @ ''/.ttl'') = [w, ''.ttl'']" using segs by simp
  have segd: "path_segments (w @ ''/'') = [w]"
    using path_segments_slash [of w "[]"] segs by simp
  have ttl: "w @ ''.ttl'' \<noteq> ''..''" by (cases w) auto
  note defs = rdf_location_def bin_location_def uri_to_rdf_path_def uri_to_bin_path_def
    directory_def resolve_def
  note app = join_path_append [OF assms(1)]
  show "rdf_location b (backend_base b @ P) = directory b P @ [''.ttl'']"
    by (simp add: defs app [OF dot] segs resolve_from_append)
  show "bin_location b (backend_base b @ P) = directory b P"
    by (simp add: defs)
  show "rdf_location b (backend_base b @ P @ w) = directory b P @ [w @ ''.ttl'']"
    using app [OF ns(2) [of "''.ttl''"]] segs ttl by (simp add: defs resolve_from_append)
  show "bin_location b (backend_base b @ P @ w) = directory b P @ [w]"
    using app [OF ns(1)] segs w by (simp add: defs resolve_from_append)
  show "rdf_location b (backend_base b @ P @ w @ ''/'') = directory b P @ [w, ''.ttl'']"
    using app [OF ns(2) [of "''/.ttl''"]] segc w by (simp add: defs resolve_from_append)
  show "bin_location b (backend_base b @ P @ w @ ''/'') = directory b P @ [w]"
    using app [OF ns(2) [of "''/''"]] segd w by (simp add: defs resolve_from_append)
qed

lemma append_name_snoc [simp]: "append_name (d @ [w]) s = d @ [w @ s]"
  by (simp add: append_name_def)

lemma append_name_length: "p \<noteq> [] \<Longrightarrow> length (append_name p s) = length p"
  by (simp add: append_name_def)

text \<open>A container and its member, as a document or as a container, are apart both ways.\<close>

lemma apart_member:
  assumes "container_path P" and "plain_name w"
  shows "apart b (backend_base b @ P @ w) (backend_base b @ P)"
    and "apart b (backend_base b @ P) (backend_base b @ P @ w)"
    and "apart b (backend_base b @ P @ w @ ''/'') (backend_base b @ P)"
    and "apart b (backend_base b @ P) (backend_base b @ P @ w @ ''/'')"
proof -
  let ?d = "directory b P"
  have w: "w \<noteq> []" "w \<noteq> ''.ttl''" "w \<noteq> ''.meta''" "w \<noteq> ''.''"
    using assms(2) by (auto simp: plain_name_def)
  have ttl: "w @ ''.ttl'' \<noteq> ''.ttl''" "w @ ''.meta.ttl'' \<noteq> ''.ttl''"
    using w(1) by (auto dest: arg_cong [where f = length])
  have meta: "append_name ?d ''.meta.ttl'' \<noteq> ?d @ [w @ ''.ttl'']"
  proof (cases "?d = []")
    case True
    have "w @ ''.ttl'' \<noteq> ''.meta'' @ ''.ttl''" using w(3) by (simp only: append_same_eq not_False_eq_True)
    then show ?thesis unfolding True by (simp add: append_name_def)
  next
    case False
    then show ?thesis using append_name_length [OF False, of "''.meta.ttl''"]
      by (metis length_append_singleton n_not_Suc_n)
  qed
  have meta2: "append_name ?d ''.meta.ttl'' \<noteq> ?d @ [w, ''.ttl'']"
    by (cases "?d = []")
      (auto simp: append_name_def dest!: arg_cong [where f = length])
  have ext: "\<not> prefix (?d @ x # y) ?d" for x y
    by (auto simp: prefix_def)
  have names: "backend_base b @ P @ w \<noteq> backend_base b @ P"
    "backend_base b @ P @ w \<noteq> (backend_base b @ P) @ ''.meta''"
    "backend_base b @ P \<noteq> (backend_base b @ P @ w) @ ''.meta''"
    "backend_base b @ P @ w @ ''/'' \<noteq> (backend_base b @ P) @ ''.meta''"
    using w(1,3) by (auto simp: append_eq_append_conv2 append_eq_Cons_conv)
  note loc = location_simps [OF assms, of b]
  show "apart b (backend_base b @ P @ w) (backend_base b @ P)"
    unfolding apart_def loc append_name_snoc using w ttl names by (auto simp: prefix_def)
  show "apart b (backend_base b @ P) (backend_base b @ P @ w)"
    unfolding apart_def loc using w ttl names meta ext by (auto simp: prefix_def)
  show "apart b (backend_base b @ P @ w @ ''/'') (backend_base b @ P)"
    unfolding apart_def loc append_name_snoc using w ttl names by (auto simp: prefix_def)
  show "apart b (backend_base b @ P) (backend_base b @ P @ w @ ''/'')"
    unfolding apart_def loc using w ttl names meta2 ext by (auto simp: prefix_def)
qed

end
