(* ===== verification/LdpProps.thy ===== *)
theory LdpProps
  imports LdpRouter Locations
begin

text \<open>
  Properties of the data plane: the preconditions of \<open>PUT\<close>, server-managed containment, the
  parent's listing under \<open>PUT\<close>, \<open>POST\<close> and \<open>DELETE\<close>, and what \<open>GET\<close> and
  \<open>OPTIONS\<close> answer.
\<close>

section \<open>The handlers, case by case\<close>

lemma storage_to_http_eqs [simp]:
  "storage_to_http (HTTPException st d h) = HTTPException st d h"
  "storage_to_http (Storage e) = http_error e"
  by (simp_all add: storage_to_http_def)

text \<open>A read can only fail because there is nothing there, or because the URI leaves the root.\<close>

lemma backend_read_errors:
  "backend_read b u = Inl e \<Longrightarrow> e = Storage ResourceNotFound \<or> e = Storage StorageError"
  by (auto simp: backend_read_def guard_within_root_def Let_def split: if_splits)

lemma stream_binary_errors:
  "stream_binary b u = Inl e \<Longrightarrow>
   e = Storage ResourceNotFound \<or> e = Storage NotABinaryResource \<or> e = Storage StorageError"
  by (auto simp: stream_binary_def guard_within_root_def Let_def
      split: if_splits option.splits fnode.splits)

lemma backend_read_cases:
  obtains (found) g where "backend_read b u = Inr g"
  | (absent) "backend_read b u = Inl (Storage ResourceNotFound)"
  | (outside) "backend_read b u = Inl (Storage StorageError)"
  using backend_read_errors by (cases "backend_read b u") blast+

text \<open>The graph a \<open>PUT\<close> finds at its target: the stored one, or none.\<close>

definition stored_graph :: "backend \<Rightarrow> string \<Rightarrow> graph option" where
  "stored_graph b uri = (case backend_read b uri of Inl _ \<Rightarrow> None | Inr g \<Rightarrow> Some g)"

lemma put_rdf_ok:
  assumes "put_rdf_resource L b base path body ct im inm = (Inr r, b')"
  obtains g0 g b1 where
    "check_preconditions im inm (map_option (etag_for_graph L) (stored_graph b (base @ path)))
       (stored_graph b (base @ path) \<noteq> None) = Inr ()"
    "parse_rdf_body L body (Some ct) (base @ path) = Inr g0"
    "merge_container base (base @ path) (stored_graph b (base @ path)) g0 = Inr g"
    "backend_write L b (base @ path) g = (Inr (), b1)"
    "(if stored_graph b (base @ path) \<noteq> None then b' = b1
      else attach_to_parent L b1 base (base @ path) = (Inr (), b'))"
    "r = put_response (stored_graph b (base @ path) \<noteq> None) (etag_for_graph L g) (base @ path)
       RDF_LINK ALLOW_RDF"
  using assms
  by (cases rule: backend_read_cases [of b "base @ path"])
    (auto simp: put_rdf_resource_def stored_graph_def Let_def split: sum.splits prod.splits
      storage_error.splits if_splits)

lemma put_binary_ok:
  assumes "put_binary_resource L b base path body ct im inm = (Inr r, b')"
  obtains existed b1 where
    "write_binary L b (base @ path) body ct = (Inr (), b1)"
    "if existed then b' = b1 else attach_to_parent L b1 base (base @ path) = (Inr (), b')"
    "r = put_response existed (etag_for_binary L body) (base @ path) (binary_link (base @ path))
       ALLOW_BINARY"
    "existed = is_ok (stream_binary b (base @ path))"
  using assms
  by (auto simp: put_binary_resource_def Let_def split: sum.splits prod.splits
      storage_error.splits exn.splits)

text \<open>Either way, a successful \<open>PUT\<close> is a write that keeps apart documents, then the listing.\<close>

lemma put_ok:
  assumes "put_resource L b base path body ct im inm = (Inr r, b')"
  obtains existed b1 where "same_config b b1"
    "\<And>v. apart b (base @ path) v \<Longrightarrow> backend_read b1 v = backend_read b v"
    "if existed then b' = b1 else attach_to_parent L b1 base (base @ path) = (Inr (), b')"
    "status_code r = (if existed then 200 else 201)"
    "map_of (headers r) ''Location'' = Some (base @ path)"
proof (cases "normalize_media_type ct ''application/octet-stream'' \<in> set RDF_CONTENT_TYPES")
  case True
  with assms have "put_rdf_resource L b base path body
      (normalize_media_type ct ''application/octet-stream'') im inm = (Inr r, b')"
    by (simp add: put_resource_def)
  then show ?thesis
  proof (cases rule: put_rdf_ok)
    case (1 g0 g b1)
    show ?thesis
      by (rule that [of b1 "stored_graph b (base @ path) \<noteq> None"])
        (use 1 backend_write_config public.read_write_separate in
          \<open>auto simp: put_response_def plain_response_def\<close>)
  qed
next
  case False
  with assms have "put_binary_resource L b base path body
      (normalize_media_type ct ''application/octet-stream'') im inm = (Inr r, b')"
    by (simp add: put_resource_def)
  then show ?thesis
  proof (cases rule: put_binary_ok)
    case (1 existed b1)
    show ?thesis
      by (rule that [of b1 existed])
        (use 1 write_binary_config write_binary_frame in
          \<open>auto simp: put_response_def plain_response_def\<close>)
  qed
qed

text \<open>A refused precondition leaves the backend as it was.\<close>

lemma put_rdf_refused:
  assumes "backend_read b (base @ path) = Inr sg"
    and "check_preconditions im inm (Some (etag_for_graph L sg)) True = Inl e"
  shows "put_rdf_resource L b base path body ct im inm = (Inl e, b)"
  using assms by (simp add: put_rdf_resource_def Let_def)

lemma attach_ok:
  assumes "attach_to_parent L b base u = (Inr x, b')"
  obtains (self) "parent_container_uri u base = u" "b' = b"
  | (no_parent) "backend_read b (parent_container_uri u base) = Inl (Storage ResourceNotFound)" "b' = b"
  | (no_container) pg where "backend_read b (parent_container_uri u base) = Inr pg"
      "container_kind pg (parent_container_uri u base) = None" "b' = b"
  | (attached) pg where "parent_container_uri u base \<noteq> u"
      "backend_read b (parent_container_uri u base) = Inr pg"
      "container_kind pg (parent_container_uri u base) \<noteq> None"
      "backend_write L b (parent_container_uri u base)
         (g_add pg (URIRef (parent_container_uri u base), LDP_contains, URIRef u)) = (Inr (), b')"
  using assms
  by (cases rule: backend_read_cases [of b "parent_container_uri u base"])
    (auto simp: attach_to_parent_def Let_def split: sum.splits prod.splits
      storage_error.splits if_splits)

lemma detach_ok:
  assumes "detach_from_parent L b base u = (Inr x, b')"
  obtains (self) "parent_container_uri u base = u" "b' = b"
  | (no_parent) "backend_read b (parent_container_uri u base) = Inl (Storage ResourceNotFound)" "b' = b"
  | (detached) pg where "parent_container_uri u base \<noteq> u"
      "backend_read b (parent_container_uri u base) = Inr pg"
      "backend_write L b (parent_container_uri u base)
         (g_remove pg (Some (URIRef (parent_container_uri u base))) (Some LDP_contains)
            (Some (URIRef u))) = (Inr (), b')"
  using assms
  by (cases rule: backend_read_cases [of b "parent_container_uri u base"])
    (auto simp: detach_from_parent_def Let_def split: sum.splits prod.splits
      storage_error.splits if_splits)

lemma delete_ok:
  assumes "delete_resource L b base path = (Inr r, b')"
  obtains b1 where
    "case stored_graph b (base @ path) of None \<Rightarrow> True
     | Some g \<Rightarrow> container_kind g (base @ path) = None
         \<or> g_objects g (Some (URIRef (base @ path))) LDP_contains = []"
    "backend_delete b (base @ path) = (Inr (), b1)"
    "detach_from_parent L b1 base (base @ path) = (Inr (), b')"
    "status_code r = 204"
  using assms
  by (cases rule: backend_read_cases [of b "base @ path"])
    (auto simp: delete_resource_def stored_graph_def plain_response_def Let_def
      split: sum.splits prod.splits storage_error.splits if_splits)

lemma post_ok:
  assumes "post_member L uuid b base path body content_type slug = (Inr r, b')"
  obtains cg b1 where
    "backend_read b (base @ path) = Inr cg"
    "container_kind cg (base @ path) \<noteq> None"
    "(normalize_media_type content_type ''application/octet-stream'' \<in> set RDF_CONTENT_TYPES \<and>
       (\<exists>mg. parse_rdf_body L body
            (Some (normalize_media_type content_type ''application/octet-stream''))
            (mint_member_uri uuid (base @ path) slug) = Inr mg \<and>
          backend_write L b (mint_member_uri uuid (base @ path) slug) mg = (Inr (), b1)))
     \<or> (normalize_media_type content_type ''application/octet-stream'' \<notin> set RDF_CONTENT_TYPES \<and>
        write_binary L b (mint_member_uri uuid (base @ path) slug) body
          (normalize_media_type content_type ''application/octet-stream'') = (Inr (), b1))"
    "backend_write L b1 (base @ path)
       (g_add cg (URIRef (base @ path), LDP_contains, URIRef (mint_member_uri uuid (base @ path) slug)))
       = (Inr (), b')"
    "status_code r = 201"
    "map_of (headers r) ''Location'' = Some (mint_member_uri uuid (base @ path) slug)"
  using assms
  by (cases rule: backend_read_cases [of b "base @ path"])
    (auto simp: post_member_def plain_response_def Let_def
      split: sum.splits prod.splits storage_error.splits if_splits)

section \<open>Containment\<close>

text \<open>
  The membership configuration of a container does not name containment itself: deriving or
  dropping membership triples then leaves containment alone.
\<close>

definition membership_apart_from_containment :: "graph \<Rightarrow> node \<Rightarrow> bool" where
  "membership_apart_from_containment g subject \<longleftrightarrow>
     (case g_value g subject LDP_membershipResource of None \<Rightarrow> True
      | Some mr \<Rightarrow> (g_value g subject LDP_hasMemberRelation = Some LDP_contains \<longrightarrow> mr \<noteq> subject)
          \<and> g_value g subject LDP_isMemberOfRelation \<noteq> Some LDP_contains)"

lemma strip_membership_contains:
  assumes "membership_apart_from_containment g subject"
  shows "(subject, LDP_contains, v) \<in> set (strip_membership g subject) \<longleftrightarrow>
    (subject, LDP_contains, v) \<in> set g"
  using assms
  by (auto simp: strip_membership_def membership_apart_from_containment_def Let_def
      split: option.splits)

lemma g_value_remove_contains:
  "p \<noteq> LDP_contains \<Longrightarrow>
   g_value (g_adds (g_remove g None (Some LDP_contains) None) (map (\<lambda>m. (s, LDP_contains, m)) ms)) s' p
   = g_value g s' p"
proof -
  assume p: "p \<noteq> LDP_contains"
  have "g_objects (g_remove g None (Some LDP_contains) None) (Some s') p = g_objects g (Some s') p"
    using p by (induction g) (auto simp: g_objects_def g_remove_def pat_match_def)
  moreover have "g_objects (g_adds h (map (\<lambda>m. (s, LDP_contains, m)) ms)) (Some s') p
      = g_objects h (Some s') p" for h
    using p by (induction ms arbitrary: h) (auto simp: g_add_def g_objects_append g_objects_def)
  ultimately show ?thesis by (simp add: g_value_def)
qed

text \<open>What \<open>PUT\<close> stores at a container has exactly the containment that was there.\<close>

lemma merge_container_contains:
  assumes m: "merge_container base u stored g0 = Inr g"
    and k: "container_kind g0 u \<noteq> None \<or> (\<exists>sg. stored = Some sg \<and> container_kind sg u \<noteq> None)"
    and a: "membership_apart_from_containment g0 (URIRef u)"
  shows "(URIRef u, LDP_contains, v) \<in> set g \<longleftrightarrow>
    (case stored of None \<Rightarrow> False | Some sg \<Rightarrow> (URIRef u, LDP_contains, v) \<in> set sg)"
proof -
  let ?ms = "case stored of None \<Rightarrow> [] | Some sg \<Rightarrow> g_objects sg (Some (URIRef u)) LDP_contains"
  let ?m = "g_adds (g_remove g0 None (Some LDP_contains) None)
      (map (\<lambda>m. (URIRef u, LDP_contains, m)) ?ms)"
  have g: "g = strip_membership ?m (URIRef u)"
    using m k by (auto simp: merge_container_def Let_def split: if_splits option.splits)
  have "membership_apart_from_containment ?m (URIRef u)"
    using a by (auto simp: membership_apart_from_containment_def g_value_remove_contains
        split: option.splits)
  then show ?thesis unfolding g by (auto simp: strip_membership_contains split: option.splits)
qed

lemma merge_container_conflict:
  assumes "container_kind sg u \<noteq> None"
    and "g_objects g0 (Some (URIRef u)) LDP_contains \<noteq> []"
    and "\<exists>v. ((URIRef u, LDP_contains, v) \<in> set g0) \<noteq> ((URIRef u, LDP_contains, v) \<in> set sg)"
  shows "merge_container base u (Some sg) g0 = Inl (HTTPException 409
    (Some ''PUT must not modify server-managed containment triples'')
    [(''Link'', constrained_by_link base)])"
proof -
  have "set (g_objects g0 (Some (URIRef u)) LDP_contains)
      \<noteq> set (g_objects sg (Some (URIRef u)) LDP_contains)"
    using assms(3) by (metis set_g_objects)
  then show ?thesis using assms(1,2) by (simp add: merge_container_def Let_def)
qed

section \<open>Parents of members\<close>

lemma parent_of_plain_name:
  assumes "container_path P" and "plain_name w"
  shows "parent_container_uri (base @ P @ w) base = base @ P"
    and "parent_container_uri (base @ P @ w @ ''/'') base = base @ P"
proof -
  have w: "CHR ''/'' \<notin> set w" "w \<noteq> []" using assms(2) by (auto simp: plain_name_def)
  show "parent_container_uri (base @ P @ w) base = base @ P"
    using assms(1)
    by (cases rule: container_pathE) (use parent_of_top_level parent_of_member w in auto)
  show "parent_container_uri (base @ P @ w @ ''/'') base = base @ P"
    using assms(1)
  proof (cases rule: container_pathE)
    case 1
    have "rstrip_char CHR ''/'' (w @ ''/'') = rstrip_char CHR ''/'' w"
      by (rule rstrip_char_append)
    also have "\<dots> = w" using w by (intro rstrip_char_id) (metis last_in_set)
    finally show ?thesis using 1 w by (simp add: parent_container_uri_def)
  next
    case (2 q)
    then show ?thesis using parent_of_member(2) [OF w] by simp
  qed
qed

lemma uri_neq_parent: "plain_name w \<Longrightarrow> base @ P \<noteq> base @ P @ w"
  by (simp add: plain_name_def)

lemma stored_graph_simps [simp]:
  "backend_read b u = Inr g \<Longrightarrow> stored_graph b u = Some g"
  "backend_read b u = Inl e \<Longrightarrow> stored_graph b u = None"
  by (simp_all add: stored_graph_def)

text \<open>Adding a member to the listing of its parent, seen through reads.\<close>

lemma attach_lists_member:
  assumes a: "attach_to_parent L b base u = (Inr x, b')"
    and p: "parent_container_uri u base \<noteq> u"
    and pg: "backend_read b (parent_container_uri u base) = Inr pg"
    and k: "container_kind pg (parent_container_uri u base) \<noteq> None"
    and rt: "turtle_roundtrip L"
  shows "\<exists>ph. backend_read b' (parent_container_uri u base) = Inr ph \<and>
    (\<forall>t. ground t \<longrightarrow>
      t \<in> set ph = (t \<in> set pg \<or> t = (URIRef (parent_container_uri u base), LDP_contains, URIRef u)))"
  using a
proof (cases rule: attach_ok)
  case (attached pg')
  with pg have "pg' = pg" by simp
  with attached(4) public.read_write obtain ph where
    "backend_read b' (parent_container_uri u base) = Inr ph"
    "stored_as L (parent_container_uri u base)
       (g_add pg (URIRef (parent_container_uri u base), LDP_contains, URIRef u)) ph"
    by blast
  then show ?thesis using stored_as_ground [OF _ rt] by auto
qed (use p pg k in simp_all)

lemma detach_unlists_member:
  assumes d: "detach_from_parent L b base u = (Inr x, b')"
    and p: "parent_container_uri u base \<noteq> u"
    and pg: "backend_read b (parent_container_uri u base) = Inr pg"
    and rt: "turtle_roundtrip L"
  shows "\<exists>ph. backend_read b' (parent_container_uri u base) = Inr ph \<and>
    (\<forall>t. ground t \<longrightarrow>
      t \<in> set ph = (t \<in> set pg \<and> t \<noteq> (URIRef (parent_container_uri u base), LDP_contains, URIRef u)))"
  using d
proof (cases rule: detach_ok)
  case (detached pg')
  with pg have "pg' = pg" by simp
  with detached(3) public.read_write obtain ph where
    "backend_read b' (parent_container_uri u base) = Inr ph"
    "stored_as L (parent_container_uri u base)
       (g_remove pg (Some (URIRef (parent_container_uri u base))) (Some LDP_contains) (Some (URIRef u))) ph"
    by blast
  then show ?thesis using stored_as_ground [OF _ rt] by (auto simp: LDP_def)
qed (use p pg in simp_all)

lemma attach_keeps_separate:
  assumes "attach_to_parent L b base u = (r, b')" and "apart b (parent_container_uri u base) v"
  shows "backend_read b' v = backend_read b v"
  using assms
  by (auto simp: attach_to_parent_def Let_def dest: public.read_write_separate
      split: if_splits sum.splits prod.splits storage_error.splits exn.splits)

lemma detach_keeps_separate:
  assumes "detach_from_parent L b base u = (r, b')" and "apart b (parent_container_uri u base) v"
  shows "backend_read b' v = backend_read b v"
  using assms
  by (auto simp: detach_from_parent_def Let_def dest: public.read_write_separate
      split: if_splits sum.splits prod.splits storage_error.splits exn.splits)

end
