(* ===== verification/Samples.thy ===== *)
theory Samples
  imports Rdf
begin

text \<open>
  Concrete parameters for the witnesses: \<open>table_libs\<close> is a tiny RDF library that knows the
  graphs of a table, one text for each. It satisfies the laws the theorems name, so no theorem
  with such a hypothesis is empty.
\<close>

definition table_libs :: "(graph \<times> string) list \<Rightarrow> libs" where
  "table_libs tbl =
     \<lparr>parse_graph = (\<lambda>data fmt base. map_option g_copy (map_of (map prod.swap tbl) data)),
      serialize_graph = (\<lambda>fmt g. map_of tbl g),
      canonical_nt = (\<lambda>g. str_of_nat (length (remdups g))),
      isomorphic = (\<lambda>g h. list_all (\<lambda>t. t \<in> set h) g \<and> list_all (\<lambda>t. t \<in> set g) h),
      lit_lexical = (\<lambda>dt v. v),
      lit_ill_typed = (\<lambda>dt v. False),
      term_n3 = (\<lambda>n. Some (node_str n)),
      parse_query = (\<lambda>q. None),
      run_query = (\<lambda>scope q bindings. Inr (SelectAnswer [])),
      serialize_answer = (\<lambda>fmt a. Inr ''rows''),
      results_json = (\<lambda>s. Some []),
      term_truthy = (\<lambda>n. node_str n \<noteq> ''0'' \<and> node_str n \<noteq> []),
      valid_int = (\<lambda>s. py_int s \<noteq> None),
      sha256_hex = (\<lambda>s. concat (map (\<lambda>c. [hex_digit (ord_of c div 16), hex_digit (ord_of c mod 16)]) s))\<rparr>"

definition table_ok :: "(graph \<times> string) list \<Rightarrow> bool" where
  "table_ok tbl \<longleftrightarrow> distinct (map snd tbl)
     \<and> list_all (\<lambda>(g, t). list_all (\<lambda>c. ord_of c < 128 \<and> ord_of c \<noteq> 13) t) tbl"

lemma utf8_encode_ascii: "list_all (\<lambda>c. ord_of c < 128) t \<Longrightarrow> utf8_encode t = t"
  by (induction t) auto

lemma map_of_swap:
  assumes "distinct (map snd tbl)" and "map_of tbl g = Some t"
  shows "map_of (map prod.swap tbl) t = Some g"
proof (rule map_of_is_SomeI)
  show "distinct (map fst (map prod.swap tbl))" using assms(1) by (simp add: comp_def)
  show "(t, g) \<in> set (map prod.swap tbl)"
    using map_of_SomeD [OF assms(2)] by force
qed

lemma turtle_roundtrip_table: "table_ok tbl \<Longrightarrow> turtle_roundtrip (table_libs tbl)"
  unfolding turtle_roundtrip_def
proof (intro allI impI)
  fix g t base
  assume ok: "table_ok tbl" and s: "serialize_graph (table_libs tbl) ''turtle'' g = Some t"
  then have m: "map_of tbl g = Some t" by (simp add: table_libs_def)
  then have "(g, t) \<in> set tbl" by (rule map_of_SomeD)
  with ok have t: "list_all (\<lambda>c. ord_of c < 128 \<and> ord_of c \<noteq> 13) t"
    by (auto simp: table_ok_def list_all_iff)
  then have "utf8_encode t = t" by (intro utf8_encode_ascii) (simp add: list_all_iff)
  then have "parse_graph (table_libs tbl) (utf8_encode t) ''turtle'' base = Some (g_copy g)"
    using ok m by (simp add: table_libs_def table_ok_def map_of_swap)
  moreover have "graph_iso g (g_copy g)" by (rule graph_iso_set_eq) simp
  ultimately show "(\<forall>c\<in>set t. ord_of c \<noteq> 13) \<and>
      (\<exists>h. parse_graph (table_libs tbl) (utf8_encode t) ''turtle'' base = Some h \<and> distinct h \<and> graph_iso g h)"
    using t by (auto simp: list_all_iff)
qed

lemma rename_triple_inject:
  assumes "inj f" and "rename_triple f t = rename_triple f u"
  shows "t = u"
proof -
  have r: "rename_node f x = rename_node f y \<Longrightarrow> x = y" for x y
    using assms(1) by (cases x; cases y) (simp_all add: inj_eq)
  have e: "rename_node f (fst t) = rename_node f (fst u)"
    "rename_node f (fst (snd t)) = rename_node f (fst (snd u))"
    "rename_node f (snd (snd t)) = rename_node f (snd (snd u))"
    using assms(2) by (simp_all add: rename_triple_def)
  from r [OF e(1)] r [OF e(2)] r [OF e(3)] show ?thesis by (simp add: prod_eq_iff)
qed

lemma etag_invariant_table: "etag_invariant (table_libs tbl)"
  unfolding etag_invariant_def
proof (intro allI impI)
  fix g h assume "graph_iso g h"
  then obtain f where f: "inj f" "set h = rename_triple f ` set g" by (auto simp: graph_iso_def)
  have "inj_on (rename_triple f) (set g)"
    using rename_triple_inject [OF f(1)] by (auto intro: inj_onI)
  then have "card (set h) = card (set g)" by (simp add: f(2) card_image)
  then show "canonical_nt (table_libs tbl) g = canonical_nt (table_libs tbl) h"
    by (simp add: table_libs_def length_remdups_card_conv)
qed

lemma integer_lexical_table: "integer_lexical (table_libs tbl)"
  by (simp add: integer_lexical_def table_libs_def)

lemma string_lexical_table: "string_lexical (table_libs tbl)"
  by (simp add: string_lexical_def table_libs_def)

lemma is_hex_hex_digit: "n < 16 \<Longrightarrow> is_hex (hex_digit n)"
  by (simp add: is_hex_def hex_digit_def is_digit_def)

lemma digest_hex_table: "digest_hex (table_libs tbl)"
proof -
  have "is_hex (hex_digit (ord_of c div 16)) \<and> is_hex (hex_digit (ord_of c mod 16))" for c
    using ord_of_less [of c] by (intro conjI is_hex_hex_digit) linarith+
  then show ?thesis by (simp add: digest_hex_def table_libs_def list_all_iff)
qed

end
