(* ===== verification/LdpTheorems.thy ===== *)
theory LdpTheorems
  imports LdpProps Samples
begin

text \<open>
  The properties of the data plane, each with a witness on a small store: \<open>demo_store\<close> holds
  the root container, a container \<open>c/\<close> with one member, and that member.
\<close>

section \<open>A small store\<close>

definition demo_root_graph :: graph where
  "demo_root_graph = [(URIRef ''b:/'', RDF_type, LDP_BasicContainer)]"

definition demo_c_graph :: graph where
  "demo_c_graph = [(URIRef ''b:/c/'', RDF_type, LDP_BasicContainer),
     (URIRef ''b:/c/'', LDP_contains, URIRef ''b:/c/m'')]"

definition demo_doc_graph :: graph where
  "demo_doc_graph = [(URIRef ''b:/c/m'', URIRef ''p:'', URIRef ''q:'')]"

definition demo_doc2_graph :: graph where
  "demo_doc2_graph = [(URIRef ''b:/c/m'', URIRef ''p:'', URIRef ''q:''),
     (URIRef ''b:/c/m'', URIRef ''p:'', URIRef ''r:'')]"

text \<open>A body that titles the container \<open>c/\<close>, one that claims another member, and its metadata.\<close>

definition demo_title_graph :: graph where
  "demo_title_graph = [(URIRef ''b:/c/'', RDF_type, LDP_BasicContainer),
     (URIRef ''b:/c/'', DC_title, Lit ''t'' None None)]"

definition demo_claim_graph :: graph where
  "demo_claim_graph = [(URIRef ''b:/c/'', LDP_contains, URIRef ''b:/c/z'')]"

definition demo_libs :: libs where
  "demo_libs = table_libs
     [(demo_root_graph, ''r''), (demo_c_graph, ''c''), (demo_doc_graph, ''d''),
      (demo_doc2_graph, ''e''), (demo_title_graph, ''t''), (demo_claim_graph, ''k''),
      (demo_title_graph @ [(URIRef ''b:/c/'', LDP_contains, URIRef ''b:/c/m'')], ''u''),
      (demo_c_graph @ [(URIRef ''b:/c/'', LDP_contains, URIRef ''b:/c/n'')], ''v''),
      (demo_c_graph @ [(URIRef ''b:/c/'', LDP_contains, URIRef ''b:/c/x-01234567'')], ''x''),
      ([(URIRef ''b:/c/'', RDF_type, LDP_BasicContainer)], ''w''),
      (binary_meta ''b:/c/n'' ''image/png'', ''n'')]"

definition demo_store :: backend where
  "demo_store = \<lparr>storage_root = [''s''], backend_base = ''b:/'',
     files = [([''s''], Dir), ([''s'', ''.ttl''], File ''r''), ([''s'', ''c''], Dir),
       ([''s'', ''c'', ''.ttl''], File ''c''), ([''s'', ''c'', ''m.ttl''], File ''d'')],
     contexts = [(''b:/'', demo_root_graph), (''b:/c/'', demo_c_graph), (''b:/c/m'', demo_doc_graph)]\<rparr>"

lemma demo_libs_laws: "turtle_roundtrip demo_libs" "etag_invariant demo_libs"
proof -
  show "turtle_roundtrip demo_libs"
    unfolding demo_libs_def by (rule turtle_roundtrip_table) code_simp
  show "etag_invariant demo_libs"
    unfolding demo_libs_def by (rule etag_invariant_table)
qed

lemma demo_names: "container_path ''c/''" "plain_name ''m''" "plain_name ''n''"
    "backend_base demo_store = ''b:/''"
  by code_simp+

lemma ok_pair: "is_ok (fst p) \<Longrightarrow> \<exists>r b. p = (Inr r, b)"
  by (cases p; cases "fst p") auto


section \<open>Preconditions and entity tags\<close>

lemma put_resource_rdf:
  "normalize_media_type ct ''application/octet-stream'' \<in> set RDF_CONTENT_TYPES \<Longrightarrow>
   put_resource L b base path body ct im inm = put_rdf_resource L b base path body
     (normalize_media_type ct ''application/octet-stream'') im inm"
  by (simp add: put_resource_def)

lemma put_resource_binary:
  "normalize_media_type ct ''application/octet-stream'' \<notin> set RDF_CONTENT_TYPES \<Longrightarrow>
   put_resource L b base path body ct im inm = put_binary_resource L b base path body
     (normalize_media_type ct ''application/octet-stream'') im inm"
  by (simp add: put_resource_def)

text \<open>An existing RDF document is only replaced by a client that names its present entity tag
  (or \<open>*\<close>): without \<open>If-Match\<close> the answer is 428, with another tag, or with
  \<open>If-None-Match: *\<close>, it is 412, and then nothing is changed.\<close>

theorem put_existing_guarded:
  assumes "normalize_media_type ct ''application/octet-stream'' \<in> set RDF_CONTENT_TYPES"
    and "backend_read b (base @ path) = Inr sg"
  shows "(im = None \<and> inm \<noteq> Some ''*'' \<longrightarrow> put_resource L b base path body ct im inm
        = (Inl (HTTPException 428 (Some ''If-Match required to update an existing resource'') []), b))
    \<and> (im \<noteq> None \<and> im \<noteq> Some ''*'' \<and> im \<noteq> Some (etag_for_graph L sg) \<or> inm = Some ''*'' \<longrightarrow>
        put_resource L b base path body ct im inm = (Inl (HTTPException 412 None []), b))
    \<and> (is_ok (fst (put_resource L b base path body ct im inm)) \<longrightarrow>
        (im = Some ''*'' \<or> im = Some (etag_for_graph L sg)) \<and> inm \<noteq> Some ''*'')"
proof -
  let ?ct = "normalize_media_type ct ''application/octet-stream''"
  have refused: "check_preconditions im inm (Some (etag_for_graph L sg)) True = Inl e \<Longrightarrow>
      put_resource L b base path body ct im inm = (Inl e, b)" for e
    using put_rdf_refused [OF assms(2)] by (simp add: put_resource_rdf [OF assms(1)])
  have "is_ok (fst (put_resource L b base path body ct im inm)) \<Longrightarrow>
      check_preconditions im inm (Some (etag_for_graph L sg)) True = Inr ()"
    using refused by (cases "check_preconditions im inm (Some (etag_for_graph L sg)) True") auto
  then have "is_ok (fst (put_resource L b base path body ct im inm)) \<longrightarrow>
        (im = Some ''*'' \<or> im = Some (etag_for_graph L sg)) \<and> inm \<noteq> Some ''*''"
    by (auto simp: check_preconditions_ok)
  moreover have "im = None \<and> inm \<noteq> Some ''*'' \<longrightarrow> put_resource L b base path body ct im inm
        = (Inl (HTTPException 428 (Some ''If-Match required to update an existing resource'') []), b)"
  proof
    assume "im = None \<and> inm \<noteq> Some ''*''"
    then show "put_resource L b base path body ct im inm
        = (Inl (HTTPException 428 (Some ''If-Match required to update an existing resource'') []), b)"
      by (intro refused) (simp add: check_preconditions_def)
  qed
  moreover have "im \<noteq> None \<and> im \<noteq> Some ''*'' \<and> im \<noteq> Some (etag_for_graph L sg) \<or> inm = Some ''*''
      \<longrightarrow> put_resource L b base path body ct im inm = (Inl (HTTPException 412 None []), b)"
    by (intro impI refused) (auto simp: check_preconditions_def)
  ultimately show ?thesis by blast
qed

lemma put_existing_guarded_witness:
  "put_resource demo_libs demo_store ''b:/'' ''c/m'' ''e'' (Some ''text/turtle'') None None
     = (Inl (HTTPException 428 (Some ''If-Match required to update an existing resource'') []), demo_store)"
proof -
  have 1: "normalize_media_type (Some ''text/turtle'') ''application/octet-stream'' \<in> set RDF_CONTENT_TYPES"
    by code_simp
  have 2: "backend_read demo_store (''b:/'' @ ''c/m'') = Inr demo_doc_graph" by code_simp
  show ?thesis
    using put_existing_guarded [OF 1 2, where im = None and inm = None and body = "''e''"
        and L = demo_libs] by simp
qed

lemma etag_for_graph_iso: "etag_invariant L \<Longrightarrow> graph_iso g h \<Longrightarrow> etag_for_graph L h = etag_for_graph L g"
  by (simp add: etag_for_graph_def etag_invariant_def)

lemma put_rdf_stored:
  assumes p: "put_rdf_resource L b (backend_base b) (P @ w) body ct im inm = (Inr r, b')"
    and P: "container_path P" and w: "plain_name w" and rt: "turtle_roundtrip L"
  shows "\<exists>g0 g h. parse_rdf_body L body (Some ct) (backend_base b @ P @ w) = Inr g0
    \<and> merge_container (backend_base b) (backend_base b @ P @ w)
        (stored_graph b (backend_base b @ P @ w)) g0 = Inr g
    \<and> backend_read b' (backend_base b @ P @ w) = Inr h \<and> graph_iso g h
    \<and> map_of (headers r) ''ETag'' = Some (etag_for_graph L g)"
  using p
proof (cases rule: put_rdf_ok)
  case (1 g0 g b1)
  let ?u = "backend_base b @ P @ w"
  obtain h where h: "backend_read b1 ?u = Inr h" "stored_as L ?u g h"
    using public.read_write [OF 1(4)] by auto
  have b1: "same_config b b1" by (rule backend_write_config [OF 1(4)])
  have "backend_read b' ?u = backend_read b1 ?u"
  proof (cases "stored_graph b ?u = None")
    case True
    then have a: "attach_to_parent L b1 (backend_base b) ?u = (Inr (), b')" using 1(5) by simp
    have "apart b1 (backend_base b @ P) ?u"
      unfolding apart_config [OF b1] by (rule apart_member(2) [OF P w])
    then show ?thesis
      using attach_keeps_separate [OF a] by (simp add: parent_of_plain_name(1) [OF P w])
  qed (use 1(5) in simp)
  with h 1 stored_as_iso [OF h(2) rt] show ?thesis
    by (auto simp: put_response_def plain_response_def)
qed

text \<open>C3. Optimistic concurrency: of two \<open>PUT\<close>s that both name the tag of the same version, the
  second is refused with 412 and changes nothing, unless the first left the tag unchanged. The tag
  the first one answers with is the one that a following \<open>PUT\<close> has to name.\<close>

theorem put_no_lost_update:
  assumes "turtle_roundtrip L" and "etag_invariant L" and "container_path P" and "plain_name w"
    and "normalize_media_type ct ''application/octet-stream'' \<in> set RDF_CONTENT_TYPES"
    and "e \<noteq> ''*''"
    and "put_resource L b (backend_base b) (P @ w) body ct (Some e) None = (Inr r, b1)"
  shows "\<exists>e1 h. map_of (headers r) ''ETag'' = Some e1
    \<and> backend_read b1 (backend_base b @ P @ w) = Inr h \<and> etag_for_graph L h = e1
    \<and> (e1 \<noteq> e \<longrightarrow> put_resource L b1 (backend_base b) (P @ w) body2 ct (Some e) None
          = (Inl (HTTPException 412 None []), b1))"
proof -
  let ?u = "backend_base b @ P @ w"
  let ?ct = "normalize_media_type ct ''application/octet-stream''"
  have p: "put_rdf_resource L b (backend_base b) (P @ w) body ?ct (Some e) None = (Inr r, b1)"
    using assms(7) by (simp add: put_resource_rdf [OF assms(5)])
  from put_rdf_stored [OF p assms(3,4,1)] obtain g h where
    h: "backend_read b1 ?u = Inr h" "graph_iso g h" "map_of (headers r) ''ETag'' = Some (etag_for_graph L g)"
    by blast
  have e: "etag_for_graph L h = etag_for_graph L g" by (rule etag_for_graph_iso [OF assms(2) h(2)])
  have "etag_for_graph L g \<noteq> e \<Longrightarrow> put_rdf_resource L b1 (backend_base b) (P @ w) body2 ?ct (Some e) None
          = (Inl (HTTPException 412 None []), b1)"
    using e assms(6) h(1) by (intro put_rdf_refused [where sg = h]) (auto simp: check_preconditions_def)
  with h e show ?thesis by (auto simp: put_resource_rdf [OF assms(5)])
qed

lemma put_no_lost_update_witness:
  "\<exists>b1. snd (put_resource demo_libs demo_store ''b:/'' ''c/m'' ''e'' (Some ''text/turtle'')
       (Some (etag_for_graph demo_libs demo_doc_graph)) None) = b1
    \<and> put_resource demo_libs b1 ''b:/'' ''c/m'' ''d'' (Some ''text/turtle'')
        (Some (etag_for_graph demo_libs demo_doc_graph)) None = (Inl (HTTPException 412 None []), b1)"
proof -
  let ?e = "etag_for_graph demo_libs demo_doc_graph"
  let ?p = "put_resource demo_libs demo_store ''b:/'' ''c/m'' ''e'' (Some ''text/turtle'') (Some ?e) None"
  let ?r = "put_response True (etag_for_graph demo_libs demo_doc2_graph) ''b:/c/m'' RDF_LINK ALLOW_RDF"
  have "fst ?p = Inr ?r" by code_simp
  then obtain b1 where p: "?p = (Inr ?r, b1)" by (cases ?p) simp
  have ct: "normalize_media_type (Some ''text/turtle'') ''application/octet-stream'' \<in> set RDF_CONTENT_TYPES"
    by code_simp
  have e: "?e \<noteq> ''*''" by code_simp
  have new: "map_of (headers ?r) ''ETag'' = Some (etag_for_graph demo_libs demo_doc2_graph)"
    "etag_for_graph demo_libs demo_doc2_graph \<noteq> ?e"
    by code_simp+
  have "put_resource demo_libs demo_store (backend_base demo_store) (''c/'' @ ''m'') ''e''
      (Some ''text/turtle'') (Some ?e) None = (Inr ?r, b1)"
    using p demo_names(4) by simp
  from put_no_lost_update [OF demo_libs_laws demo_names(1,2) ct e this, of "''d''"] p new show ?thesis
    by (auto simp: demo_names(4))
qed


section \<open>Containment\<close>



text \<open>A body that states other members than the stored ones is refused with 409 and a link to
  the constraints document, and nothing is changed.\<close>

theorem put_containment_conflict:
  assumes "normalize_media_type ct ''application/octet-stream'' \<in> set RDF_CONTENT_TYPES"
    and "backend_read b (base @ path) = Inr sg" and "container_kind sg (base @ path) \<noteq> None"
    and "im = Some ''*'' \<or> im = Some (etag_for_graph L sg)" and "inm \<noteq> Some ''*''"
    and "parse_rdf_body L body (Some (normalize_media_type ct ''application/octet-stream''))
           (base @ path) = Inr g0"
    and "(URIRef (base @ path), LDP_contains, m) \<in> set g0"
    and "((URIRef (base @ path), LDP_contains, n) \<in> set g0)
       \<noteq> ((URIRef (base @ path), LDP_contains, n) \<in> set sg)"
  shows "put_resource L b base path body ct im inm = (Inl (HTTPException 409
    (Some ''PUT must not modify server-managed containment triples'')
    [(''Link'', constrained_by_link base)]), b)"
proof -
  have c: "check_preconditions im inm (Some (etag_for_graph L sg)) True = Inr ()"
    using assms(4,5) by (auto simp: check_preconditions_ok)
  have "m \<in> set (g_objects g0 (Some (URIRef (base @ path))) LDP_contains)"
    using assms(7) by simp
  then have ne: "g_objects g0 (Some (URIRef (base @ path))) LDP_contains \<noteq> []"
    by (metis empty_iff empty_set)
  have "merge_container base (base @ path) (Some sg) g0 = Inl (HTTPException 409
    (Some ''PUT must not modify server-managed containment triples'')
    [(''Link'', constrained_by_link base)])"
    by (rule merge_container_conflict [OF assms(3) ne]) (use assms(8) in blast)
  then show ?thesis
    by (simp add: put_resource_rdf [OF assms(1)] put_rdf_resource_def assms(2,6) c)
qed

lemma put_containment_conflict_witness:
  "put_resource demo_libs demo_store ''b:/'' ''c/'' ''k'' (Some ''text/turtle'') (Some ''*'') None
     = (Inl (HTTPException 409 (Some ''PUT must not modify server-managed containment triples'')
         [(''Link'', constrained_by_link ''b:/'')]), demo_store)"
proof (rule put_containment_conflict [where m = "URIRef ''b:/c/z''" and n = "URIRef ''b:/c/z''"])
  show "normalize_media_type (Some ''text/turtle'') ''application/octet-stream'' \<in> set RDF_CONTENT_TYPES"
    by code_simp
  show "backend_read demo_store (''b:/'' @ ''c/'') = Inr demo_c_graph" by code_simp
  show "container_kind demo_c_graph (''b:/'' @ ''c/'') \<noteq> None" by code_simp
  show "parse_rdf_body demo_libs ''k'' (Some (normalize_media_type (Some ''text/turtle'')
      ''application/octet-stream'')) (''b:/'' @ ''c/'') = Inr demo_claim_graph"
    by code_simp
  show "(URIRef (''b:/'' @ ''c/''), LDP_contains, URIRef ''b:/c/z'') \<in> set demo_claim_graph"
    by code_simp
  show "((URIRef (''b:/'' @ ''c/''), LDP_contains, URIRef ''b:/c/z'') \<in> set demo_claim_graph)
      \<noteq> ((URIRef (''b:/'' @ ''c/''), LDP_contains, URIRef ''b:/c/z'') \<in> set demo_c_graph)"
    by code_simp
qed simp_all


section \<open>The parent's listing\<close>








text \<open>A container that has members is not deleted: 409, and nothing is changed.\<close>

theorem delete_nonempty_refused:
  assumes "backend_read b (base @ path) = Inr g" and "container_kind g (base @ path) \<noteq> None"
    and "(URIRef (base @ path), LDP_contains, m) \<in> set g"
  shows "delete_resource L b base path
    = (Inl (HTTPException 409 None [(''Link'', constrained_by_link base)]), b)"
proof -
  have "m \<in> set (g_objects g (Some (URIRef (base @ path))) LDP_contains)" using assms(3) by simp
  then have "g_objects g (Some (URIRef (base @ path))) LDP_contains \<noteq> []" by (metis empty_iff empty_set)
  then show ?thesis using assms(1,2) by (simp add: delete_resource_def)
qed

lemma delete_nonempty_refused_witness:
  "delete_resource demo_libs demo_store ''b:/'' ''c/''
    = (Inl (HTTPException 409 None [(''Link'', constrained_by_link ''b:/'')]), demo_store)"
proof (rule delete_nonempty_refused)
  show "backend_read demo_store (''b:/'' @ ''c/'') = Inr demo_c_graph" by code_simp
  show "container_kind demo_c_graph (''b:/'' @ ''c/'') \<noteq> None" by code_simp
  show "(URIRef (''b:/'' @ ''c/''), LDP_contains, URIRef ''b:/c/m'') \<in> set demo_c_graph" by code_simp
qed

section \<open>Minted members\<close>

lemma slug_name_plain:
  assumes "w \<noteq> []" and "\<forall>c\<in>set w. slug_allowed c"
  shows "plain_name w"
proof -
  have chars: "slug_allowed c \<Longrightarrow> c \<noteq> CHR ''/'' \<and> c \<noteq> CHR ''.''" for c
    by (auto simp: slug_allowed_def is_ascii_lower_def is_digit_def ord_of_def)
  then have "CHR ''/'' \<notin> set w" "CHR ''.'' \<notin> set w" using assms(2) by auto
  moreover from this(2) have "w \<notin> {''.'', ''..'', ''.ttl'', ''.meta''}" by auto
  ultimately show ?thesis using assms(1) by (simp add: plain_name_def)
qed

lemma minted_name:
  assumes "\<forall>c\<in>set uuid. slug_allowed c" and "8 \<le> length uuid"
  obtains w where "mint_member_uri uuid container slug = container @ w" "w \<noteq> []" "\<forall>c\<in>set w. slug_allowed c"
proof -
  have u8: "\<forall>c\<in>set (take 8 uuid). slug_allowed c" using assms(1) by (auto dest: in_set_takeD)
  have slug: "\<forall>c\<in>set (sanitize_slug s). slug_allowed c" for s
    using safe_slug_sanitize [of s] by (simp add: safe_slug_def)
  have dash: "slug_allowed CHR ''-''" by (simp add: slug_allowed_def)
  show ?thesis
  proof (cases "\<exists>s. slug = Some s \<and> s \<noteq> [] \<and> sanitize_slug s \<noteq> []")
    case True
    then obtain s where s: "slug = Some s" "s \<noteq> []" "sanitize_slug s \<noteq> []" by blast
    show ?thesis
      by (rule that [of "sanitize_slug s @ ''-'' @ take 8 uuid"])
        (use s slug [of s] u8 dash in \<open>auto simp: mint_member_uri_def\<close>)
  next
    case False
    show ?thesis
      by (rule that [of uuid])
        (use False assms in \<open>auto simp: mint_member_uri_def split: option.splits\<close>)
  qed
qed

text \<open>C36. Whatever the client's \<open>Slug\<close> header says, a minted member URI is the container's
  followed by one path segment of lower-case letters, digits and dashes, so the container is the
  member's parent and no other document's file is named.\<close>

theorem minted_member_stays_inside:
  assumes "\<forall>c\<in>set uuid. slug_allowed c" and "8 \<le> length uuid" and "container_path P"
  shows "\<exists>w. mint_member_uri uuid (base @ P) slug = base @ P @ w \<and> plain_name w
    \<and> (\<forall>c\<in>set w. slug_allowed c) \<and> parent_container_uri (base @ P @ w) base = base @ P"
proof -
  obtain w where "mint_member_uri uuid (base @ P) slug = (base @ P) @ w" "w \<noteq> []" "\<forall>c\<in>set w. slug_allowed c"
    by (rule minted_name [OF assms(1,2)])
  with slug_name_plain [OF this(2,3)] parent_of_plain_name(1) [OF assms(3)] show ?thesis by auto
qed

lemma minted_member_stays_inside_witness:
  "\<exists>w. mint_member_uri ''0123456789abcdef'' ''b:/c/'' (Some ''../.System/x'') = ''b:/c/'' @ w
    \<and> plain_name w"
proof -
  have "\<forall>c\<in>set ''0123456789abcdef''. slug_allowed c" "8 \<le> length ''0123456789abcdef''"
    by code_simp+
  from minted_member_stays_inside [OF this demo_names(1), of "''b:/''" "Some ''../.System/x''"]
  show ?thesis by auto
qed

section \<open>Reserved names\<close>

text \<open>A \<open>PUT\<close> or \<open>DELETE\<close> whose first path segment is reserved fails and changes nothing.\<close>

theorem reserved_names_refused:
  assumes "first_segment (base @ path) (backend_base b) \<in> set RESERVED_SEGMENTS"
  shows "(\<exists>e. put_resource L b base path body ct im inm = (Inl e, b))
    \<and> (\<exists>e. delete_resource L b base path = (Inl e, b))"
proof -
  let ?u = "base @ path"
  have a: "assert_public_uri ?u (backend_base b) = Inl (Storage PrefixViolation)"
    using assms by (simp add: assert_public_uri_def)
  have w: "backend_write L b ?u g = (Inl (Storage PrefixViolation), b)"
    "write_binary L b ?u body t = (Inl (Storage PrefixViolation), b)"
    "backend_delete b ?u = (Inl (Storage PrefixViolation), b)" for g t
    using a by (simp_all add: backend_write_def write_binary_def backend_delete_def)
  have "\<exists>e. put_rdf_resource L b base path body t im inm = (Inl e, b)" for t
    by (cases rule: backend_read_cases [of b ?u])
      (auto simp: put_rdf_resource_def Let_def w split: sum.splits)
  moreover have "\<exists>e. put_binary_resource L b base path body t im inm = (Inl e, b)" for t
    by (auto simp: put_binary_resource_def Let_def w split: sum.splits exn.splits storage_error.splits)
  ultimately have "\<exists>e. put_resource L b base path body ct im inm = (Inl e, b)"
    unfolding put_resource_def Let_def by (cases "normalize_media_type ct ''application/octet-stream''
      \<in> set RDF_CONTENT_TYPES") (simp_all only: if_True if_False)
  moreover have "\<exists>e. delete_resource L b base path = (Inl e, b)"
    by (cases rule: backend_read_cases [of b ?u]) (auto simp: delete_resource_def Let_def w)
  ultimately show ?thesis by blast
qed

lemma reserved_names_refused_witness:
  "\<exists>e. put_resource demo_libs demo_store ''b:/'' ''.system/tokens/t'' ''d'' (Some ''text/turtle'') None None
     = (Inl e, demo_store)"
proof -
  have "first_segment (''b:/'' @ ''.system/tokens/t'') (backend_base demo_store) \<in> set RESERVED_SEGMENTS"
    by code_simp
  from reserved_names_refused [OF this] show ?thesis by blast
qed

end
