(* ===== verification/Tokens.thy ===== *)
theory Tokens
  imports Backend RdfContent
begin

text \<open>
  Bearer tokens: \<open>ldp_common/tokenrecord.py\<close>, \<open>authentication/tokens_store.py\<close> and
  \<open>authentication/dependencies.py\<close>. The digests and the lookup query are parameters of the
  model (\<open>libs\<close>); what is read off the rows and off the record is modelled in full. Fresh
  random texts (\<open>secrets.token_urlsafe\<close>) are arguments of the operations that draw them.
\<close>

section \<open>The record model\<close>

definition nl :: string where
  "nl = [CHR 0x0A]"

definition EPOCH :: string where
  "EPOCH = ''1970-01-01T00:00:00Z''"

definition POD_SPARQL_PREFIX :: string where
  "POD_SPARQL_PREFIX = ''PREFIX pod: <'' @ POD_iri @ ''>''"

definition LOOKUP_QUERY :: string where
  "LOOKUP_QUERY = POD_SPARQL_PREFIX @ nl
     @ ''SELECT ?tokenUri ?stored ?tokenType WHERE {'' @ nl
     @ ''    ?tokenUri pod:tokenHash ?stored ;'' @ nl
     @ ''              a ?tokenType .'' @ nl
     @ ''    FILTER(str(?stored) = str(?presented))'' @ nl
     @ ''}'' @ nl"

record token_record =
  token_uri :: string
  token_type :: string
  linked_view_uris :: "string list"
  policy_ref :: "string option"
  enforcement_count :: int
  last_used_at :: string

text \<open>
  \<open>hmac.compare_digest\<close> on two texts compares them, and raises where one is not ASCII.
\<close>

definition compare_digest :: "string \<Rightarrow> string \<Rightarrow> (exn, bool) result" where
  "compare_digest a b =
     (if list_all (\<lambda>c. ord_of c < 128) a \<and> list_all (\<lambda>c. ord_of c < 128) b then Inr (a = b)
      else Inl LibraryError)"

type_synonym row = "(string \<times> string) list"

text \<open>
  \<open>match_token_rows\<close>: the two dictionaries the rows fill, then the token URIs in order.
  \<open>types_by_uri\<close> maps a URI to the set of its markers.
\<close>

definition add_row ::
  "(string \<times> string list) list \<times> (string \<times> string) list \<Rightarrow> row
    \<Rightarrow> (string \<times> string list) list \<times> (string \<times> string) list" where
  "add_row acc row = (case acc of (types_by_uri, hash_by_uri) \<Rightarrow>
     (case map_of row ''tokenUri'' of
        None \<Rightarrow> (types_by_uri, hash_by_uri)
      | Some uri \<Rightarrow>
          ((case map_of row ''tokenType'' of
              None \<Rightarrow> types_by_uri
            | Some marker \<Rightarrow> AList.update uri
                (case map_of types_by_uri uri of None \<Rightarrow> [marker] | Some ms \<Rightarrow> List.insert marker ms)
                types_by_uri),
           (case map_of row ''stored'' of
              None \<Rightarrow> hash_by_uri
            | Some stored \<Rightarrow> AList.update uri stored hash_by_uri))))"

fun first_match ::
  "(string \<times> string list) list \<Rightarrow> (string \<times> string) list \<Rightarrow> string \<Rightarrow> node list \<Rightarrow> string list
    \<Rightarrow> (exn, string \<times> node) result" where
  "first_match types_by_uri hash_by_uri presented_hash allowed_types [] = Inl unauthorized"
| "first_match types_by_uri hash_by_uri presented_hash allowed_types (uri # uris) =
     (let next = first_match types_by_uri hash_by_uri presented_hash allowed_types uris in
      case map_of hash_by_uri uri of
        None \<Rightarrow> next
      | Some stored_hash \<Rightarrow> (case compare_digest presented_hash stored_hash of
          Inl e \<Rightarrow> Inl e
        | Inr False \<Rightarrow> next
        | Inr True \<Rightarrow>
            (case find (\<lambda>t. node_str t \<in> set (the (map_of types_by_uri uri))) allowed_types of
               Some t \<Rightarrow> Inr (uri, t)
             | None \<Rightarrow> next)))"

definition match_token_rows ::
  "row list \<Rightarrow> string \<Rightarrow> node list \<Rightarrow> (exn, string \<times> node) result" where
  "match_token_rows rows presented_hash allowed_types =
     (case foldl add_row ([], []) rows of (types_by_uri, hash_by_uri) \<Rightarrow>
        first_match types_by_uri hash_by_uri presented_hash allowed_types
          (sort (map fst types_by_uri)))"

definition token_record_from_graph ::
  "graph \<Rightarrow> string \<Rightarrow> node \<Rightarrow> (exn, token_record) result" where
  "token_record_from_graph g uri ty =
     (let subject = URIRef uri;
          count = g_value g subject POD_enforcementCount;
          views = sort (map node_str (g_objects g (Some subject) POD_linkedView));
          policy = g_value g subject POD_policyRef;
          last_used = g_value g subject POD_lastUsedAt
      in case (case count of None \<Rightarrow> Some 0 | Some c \<Rightarrow> py_int (node_str c)) of
           None \<Rightarrow> Inl (ValueError ''int'')
         | Some n \<Rightarrow> Inr \<lparr>token_uri = uri, token_type = node_str ty, linked_view_uris = views,
             policy_ref = map_option node_str policy, enforcement_count = n,
             last_used_at = (case last_used of None \<Rightarrow> EPOCH | Some v \<Rightarrow> node_str v)\<rparr>)"

section \<open>The storage side (tokens_store.py)\<close>

definition allocate_record_id :: "backend \<Rightarrow> string \<Rightarrow> string \<Rightarrow> (exn, string) result" where
  "allocate_record_id b system_ns record_id =
     (case backend_read b (system_ns @ ''tokens/'' @ record_id) of
        Inl (Storage ResourceNotFound) \<Rightarrow> Inr record_id
      | Inl e \<Rightarrow> Inl e
      | Inr _ \<Rightarrow> Inl (RuntimeError ''could not allocate a unique token record id''))"

definition record_graph ::
  "libs \<Rightarrow> string \<Rightarrow> string \<Rightarrow> string \<Rightarrow> node \<Rightarrow> string list \<Rightarrow> string option \<Rightarrow> graph" where
  "record_graph L system_ns record_id token_hash ty linked name =
     (let subject = URIRef (system_ns @ ''tokens/'' @ record_id) in
      g_adds []
        ([(subject, RDF_type, POD_Token), (subject, RDF_type, ty),
          (subject, POD_tokenHash, typed_lit L (XSD ''string'') token_hash)]
         @ (case name of None \<Rightarrow> []
            | Some n \<Rightarrow> if n = [] then [] else [(subject, DC_title, typed_lit L (XSD ''string'') n)])
         @ map (\<lambda>v. (subject, POD_linkedView, URIRef v)) linked
         @ [(subject, POD_policyRef, URIRef (system_ns @ ''tokens/policies/'' @ record_id)),
            (subject, POD_enforcementCount, typed_lit L (XSD ''integer'') (str_of_int 0)),
            (subject, POD_lastUsedAt, typed_lit L (XSD ''dateTime'') EPOCH)]))"

definition write_record ::
  "libs \<Rightarrow> backend \<Rightarrow> string \<Rightarrow> string \<Rightarrow> string \<Rightarrow> node \<Rightarrow> string list \<Rightarrow> string option
    \<Rightarrow> (exn, string) result \<times> backend" where
  "write_record L b system_ns record_id token_hash ty linked name =
     (let uri = system_ns @ ''tokens/'' @ record_id in
      case write_system L b uri (record_graph L system_ns record_id token_hash ty linked name) of
        (Inl e, b') \<Rightarrow> (Inl e, b')
      | (Inr _, b') \<Rightarrow> (Inr uri, b'))"

definition digest :: "libs \<Rightarrow> string \<Rightarrow> string" where
  "digest L raw = sha256_hex L (utf8_encode raw)"

text \<open>\<open>plaintext\<close> and \<open>record_id\<close> are the two random texts of the call.\<close>

definition issue_token ::
  "libs \<Rightarrow> string \<Rightarrow> string \<Rightarrow> backend \<Rightarrow> string \<Rightarrow> string list \<Rightarrow> node \<Rightarrow> string option
    \<Rightarrow> (exn, string \<times> string) result \<times> backend" where
  "issue_token L plaintext record_id b system_ns linked ty name =
     (case allocate_record_id b system_ns record_id of
        Inl e \<Rightarrow> (Inl e, b)
      | Inr rid \<Rightarrow> (case write_record L b system_ns rid (digest L plaintext) ty linked name of
          (Inl e, b') \<Rightarrow> (Inl e, b')
        | (Inr uri, b') \<Rightarrow> (Inr (plaintext, uri), b')))"

text \<open>\<open>{str(var): str(term) for var, term in row.items()}\<close>\<close>

definition string_rows :: "(string \<times> node) list list \<Rightarrow> row list" where
  "string_rows rows = map (map (\<lambda>(v, n). (v, node_str n))) rows"

definition validate_token_one_of ::
  "libs \<Rightarrow> backend \<Rightarrow> string \<Rightarrow> node list \<Rightarrow> (exn, token_record) result" where
  "validate_token_one_of L b raw_token allowed_types =
     (let presented_hash = digest L raw_token in
      case backend_query L b LOOKUP_QUERY (Some [(''presented'', presented_hash)]) True None of
        Inr (SelectAnswer rows) \<Rightarrow>
          (case match_token_rows (string_rows rows) presented_hash allowed_types of
             Inl e \<Rightarrow> Inl e
           | Inr (uri, matched_type) \<Rightarrow> (case backend_read b uri of
               Inl (Storage ResourceNotFound) \<Rightarrow> Inl unauthorized
             | Inl e \<Rightarrow> Inl e
             | Inr record \<Rightarrow> token_record_from_graph record uri matched_type))
      | _ \<Rightarrow> Inl LibraryError)"

definition validate_token :: "libs \<Rightarrow> backend \<Rightarrow> string \<Rightarrow> node \<Rightarrow> (exn, token_record) result" where
  "validate_token L b raw_token required_type = validate_token_one_of L b raw_token [required_type]"

definition revoke_token :: "backend \<Rightarrow> string \<Rightarrow> (exn, unit) result \<times> backend" where
  "revoke_token b record_uri = delete_system b record_uri"

definition bootstrap_admin_token ::
  "libs \<Rightarrow> backend \<Rightarrow> string \<Rightarrow> string \<Rightarrow> (exn, string) result \<times> backend" where
  "bootstrap_admin_token L b system_ns admin_token =
     write_record L b system_ns ''admin'' (digest L admin_token) POD_AdminToken [] None"

definition bootstrap_engine_token ::
  "libs \<Rightarrow> string \<Rightarrow> backend \<Rightarrow> string \<Rightarrow> string option \<Rightarrow> (exn, string) result \<times> backend" where
  "bootstrap_engine_token L fresh b system_ns engine_token =
     (let plaintext = (case engine_token of Some t \<Rightarrow> t | None \<Rightarrow> fresh) in
      case write_record L b system_ns ''engine'' (digest L plaintext) POD_EngineToken [] None of
        (Inl e, b') \<Rightarrow> (Inl e, b')
      | (Inr _, b') \<Rightarrow> (Inr plaintext, b'))"

section \<open>The dependencies of the routes\<close>

definition get_admin_token ::
  "libs \<Rightarrow> backend \<Rightarrow> string option \<Rightarrow> (exn, token_record) result" where
  "get_admin_token L b authorization = (case require_bearer authorization of
     Inl e \<Rightarrow> Inl e | Inr raw \<Rightarrow> validate_token L b raw POD_AdminToken)"

definition get_storage_token ::
  "libs \<Rightarrow> backend \<Rightarrow> string option \<Rightarrow> (exn, token_record) result" where
  "get_storage_token L b authorization = (case require_bearer authorization of
     Inl e \<Rightarrow> Inl e | Inr raw \<Rightarrow> validate_token_one_of L b raw [POD_AdminToken, POD_EngineToken])"

end
