(* ===== verification/DateTime.thy ===== *)
theory DateTime
  imports Prelude
begin

text \<open>
  \<open>ldp_common/datetime.py\<close> and what it uses of the standard library: the calendar and
  \<open>datetime.fromisoformat\<close> of Python 3.14 (ISO 8601 dates in the calendar and the week form,
  extended and basic, an optional time with a fraction, an optional offset). Texts outside the
  documented formats are refused; the C accelerator of CPython lets some of them pass, such as a
  stray character between the time and the offset.

  A moment is the number of microseconds since 0001-01-01T00:00 of its clock (\<open>micros\<close>); an
  aware \<open>datetime\<close> is compared by its instant, so a parsed value is its instant in UTC.
\<close>

section \<open>The calendar\<close>

definition is_leap :: "int \<Rightarrow> bool" where
  "is_leap y = (y mod 4 = 0 \<and> (y mod 100 \<noteq> 0 \<or> y mod 400 = 0))"

definition days_in_month :: "int \<Rightarrow> int \<Rightarrow> int" where
  "days_in_month y m = (if m = 2 then (if is_leap y then 29 else 28)
     else if m \<in> {4, 6, 9, 11} then 30 else 31)"

definition days_before_year :: "int \<Rightarrow> int" where
  "days_before_year y = (let z = y - 1 in z * 365 + z div 4 - z div 100 + z div 400)"

definition days_before_month :: "int \<Rightarrow> int \<Rightarrow> int" where
  "days_before_month y m = sum_list (map (\<lambda>k. days_in_month y (int k)) [1..<nat m])"

definition ymd2ord :: "int \<Rightarrow> int \<Rightarrow> int \<Rightarrow> int" where
  "ymd2ord y m d = days_before_year y + days_before_month y m + d"

definition valid_date :: "int \<Rightarrow> int \<Rightarrow> int \<Rightarrow> bool" where
  "valid_date y m d = (1 \<le> y \<and> y \<le> 9999 \<and> 1 \<le> m \<and> m \<le> 12 \<and> 1 \<le> d \<and> d \<le> days_in_month y m)"

definition MAXORDINAL :: int where
  "MAXORDINAL = 3652059"

text \<open>The ordinal of the Monday of ISO week 1, and of a day of an ISO week.\<close>

definition isoweek1monday :: "int \<Rightarrow> int" where
  "isoweek1monday y = (let firstday = ymd2ord y 1 1; firstweekday = (firstday + 6) mod 7;
     monday = firstday - firstweekday in if 3 < firstweekday then monday + 7 else monday)"

definition isoweek_ord :: "int \<Rightarrow> int \<Rightarrow> int \<Rightarrow> int option" where
  "isoweek_ord y week day =
     (let first_weekday = ymd2ord y 1 1 mod 7;
          long_year = (first_weekday = 4 \<or> (first_weekday = 3 \<and> is_leap y))
      in if 1 \<le> y \<and> y \<le> 9999 \<and> (0 < week \<and> week < 53 \<or> week = 53 \<and> long_year)
           \<and> 0 < day \<and> day < 8
         then (let n = isoweek1monday y + (week - 1) * 7 + (day - 1)
               in if 1 \<le> n \<and> n \<le> MAXORDINAL then Some n else None)
         else None)"

section \<open>fromisoformat\<close>

text \<open>Exactly \<open>n\<close> decimal digits at the start of a text.\<close>

definition fixed_int :: "nat \<Rightarrow> string \<Rightarrow> int option" where
  "fixed_int n s = (let w = take n s in
     if length w = n \<and> 0 < n \<and> list_all is_digit w
     then Some (foldl (\<lambda>a c. a * 10 + digit_val c) 0 w) else None)"

definition nth_is :: "string \<Rightarrow> nat \<Rightarrow> char \<Rightarrow> bool" where
  "nth_is s k c = (k < length s \<and> s ! k = c)"

definition nth_digit :: "string \<Rightarrow> nat \<Rightarrow> bool" where
  "nth_digit s k = (k < length s \<and> is_digit (s ! k))"

text \<open>Where the date ends: the separator's place, for texts of at least seven characters.\<close>

definition find_separator :: "string \<Rightarrow> nat option" where
  "find_separator s =
     (let n = length s in
      if n = 7 then Some 7
      else if nth_is s 4 CHR ''-'' then
        (if nth_is s 5 CHR ''W'' then
           (if 8 < n \<and> nth_is s 8 CHR ''-'' then
              (if n = 9 then None else if nth_digit s 10 then Some 8 else Some 10)
            else Some 8)
         else Some 10)
      else if nth_is s 4 CHR ''W'' then
        (let idx = 7 + length (takeWhile is_digit (drop 7 s)) in
         if idx < 9 then Some idx else if even idx then Some 7 else Some 8)
      else Some 8)"

text \<open>The date, as an ordinal.\<close>

definition parse_date :: "string \<Rightarrow> int option" where
  "parse_date d =
     (if length d \<notin> {7, 8, 10} then None else
      case fixed_int 4 d of None \<Rightarrow> None | Some year \<Rightarrow>
       (let has_sep = nth_is d 4 CHR ''-''; sep = (if has_sep then 1 else 0); pos = 4 + sep in
        if nth_is d pos CHR ''W'' then
          (case fixed_int 2 (drop (pos + 1) d) of None \<Rightarrow> None | Some week \<Rightarrow>
             (let rest = drop (pos + 3) d in
              if rest = [] then isoweek_ord year week 1
              else if (hd rest = CHR ''-'') \<noteq> has_sep then None
              else (case fixed_int 1 (drop sep rest) of None \<Rightarrow> None
                    | Some day \<Rightarrow> if length (drop sep rest) = 1 then isoweek_ord year week day else None)))
        else
          (case fixed_int 2 (drop pos d) of None \<Rightarrow> None | Some month \<Rightarrow>
             (let rest = drop (pos + 2) d in
              if (take 1 rest = ''-'') \<noteq> has_sep then None
              else (case fixed_int 2 (drop sep rest) of None \<Rightarrow> None
                    | Some day \<Rightarrow> if length (drop sep rest) = 2 \<and> valid_date year month day
                        then Some (ymd2ord year month day) else None)))))"

text \<open>\<open>HH[:MM[:SS]]\<close> or \<open>HH[MM[SS]]\<close>: the components read, and what follows them.\<close>

fun hms :: "nat \<Rightarrow> bool \<Rightarrow> string \<Rightarrow> (int list \<times> string) option" where
  "hms 0 sep s = None"
| "hms (Suc k) sep s = (case fixed_int 2 s of None \<Rightarrow> None | Some v \<Rightarrow>
     (case drop 2 s of
        [] \<Rightarrow> Some ([v], [])
      | c # cs \<Rightarrow>
          if k = 0 then Some ([v], c # cs)
          else if sep \<and> c \<noteq> CHR '':'' then None
          else map_option (\<lambda>(vs, rest). (v # vs, rest)) (hms k sep (if sep then cs else c # cs))))"

definition fraction :: "string \<Rightarrow> int option" where
  "fraction s = (case s of [] \<Rightarrow> Some 0
     | c # ds \<Rightarrow>
         if c \<notin> {CHR ''.'', CHR '',''} \<or> ds = [] \<or> \<not> list_all is_digit ds then None
         else (let w = take 6 ds
               in Some (foldl (\<lambda>a c. a * 10 + digit_val c) 0 w * 10 ^ (6 - length w))))"

definition comp :: "int list \<Rightarrow> nat \<Rightarrow> int" where
  "comp vs k = (if k < length vs then vs ! k else 0)"

definition parse_hms :: "string \<Rightarrow> (int \<times> int \<times> int \<times> int) option" where
  "parse_hms s = (case hms 3 (take 1 (drop 2 s) = '':'') s of None \<Rightarrow> None
     | Some (vs, rest) \<Rightarrow> (case fraction rest of None \<Rightarrow> None
       | Some us \<Rightarrow> Some (comp vs 0, comp vs 1, comp vs 2, us)))"

definition clock_micros :: "int \<Rightarrow> int \<Rightarrow> int \<Rightarrow> int \<Rightarrow> int" where
  "clock_micros h m s us = ((h * 60 + m) * 60 + s) * 1000000 + us"

definition DAY :: int where
  "DAY = 86400000000"

definition parse_offset :: "string \<Rightarrow> int option option" where
  "parse_offset tz = (case tz of
     [] \<Rightarrow> Some None
   | c # w \<Rightarrow>
       if c = CHR ''Z'' \<and> w = [] then Some (Some 0)
       else if length w \<in> {0, 1, 3} then None
       else (case parse_hms w of None \<Rightarrow> None
         | Some (h, m, s, us) \<Rightarrow>
             (let td = clock_micros h m s us in
              if td < DAY then Some (Some (if c = CHR ''-'' then - td else td)) else None)))"

text \<open>The time of day in microseconds (24:00 is the next day's midnight) and the offset.\<close>

definition parse_time :: "string \<Rightarrow> (int \<times> int option) option" where
  "parse_time t =
     (let time = takeWhile (\<lambda>c. c \<notin> set ''+-Z'') t; tz = dropWhile (\<lambda>c. c \<notin> set ''+-Z'') t in
      case parse_hms time of None \<Rightarrow> None
      | Some (h, m, s, us) \<Rightarrow>
          (if \<not> (h < 24 \<or> h = 24 \<and> m = 0 \<and> s = 0 \<and> us = 0) \<or> 60 \<le> m \<or> 60 \<le> s then None
           else (case parse_offset tz of None \<Rightarrow> None
             | Some tzi \<Rightarrow> Some (clock_micros h m s us, tzi))))"

definition fromisoformat :: "string \<Rightarrow> (int \<times> int option) option" where
  "fromisoformat s =
     (if length s < 7 then None else
      case find_separator s of None \<Rightarrow> None
      | Some k \<Rightarrow> (case parse_date (take k s) of None \<Rightarrow> None
        | Some ord \<Rightarrow>
            if length s \<le> k then Some ((ord - 1) * DAY, None)
            else (case parse_time (drop (k + 1) s) of None \<Rightarrow> None
              | Some (us, tzi) \<Rightarrow>
                  if MAXORDINAL < ord + us div DAY then None
                  else Some ((ord - 1) * DAY + us, tzi))))"

section \<open>datetime.py\<close>

definition UNIX_EPOCH :: int where
  "UNIX_EPOCH = (ymd2ord 1970 1 1 - 1) * DAY"

definition parse_xsd_datetime :: "string \<Rightarrow> int option" where
  "parse_xsd_datetime value =
     (let normalized = (if endswith value ''Z'' then butlast value @ ''+00:00'' else value) in
      case fromisoformat normalized of None \<Rightarrow> None
      | Some (local, None) \<Rightarrow> Some local
      | Some (local, Some offset) \<Rightarrow> Some (local - offset))"

end
