(* ===== verification/SystemRouter.thy ===== *)
theory SystemRouter
  imports Tokens LdpRouter DateTime
begin

text \<open>
  The management surface: \<open>authentication/router.py\<close> (grants, policies, browsing, revocation)
  and \<open>storage/router.py\<close> (the view engine's conditional writes and the access log). Every
  handler takes the \<open>Authorization\<close> header and resolves its token first, as the dependency of
  its route does; \<open>base\<close> is \<open>settings.base_uri\<close>.
\<close>

section \<open>Grants (authentication/router.py)\<close>

definition turtle_reply :: "nat \<Rightarrow> (string \<times> string) list \<Rightarrow> string \<Rightarrow> response" where
  "turtle_reply st hs body =
     \<lparr>status_code = st, headers = hs, media_type = Some ''text/turtle'', content = body\<rparr>"

definition issue_grant ::
  "libs \<Rightarrow> string \<Rightarrow> string \<Rightarrow> backend \<Rightarrow> string \<Rightarrow> string option \<Rightarrow> string \<Rightarrow> string option
    \<Rightarrow> outcome \<times> backend" where
  "issue_grant L plaintext record_id b base authorization body content_type =
     (case get_admin_token L b authorization of Inl e \<Rightarrow> (Inl e, b)
      | Inr _ \<Rightarrow>
       (case parse_rdf_body L body content_type (make_system_ns base @ ''tokens/'') of
          Inl e \<Rightarrow> (Inl e, b)
        | Inr g \<Rightarrow>
           (let linked = sort (map node_str (g_objects g None POD_linkedView));
                name = (case g_objects g None DC_title of [] \<Rightarrow> None | t # _ \<Rightarrow> Some (node_str t))
            in case issue_token L plaintext record_id b (make_system_ns base) linked
                      POD_ConsumerToken name of
                 (Inl e, b1) \<Rightarrow> (Inl e, b1)
               | (Inr (secret, record_uri), b1) \<Rightarrow>
                   (case backend_read b1 record_uri of Inl e \<Rightarrow> (Inl e, b1)
                    | Inr stored \<Rightarrow>
                       (case serialize_graph L ''turtle''
                               (g_add stored (URIRef record_uri, POD_tokenSecret,
                                  typed_lit L (XSD ''string'') secret)) of
                          None \<Rightarrow> (Inl LibraryError, b1)
                        | Some text \<Rightarrow>
                            (Inr (turtle_reply 201 [(''Location'', record_uri)] text), b1))))))"

section \<open>Policies\<close>

definition POLICY_CONSTRAINTS :: "(node \<times> string) list" where
  "POLICY_CONSTRAINTS = [(POD_expiresAt, XSD ''dateTime''), (POD_validFrom, XSD ''dateTime''),
     (POD_validUntil, XSD ''dateTime''), (POD_maxRetrievals, XSD ''integer''),
     (POD_minInterval, XSD ''integer'')]"

text \<open>Whether \<open>_validate_constraint\<close> returns; else it raises \<open>ValueError\<close>.\<close>

definition validate_constraint :: "string \<Rightarrow> string \<Rightarrow> bool" where
  "validate_constraint value datatype =
     (if datatype = XSD ''integer'' then py_int value \<noteq> None else parse_xsd_datetime value \<noteq> None)"

fun canonical_policy ::
  "libs \<Rightarrow> graph \<Rightarrow> node \<Rightarrow> node \<Rightarrow> (node \<times> string) list \<Rightarrow> graph \<Rightarrow> (exn, graph) result" where
  "canonical_policy L g subject canonical_subject [] acc = Inr acc"
| "canonical_policy L g subject canonical_subject ((prop, datatype) # rest) acc =
     (case g_value g subject prop of
        None \<Rightarrow> canonical_policy L g subject canonical_subject rest acc
      | Some v \<Rightarrow>
          if validate_constraint (node_str v) datatype
          then canonical_policy L g subject canonical_subject rest
                 (g_add acc (canonical_subject, prop, typed_lit L datatype (node_str v)))
          else Inl (HTTPException 422
                 (Some (''Invalid value for '' @ node_str prop @ '': '' @ node_str v)) []))"

definition write_policy ::
  "libs \<Rightarrow> backend \<Rightarrow> string \<Rightarrow> string option \<Rightarrow> string \<Rightarrow> string \<Rightarrow> string option
    \<Rightarrow> outcome \<times> backend" where
  "write_policy L b base authorization policy_id body content_type =
     (case get_admin_token L b authorization of Inl e \<Rightarrow> (Inl e, b)
      | Inr _ \<Rightarrow>
       (let policy_uri = make_system_ns base @ ''tokens/policies/'' @ policy_id in
        case parse_rdf_body L body content_type policy_uri of Inl e \<Rightarrow> (Inl e, b)
        | Inr g \<Rightarrow>
           (case g_subjects g RDF_type POD_Policy of
              [subject] \<Rightarrow>
                (case canonical_policy L g subject (URIRef policy_uri) POLICY_CONSTRAINTS
                        [(URIRef policy_uri, RDF_type, POD_Policy)] of
                   Inl e \<Rightarrow> (Inl e, b)
                 | Inr canonical \<Rightarrow>
                    (let finish = (\<lambda>exists. (case write_system L b policy_uri canonical of
                           (Inl e, b1) \<Rightarrow> (Inl e, b1)
                         | (Inr _, b1) \<Rightarrow> (case serialize_graph L ''turtle'' canonical of
                             None \<Rightarrow> (Inl LibraryError, b1)
                           | Some text \<Rightarrow> (Inr (turtle_reply (if exists then 200 else 201)
                               [(''Location'', policy_uri)] text), b1))))
                     in case backend_read b policy_uri of
                          Inr _ \<Rightarrow> finish True
                        | Inl (Storage ResourceNotFound) \<Rightarrow> finish False
                        | Inl e \<Rightarrow> (Inl e, b)))
            | _ \<Rightarrow> (Inl (HTTPException 422
                 (Some ''Body must describe exactly one pod:Policy resource'') []), b))))"

section \<open>Browsing\<close>

definition ENGINE_READABLE_PREFIXES :: "string list" where
  "ENGINE_READABLE_PREFIXES = [''views/'', ''tokens/'']"

definition member_query :: "string \<Rightarrow> string" where
  "member_query class = POD_SPARQL_PREFIX @ '' SELECT ?m WHERE { ?m a pod:'' @ class @ '' }''"

definition CONTAINER_MEMBER_QUERIES :: "(string \<times> string) list" where
  "CONTAINER_MEMBER_QUERIES = [(''views'', member_query ''View''), (''tokens'', member_query ''Token''),
     (''tokens/policies'', member_query ''Policy''), (''access-log'', member_query ''AccessLogEntry'')]"

definition CONTAINER_LINK :: string where
  "CONTAINER_LINK =
     link_header (map node_str [LDP_Resource, LDP_RDFSource, LDP_Container, LDP_BasicContainer])"

definition container_members ::
  "libs \<Rightarrow> backend \<Rightarrow> string \<Rightarrow> string \<Rightarrow> string \<Rightarrow> (exn, string list) result" where
  "container_members L b base key container_uri =
     (if key = []
      then Inr (map (\<lambda>sub. base @ ''.system/'' @ sub @ ''/'') [''views'', ''tokens'', ''access-log''])
      else (case backend_query L b (the (map_of CONTAINER_MEMBER_QUERIES key)) None True None of
         Inr (SelectAnswer rows) \<Rightarrow>
           Inr (filter (\<lambda>m. startswith m container_uri)
                  (map node_str (List.map_filter (\<lambda>row. map_of row ''m'') rows))
                @ (if key = ''tokens'' then [base @ ''.system/tokens/policies/''] else []))
       | _ \<Rightarrow> Inl LibraryError))"

definition synthesize_container :: "libs \<Rightarrow> backend \<Rightarrow> string \<Rightarrow> string \<Rightarrow> outcome" where
  "synthesize_container L b base key =
     (let container_uri = base @ ''.system/'' @ (if key = [] then [] else key @ ''/'');
          subject = URIRef container_uri
      in case container_members L b base key container_uri of Inl e \<Rightarrow> Inl e
         | Inr members \<Rightarrow>
            (case serialize_graph L ''turtle'' (g_adds []
                ([(subject, RDF_type, LDP_Resource), (subject, RDF_type, LDP_RDFSource),
                  (subject, RDF_type, LDP_BasicContainer)]
                 @ map (\<lambda>m. (subject, LDP_contains, URIRef m)) (sort members))) of
               None \<Rightarrow> Inl LibraryError
             | Some text \<Rightarrow> Inr (turtle_reply 200
                 [(''Link'', CONTAINER_LINK), (''Allow'', ''GET, HEAD, OPTIONS'')] text)))"

definition read_system ::
  "libs \<Rightarrow> backend \<Rightarrow> string \<Rightarrow> string option \<Rightarrow> string \<Rightarrow> outcome" where
  "read_system L b base authorization path = (case get_storage_token L b authorization of
     Inl e \<Rightarrow> Inl e
   | Inr token \<Rightarrow>
       if token_type token = node_str POD_EngineToken
          \<and> \<not> list_ex (startswith path) ENGINE_READABLE_PREFIXES
       then Inl (HTTPException 403 None [])
       else
        (let key = rstrip_char CHR ''/'' path in
         if map_of CONTAINER_MEMBER_QUERIES key \<noteq> None \<or> path = []
         then synthesize_container L b base key
         else (case backend_read b (base @ ''.system/'' @ path) of
            Inl e \<Rightarrow> Inl (storage_to_http e)
          | Inr g \<Rightarrow> (case serialize_graph L ''turtle'' g of
              None \<Rightarrow> Inl LibraryError
            | Some text \<Rightarrow> Inr (turtle_reply 200 [(''ETag'', etag_for_graph L g)] text)))))"

definition revoke_system ::
  "libs \<Rightarrow> backend \<Rightarrow> string \<Rightarrow> string option \<Rightarrow> string \<Rightarrow> outcome \<times> backend" where
  "revoke_system L b base authorization path = (case get_admin_token L b authorization of
     Inl e \<Rightarrow> (Inl e, b)
   | Inr _ \<Rightarrow> (case revoke_token b (base @ ''.system/'' @ path) of
       (Inl e, b1) \<Rightarrow> (Inl (storage_to_http e), b1)
     | (Inr _, b1) \<Rightarrow> (Inr (plain_response 204 []), b1)))"

section \<open>The engine's writes (storage/router.py)\<close>

definition TOKEN_ENFORCEMENT_FIELDS :: "node list" where
  "TOKEN_ENFORCEMENT_FIELDS = [POD_enforcementCount, POD_lastUsedAt]"

definition without :: "graph \<Rightarrow> node \<Rightarrow> node list \<Rightarrow> graph" where
  "without g subject enf = g_adds [] (filter (\<lambda>(s, p, q). \<not> (s = subject \<and> p \<in> set enf)) g)"

definition guard_enforcement_put ::
  "libs \<Rightarrow> backend \<Rightarrow> string \<Rightarrow> graph \<Rightarrow> node list \<Rightarrow> string option \<Rightarrow> string option
    \<Rightarrow> (exn, string) result" where
  "guard_enforcement_put L b uri submitted enf if_match if_none_match =
     (case backend_read b uri of
        Inl (Storage ResourceNotFound) \<Rightarrow> Inl (HTTPException 404 None [])
      | Inl e \<Rightarrow> Inl e
      | Inr current \<Rightarrow>
         (let etag = etag_for_graph L current in
          case check_preconditions if_match if_none_match (Some etag) True of Inl e \<Rightarrow> Inl e
          | Inr _ \<Rightarrow>
              if \<not> isomorphic L (without current (URIRef uri) enf)
                                 (without submitted (URIRef uri) enf)
              then Inl (HTTPException 403 (Some ''the engine may modify only enforcement fields'') [])
              else Inr etag))"

definition apply_enforcement_put ::
  "libs \<Rightarrow> backend \<Rightarrow> string \<Rightarrow> graph \<Rightarrow> string \<Rightarrow> outcome \<times> backend" where
  "apply_enforcement_put L b uri submitted expected_etag =
     (case replace_if_unchanged L b uri submitted expected_etag (etag_for_graph L) of
        (Inl e, b1) \<Rightarrow> (Inl e, b1)
      | (Inr ok, b1) \<Rightarrow>
          if \<not> ok then (Inl (HTTPException 412 None []), b1)
          else (Inr (plain_response 200
                  [(''ETag'', etag_for_graph L submitted), (''Location'', uri)]), b1))"

definition enforcement_put ::
  "libs \<Rightarrow> backend \<Rightarrow> string \<Rightarrow> node list \<Rightarrow> string \<Rightarrow> string option \<Rightarrow> string option \<Rightarrow> string option
    \<Rightarrow> outcome \<times> backend" where
  "enforcement_put L b uri enf body content_type if_match if_none_match =
     (case parse_rdf_body L body content_type uri of Inl e \<Rightarrow> (Inl e, b)
      | Inr submitted \<Rightarrow>
         (case guard_enforcement_put L b uri submitted enf if_match if_none_match of
            Inl e \<Rightarrow> (Inl e, b)
          | Inr etag \<Rightarrow> apply_enforcement_put L b uri submitted etag))"

definition put_token_enforcement ::
  "libs \<Rightarrow> backend \<Rightarrow> string \<Rightarrow> string option \<Rightarrow> string \<Rightarrow> string \<Rightarrow> string option \<Rightarrow> string option
    \<Rightarrow> string option \<Rightarrow> outcome \<times> backend" where
  "put_token_enforcement L b base authorization record_id body content_type if_match if_none_match =
     (case get_storage_token L b authorization of Inl e \<Rightarrow> (Inl e, b)
      | Inr _ \<Rightarrow> enforcement_put L b (make_system_ns base @ ''tokens/'' @ record_id)
                   TOKEN_ENFORCEMENT_FIELDS body content_type if_match if_none_match)"

text \<open>The canonical entry: \<open>None\<close> where the body is refused with 422 and the detail given.\<close>

definition canonical_entry :: "libs \<Rightarrow> string \<Rightarrow> graph \<Rightarrow> (exn, graph) result" where
  "canonical_entry L entry_uri submitted =
     (let subject = URIRef entry_uri in
      if list_ex (\<lambda>(s, p, q). s \<noteq> subject) submitted
      then Inl (HTTPException 422 (Some ''entry must describe only the posted member'') [])
      else if (subject, RDF_type, POD_AccessLogEntry) \<notin> set submitted
      then Inl (HTTPException 422 (Some ''body must describe one pod:AccessLogEntry'') [])
      else (case (g_value submitted subject POD_accessLogView,
                  g_value submitted subject POD_accessLogToken,
                  g_value submitted subject POD_accessLogTimestamp) of
         (Some (URIRef view), Some (URIRef token), Some timestamp) \<Rightarrow>
           if parse_xsd_datetime (node_str timestamp) = None
           then Inl (HTTPException 422 (Some ''accessLogTimestamp is not an xsd:dateTime'') [])
           else Inr (g_adds []
             [(subject, RDF_type, POD_AccessLogEntry), (subject, POD_accessLogView, URIRef view),
              (subject, POD_accessLogToken, URIRef token),
              (subject, POD_accessLogTimestamp,
                 typed_lit L (XSD ''dateTime'') (node_str timestamp))])
       | _ \<Rightarrow> Inl (HTTPException 422 (Some ''access-log entry is missing a property'') [])))"

definition append_access_log ::
  "libs \<Rightarrow> string \<Rightarrow> backend \<Rightarrow> string \<Rightarrow> string option \<Rightarrow> string \<Rightarrow> string option \<Rightarrow> outcome \<times> backend"
  where
  "append_access_log L entry_id b base authorization body content_type =
     (case get_storage_token L b authorization of Inl e \<Rightarrow> (Inl e, b)
      | Inr _ \<Rightarrow>
       (let entry_uri = make_system_ns base @ ''access-log/'' @ entry_id in
        case parse_rdf_body L body content_type entry_uri of Inl e \<Rightarrow> (Inl e, b)
        | Inr submitted \<Rightarrow>
           (case canonical_entry L entry_uri submitted of Inl e \<Rightarrow> (Inl e, b)
            | Inr entry \<Rightarrow> (case write_system L b entry_uri entry of
                (Inl e, b1) \<Rightarrow> (Inl e, b1)
              | (Inr _, b1) \<Rightarrow> (Inr (plain_response 201 [(''Location'', entry_uri)]), b1)))))"

end
