(* ===== verification/Views.thy ===== *)
theory Views
  imports SystemRouter
begin

text \<open>
  View definitions: the shared model (\<open>ldp_common/viewmodel.py\<close>), authoring
  (\<open>views/submission.py\<close>) and the management router (\<open>views/router.py\<close>). The labels of the
  blank nodes a call makes, and the random identifier, are arguments.
\<close>

section \<open>The model (viewmodel.py)\<close>

datatype param_type = PStr | PInt | PIri | PDate | PDateTime

definition param_type_name :: "param_type \<Rightarrow> string" where
  "param_type_name t = (case t of PStr \<Rightarrow> ''str'' | PInt \<Rightarrow> ''int'' | PIri \<Rightarrow> ''iri''
     | PDate \<Rightarrow> ''date'' | PDateTime \<Rightarrow> ''dateTime'')"

definition param_type_of :: "string \<Rightarrow> param_type option" where
  "param_type_of s =
     map_of (map (\<lambda>t. (param_type_name t, t)) [PStr, PInt, PIri, PDate, PDateTime]) s"

definition param_datatype :: "param_type \<Rightarrow> string option" where
  "param_datatype t = (case t of PDate \<Rightarrow> Some (XSD ''date'') | PDateTime \<Rightarrow> Some (XSD ''dateTime'')
     | _ \<Rightarrow> None)"

record param_decl =
  param_name :: string
  param_kind :: param_type

definition param_term :: "libs \<Rightarrow> string \<Rightarrow> param_type \<Rightarrow> node" where
  "param_term L value t = (case param_datatype t of
     Some dt \<Rightarrow> typed_lit L dt value
   | None \<Rightarrow> if iri_scheme value then URIRef value else Lit value None None)"

record view_record =
  view_uri :: string
  view_title :: string
  view_description :: string
  construct_template :: string
  content_type_hint :: string
  params :: "param_decl list"

definition value_str :: "graph \<Rightarrow> node \<Rightarrow> node \<Rightarrow> string" where
  "value_str g subject predicate =
     (case g_value g subject predicate of None \<Rightarrow> [] | Some v \<Rightarrow> node_str v)"

text \<open>\<open>ParamDecl.model_validate\<close> of one parameter node: \<open>None\<close> is the \<open>ValidationError\<close>.\<close>

definition param_of_node :: "graph \<Rightarrow> node \<Rightarrow> param_decl option" where
  "param_of_node g pnode = map_option
     (\<lambda>t. \<lparr>param_name = value_str g pnode POD_paramName, param_kind = t\<rparr>)
     (param_type_of (value_str g pnode POD_paramType))"

fun params_of_nodes :: "graph \<Rightarrow> node list \<Rightarrow> param_decl list option" where
  "params_of_nodes g [] = Some []"
| "params_of_nodes g (n # ns) = (case param_of_node g n of None \<Rightarrow> None
     | Some d \<Rightarrow> map_option (Cons d) (params_of_nodes g ns))"

definition parse_view_record :: "graph \<Rightarrow> string \<Rightarrow> (exn, view_record) result" where
  "parse_view_record g uri =
     (let subject = URIRef uri in
      case params_of_nodes g (g_objects g (Some subject) POD_parameter) of
        None \<Rightarrow> Inl (ValueError ''ParamDecl'')
      | Some ps \<Rightarrow> Inr \<lparr>view_uri = uri, view_title = value_str g subject DC_title,
          view_description = value_str g subject DC_description,
          construct_template = value_str g subject POD_constructTemplate,
          content_type_hint = value_str g subject POD_contentTypeHint, params = ps\<rparr>)"

text \<open>The patterns \<open>^[a-zA-Z][a-zA-Z0-9+.-]*:.+\<close> and the characters no IRI holds.\<close>

definition abs_iri :: "string \<Rightarrow> bool" where
  "abs_iri s = (case s of [] \<Rightarrow> False
     | c # cs \<Rightarrow> (is_ascii_lower c \<or> is_ascii_upper c)
         \<and> (case dropWhile is_scheme_char cs of
              d # e # r \<Rightarrow> d = CHR '':'' \<and> ord_of e \<noteq> 10 | _ \<Rightarrow> False))"

definition iri_forbidden :: "string \<Rightarrow> bool" where
  "iri_forbidden s = list_ex (\<lambda>c. ord_of c \<le> 32 \<or> c \<in> set ''<>{}|^`'' \<or> ord_of c = 34 \<or> ord_of c = 92) s"

definition bind_error :: "libs \<Rightarrow> param_decl \<Rightarrow> string \<Rightarrow> string option" where
  "bind_error L d value =
     (case param_kind d of
        PInt \<Rightarrow> if valid_int L value then None
                else Some (''Parameter '' @ py_repr (param_name d) @ '' must be an integer'')
      | PIri \<Rightarrow> if abs_iri value \<and> \<not> iri_forbidden value then None
                else Some (''Parameter '' @ py_repr (param_name d) @ '' must be an absolute IRI, got ''
                       @ py_repr value)
      | PStr \<Rightarrow> None
      | t \<Rightarrow> if lit_ill_typed L (the (param_datatype t)) value
             then Some (''Parameter '' @ py_repr (param_name d) @ '' must be a valid ''
                    @ param_type_name t @ '' value, got '' @ py_repr value)
             else None)"

text \<open>\<open>bound[decl.name] = value\<close>: a second declaration of a name overwrites in place.\<close>

fun bind_loop ::
  "libs \<Rightarrow> (string \<times> string) list \<Rightarrow> param_decl list \<Rightarrow> (string \<times> string) list
    \<Rightarrow> (exn, (string \<times> string) list) result" where
  "bind_loop L raw [] bound = Inr bound"
| "bind_loop L raw (d # ds) bound =
     (case map_of raw (param_name d) of
        None \<Rightarrow> bind_loop L raw ds bound
      | Some value \<Rightarrow> (case bind_error L d value of
          Some msg \<Rightarrow> Inl (ValueError msg)
        | None \<Rightarrow> bind_loop L raw ds (AList.update (param_name d) value bound)))"

definition bind_params ::
  "libs \<Rightarrow> param_decl list \<Rightarrow> (string \<times> string) list \<Rightarrow> (exn, (string \<times> string) list) result" where
  "bind_params L decls raw = bind_loop L raw decls []"

definition binding_datatypes :: "param_decl list \<Rightarrow> (string \<times> string) list" where
  "binding_datatypes decls = foldl (\<lambda>acc d. case param_datatype (param_kind d) of
       None \<Rightarrow> acc | Some dt \<Rightarrow> AList.update (param_name d) dt acc) [] decls"

section \<open>Authoring (submission.py)\<close>

record view_submission =
  sub_title :: string
  sub_description :: string
  sub_template :: string
  sub_hint :: string
  sub_params :: "param_decl list"
  sub_max :: "int option"

definition parse_view_submission :: "graph \<Rightarrow> (exn, view_submission) result" where
  "parse_view_submission g = (case g_subjects g RDF_type POD_View of
     [subject] \<Rightarrow>
       (case g_value g subject DC_title of None \<Rightarrow> Inl (ValueError ''Missing dcterms:title'')
        | Some title \<Rightarrow>
         (case g_value g subject POD_constructTemplate of
            None \<Rightarrow> Inl (ValueError ''Missing pod:constructTemplate'')
          | Some template \<Rightarrow>
           (case params_of_nodes g (g_objects g (Some subject) POD_parameter) of
              None \<Rightarrow> Inl (ValueError ''Invalid parameter declaration: '')
            | Some ps \<Rightarrow>
               (let finish = (\<lambda>m. Inr \<lparr>sub_title = node_str title,
                      sub_description = value_str g subject DC_description,
                      sub_template = node_str template,
                      sub_hint = (case g_value g subject POD_contentTypeHint of
                         None \<Rightarrow> ''text/turtle'' | Some h \<Rightarrow> node_str h),
                      sub_params = ps, sub_max = m\<rparr>)
                in case g_value g subject POD_maxViewRetrievals of None \<Rightarrow> finish None
                   | Some c \<Rightarrow> (case py_int (node_str c) of
                       None \<Rightarrow> Inl (ValueError ''pod:maxViewRetrievals must be an integer'')
                     | Some n \<Rightarrow> finish (Some n))))))
   | _ \<Rightarrow> Inl (ValueError ''Body must describe exactly one pod:View resource''))"

definition validate_construct_template :: "libs \<Rightarrow> string \<Rightarrow> (exn, unit) result" where
  "validate_construct_template L template = (case parse_query L template of
     None \<Rightarrow> Inl (ValueError ''Invalid SPARQL syntax: '')
   | Some q \<Rightarrow>
       if query_name q \<noteq> ''ConstructQuery''
       then Inl (ValueError (''Template must be a CONSTRUCT query, got '' @ py_repr (query_name q)))
       else if dataset_clause q
       then Inl (ValueError ''Template must not carry a FROM / FROM NAMED dataset clause'')
       else Inr ())"

text \<open>\<open>re.findall(r"\?(\w+)", template)\<close>\<close>

function template_vars :: "string \<Rightarrow> string list" where
  "template_vars s = (case s of [] \<Rightarrow> []
     | c # cs \<Rightarrow>
         if c = CHR ''?'' \<and> takeWhile is_word cs \<noteq> []
         then takeWhile is_word cs # template_vars (dropWhile is_word cs)
         else template_vars cs)"
  by pat_completeness auto
termination
  by (relation "measure length") (auto simp: le_imp_less_Suc length_dropWhile_le)

declare template_vars.simps [simp del]

definition check_params_against_template ::
  "libs \<Rightarrow> string \<Rightarrow> param_decl list \<Rightarrow> (exn, unit) result" where
  "check_params_against_template L template decls =
     (let missing = find (\<lambda>d. param_name d \<notin> set (template_vars template)) decls;
          names = (case missing of None \<Rightarrow> Inr ()
            | Some d \<Rightarrow> Inl (ValueError (''Declared parameter '' @ py_repr (param_name d)
                              @ '' does not appear in the template'')))
      in if decls = [] then names
         else (case parse_query L template of None \<Rightarrow> Inl LibraryError
           | Some q \<Rightarrow>
               if \<not> has_template q
               then Inl (ValueError (''A parameterized view must use the explicit CONSTRUCT { ... } WHERE { ... } ''
                      @ ''form, not the CONSTRUCT WHERE { ... } shorthand''))
               else names))"

text \<open>\<open>labels\<close> are the labels of the fresh blank nodes, one for each parameter.\<close>

definition param_triples :: "libs \<Rightarrow> node \<Rightarrow> string \<times> param_decl \<Rightarrow> triple list" where
  "param_triples L subject = (\<lambda>(l, d).
     [(subject, POD_parameter, BNode l),
      (BNode l, POD_paramName, typed_lit L (XSD ''string'') (param_name d)),
      (BNode l, POD_paramType, typed_lit L (XSD ''string'') (param_type_name (param_kind d)))])"

definition to_view_graph :: "libs \<Rightarrow> string list \<Rightarrow> string \<Rightarrow> view_submission \<Rightarrow> graph" where
  "to_view_graph L labels uri sub =
     (let subject = URIRef uri; str = typed_lit L (XSD ''string'') in
      g_adds []
        ([(subject, RDF_type, POD_View), (subject, DC_title, str (sub_title sub)),
          (subject, DC_description, str (sub_description sub)),
          (subject, POD_constructTemplate, str (sub_template sub)),
          (subject, POD_contentTypeHint, str (sub_hint sub)),
          (subject, POD_viewRetrievalCount, typed_lit L (XSD ''integer'') (str_of_int 0))]
         @ (case sub_max sub of None \<Rightarrow> []
            | Some n \<Rightarrow> [(subject, POD_maxViewRetrievals, typed_lit L (XSD ''integer'') (str_of_int n))])
         @ concat (map (param_triples L subject) (zip labels (sub_params sub)))))"

section \<open>The management router (views/router.py)\<close>

definition VIEW_ENFORCEMENT_FIELDS :: "node list" where
  "VIEW_ENFORCEMENT_FIELDS = [POD_viewRetrievalCount]"

definition value_error_to_422 :: "exn \<Rightarrow> exn" where
  "value_error_to_422 e = (case e of ValueError s \<Rightarrow> HTTPException 422 (Some s) [] | _ \<Rightarrow> e)"

definition submission_or_422 ::
  "libs \<Rightarrow> string \<Rightarrow> string option \<Rightarrow> string \<Rightarrow> (exn, view_submission) result" where
  "submission_or_422 L body content_type base_uri =
     (case parse_rdf_body L body content_type base_uri of Inl e \<Rightarrow> Inl e
      | Inr g \<Rightarrow> (case parse_view_submission g of Inl e \<Rightarrow> Inl (value_error_to_422 e)
        | Inr sub \<Rightarrow> (case validate_construct_template L (sub_template sub) of
            Inl e \<Rightarrow> Inl (value_error_to_422 e)
          | Inr _ \<Rightarrow> (case check_params_against_template L (sub_template sub) (sub_params sub) of
              Inl e \<Rightarrow> Inl (value_error_to_422 e)
            | Inr _ \<Rightarrow>
                if sub_hint sub \<notin> set RDF_CONTENT_TYPES
                then Inl (HTTPException 422 (Some (''content-type hint must be one of ''
                       @ py_repr_list (sort RDF_CONTENT_TYPES))) [])
                else Inr sub))))"

definition mint_view_id :: "string \<Rightarrow> string option \<Rightarrow> string" where
  "mint_view_id fresh slug = (case slug of None \<Rightarrow> fresh
     | Some s \<Rightarrow> if s \<noteq> [] \<and> sanitize_slug s \<noteq> [] then sanitize_slug s else fresh)"

definition store_view ::
  "libs \<Rightarrow> string list \<Rightarrow> backend \<Rightarrow> nat \<Rightarrow> string \<Rightarrow> view_submission \<Rightarrow> outcome \<times> backend" where
  "store_view L labels b status uri sub =
     (let stored = to_view_graph L labels uri sub in
      case write_system L b uri stored of (Inl e, b1) \<Rightarrow> (Inl e, b1)
      | (Inr _, b1) \<Rightarrow> (case serialize_graph L ''turtle'' stored of
          None \<Rightarrow> (Inl LibraryError, b1)
        | Some text \<Rightarrow> (Inr (turtle_reply status [(''Location'', uri)] text), b1)))"

definition create_view ::
  "libs \<Rightarrow> string list \<Rightarrow> string \<Rightarrow> backend \<Rightarrow> string \<Rightarrow> string option \<Rightarrow> string \<Rightarrow> string option
    \<Rightarrow> string option \<Rightarrow> outcome \<times> backend" where
  "create_view L labels fresh b base authorization body content_type slug =
     (case get_admin_token L b authorization of Inl e \<Rightarrow> (Inl e, b)
      | Inr _ \<Rightarrow>
       (let views_ns = make_system_ns base @ ''views/'' in
        case submission_or_422 L body content_type views_ns of Inl e \<Rightarrow> (Inl e, b)
        | Inr sub \<Rightarrow> store_view L labels b 201 (views_ns @ mint_view_id fresh slug) sub))"

definition replace_view ::
  "libs \<Rightarrow> string list \<Rightarrow> backend \<Rightarrow> string \<Rightarrow> string option \<Rightarrow> string \<Rightarrow> string \<Rightarrow> string option
    \<Rightarrow> string option \<Rightarrow> string option \<Rightarrow> outcome \<times> backend" where
  "replace_view L labels b base authorization view_id body content_type if_match if_none_match =
     (case get_storage_token L b authorization of Inl e \<Rightarrow> (Inl e, b)
      | Inr token \<Rightarrow>
       (let uri = make_system_ns base @ ''views/'' @ view_id in
        if token_type token = node_str POD_EngineToken
        then enforcement_put L b uri VIEW_ENFORCEMENT_FIELDS body content_type if_match if_none_match
        else (case submission_or_422 L body content_type uri of Inl e \<Rightarrow> (Inl e, b)
          | Inr sub \<Rightarrow> (case backend_read b uri of
              Inr _ \<Rightarrow> store_view L labels b 200 uri sub
            | Inl (Storage ResourceNotFound) \<Rightarrow> store_view L labels b 201 uri sub
            | Inl e \<Rightarrow> (Inl e, b)))))"

definition delete_view ::
  "libs \<Rightarrow> backend \<Rightarrow> string \<Rightarrow> string option \<Rightarrow> string \<Rightarrow> outcome \<times> backend" where
  "delete_view L b base authorization view_id =
     (case get_admin_token L b authorization of Inl e \<Rightarrow> (Inl e, b)
      | Inr _ \<Rightarrow> (case delete_system b (make_system_ns base @ ''views/'' @ view_id) of
          (Inl (Storage ResourceNotFound), b1) \<Rightarrow> (Inl (HTTPException 404 None []), b1)
        | (Inl e, b1) \<Rightarrow> (Inl e, b1)
        | (Inr _, b1) \<Rightarrow> (Inr (plain_response 204 []), b1)))"

end
