(* ===== verification/Bindings.thy ===== *)
theory Bindings
  imports Views
begin

text \<open>
  \<open>ldp_view_engine/bindings.py\<close>: where a query's WHERE clause begins, found by a scan that
  knows comments, string literals, IRI references and name tokens, and the injection of a VALUES
  block behind the brace that opens it. \<open>BindingError\<close> is a \<open>ValueError\<close> here, as it is in the
  code.
\<close>

text \<open>The body of a string literal: what follows its closing quote.\<close>

function skip_string :: "string \<Rightarrow> string \<Rightarrow> string" where
  "skip_string quote s = (case s of [] \<Rightarrow> []
     | c # cs \<Rightarrow>
         if c = CHR 0x5C then skip_string quote (drop 1 cs)
         else if startswith s quote then drop (length quote) s
         else skip_string quote cs)"
  by pat_completeness auto
termination
  by (relation "measure (\<lambda>(quote, s). length s)") auto

declare skip_string.simps [simp del]

lemma length_skip_string: "length (skip_string q s) \<le> length s"
proof (induction q s rule: skip_string.induct)
  case (1 q s)
  show ?case
  proof (cases s)
    case (Cons c cs)
    then show ?thesis
      using 1(1) [OF Cons] 1(2) [OF Cons] by (subst skip_string.simps) auto
  qed (simp add: skip_string.simps)
qed

definition quote_at :: "string \<Rightarrow> string" where
  "quote_at s = (if startswith s [CHR 0x27, CHR 0x27, CHR 0x27] \<or> startswith s [CHR 0x22, CHR 0x22, CHR 0x22]
     then take 3 s else take 1 s)"

definition token_start :: "char \<Rightarrow> bool" where
  "token_start c = (is_alpha c \<or> c \<in> set ''_?$:'')"

definition token_char :: "char \<Rightarrow> bool" where
  "token_char c = (is_alnum c \<or> c \<in> set ''_-.:'')"

text \<open>
  The scan: \<open>i\<close> is the index of the first character of \<open>s\<close>; the three results are the first
  brace, the WHERE keyword and the first brace behind it.
\<close>

record where_group =
  first_brace :: "nat option"
  where_at :: "nat option"
  where_brace :: "nat option"

definition see_brace :: "nat \<Rightarrow> where_group \<Rightarrow> where_group" where
  "see_brace i st = st
     \<lparr>first_brace := (if first_brace st = None then Some i else first_brace st),
      where_brace := (if where_at st \<noteq> None \<and> where_brace st = None then Some i else where_brace st)\<rparr>"

definition see_token :: "nat \<Rightarrow> string \<Rightarrow> where_group \<Rightarrow> where_group" where
  "see_token i w st =
     (if where_at st = None \<and> upper w = ''WHERE'' then st\<lparr>where_at := Some i\<rparr> else st)"

text \<open>One round of the loop: what is left of the text, and what was seen.\<close>

definition scan_step :: "nat \<Rightarrow> string \<Rightarrow> where_group \<Rightarrow> string \<times> where_group" where
  "scan_step i s st =
     (let ch = hd s in
      if ch = CHR ''#'' then (dropWhile (\<lambda>c. ord_of c \<noteq> 10) s, st)
      else if ch = CHR 0x27 \<or> ch = CHR 0x22
      then (skip_string (quote_at s) (drop (length (quote_at s)) s), st)
      else if ch = CHR ''<'' then (drop 1 (dropWhile (\<lambda>c. c \<noteq> CHR ''>'') s), st)
      else if ch = CHR ''{'' then (drop 1 s, see_brace i st)
      else if token_start ch
      then (dropWhile token_char (drop 1 s), see_token i (ch # takeWhile token_char (drop 1 s)) st)
      else (drop 1 s, st))"

lemma scan_step_shorter: "s \<noteq> [] \<Longrightarrow> length (fst (scan_step i s st)) < length s"
proof -
  assume "s \<noteq> []"
  then obtain c cs where s: "s = c # cs" by (cases s) auto
  have d: "length (dropWhile P cs) < Suc (length cs)" for P
    by (simp add: le_imp_less_Suc length_dropWhile_le)
  have q: "length (skip_string (quote_at s) (drop (length (quote_at s)) s)) < length s"
  proof -
    have "length (drop (length (quote_at s)) s) < length s"
      by (auto simp: s quote_at_def)
    then show ?thesis using length_skip_string le_less_trans by blast
  qed
  have "ord_of CHR ''#'' \<noteq> 10" by (simp add: ord_of_def)
  then show ?thesis
    using d q by (auto simp: s scan_step_def Let_def intro: le_less_trans [OF diff_le_self])
qed

function scan_loop :: "nat \<Rightarrow> string \<Rightarrow> where_group \<Rightarrow> where_group" where
  "scan_loop i s st =
     (if s = [] then st
      else (case scan_step i s st of (rest, st') \<Rightarrow>
        scan_loop (i + (length s - length rest)) rest st'))"
  by pat_completeness auto
termination
  by (relation "measure (\<lambda>(i, s, st). length s)")
    (auto simp: case_prod_unfold scan_step_shorter)

declare scan_loop.simps [simp del]

definition scan_where_group :: "string \<Rightarrow> where_group" where
  "scan_where_group query =
     scan_loop 0 query \<lparr>first_brace = None, where_at = None, where_brace = None\<rparr>"

definition find_where_keyword :: "string \<Rightarrow> nat option" where
  "find_where_keyword query = where_at (scan_where_group query)"

definition splice :: "string \<Rightarrow> nat \<Rightarrow> string \<Rightarrow> string" where
  "splice query group_open block =
     take (group_open + 1) query @ '' '' @ block @ '' '' @ drop (group_open + 1) query"

definition inject_values_block :: "string \<Rightarrow> string \<Rightarrow> (exn, string) result" where
  "inject_values_block query block = (case where_at (scan_where_group query) of
     None \<Rightarrow> Inl (ValueError ''query has no WHERE clause to bind'')
   | Some _ \<Rightarrow> (case where_brace (scan_where_group query) of
       None \<Rightarrow> Inl (ValueError ''query WHERE clause has no group graph pattern'')
     | Some group_open \<Rightarrow> Inr (splice query group_open block)))"

definition serialize_term :: "libs \<Rightarrow> string \<Rightarrow> param_type \<Rightarrow> (exn, string) result" where
  "serialize_term L value t = (case term_n3 L (param_term L value t) of
     None \<Rightarrow> Inl (ValueError (''value '' @ py_repr value @ '' is not a serializable ''
                @ param_type_name t @ '' term''))
   | Some n3 \<Rightarrow> Inr n3)"

fun serialize_terms ::
  "libs \<Rightarrow> (string \<times> string) list \<Rightarrow> param_decl list \<Rightarrow> (exn, string list) result" where
  "serialize_terms L bound [] = Inr []"
| "serialize_terms L bound (d # ds) =
     (case serialize_term L (the (map_of bound (param_name d))) (param_kind d) of
        Inl e \<Rightarrow> Inl e
      | Inr t \<Rightarrow> (case serialize_terms L bound ds of Inl e \<Rightarrow> Inl e | Inr ts \<Rightarrow> Inr (t # ts)))"

definition values_block ::
  "libs \<Rightarrow> (string \<times> string) list \<Rightarrow> param_decl list \<Rightarrow> (exn, string) result" where
  "values_block L bound decls =
     (let ordered = filter (\<lambda>d. map_of bound (param_name d) \<noteq> None) decls;
          variables = join '' '' (map (\<lambda>d. CHR ''?'' # param_name d) ordered)
      in case serialize_terms L bound ordered of Inl e \<Rightarrow> Inl e
         | Inr ts \<Rightarrow> Inr (''VALUES ('' @ variables @ '') { ('' @ join '' '' ts @ '') }''))"

definition inject_values ::
  "libs \<Rightarrow> string \<Rightarrow> (string \<times> string) list \<Rightarrow> param_decl list \<Rightarrow> (exn, string) result" where
  "inject_values L template bound decls =
     (if bound = [] then Inr template
      else (case values_block L bound decls of Inl e \<Rightarrow> Inl e
        | Inr block \<Rightarrow>
           (let st = scan_where_group template in
            case where_at st of
              None \<Rightarrow> Inl (ValueError ''view template has no WHERE clause to parameterize'')
            | Some w \<Rightarrow> (case where_brace st of
                None \<Rightarrow> Inl (ValueError ''view template WHERE clause has no group graph pattern'')
              | Some group_open \<Rightarrow>
                  if (case first_brace st of None \<Rightarrow> True | Some f \<Rightarrow> w < f)
                  then Inl (ValueError (''CONSTRUCT WHERE shorthand cannot carry parameters; ''
                         @ ''use the explicit CONSTRUCT { ... } WHERE { ... } form''))
                  else (let rewritten = splice template group_open block in
                    case parse_query L rewritten of
                      None \<Rightarrow> Inl (ValueError ''parameterized view template did not parse: '')
                    | Some _ \<Rightarrow> Inr rewritten)))))"

end
