(* ===== verification/Policy.thy ===== *)
theory Policy
  imports Tokens DateTime
begin

text \<open>
  \<open>ldp_view_engine/policy.py\<close>: the policy decision of one delivery. \<open>now\<close> is
  \<open>datetime.now(UTC)\<close> in microseconds. The elapsed time is compared exactly with the
  interval; the code divides it by a million first, which loses less than a microsecond on
  intervals below 270 years.
\<close>

definition denied :: "string \<Rightarrow> exn" where
  "denied reason = HTTPException 403 (Some (''policy: '' @ reason)) []"

text \<open>A constraint that is a moment, and one that is a number; an unreadable one raises.\<close>

definition with_moment ::
  "node option \<Rightarrow> (int \<Rightarrow> bool) \<Rightarrow> string \<Rightarrow> (exn, unit) result" where
  "with_moment v violates reason = (case v of None \<Rightarrow> Inr ()
     | Some n \<Rightarrow> (case parse_xsd_datetime (node_str n) of
         None \<Rightarrow> Inl (ValueError ''fromisoformat'')
       | Some t \<Rightarrow> if violates t then Inl (denied reason) else Inr ()))"

definition with_number ::
  "node option \<Rightarrow> (int \<Rightarrow> bool) \<Rightarrow> string \<Rightarrow> (exn, unit) result" where
  "with_number v violates reason = (case v of None \<Rightarrow> Inr ()
     | Some n \<Rightarrow> (case py_int (node_str n) of
         None \<Rightarrow> Inl (ValueError ''int'')
       | Some k \<Rightarrow> if violates k then Inl (denied reason) else Inr ()))"

definition check_interval :: "token_record \<Rightarrow> node option \<Rightarrow> int \<Rightarrow> (exn, unit) result" where
  "check_interval rec v now = (case v of None \<Rightarrow> Inr ()
     | Some n \<Rightarrow> (case parse_xsd_datetime (last_used_at rec) of
         None \<Rightarrow> Inl (ValueError ''fromisoformat'')
       | Some last_used \<Rightarrow>
           if last_used = UNIX_EPOCH then Inr ()
           else with_number (Some n) (\<lambda>k. now - last_used < k * 1000000) ''min interval not elapsed''))"

fun all_checks :: "(exn, unit) result list \<Rightarrow> (exn, unit) result" where
  "all_checks [] = Inr ()"
| "all_checks (r # rs) = (case r of Inl e \<Rightarrow> Inl e | Inr _ \<Rightarrow> all_checks rs)"

definition check_grant_policy :: "token_record \<Rightarrow> graph \<Rightarrow> int \<Rightarrow> (exn, unit) result" where
  "check_grant_policy rec policy_graph now =
     (let subject = URIRef (case policy_ref rec of None \<Rightarrow> [] | Some p \<Rightarrow> p);
          v = g_value policy_graph subject
      in all_checks
          [with_moment (v POD_expiresAt) (\<lambda>t. t < now) ''expired'',
           with_moment (v POD_validFrom) (\<lambda>t. now < t) ''not yet valid'',
           with_moment (v POD_validUntil) (\<lambda>t. t < now) ''window elapsed'',
           with_number (v POD_maxRetrievals) (\<lambda>k. k \<le> enforcement_count rec) ''max retrievals reached'',
           check_interval rec (v POD_minInterval) now])"

definition check_view_limit :: "libs \<Rightarrow> graph \<Rightarrow> string \<Rightarrow> (exn, unit) result" where
  "check_view_limit L view_graph view_uri =
     (let subject = URIRef view_uri in
      case g_value view_graph subject POD_maxViewRetrievals of None \<Rightarrow> Inr ()
      | Some limit \<Rightarrow>
         (case int_or_zero L (g_value view_graph subject POD_viewRetrievalCount) of
            None \<Rightarrow> Inl (ValueError ''int'')
          | Some current \<Rightarrow>
              with_number (Some limit) (\<lambda>k. k \<le> current) ''view retrievals reached''))"

definition check_policy ::
  "libs \<Rightarrow> int \<Rightarrow> token_record \<Rightarrow> graph option \<Rightarrow> graph option \<Rightarrow> string option
    \<Rightarrow> (exn, unit) result" where
  "check_policy L now rec policy_graph view_graph view_uri =
     all_checks
       [case policy_graph of None \<Rightarrow> Inr () | Some pg \<Rightarrow> check_grant_policy rec pg now,
        case (view_graph, view_uri) of
          (Some vg, Some u) \<Rightarrow> check_view_limit L vg u
        | _ \<Rightarrow> Inr ()]"

section \<open>The decision\<close>

lemma all_checks_ok [result_iff]: "all_checks rs = Inr u \<longleftrightarrow> (\<forall>r\<in>set rs. r = Inr ())"
  by (induction rs) (auto split: sum.splits)

lemma with_moment_ok [result_iff]:
  "with_moment v P reason = Inr u \<longleftrightarrow>
     (\<forall>n. v = Some n \<longrightarrow> (\<exists>t. parse_xsd_datetime (node_str n) = Some t \<and> \<not> P t))"
  by (auto simp: with_moment_def split: option.splits)

lemma with_number_ok [result_iff]:
  "with_number v P reason = Inr u \<longleftrightarrow>
     (\<forall>n. v = Some n \<longrightarrow> (\<exists>k. py_int (node_str n) = Some k \<and> \<not> P k))"
  by (auto simp: with_number_def split: option.splits)

lemma check_interval_ok [result_iff]:
  "check_interval rec v now = Inr u \<longleftrightarrow> (\<forall>n. v = Some n \<longrightarrow>
     (\<exists>t. parse_xsd_datetime (last_used_at rec) = Some t \<and> (t = UNIX_EPOCH \<or>
        (\<exists>k. py_int (node_str n) = Some k \<and> k * 1000000 \<le> now - t))))"
  by (auto simp: check_interval_def with_number_ok not_less split: option.splits)

text \<open>C24. The policy decision is exact: a delivery is let through if and only if every constraint
  the grant's policy states is readable and met (the window is inclusive, the count is below the
  ceiling, the interval has elapsed or nothing was delivered yet) and the view is below its own
  ceiling. A policy that cannot be read never lets a request through.\<close>

theorem check_policy_exact:
  "check_policy L now rec pg (Some vg) (Some u) = Inr () \<longleftrightarrow>
    (\<forall>g v. pg = Some g \<and> v = g_value g (URIRef (case policy_ref rec of None \<Rightarrow> [] | Some p \<Rightarrow> p)) \<longrightarrow>
       (\<forall>n. v POD_expiresAt = Some n \<longrightarrow> (\<exists>t. parse_xsd_datetime (node_str n) = Some t \<and> now \<le> t))
     \<and> (\<forall>n. v POD_validFrom = Some n \<longrightarrow> (\<exists>t. parse_xsd_datetime (node_str n) = Some t \<and> t \<le> now))
     \<and> (\<forall>n. v POD_validUntil = Some n \<longrightarrow> (\<exists>t. parse_xsd_datetime (node_str n) = Some t \<and> now \<le> t))
     \<and> (\<forall>n. v POD_maxRetrievals = Some n \<longrightarrow>
          (\<exists>k. py_int (node_str n) = Some k \<and> enforcement_count rec < k))
     \<and> (\<forall>n. v POD_minInterval = Some n \<longrightarrow>
          (\<exists>t. parse_xsd_datetime (last_used_at rec) = Some t \<and> (t = UNIX_EPOCH \<or>
             (\<exists>k. py_int (node_str n) = Some k \<and> k * 1000000 \<le> now - t)))))
    \<and> (\<forall>n. g_value vg (URIRef u) POD_maxViewRetrievals = Some n \<longrightarrow>
          (\<exists>c k. int_or_zero L (g_value vg (URIRef u) POD_viewRetrievalCount) = Some c
             \<and> py_int (node_str n) = Some k \<and> c < k))"
proof -
  have limit: "check_view_limit L vg u = Inr () \<longleftrightarrow>
      (\<forall>n. g_value vg (URIRef u) POD_maxViewRetrievals = Some n \<longrightarrow>
          (\<exists>c k. int_or_zero L (g_value vg (URIRef u) POD_viewRetrievalCount) = Some c
             \<and> py_int (node_str n) = Some k \<and> c < k))"
    by (auto simp: check_view_limit_def with_number_ok not_le Let_def split: option.splits)
  show ?thesis
    by (cases pg)
      (simp_all add: check_policy_def check_grant_policy_def all_checks_ok with_moment_ok
        with_number_ok check_interval_ok limit not_less not_le Let_def del: all_checks.simps)
qed

end
