(* ===== verification/Client.thy ===== *)
theory Client
  imports Bindings Policy
begin

text \<open>
  \<open>ldp_view_engine/client.py\<close> and \<open>ldp_view_engine/authentication.py\<close>: the HTTP boundary
  between the view engine and its stores. The network is a parameter: an \<open>upstream\<close> answers a
  request and has a state of its own, which the bundled pod instantiates with its own storage
  surface. Errors of the transport itself (no answer) are not modelled.
\<close>

section \<open>Requests\<close>

record request =
  req_method :: string
  req_url :: string
  req_headers :: "(string \<times> string) list"
  req_body :: string

type_synonym 's upstream = "'s \<Rightarrow> request \<Rightarrow> response \<times> 's"

text \<open>Case-insensitive lookup; repeated headers are joined.\<close>

definition header_get :: "(string \<times> string) list \<Rightarrow> string \<Rightarrow> string option" where
  "header_get hs name =
     (case filter (\<lambda>(k, v). lower k = lower name) hs of [] \<Rightarrow> None
      | found \<Rightarrow> Some (join '', '' (map snd found)))"

section \<open>The client's configuration\<close>

text \<open>\<open>base64.b64encode\<close>\<close>

definition b64_char :: "nat \<Rightarrow> char" where
  "b64_char n = (if n < 26 then char_of (65 + n) else if n < 52 then char_of (71 + n)
     else if n < 62 then char_of (n - 4) else if n = 62 then CHR ''+'' else CHR ''/'')"

fun b64encode :: "string \<Rightarrow> string" where
  "b64encode [] = []"
| "b64encode [a] = (let n = ord_of a in [b64_char (n div 4), b64_char (n mod 4 * 16), CHR ''='', CHR ''=''])"
| "b64encode [a, b] = (let n = ord_of a; m = ord_of b in
     [b64_char (n div 4), b64_char (n mod 4 * 16 + m div 16), b64_char (m mod 16 * 4), CHR ''=''])"
| "b64encode (a # b # c # s) = (let n = ord_of a; m = ord_of b; k = ord_of c in
     [b64_char (n div 4), b64_char (n mod 4 * 16 + m div 16), b64_char (m mod 16 * 4 + k div 64),
      b64_char (k mod 64)] @ b64encode s)"

definition with_trailing_slash :: "string \<Rightarrow> string" where
  "with_trailing_slash url = (if endswith url ''/'' then url else url @ ''/'')"

definition auth_headers :: "string \<Rightarrow> string option \<Rightarrow> (string \<times> string) list" where
  "auth_headers scheme credential = (case credential of None \<Rightarrow> []
     | Some c \<Rightarrow> if scheme = ''none'' then []
         else if scheme = ''basic'' then [(''Authorization'', ''Basic '' @ b64encode (utf8_encode c))]
         else [(''Authorization'', ''Bearer '' @ c)])"

record client =
  c_base_uri :: string
  c_state_base :: string
  c_data_base :: string
  c_data_base_uri :: string
  c_state_headers :: "(string \<times> string) list"
  c_data_headers :: "(string \<times> string) list"
  c_state_graph :: string

definition make_client ::
  "string \<Rightarrow> string \<Rightarrow> string option \<Rightarrow> string option \<Rightarrow> string option \<Rightarrow> string option \<Rightarrow> string
    \<Rightarrow> string \<Rightarrow> client" where
  "make_client base_uri state_token state_url data_url data_base_uri data_token data_auth state_graph =
     (let default_data = (case state_url of None \<Rightarrow> base_uri | Some u \<Rightarrow> u) in
      \<lparr>c_base_uri = base_uri,
       c_state_base = with_trailing_slash default_data,
       c_data_base = with_trailing_slash (case data_url of None \<Rightarrow> default_data | Some u \<Rightarrow> u),
       c_data_base_uri = (case data_base_uri of None \<Rightarrow> base_uri | Some u \<Rightarrow> u),
       c_state_headers = [(''Authorization'', ''Bearer '' @ state_token)],
       c_data_headers = auth_headers data_auth (Some (case data_token of None \<Rightarrow> state_token | Some t \<Rightarrow> t)),
       c_state_graph = state_graph\<rparr>)"

definition state_url :: "client \<Rightarrow> string \<Rightarrow> string" where
  "state_url c uri = c_state_base c @ removeprefix uri (c_base_uri c)"

definition data_url :: "client \<Rightarrow> string \<Rightarrow> string" where
  "data_url c uri = c_data_base c @ removeprefix uri (c_data_base_uri c)"

definition state_scoped :: "client \<Rightarrow> string \<Rightarrow> (exn, string) result" where
  "state_scoped c sparql = (case find_where_keyword sparql of
     None \<Rightarrow> Inl (ValueError ''cannot state-scope a query with no WHERE clause'')
   | Some k \<Rightarrow> Inr (take k sparql @ ''FROM <'' @ c_state_graph c @ ''> '' @ drop k sparql))"

section \<open>Reading\<close>

definition get_turtle :: "client \<Rightarrow> string \<Rightarrow> request" where
  "get_turtle c uri = \<lparr>req_method = ''GET'', req_url = state_url c uri,
     req_headers = c_state_headers c @ [(''Accept'', ''text/turtle'')], req_body = []\<rparr>"

definition expect :: "response \<Rightarrow> nat \<Rightarrow> (exn, unit) result" where
  "expect r st = (if status_code r \<noteq> st then Inl (UpstreamError (status_code r)) else Inr ())"

definition parse_text :: "libs \<Rightarrow> response \<Rightarrow> (exn, graph) result" where
  "parse_text L r = (case parse_graph L (utf8_encode (content r)) ''turtle'' None of
     None \<Rightarrow> Inl LibraryError | Some g \<Rightarrow> Inr g)"

definition read_graph ::
  "libs \<Rightarrow> 's upstream \<Rightarrow> client \<Rightarrow> 's \<Rightarrow> string \<Rightarrow> (exn, graph) result \<times> 's" where
  "read_graph L up c s uri = (case up s (get_turtle c uri) of (r, s1) \<Rightarrow>
     (if status_code r = 404 then Inl (UpstreamNotFound uri)
      else (case expect r 200 of Inl e \<Rightarrow> Inl e | Inr _ \<Rightarrow> parse_text L r), s1))"

definition post_query ::
  "'s upstream \<Rightarrow> 's \<Rightarrow> string \<Rightarrow> string \<Rightarrow> string \<Rightarrow> (string \<times> string) list
    \<Rightarrow> (exn, response) result \<times> 's" where
  "post_query up s sparql accept base hs =
     (case up s \<lparr>req_method = ''POST'', req_url = base @ ''sparql'',
           req_headers = hs @ [(''Content-Type'', ''application/sparql-query''), (''Accept'', accept)],
           req_body = utf8_encode sparql\<rparr> of (r, s1) \<Rightarrow>
        (case expect r 200 of Inl e \<Rightarrow> Inl e | Inr _ \<Rightarrow> Inr r, s1))"

definition construct ::
  "libs \<Rightarrow> 's upstream \<Rightarrow> client \<Rightarrow> 's \<Rightarrow> string \<Rightarrow> (exn, graph) result \<times> 's" where
  "construct L up c s sparql =
     (case post_query up s sparql ''text/turtle'' (c_data_base c) (c_data_headers c) of
        (Inl e, s1) \<Rightarrow> (Inl e, s1) | (Inr r, s1) \<Rightarrow> (parse_text L r, s1))"

definition rows_of :: "libs \<Rightarrow> response \<Rightarrow> (exn, row list) result" where
  "rows_of L r = (case results_json L (content r) of None \<Rightarrow> Inl LibraryError | Some rows \<Rightarrow> Inr rows)"

definition select_state ::
  "libs \<Rightarrow> 's upstream \<Rightarrow> client \<Rightarrow> 's \<Rightarrow> string \<Rightarrow> (exn, row list) result \<times> 's" where
  "select_state L up c s sparql =
     (case post_query up s sparql ''application/sparql-results+json'' (c_state_base c) (c_state_headers c) of
        (Inl e, s1) \<Rightarrow> (Inl e, s1) | (Inr r, s1) \<Rightarrow> (rows_of L r, s1))"

definition select_data ::
  "libs \<Rightarrow> 's upstream \<Rightarrow> client \<Rightarrow> 's \<Rightarrow> string \<Rightarrow> (exn, row list) result \<times> 's" where
  "select_data L up c s sparql =
     (case post_query up s sparql ''application/sparql-results+json'' (c_data_base c) (c_data_headers c) of
        (Inl e, s1) \<Rightarrow> (Inl e, s1) | (Inr r, s1) \<Rightarrow> (rows_of L r, s1))"

definition open_binary_stream ::
  "'s upstream \<Rightarrow> client \<Rightarrow> 's \<Rightarrow> string \<Rightarrow> (exn, response) result \<times> 's" where
  "open_binary_stream up c s uri =
     (case up s \<lparr>req_method = ''GET'', req_url = data_url c uri, req_headers = c_data_headers c,
           req_body = []\<rparr> of (r, s1) \<Rightarrow>
        (if status_code r \<noteq> 200
         then (if status_code r = 404 then Inl (UpstreamNotFound uri)
               else Inl (UpstreamError (status_code r)))
         else Inr r, s1))"

section \<open>Writing\<close>

definition read_record_with_etag ::
  "libs \<Rightarrow> 's upstream \<Rightarrow> client \<Rightarrow> 's \<Rightarrow> string \<Rightarrow> (exn, graph \<times> string) result \<times> 's" where
  "read_record_with_etag L up c s uri = (case up s (get_turtle c uri) of (r, s1) \<Rightarrow>
     (if status_code r = 404 then Inl (UpstreamNotFound uri)
      else (case expect r 200 of Inl e \<Rightarrow> Inl e
        | Inr _ \<Rightarrow> (case header_get (headers r) ''ETag'' of
            None \<Rightarrow> Inl (UpstreamError (status_code r))
          | Some etag \<Rightarrow> (case parse_text L r of Inl e \<Rightarrow> Inl e | Inr g \<Rightarrow> Inr (g, etag)))), s1))"

definition conditional_put ::
  "libs \<Rightarrow> 's upstream \<Rightarrow> client \<Rightarrow> 's \<Rightarrow> string \<Rightarrow> graph \<Rightarrow> string \<Rightarrow> (exn, nat) result \<times> 's" where
  "conditional_put L up c s uri g etag = (case serialize_graph L ''turtle'' g of
     None \<Rightarrow> (Inl LibraryError, s)
   | Some text \<Rightarrow>
       (case up s \<lparr>req_method = ''PUT'', req_url = state_url c uri,
             req_headers = c_state_headers c @ [(''Content-Type'', ''text/turtle''), (''If-Match'', etag)],
             req_body = utf8_encode text\<rparr> of (r, s1) \<Rightarrow> (Inr (status_code r), s1)))"

definition bumped_token :: "libs \<Rightarrow> graph \<Rightarrow> node \<Rightarrow> int \<Rightarrow> string \<Rightarrow> graph" where
  "bumped_token L g subject count last_used =
     g_adds (g_remove (g_remove g (Some subject) (Some POD_enforcementCount) None)
               (Some subject) (Some POD_lastUsedAt) None)
       [(subject, POD_enforcementCount, typed_lit L (XSD ''integer'') (str_of_int (count + 1))),
        (subject, POD_lastUsedAt, typed_lit L (XSD ''dateTime'') last_used)]"

definition bumped_view :: "libs \<Rightarrow> graph \<Rightarrow> node \<Rightarrow> int \<Rightarrow> graph" where
  "bumped_view L g subject count =
     g_adds (g_remove g (Some subject) (Some POD_viewRetrievalCount) None)
       [(subject, POD_viewRetrievalCount, typed_lit L (XSD ''integer'') (str_of_int (count + 1)))]"

definition ENFORCEMENT_MAX_RETRIES :: nat where
  "ENFORCEMENT_MAX_RETRIES = 10"

text \<open>
  The loop both bumps share: \<open>counter\<close> is the field counted in, \<open>update\<close> the new version from
  the old one and its count. The two bodies differ in nothing else.
\<close>

fun bump_loop ::
  "nat \<Rightarrow> libs \<Rightarrow> 's upstream \<Rightarrow> client \<Rightarrow> 's \<Rightarrow> string \<Rightarrow> node \<Rightarrow> (graph \<Rightarrow> int \<Rightarrow> graph)
    \<Rightarrow> (exn, unit) result \<times> 's" where
  "bump_loop 0 L up c s uri counter update = (Inl (UpstreamError 412), s)"
| "bump_loop (Suc n) L up c s uri counter update =
     (case read_record_with_etag L up c s uri of (Inl e, s1) \<Rightarrow> (Inl e, s1)
      | (Inr (g, etag), s1) \<Rightarrow>
         (case int_or_zero L (g_value g (URIRef uri) counter) of None \<Rightarrow> (Inl (ValueError ''int''), s1)
          | Some count \<Rightarrow>
             (case conditional_put L up c s1 uri (update g count) etag of (Inl e, s2) \<Rightarrow> (Inl e, s2)
              | (Inr st, s2) \<Rightarrow>
                  if st = 200 then (Inr (), s2)
                  else if st \<noteq> 412 then (Inl (UpstreamError st), s2)
                  else bump_loop n L up c s2 uri counter update)))"

definition bump_token_enforcement ::
  "libs \<Rightarrow> 's upstream \<Rightarrow> client \<Rightarrow> 's \<Rightarrow> string \<Rightarrow> string \<Rightarrow> (exn, unit) result \<times> 's" where
  "bump_token_enforcement L up c s uri last_used =
     bump_loop ENFORCEMENT_MAX_RETRIES L up c s uri POD_enforcementCount
       (\<lambda>g count. bumped_token L g (URIRef uri) count last_used)"

definition bump_view_enforcement ::
  "libs \<Rightarrow> 's upstream \<Rightarrow> client \<Rightarrow> 's \<Rightarrow> string \<Rightarrow> (exn, unit) result \<times> 's" where
  "bump_view_enforcement L up c s uri =
     bump_loop ENFORCEMENT_MAX_RETRIES L up c s uri POD_viewRetrievalCount
       (\<lambda>g count. bumped_view L g (URIRef uri) count)"

definition POD_TTL_PREFIX :: string where
  "POD_TTL_PREFIX = ''@prefix pod: <'' @ POD_iri @ ''> .'' @ nl"

definition access_log_body :: "string \<Rightarrow> string \<Rightarrow> string \<Rightarrow> string" where
  "access_log_body view token timestamp = POD_TTL_PREFIX
     @ ''@prefix xsd: <http://www.w3.org/2001/XMLSchema#> .'' @ nl
     @ ''<> a pod:AccessLogEntry ;'' @ nl
     @ ''   pod:accessLogView <'' @ view @ ''> ;'' @ nl
     @ ''   pod:accessLogToken <'' @ token @ ''> ;'' @ nl
     @ ''   pod:accessLogTimestamp \"'' @ timestamp @ ''\"^^xsd:dateTime .'' @ nl"

definition client_append_access_log ::
  "'s upstream \<Rightarrow> client \<Rightarrow> 's \<Rightarrow> string \<Rightarrow> string \<Rightarrow> string \<Rightarrow> (exn, unit) result \<times> 's" where
  "client_append_access_log up c s view token timestamp =
     (case up s \<lparr>req_method = ''POST'', req_url = c_state_base c @ ''.system/access-log'',
           req_headers = c_state_headers c @ [(''Content-Type'', ''text/turtle'')],
           req_body = utf8_encode (access_log_body view token timestamp)\<rparr> of (r, s1) \<Rightarrow>
        (expect r 201, s1))"

section \<open>Tokens at the engine (authentication.py)\<close>

definition validate_via_storage ::
  "libs \<Rightarrow> 's upstream \<Rightarrow> client \<Rightarrow> 's \<Rightarrow> string \<Rightarrow> node \<Rightarrow> (exn, token_record) result \<times> 's" where
  "validate_via_storage L up c s raw_token required_type =
     (let presented_hash = digest L raw_token in
      case inject_values_block LOOKUP_QUERY
             (''VALUES (?presented) { (\"'' @ presented_hash @ ''\") }'') of
        Inl e \<Rightarrow> (Inl e, s)
      | Inr bound_lookup \<Rightarrow> (case state_scoped c bound_lookup of Inl e \<Rightarrow> (Inl e, s)
        | Inr query \<Rightarrow> (case select_state L up c s query of (Inl e, s1) \<Rightarrow> (Inl e, s1)
          | (Inr rows, s1) \<Rightarrow>
             (case match_token_rows rows presented_hash [required_type] of Inl e \<Rightarrow> (Inl e, s1)
              | Inr (uri, matched_type) \<Rightarrow> (case read_graph L up c s1 uri of
                  (Inl (UpstreamNotFound _), s2) \<Rightarrow> (Inl unauthorized, s2)
                | (Inl e, s2) \<Rightarrow> (Inl e, s2)
                | (Inr record, s2) \<Rightarrow> (token_record_from_graph record uri matched_type, s2))))))"

definition get_engine_token ::
  "libs \<Rightarrow> 's upstream \<Rightarrow> client \<Rightarrow> 's \<Rightarrow> string option \<Rightarrow> node \<Rightarrow> (exn, token_record) result \<times> 's" where
  "get_engine_token L up c s authorization required_type = (case require_bearer authorization of
     Inl e \<Rightarrow> (Inl e, s) | Inr raw \<Rightarrow> validate_via_storage L up c s raw required_type)"

end
