(* ===== verification/Config.thy ===== *)
theory Config
  imports SystemRouter Client
begin

text \<open>
  \<open>ldp_common/config.py\<close>, \<open>run_uvicorn\<close> of \<open>ldp_common/appkit.py\<close>, and the startup of
  the three deployments (\<open>ldp_personal_store/app.py\<close>, \<open>ldp_personal_store/main.py\<close>,
  \<open>ldp_view_engine/app.py\<close>). Settings are read from the environment by pydantic; the record
  holds the values after its validators ran, which \<open>make_settings\<close> applies.
\<close>

section \<open>Settings\<close>

datatype tls_mode = Off | Required | Terminated

record settings =
  base_uri :: string
  root_path :: path
  host :: string
  tls_mode :: tls_mode
  ssl_keyfile :: "string option"
  ssl_certfile :: "string option"
  admin_token :: "string option"
  engine_token :: "string option"
  state_storage_url :: "string option"
  set_state_graph :: string
  data_source_url :: "string option"
  data_source_base_uri :: "string option"
  data_source_token :: "string option"
  data_source_auth :: string

definition ensure_trailing_slash :: "string \<Rightarrow> string" where
  "ensure_trailing_slash v = (if endswith v ''/'' then v else v @ ''/'')"

definition ensure_optional_trailing_slash :: "string option \<Rightarrow> string option" where
  "ensure_optional_trailing_slash v = map_option ensure_trailing_slash v"

definition make_settings :: "settings \<Rightarrow> settings" where
  "make_settings st = st\<lparr>base_uri := ensure_trailing_slash (base_uri st),
     data_source_base_uri := ensure_optional_trailing_slash (data_source_base_uri st)\<rparr>"

definition effective_data_source_url :: "settings \<Rightarrow> string option" where
  "effective_data_source_url st =
     (case data_source_url st of None \<Rightarrow> state_storage_url st | Some u \<Rightarrow> Some u)"

definition effective_data_source_base_uri :: "settings \<Rightarrow> string" where
  "effective_data_source_base_uri st =
     (case data_source_base_uri st of None \<Rightarrow> base_uri st | Some u \<Rightarrow> u)"

definition effective_data_source_token :: "settings \<Rightarrow> string option" where
  "effective_data_source_token st =
     (case data_source_token st of None \<Rightarrow> engine_token st | Some t \<Rightarrow> Some t)"

definition allow_origins :: "string \<Rightarrow> string list" where
  "allow_origins cors_allow_origins =
     (let raw = strip cors_allow_origins in
      if raw = ''*'' then [''*'']
      else map strip (filter (\<lambda>origin. strip origin \<noteq> []) (split_on CHR '','' raw)))"

definition require_admin_token :: "settings \<Rightarrow> (exn, string) result" where
  "require_admin_token st = (case admin_token st of
     None \<Rightarrow> Inl (RuntimeError (''LDP_ADMIN_TOKEN is required: the storage and bundled roles refuse to start ''
               @ ''without it, so a pod never comes up with an absent or default admin token.''))
   | Some t \<Rightarrow> Inr t)"

definition LOOPBACK_HOSTS :: "string list" where
  "LOOPBACK_HOSTS = [''127.0.0.1'', ''::1'', ''localhost'']"

definition check_tls_precondition :: "settings \<Rightarrow> (exn, unit) result" where
  "check_tls_precondition st =
     (if tls_mode st = Off \<and> host st \<notin> set LOOPBACK_HOSTS
      then Inl (RuntimeError (''TLS is required: tls_mode='' @ [CHR 0x27] @ ''off'' @ [CHR 0x27]
             @ '' but host='' @ [CHR 0x27] @ host st @ [CHR 0x27] @ '' is not loopback. ''
             @ ''Set LDP_TLS_MODE to '' @ [CHR 0x27] @ ''required'' @ [CHR 0x27]
             @ '' (uvicorn-native TLS) or '' @ [CHR 0x27] @ ''terminated'' @ [CHR 0x27] @ '' ''
             @ ''(reverse proxy upstream), or bind to 127.0.0.1 / ::1 / localhost.''))
      else Inr ())"

text \<open>\<open>run_uvicorn\<close>: what it hands to uvicorn (the key and the certificate), or the refusal.\<close>

definition run_uvicorn :: "settings \<Rightarrow> (exn, string \<times> string option \<times> string option) result" where
  "run_uvicorn st =
     (if tls_mode st = Required \<and> (ssl_keyfile st = None \<or> ssl_certfile st = None)
      then Inl (RuntimeError (''tls_mode='' @ [CHR 0x27] @ ''required'' @ [CHR 0x27]
             @ '' needs LDP_SSL_KEYFILE and LDP_SSL_CERTFILE so uvicorn ''
             @ ''can terminate TLS; set both, or use tls_mode='' @ [CHR 0x27] @ ''terminated'' @ [CHR 0x27]
             @ '' behind a TLS-terminating reverse proxy.''))
      else Inr (host st, ssl_keyfile st, ssl_certfile st))"

section \<open>Startup\<close>

text \<open>
  What the storage and the bundled role do to the backend before the first request. \<open>disk\<close> is
  the file tree found at startup, \<open>fresh\<close> the engine token drawn when none is configured.
\<close>

definition open_store :: "libs \<Rightarrow> settings \<Rightarrow> (path \<times> fnode) list \<Rightarrow> (exn, backend) result" where
  "open_store L st disk = backend_init L (root_path st) (base_uri st) disk"

definition boot_store ::
  "libs \<Rightarrow> string \<Rightarrow> settings \<Rightarrow> (path \<times> fnode) list \<Rightarrow> (exn, string \<times> backend) result" where
  "boot_store L fresh st disk =
     (case open_store L st disk of Inl e \<Rightarrow> Inl e
      | Inr b0 \<Rightarrow> (case init_root_container L b0 (base_uri st) of (Inl e, _) \<Rightarrow> Inl e
        | (Inr _, b1) \<Rightarrow> (case require_admin_token st of Inl e \<Rightarrow> Inl e
          | Inr admin \<Rightarrow>
             (case bootstrap_admin_token L b1 (make_system_ns (base_uri st)) admin of (Inl e, _) \<Rightarrow> Inl e
              | (Inr _, b2) \<Rightarrow>
                 (case bootstrap_engine_token L fresh b2 (make_system_ns (base_uri st)) (engine_token st) of
                    (Inl e, _) \<Rightarrow> Inl e
                  | (Inr plaintext, b3) \<Rightarrow> Inr (plaintext, b3))))))"

definition storage_lifespan ::
  "libs \<Rightarrow> string \<Rightarrow> settings \<Rightarrow> (path \<times> fnode) list \<Rightarrow> (exn, backend) result" where
  "storage_lifespan L fresh st disk = (case check_tls_precondition st of Inl e \<Rightarrow> Inl e
     | Inr _ \<Rightarrow> map_sum (\<lambda>e. e) snd (boot_store L fresh st disk))"

definition settings_client :: "settings \<Rightarrow> string \<Rightarrow> client" where
  "settings_client st token = make_client (base_uri st) token (state_storage_url st)
     (effective_data_source_url st) (Some (effective_data_source_base_uri st))
     (effective_data_source_token st) (data_source_auth st) (set_state_graph st)"

definition bundled_lifespan ::
  "libs \<Rightarrow> string \<Rightarrow> settings \<Rightarrow> (path \<times> fnode) list \<Rightarrow> (exn, client \<times> backend) result" where
  "bundled_lifespan L fresh st disk = (case check_tls_precondition st of Inl e \<Rightarrow> Inl e
     | Inr _ \<Rightarrow>
        if state_storage_url st = None \<and> data_source_url st \<noteq> None
        then Inl (RuntimeError ''the bundled pod reaches storage in-process'')
        else (case boot_store L fresh st disk of Inl e \<Rightarrow> Inl e
          | Inr (plaintext, b) \<Rightarrow> Inr (settings_client st plaintext, b)))"

definition engine_lifespan :: "settings \<Rightarrow> (exn, client) result" where
  "engine_lifespan st = (case check_tls_precondition st of Inl e \<Rightarrow> Inl e
     | Inr _ \<Rightarrow> (case state_storage_url st of
         None \<Rightarrow> Inl (RuntimeError ''the engine role requires LDP_STATE_STORAGE_URL'')
       | Some _ \<Rightarrow> (case engine_token st of
           None \<Rightarrow> Inl (RuntimeError ''the engine role requires LDP_ENGINE_TOKEN'')
         | Some token \<Rightarrow> Inr (settings_client st token))))"

end
