(* ===== verification/Engine.thy ===== *)
theory Engine
  imports Config
begin

text \<open>
  The view engine: \<open>ldp_view_engine/rewrite.py\<close>, \<open>stats.py\<close>, \<open>discovery.py\<close> and
  \<open>engine.py\<close>. Every handler takes the upstream and its state, and returns that state also
  when it raises. \<open>now\<close> is the clock the policy reads, \<open>stamp\<close> the text of the clock at the
  end of the delivery, and \<open>label\<close> names the blank nodes a call makes.
\<close>

section \<open>Rewriting (rewrite.py)\<close>

definition RESOURCE_URIS_QUERY :: string where
  "RESOURCE_URIS_QUERY = ''SELECT DISTINCT ?r WHERE { ?r ?p ?o }''"

text \<open>\<open>urllib.parse.quote(s, safe="")\<close>\<close>

definition unreserved :: "char \<Rightarrow> bool" where
  "unreserved c = (is_ascii_lower c \<or> is_ascii_upper c \<or> is_digit c \<or> c \<in> set ''_.-~'')"

definition upper_hex :: "nat \<Rightarrow> char" where
  "upper_hex n = (if n < 10 then char_of (48 + n) else char_of (55 + n))"

definition quote :: "string \<Rightarrow> string" where
  "quote s = concat (map (\<lambda>c. if unreserved c then [c]
     else [CHR ''%'', upper_hex (ord_of c div 16), upper_hex (ord_of c mod 16)]) (utf8_encode s))"

definition term_candidates :: "graph \<Rightarrow> string \<Rightarrow> string list" where
  "term_candidates g data_source_base =
     remdups (filter (\<lambda>u. startswith u data_source_base)
       (concat (map (\<lambda>(s, p, q). (case s of URIRef u \<Rightarrow> [u] | _ \<Rightarrow> []) @ (case q of URIRef u \<Rightarrow> [u] | _ \<Rightarrow> [])) g)))"

definition proxy_pairs :: "string \<Rightarrow> (string \<times> string) list \<Rightarrow> (string \<times> string) list" where
  "proxy_pairs uri bound = foldl (\<lambda>acc (k, v). AList.update k v acc) [(''uri'', uri)] bound"

definition proxy_url :: "string \<Rightarrow> string \<Rightarrow> (string \<times> string) list \<Rightarrow> string \<Rightarrow> string" where
  "proxy_url engine_base view_id bound uri = engine_base @ ''blob/'' @ view_id @ ''?''
     @ join ''&'' (map (\<lambda>(k, v). quote k @ ''='' @ quote v) (proxy_pairs uri bound))"

definition remap :: "(string \<Rightarrow> string option) \<Rightarrow> node \<Rightarrow> node" where
  "remap m n = (case n of URIRef u \<Rightarrow> (case m u of None \<Rightarrow> n | Some v \<Rightarrow> URIRef v) | _ \<Rightarrow> n)"

definition rewrite_graph :: "(string \<Rightarrow> string option) \<Rightarrow> graph \<Rightarrow> graph" where
  "rewrite_graph m g = g_adds [] (map (\<lambda>(s, p, q). (remap m s, p, remap m q)) g)"

definition rewrite_upstream_uris ::
  "libs \<Rightarrow> 's upstream \<Rightarrow> client \<Rightarrow> 's \<Rightarrow> graph \<Rightarrow> string \<Rightarrow> string \<Rightarrow> string \<Rightarrow> (string \<times> string) list
    \<Rightarrow> (exn, graph) result \<times> 's" where
  "rewrite_upstream_uris L up c s g data_source_base engine_base view_id bound =
     (let candidates = term_candidates g data_source_base in
      if candidates = [] then (Inr g, s)
      else (case select_data L up c s RESOURCE_URIS_QUERY of (Inl e, s1) \<Rightarrow> (Inl e, s1)
        | (Inr rows, s1) \<Rightarrow>
           (let existing = List.map_filter (\<lambda>row. map_of row ''r'') rows;
                m = (\<lambda>u. if u \<in> set candidates \<and> u \<in> set existing
                         then Some (proxy_url engine_base view_id bound u) else None)
            in (Inr (rewrite_graph m g), s1))))"

section \<open>The pipeline (engine.py)\<close>

definition load_view ::
  "libs \<Rightarrow> 's upstream \<Rightarrow> client \<Rightarrow> 's \<Rightarrow> string \<Rightarrow> (exn, graph \<times> view_record) result \<times> 's" where
  "load_view L up c s uri = (case read_graph L up c s uri of
     (Inl (UpstreamNotFound _), s1) \<Rightarrow> (Inl (HTTPException 404 None []), s1)
   | (Inl e, s1) \<Rightarrow> (Inl e, s1)
   | (Inr g, s1) \<Rightarrow> (case parse_view_record g uri of
       Inl e \<Rightarrow> (Inl e, s1) | Inr v \<Rightarrow> (Inr (g, v), s1)))"

definition load_policy ::
  "libs \<Rightarrow> 's upstream \<Rightarrow> client \<Rightarrow> 's \<Rightarrow> string option \<Rightarrow> (exn, graph option) result \<times> 's" where
  "load_policy L up c s policy = (case policy of None \<Rightarrow> (Inr None, s)
     | Some p \<Rightarrow> (case read_graph L up c s p of
         (Inl (UpstreamNotFound _), s1) \<Rightarrow> (Inr None, s1)
       | (Inl e, s1) \<Rightarrow> (Inl e, s1)
       | (Inr g, s1) \<Rightarrow> (Inr (Some g), s1)))"

definition record_delivery ::
  "libs \<Rightarrow> 's upstream \<Rightarrow> client \<Rightarrow> 's \<Rightarrow> string \<Rightarrow> string \<Rightarrow> string \<Rightarrow> (exn, unit) result \<times> 's" where
  "record_delivery L up c s token view stamp =
     (case bump_token_enforcement L up c s token stamp of (Inl e, s1) \<Rightarrow> (Inl e, s1)
      | (Inr _, s1) \<Rightarrow> (case bump_view_enforcement L up c s1 view of (Inl e, s2) \<Rightarrow> (Inl e, s2)
        | (Inr _, s2) \<Rightarrow> client_append_access_log up c s2 view token stamp))"

text \<open>
  What both consumer routes do up to the result of the CONSTRUCT: scope, view, parameters,
  policy, query. \<open>guard\<close> is the route's own check of the request, made between scope and view.
\<close>

definition view_pipeline ::
  "libs \<Rightarrow> 's upstream \<Rightarrow> client \<Rightarrow> int \<Rightarrow> 's \<Rightarrow> token_record \<Rightarrow> string \<Rightarrow> (exn, unit) result
    \<Rightarrow> (string \<times> string) list
    \<Rightarrow> (exn, view_record \<times> (string \<times> string) list \<times> graph) result \<times> 's" where
  "view_pipeline L up c now s token view guard query_params =
     (if view \<notin> set (linked_view_uris token) then (Inl (HTTPException 403 None []), s)
      else (case guard of Inl e \<Rightarrow> (Inl e, s)
      | Inr _ \<Rightarrow> (case load_view L up c s view of (Inl e, s1) \<Rightarrow> (Inl e, s1)
      | (Inr (g, v), s1) \<Rightarrow> (case bind_params L (params v) query_params of
          Inl e \<Rightarrow> (Inl (value_error_to_422 e), s1)
      | Inr bound \<Rightarrow> (case load_policy L up c s1 (policy_ref token) of (Inl e, s2) \<Rightarrow> (Inl e, s2)
      | (Inr pg, s2) \<Rightarrow> (case check_policy L now token pg (Some g) (Some view) of Inl e \<Rightarrow> (Inl e, s2)
      | Inr _ \<Rightarrow> (case inject_values L (construct_template v) bound (params v) of
          Inl e \<Rightarrow> (Inl (value_error_to_422 e), s2)
      | Inr query \<Rightarrow> (case construct L up c s2 query of (Inl e, s3) \<Rightarrow> (Inl e, s3)
      | (Inr result, s3) \<Rightarrow> (Inr (v, bound, result), s3)))))))))"

definition get_view ::
  "libs \<Rightarrow> 's upstream \<Rightarrow> client \<Rightarrow> settings \<Rightarrow> int \<Rightarrow> string \<Rightarrow> 's \<Rightarrow> string option \<Rightarrow> string
    \<Rightarrow> (string \<times> string) list \<Rightarrow> outcome \<times> 's" where
  "get_view L up c st now stamp s authorization view_id query_params =
     (case get_engine_token L up c s authorization POD_ConsumerToken of (Inl e, s0) \<Rightarrow> (Inl e, s0)
      | (Inr token, s0) \<Rightarrow>
       (let view = make_system_ns (base_uri st) @ ''views/'' @ view_id in
        case view_pipeline L up c now s0 token view (Inr ()) query_params of (Inl e, s1) \<Rightarrow> (Inl e, s1)
        | (Inr (v, bound, result), s1) \<Rightarrow>
           (case rewrite_upstream_uris L up c s1 result (effective_data_source_base_uri st)
                   (make_engine_ns (base_uri st)) view_id bound of (Inl e, s2) \<Rightarrow> (Inl e, s2)
            | (Inr out, s2) \<Rightarrow>
               (case (case rdflib_format_for (content_type_hint v) of None \<Rightarrow> None
                      | Some fmt \<Rightarrow> serialize_graph L fmt out) of
                  None \<Rightarrow> (Inl LibraryError, s2)
                | Some body \<Rightarrow>
                   (case record_delivery L up c s2 (token_uri token) view stamp of
                      (Inl e, s3) \<Rightarrow> (Inl e, s3)
                    | (Inr _, s3) \<Rightarrow> (Inr \<lparr>status_code = 200, headers = [],
                        media_type = Some (content_type_hint v), content = body\<rparr>, s3))))))"

definition blob_guard :: "settings \<Rightarrow> string option \<Rightarrow> (exn, unit) result" where
  "blob_guard st upstream_uri = (case upstream_uri of None \<Rightarrow> Inl (HTTPException 400 None [])
     | Some u \<Rightarrow>
         if \<not> startswith u (effective_data_source_base_uri st) then Inl (HTTPException 400 None [])
         else if startswith u (make_system_ns (effective_data_source_base_uri st))
         then Inl (HTTPException 400 None [])
         else Inr ())"

definition in_result :: "string \<Rightarrow> graph \<Rightarrow> bool" where
  "in_result u g = list_ex (\<lambda>(s, p, q). s = URIRef u \<or> q = URIRef u) g"

text \<open>The \<open>Content-Type\<close> that the server frames the response with.\<close>

definition wire_content_type :: "response \<Rightarrow> string option" where
  "wire_content_type r = (case header_get (headers r) ''content-type'' of Some t \<Rightarrow> Some t
     | None \<Rightarrow> (case media_type r of None \<Rightarrow> None
        | Some t \<Rightarrow> Some (if startswith t ''text/'' then t @ ''; charset=utf-8'' else t)))"

definition get_blob ::
  "libs \<Rightarrow> 's upstream \<Rightarrow> client \<Rightarrow> settings \<Rightarrow> int \<Rightarrow> string \<Rightarrow> 's \<Rightarrow> string option \<Rightarrow> string
    \<Rightarrow> (string \<times> string) list \<Rightarrow> outcome \<times> 's" where
  "get_blob L up c st now stamp s authorization view_id query_params =
     (case get_engine_token L up c s authorization POD_ConsumerToken of (Inl e, s0) \<Rightarrow> (Inl e, s0)
      | (Inr token, s0) \<Rightarrow>
       (let view = make_system_ns (base_uri st) @ ''views/'' @ view_id;
            uri = map_of query_params ''uri''
        in case view_pipeline L up c now s0 token view (blob_guard st uri) query_params of
             (Inl e, s1) \<Rightarrow> (Inl e, s1)
           | (Inr (v, bound, result), s1) \<Rightarrow>
              (let upstream_uri = the uri in
               if \<not> in_result upstream_uri result then (Inl (HTTPException 404 None []), s1)
               else (case open_binary_stream up c s1 upstream_uri of
                  (Inl (UpstreamNotFound _), s2) \<Rightarrow> (Inl (HTTPException 404 None []), s2)
                | (Inl e, s2) \<Rightarrow> (Inl e, s2)
                | (Inr r, s2) \<Rightarrow>
                   (case record_delivery L up c s2 (token_uri token) view stamp of
                      (Inl e, s3) \<Rightarrow> (Inl e, s3)
                    | (Inr _, s3) \<Rightarrow> (Inr \<lparr>status_code = 200, headers = [],
                        media_type = Some (case wire_content_type r of
                           None \<Rightarrow> ''application/octet-stream'' | Some t \<Rightarrow> t),
                        content = content r\<rparr>, s3))))))"

section \<open>Discovery (discovery.py)\<close>

fun describe_params :: "graph \<Rightarrow> node \<Rightarrow> (nat \<Rightarrow> string) \<Rightarrow> nat \<Rightarrow> param_decl list \<Rightarrow> graph" where
  "describe_params g member label k [] = g"
| "describe_params g member label k (d # ds) =
     describe_params (g_adds g
       [(member, POD_parameter, BNode (label k)),
        (BNode (label k), POD_paramName, Lit (param_name d) None None),
        (BNode (label k), POD_paramType, Lit (param_type_name (param_kind d)) None None)])
       member label (k + 1) ds"

definition describe_member ::
  "libs \<Rightarrow> 's upstream \<Rightarrow> client \<Rightarrow> (nat \<Rightarrow> string) \<Rightarrow> 's \<Rightarrow> graph \<Rightarrow> node \<Rightarrow> string
    \<Rightarrow> (exn, graph) result \<times> 's" where
  "describe_member L up c label s g member uri = (case read_graph L up c s uri of
     (Inl (UpstreamNotFound _), s1) \<Rightarrow> (Inr g, s1)
   | (Inl e, s1) \<Rightarrow> (Inl e, s1)
   | (Inr record, s1) \<Rightarrow> (case parse_view_record record uri of Inl e \<Rightarrow> (Inl e, s1)
      | Inr v \<Rightarrow> (Inr (describe_params (g_adds g
           [(member, RDF_type, POD_View), (member, DC_title, Lit (view_title v) None None),
            (member, DC_description, Lit (view_description v) None None)])
           member label 0 (params v)), s1)))"

definition engine_member :: "settings \<Rightarrow> string \<Rightarrow> node" where
  "engine_member st uri = URIRef (make_engine_ns (base_uri st) @ ''views/''
     @ removeprefix uri (make_system_ns (base_uri st) @ ''views/''))"

fun describe_all ::
  "libs \<Rightarrow> 's upstream \<Rightarrow> client \<Rightarrow> settings \<Rightarrow> (string \<Rightarrow> nat \<Rightarrow> string) \<Rightarrow> 's \<Rightarrow> node \<Rightarrow> graph
    \<Rightarrow> string list \<Rightarrow> (exn, graph) result \<times> 's" where
  "describe_all L up c st label s subject g [] = (Inr g, s)"
| "describe_all L up c st label s subject g (u # us) =
     (let member = engine_member st u in
      case describe_member L up c (label u) s (g_add g (subject, LDP_contains, member)) member u of
        (Inl e, s1) \<Rightarrow> (Inl e, s1)
      | (Inr g1, s1) \<Rightarrow> describe_all L up c st label s1 subject g1 us)"

definition discover ::
  "libs \<Rightarrow> 's upstream \<Rightarrow> client \<Rightarrow> settings \<Rightarrow> (string \<Rightarrow> nat \<Rightarrow> string) \<Rightarrow> 's \<Rightarrow> string option
    \<Rightarrow> outcome \<times> 's" where
  "discover L up c st label s authorization =
     (case get_engine_token L up c s authorization POD_ConsumerToken of (Inl e, s0) \<Rightarrow> (Inl e, s0)
      | (Inr token, s0) \<Rightarrow>
       (let subject = URIRef (make_engine_ns (base_uri st) @ ''discovery'') in
        case describe_all L up c st label s0 subject (g_adds []
               [(subject, RDF_type, LDP_Resource), (subject, RDF_type, LDP_RDFSource),
                (subject, RDF_type, LDP_BasicContainer)]) (linked_view_uris token) of
          (Inl e, s1) \<Rightarrow> (Inl e, s1)
        | (Inr g, s1) \<Rightarrow> (case serialize_graph L ''turtle'' g of None \<Rightarrow> (Inl LibraryError, s1)
           | Some text \<Rightarrow> (Inr (turtle_reply 200
               [(''Link'', CONTAINER_LINK), (''Allow'', ''GET, HEAD, OPTIONS'')] text), s1))))"

section \<open>Statistics (stats.py)\<close>

definition TOTAL_SPARQL :: string where
  "TOTAL_SPARQL = POD_SPARQL_PREFIX
     @ '' SELECT (COUNT(?e) AS ?total) WHERE { ?e a pod:AccessLogEntry }''"

definition BY_VIEW_SPARQL :: string where
  "BY_VIEW_SPARQL = POD_SPARQL_PREFIX @ '' ''
     @ ''SELECT ?view (COUNT(?e) AS ?count) (MAX(?ts) AS ?last) ''
     @ ''WHERE { ?e a pod:AccessLogEntry ; pod:accessLogView ?view ; ''
     @ ''pod:accessLogTimestamp ?ts } '' @ ''GROUP BY ?view ORDER BY DESC(?count)''"

definition BY_TOKEN_SPARQL :: string where
  "BY_TOKEN_SPARQL = POD_SPARQL_PREFIX @ '' '' @ ''SELECT ?token (COUNT(?e) AS ?count) ''
     @ ''WHERE { ?e a pod:AccessLogEntry ; pod:accessLogToken ?token } ''
     @ ''GROUP BY ?token ORDER BY DESC(?count)''"

record stats_response =
  total :: int
  by_view :: "(string \<times> int \<times> string) list"
  by_token :: "(string \<times> int) list"

fun last_total :: "int \<Rightarrow> row list \<Rightarrow> int option" where
  "last_total acc [] = Some acc"
| "last_total acc (row # rows) = (case map_of row ''total'' of None \<Rightarrow> last_total acc rows
     | Some t \<Rightarrow> (case py_int t of None \<Rightarrow> None | Some n \<Rightarrow> last_total n rows))"

fun counted :: "string \<Rightarrow> row list \<Rightarrow> (string \<times> int \<times> row) list option" where
  "counted key [] = Some []"
| "counted key (row # rows) = (case (map_of row key, map_of row ''count'') of
     (Some k, Some n) \<Rightarrow> (case py_int n of None \<Rightarrow> None
        | Some i \<Rightarrow> map_option (Cons (k, i, row)) (counted key rows))
   | _ \<Rightarrow> counted key rows)"

definition select_scoped ::
  "libs \<Rightarrow> 's upstream \<Rightarrow> client \<Rightarrow> 's \<Rightarrow> string \<Rightarrow> (exn, row list) result \<times> 's" where
  "select_scoped L up c s sparql = (case state_scoped c sparql of Inl e \<Rightarrow> (Inl e, s)
     | Inr q \<Rightarrow> select_state L up c s q)"

definition compute_stats ::
  "libs \<Rightarrow> 's upstream \<Rightarrow> client \<Rightarrow> 's \<Rightarrow> (exn, stats_response) result \<times> 's" where
  "compute_stats L up c s = (case select_scoped L up c s TOTAL_SPARQL of (Inl e, s1) \<Rightarrow> (Inl e, s1)
   | (Inr rows, s1) \<Rightarrow> (case last_total 0 rows of None \<Rightarrow> (Inl (ValueError ''int''), s1)
   | Some n \<Rightarrow> (case select_scoped L up c s1 BY_VIEW_SPARQL of (Inl e, s2) \<Rightarrow> (Inl e, s2)
   | (Inr vrows, s2) \<Rightarrow> (case counted ''view'' vrows of None \<Rightarrow> (Inl (ValueError ''int''), s2)
   | Some vs \<Rightarrow> (case select_scoped L up c s2 BY_TOKEN_SPARQL of (Inl e, s3) \<Rightarrow> (Inl e, s3)
   | (Inr trows, s3) \<Rightarrow> (case counted ''token'' trows of None \<Rightarrow> (Inl (ValueError ''int''), s3)
   | Some ts \<Rightarrow> (Inr \<lparr>total = n,
       by_view = map (\<lambda>(u, k, row). (u, k, case map_of row ''last'' of None \<Rightarrow> [] | Some l \<Rightarrow> l)) vs,
       by_token = map (\<lambda>(u, k, row). (u, k)) ts\<rparr>, s3)))))))"

definition stats ::
  "libs \<Rightarrow> 's upstream \<Rightarrow> client \<Rightarrow> 's \<Rightarrow> string option \<Rightarrow> (exn, stats_response) result \<times> 's" where
  "stats L up c s authorization =
     (case get_engine_token L up c s authorization POD_AdminToken of (Inl e, s0) \<Rightarrow> (Inl e, s0)
      | (Inr _, s0) \<Rightarrow> compute_stats L up c s0)"

end
