(* ===== verification/Sparql.thy ===== *)
theory Sparql
  imports SystemRouter
begin

text \<open>
  \<open>sparql/router.py\<close>: the read-only SPARQL endpoint. Query-string and form fields are
  dictionaries (association lists); \<open>parse_qs\<close> is the standard library's, for texts of the
  modelled alphabet (\<open>None\<close> outside it).
\<close>

section \<open>Form fields\<close>

definition hex_val :: "char \<Rightarrow> nat option" where
  "hex_val c = (let n = ord_of c in
     if is_digit c then Some (n - 48)
     else if 97 \<le> n \<and> n \<le> 102 then Some (n - 87)
     else if 65 \<le> n \<and> n \<le> 70 then Some (n - 55) else None)"

text \<open>Percent-decoding to bytes; an incomplete escape stands for itself.\<close>

fun percent_decode :: "string \<Rightarrow> string" where
  "percent_decode (p # a # b # s) =
     (case (hex_val a, hex_val b) of
        (Some x, Some y) \<Rightarrow>
          if p = CHR ''%'' then char_of (x * 16 + y) # percent_decode s
          else p # percent_decode (a # b # s)
      | _ \<Rightarrow> p # percent_decode (a # b # s))"
| "percent_decode s = s"

definition unquote :: "string \<Rightarrow> string option" where
  "unquote s = utf8_decode (percent_decode (utf8_encode s))"

definition unquote_plus :: "string \<Rightarrow> string option" where
  "unquote_plus s = unquote (map (\<lambda>c. if c = CHR ''+'' then CHR '' '' else c) s)"

text \<open>
  \<open>{key: values[0] for key, values in parse_qs(body).items()}\<close>: fields without \<open>=\<close> or with a
  blank value are dropped, the first value of a name is kept.
\<close>

fun first_values :: "string list \<Rightarrow> (string \<times> string) list option" where
  "first_values [] = Some []"
| "first_values (f # fs) =
     (let name = takeWhile (\<lambda>c. c \<noteq> CHR ''='') f; rest = dropWhile (\<lambda>c. c \<noteq> CHR ''='') f in
      case first_values fs of None \<Rightarrow> None
      | Some later \<Rightarrow>
          if length rest \<le> 1 then Some later
          else (case (unquote_plus name, unquote_plus (tl rest)) of
                  (Some k, Some v) \<Rightarrow> Some ((k, v) # filter (\<lambda>(k', _). k' \<noteq> k) later)
                | _ \<Rightarrow> None))"

definition form_fields :: "string \<Rightarrow> (string \<times> string) list option" where
  "form_fields body = first_values (split_on CHR ''&'' body)"

section \<open>Protocol extensions\<close>

definition extract_prefixed :: "string \<Rightarrow> (string \<times> string) list \<Rightarrow> (string \<times> string) list option" where
  "extract_prefixed pre params =
     (let found = map (\<lambda>(k, v). (removeprefix k pre, v)) (filter (\<lambda>(k, v). startswith k pre) params)
      in if found = [] then None else Some found)"

definition extract_bindings :: "(string \<times> string) list \<Rightarrow> (string \<times> string) list option" where
  "extract_bindings params = extract_prefixed ''binding-'' params"

definition extract_binding_types :: "(string \<times> string) list \<Rightarrow> (string \<times> string) list option" where
  "extract_binding_types params = extract_prefixed ''bindingtype-'' params"

definition extract_include_system :: "(string \<times> string) list \<Rightarrow> bool" where
  "extract_include_system params = (map_of params ''include-system'' = Some ''true'')"

text \<open>
  The pattern \<open>\bFROM\s+(?:NAMED\s+)?<graph>\<close> in any case: what follows a match at the start of
  a text, given the character before it.
\<close>

definition istartswith :: "string \<Rightarrow> string \<Rightarrow> bool" where
  "istartswith s p = (lower (take (length p) s) = lower p)"

definition skip_spaces :: "string \<Rightarrow> string option" where
  "skip_spaces s = (if s \<noteq> [] \<and> is_space (hd s) then Some (dropWhile is_space s) else None)"

definition match_graph :: "string \<Rightarrow> string \<Rightarrow> string option" where
  "match_graph graph s = (let p = ''<'' @ graph @ ''>'' in
     if istartswith s p then Some (drop (length p) s) else None)"

definition match_from :: "string \<Rightarrow> bool \<Rightarrow> string \<Rightarrow> string option" where
  "match_from graph after_word s =
     (if after_word \<or> \<not> istartswith s ''FROM'' then None
      else (case skip_spaces (drop 4 s) of None \<Rightarrow> None
        | Some s1 \<Rightarrow> (case match_graph graph s1 of
            Some rest \<Rightarrow> Some rest
          | None \<Rightarrow>
              if istartswith s1 ''NAMED''
              then (case skip_spaces (drop 5 s1) of None \<Rightarrow> None | Some s2 \<Rightarrow> match_graph graph s2)
              else None)))"

lemma match_graph_shorter: "match_graph g s = Some r \<Longrightarrow> length r \<le> length s"
  by (auto simp: match_graph_def Let_def split: if_splits)

lemma skip_spaces_shorter: "skip_spaces s = Some r \<Longrightarrow> length r \<le> length s"
  by (auto simp: skip_spaces_def length_dropWhile_le split: if_splits)

lemma match_from_shorter:
  assumes "match_from g w s = Some r"
  shows "length r < length s"
proof -
  from assms obtain s1 where 1: "istartswith s ''FROM''" "skip_spaces (drop 4 s) = Some s1"
    "length r \<le> length s1"
    by (auto simp: match_from_def split: if_splits option.splits
        dest!: match_graph_shorter skip_spaces_shorter)
  have "s \<noteq> []" using 1(1) by (auto simp: istartswith_def lower_def)
  then have "length (drop 4 s) < length s" by simp
  with skip_spaces_shorter [OF 1(2)] 1(3) show ?thesis by linarith
qed

text \<open>\<open>pattern.sub(" ", sparql)\<close>, and whether there was anything to replace.\<close>

function strip_from :: "string \<Rightarrow> bool \<Rightarrow> string \<Rightarrow> string \<times> bool" where
  "strip_from graph after_word s = (case s of [] \<Rightarrow> ([], False)
     | c # cs \<Rightarrow> (case match_from graph after_word s of
         Some rest \<Rightarrow> (CHR '' '' # fst (strip_from graph False rest), True)
       | None \<Rightarrow> (case strip_from graph (is_word c) cs of (t, found) \<Rightarrow> (c # t, found))))"
  by pat_completeness auto
termination
  by (relation "measure (\<lambda>(g, w, s). length s)") (auto dest: match_from_shorter)

declare strip_from.simps [simp del]

definition apply_state_scope :: "string \<Rightarrow> string \<Rightarrow> string \<times> bool" where
  "apply_state_scope sparql state_graph =
     (case strip_from state_graph False sparql of (t, found) \<Rightarrow>
        if found then (t, True) else (sparql, False))"

section \<open>Evaluation\<close>

definition RESULTS_FORMATS :: "(string \<times> string) list" where
  "RESULTS_FORMATS = [(''application/sparql-results+json'', ''json''),
     (''application/sparql-results+xml'', ''xml''), (''text/csv'', ''csv'')]"

definition query_fault :: "query_error \<Rightarrow> exn" where
  "query_fault e = (case e of
     ParseException \<Rightarrow> HTTPException 400 (Some ''Invalid SPARQL query: '') []
   | SPARQLError \<Rightarrow> HTTPException 400 (Some ''SPARQL evaluation error: '') []
   | OtherQueryError \<Rightarrow> LibraryError)"

definition answer_response ::
  "libs \<Rightarrow> query_answer \<Rightarrow> string option \<Rightarrow> outcome" where
  "answer_response L answer accept = (case answer of
     GraphAnswer g \<Rightarrow> (case negotiate_media accept SUPPORTED ''text/turtle'' of Inl e \<Rightarrow> Inl e
       | Inr (mt, fmt) \<Rightarrow> (case serialize_graph L fmt g of None \<Rightarrow> Inl LibraryError
         | Some text \<Rightarrow> Inr \<lparr>status_code = 200, headers = [], media_type = Some mt, content = text\<rparr>))
   | _ \<Rightarrow> (case negotiate_media accept RESULTS_FORMATS ''application/sparql-results+json'' of
         Inl e \<Rightarrow> Inl e
       | Inr (mt, fmt) \<Rightarrow>
           if (case answer of AskAnswer _ \<Rightarrow> fmt = ''csv'' | _ \<Rightarrow> False)
           then Inl (HTTPException 406 (Some ''text/csv supports only SELECT results'') [])
           else (case serialize_answer L fmt answer of Inl e \<Rightarrow> Inl (query_fault e)
             | Inr text \<Rightarrow> Inr \<lparr>status_code = 200, headers = [], media_type = Some mt,
                 content = text\<rparr>)))"

definition run_sparql ::
  "libs \<Rightarrow> backend \<Rightarrow> string \<Rightarrow> string option \<Rightarrow> (string \<times> string) list option \<Rightarrow> bool
    \<Rightarrow> (string \<times> string) list option \<Rightarrow> string option \<Rightarrow> outcome" where
  "run_sparql L b sparql accept init_bindings include_system types state_graph =
     (let (query, wide) = (case state_graph of None \<Rightarrow> (sparql, include_system)
            | Some g \<Rightarrow> (case apply_state_scope sparql g of (q, from_state) \<Rightarrow>
                (q, include_system \<or> from_state)))
      in if strip query = [] then Inl (HTTPException 400 (Some ''Missing query'') [])
         else (case backend_query L b query init_bindings wide types of
            Inl e \<Rightarrow> Inl (query_fault e)
          | Inr answer \<Rightarrow> answer_response L answer accept))"

section \<open>The routes\<close>

definition query_get ::
  "libs \<Rightarrow> backend \<Rightarrow> string \<Rightarrow> string option \<Rightarrow> (string \<times> string) list \<Rightarrow> string option \<Rightarrow> outcome"
  where
  "query_get L b state_graph authorization params accept =
     (case get_storage_token L b authorization of Inl e \<Rightarrow> Inl e
      | Inr _ \<Rightarrow> run_sparql L b (case map_of params ''query'' of None \<Rightarrow> [] | Some q \<Rightarrow> q) accept
          (extract_bindings params) (extract_include_system params) (extract_binding_types params)
          (Some state_graph))"

definition or_else :: "'a option \<Rightarrow> 'a option \<Rightarrow> 'a option" where
  "or_else x y = (case x of None \<Rightarrow> y | Some _ \<Rightarrow> x)"

text \<open>The detail of the 400 for a body that is not UTF-8 ends in the codec's message.\<close>

definition query_post ::
  "libs \<Rightarrow> backend \<Rightarrow> string \<Rightarrow> string option \<Rightarrow> (string \<times> string) list \<Rightarrow> string
    \<Rightarrow> string option \<Rightarrow> string option \<Rightarrow> outcome" where
  "query_post L b state_graph authorization params body content_type accept =
     (case get_storage_token L b authorization of Inl e \<Rightarrow> Inl e
      | Inr _ \<Rightarrow>
       (let ct = normalize_media_type content_type '''';
            not_utf8 = Inl (HTTPException 400 (Some ''Body is not valid UTF-8: '') [])
        in if ct = ''application/sparql-update'' then Inl (HTTPException 405 None [])
           else if ct = ''application/sparql-query'' then
             (case utf8_decode body of None \<Rightarrow> not_utf8
              | Some sparql \<Rightarrow> run_sparql L b sparql accept (extract_bindings params)
                  (extract_include_system params) (extract_binding_types params) (Some state_graph))
           else if ct = ''application/x-www-form-urlencoded'' then
             (case utf8_decode body of None \<Rightarrow> not_utf8
              | Some text \<Rightarrow> (case form_fields text of None \<Rightarrow> Inl LibraryError
                | Some flds \<Rightarrow>
                    run_sparql L b (case map_of flds ''query'' of None \<Rightarrow> [] | Some q \<Rightarrow> q) accept
                      (or_else (extract_bindings flds) (extract_bindings params))
                      (extract_include_system flds \<or> extract_include_system params)
                      (or_else (extract_binding_types flds) (extract_binding_types params))
                      (Some state_graph)))
           else Inl (HTTPException 415 None [])))"

end
