(* ===== verification/Apps.thy ===== *)
theory Apps
  imports Engine Sparql
begin

text \<open>
  The three applications: which handler answers a request, in the order the routers are mounted
  (\<open>ldp_personal_store/app.py\<close>, \<open>ldp_personal_store/main.py\<close>, \<open>ldp_view_engine/app.py\<close>),
  the routes of \<open>ldp/router.py\<close> with their token dependencies, and the bundled pod, whose
  engine reaches the storage routes of the same process. The generated documentation routes and
  the CORS middleware are FastAPI's and not modelled.
\<close>

section \<open>Requests\<close>

record app_request =
  a_method :: string
  a_path :: string
  a_params :: "(string \<times> string) list"
  a_headers :: "(string \<times> string) list"
  a_body :: string

definition hdr :: "app_request \<Rightarrow> string \<Rightarrow> string option" where
  "hdr req name = map_option snd (find (\<lambda>(k, v). lower k = lower name) (a_headers req))"

text \<open>The random texts one request may draw.\<close>

record fresh =
  f_secret :: string
  f_record_id :: string
  f_entry_id :: string
  f_view_id :: string
  f_uuid :: string
  f_labels :: "string list"

text \<open>\<open>/prefix/{id}\<close>: one segment; \<open>/prefix/{path:path}\<close>: anything.\<close>

definition one_segment :: "string \<Rightarrow> string \<Rightarrow> string option" where
  "one_segment pre p = (let r = removeprefix p pre in
     if startswith p pre \<and> r \<noteq> [] \<and> CHR ''/'' \<notin> set r then Some r else None)"

definition any_path :: "string \<Rightarrow> string \<Rightarrow> string option" where
  "any_path pre p = (if startswith p pre then Some (removeprefix p pre) else None)"

definition version_text :: string where
  "version_text = ''0.1.0''"

definition health_response :: response where
  "health_response = \<lparr>status_code = 200, headers = [], media_type = Some ''application/json'',
     content = ''{\"status\":\"ok\",\"version\":\"'' @ version_text @ ''\"}''\<rparr>"

definition CONSTRAINTS_DOCUMENT :: string where
  "CONSTRAINTS_DOCUMENT = ''<!doctype html>'' @ nl
     @ ''<html lang=\"en\">'' @ nl
     @ ''<head><meta charset=\"utf-8\"><title>Pod write constraints</title></head>'' @ nl
     @ ''<body>'' @ nl
     @ ''<h1>Write constraints</h1>'' @ nl
     @ ''<p>A request that violates one of the rules below is refused, and the failing'' @ nl
     @ ''response carries a <code>Link</code> header with'' @ nl
     @ ''<code>rel=\"http://www.w3.org/ns/ldp#constrainedBy\"</code> pointing at this'' @ nl
     @ ''document.</p>'' @ nl
     @ ''<ul>'' @ nl
     @ ''<li>Containment triples (<code>ldp:contains</code>) are server-managed: a'' @ nl
     @ ''<code>PUT</code> that adds, removes, or alters them is refused with 409.</li>'' @ nl
     @ ''<li>Membership triples are server-derived from containment and are synthesized'' @ nl
     @ ''only in responses; they are not accepted on write.</li>'' @ nl
     @ ''<li>Updating an existing resource requires a matching <code>If-Match</code> ETag:'' @ nl
     @ ''a blind update is refused with 428, a stale one with 412.</li>'' @ nl
     @ ''<li>A container that still holds members cannot be deleted until it is emptied'' @ nl
     @ ''(409).</li>'' @ nl
     @ ''</ul>'' @ nl
     @ ''</body>'' @ nl
     @ ''</html>'' @ nl"

definition constraints_response :: response where
  "constraints_response = \<lparr>status_code = 200, headers = [], media_type = Some ''text/html'',
     content = CONSTRAINTS_DOCUMENT\<rparr>"

section \<open>The data plane's routes\<close>

definition with_token ::
  "(exn, token_record) result \<Rightarrow> backend \<Rightarrow> outcome \<times> backend \<Rightarrow> outcome \<times> backend" where
  "with_token t b act = (case t of Inl e \<Rightarrow> (Inl e, b) | Inr _ \<Rightarrow> act)"

definition ldp_routes ::
  "libs \<Rightarrow> fresh \<Rightarrow> settings \<Rightarrow> backend \<Rightarrow> app_request \<Rightarrow> string \<Rightarrow> outcome \<times> backend" where
  "ldp_routes L f st b req path =
     (let base = base_uri st; m = a_method req;
          reads = with_token (get_storage_token L b (hdr req ''authorization'')) b;
          writes = with_token (get_admin_token L b (hdr req ''authorization'')) b
      in if m = ''GET'' then reads (get_resource L b base path (hdr req ''accept'')
             (hdr req ''if-none-match'') (hdr req ''prefer''), b)
         else if m = ''HEAD'' then reads (head_resource L b base path (hdr req ''accept'')
             (hdr req ''if-none-match'') (hdr req ''prefer''), b)
         else if m = ''OPTIONS'' then reads (options_response b base path, b)
         else if m = ''PUT'' then writes (put_resource L b base path (a_body req)
             (hdr req ''content-type'') (hdr req ''if-match'') (hdr req ''if-none-match''))
         else if m = ''POST'' then writes (post_member L (f_uuid f) b base path (a_body req)
             (hdr req ''content-type'') (hdr req ''slug''))
         else if m = ''DELETE'' then writes (delete_resource L b base path)
         else (Inl (HTTPException 405 None []), b))"

section \<open>The storage role\<close>

definition sparql_routes ::
  "libs \<Rightarrow> settings \<Rightarrow> backend \<Rightarrow> app_request \<Rightarrow> (outcome \<times> backend) option" where
  "sparql_routes L st b req =
     (if a_path req \<noteq> ''/sparql'' then None
      else if a_method req = ''GET''
      then Some (query_get L b (set_state_graph st) (hdr req ''authorization'') (a_params req)
             (hdr req ''accept''), b)
      else if a_method req = ''POST''
      then Some (query_post L b (set_state_graph st) (hdr req ''authorization'') (a_params req)
             (a_body req) (hdr req ''content-type'') (hdr req ''accept''), b)
      else None)"

definition views_routes ::
  "libs \<Rightarrow> fresh \<Rightarrow> settings \<Rightarrow> backend \<Rightarrow> app_request \<Rightarrow> (outcome \<times> backend) option" where
  "views_routes L f st b req =
     (if a_method req = ''POST'' \<and> a_path req = ''/.system/views''
      then Some (create_view L (f_labels f) (f_view_id f) b (base_uri st) (hdr req ''authorization'')
             (a_body req) (hdr req ''content-type'') (hdr req ''slug''))
      else (case one_segment ''/.system/views/'' (a_path req) of None \<Rightarrow> None
        | Some view_id \<Rightarrow>
            if a_method req = ''PUT''
            then Some (replace_view L (f_labels f) b (base_uri st) (hdr req ''authorization'') view_id
                   (a_body req) (hdr req ''content-type'') (hdr req ''if-match'') (hdr req ''if-none-match''))
            else if a_method req = ''DELETE''
            then Some (delete_view L b (base_uri st) (hdr req ''authorization'') view_id)
            else None))"

definition internal_routes ::
  "libs \<Rightarrow> fresh \<Rightarrow> settings \<Rightarrow> backend \<Rightarrow> app_request \<Rightarrow> (outcome \<times> backend) option" where
  "internal_routes L f st b req =
     (if a_method req = ''POST'' \<and> a_path req = ''/.system/access-log''
      then Some (append_access_log L (f_entry_id f) b (base_uri st) (hdr req ''authorization'')
             (a_body req) (hdr req ''content-type''))
      else (case one_segment ''/.system/tokens/'' (a_path req) of None \<Rightarrow> None
        | Some record_id \<Rightarrow>
            if a_method req = ''PUT''
            then Some (put_token_enforcement L b (base_uri st) (hdr req ''authorization'') record_id
                   (a_body req) (hdr req ''content-type'') (hdr req ''if-match'') (hdr req ''if-none-match''))
            else None))"

definition system_routes ::
  "libs \<Rightarrow> fresh \<Rightarrow> settings \<Rightarrow> backend \<Rightarrow> app_request \<Rightarrow> (outcome \<times> backend) option" where
  "system_routes L f st b req =
     (let m = a_method req; p = a_path req; auth = hdr req ''authorization'' in
      if m = ''POST'' \<and> p = ''/.system/tokens''
      then Some (issue_grant L (f_secret f) (f_record_id f) b (base_uri st) auth (a_body req)
             (hdr req ''content-type''))
      else if m = ''PUT'' then
        (case one_segment ''/.system/tokens/policies/'' p of None \<Rightarrow> None
         | Some policy_id \<Rightarrow>
             Some (write_policy L b (base_uri st) auth policy_id (a_body req) (hdr req ''content-type'')))
      else (case any_path ''/.system/'' p of None \<Rightarrow> None
        | Some path \<Rightarrow>
            if m = ''GET'' then Some (read_system L b (base_uri st) auth path, b)
            else if m = ''DELETE'' then Some (revoke_system L b (base_uri st) auth path)
            else None))"

fun first_route :: "'a option list \<Rightarrow> 'a \<Rightarrow> 'a" where
  "first_route [] d = d"
| "first_route (r # rs) d = (case r of Some x \<Rightarrow> x | None \<Rightarrow> first_route rs d)"

definition public_routes :: "app_request \<Rightarrow> outcome option" where
  "public_routes req =
     (if a_method req = ''GET'' \<and> a_path req = ''/health'' then Some (Inr health_response)
      else if a_method req = ''GET'' \<and> a_path req = ''/'' @ CONSTRAINTS_PATH
      then Some (Inr constraints_response) else None)"

definition storage_app ::
  "libs \<Rightarrow> fresh \<Rightarrow> settings \<Rightarrow> backend \<Rightarrow> app_request \<Rightarrow> outcome \<times> backend" where
  "storage_app L f st b req =
     first_route
       [map_option (\<lambda>r. (r, b)) (public_routes req), sparql_routes L st b req,
        views_routes L f st b req, internal_routes L f st b req, system_routes L f st b req]
       (ldp_routes L f st b req (tl (a_path req)))"

section \<open>The engine's routes\<close>

text \<open>The clock of a request, and the labels of the blank nodes it makes.\<close>

record clock =
  clk_now :: int
  clk_stamp :: string

text \<open>The response model as JSON.\<close>

definition json_char :: "char \<Rightarrow> string" where
  "json_char c = (let n = ord_of c in
     if n = 34 \<or> n = 92 then [CHR 0x5C, c]
     else if n = 8 then [CHR 0x5C, CHR ''b''] else if n = 9 then [CHR 0x5C, CHR ''t'']
     else if n = 10 then [CHR 0x5C, CHR ''n''] else if n = 12 then [CHR 0x5C, CHR ''f'']
     else if n = 13 then [CHR 0x5C, CHR ''r'']
     else if n < 32 then [CHR 0x5C, CHR ''u'', CHR ''0'', CHR ''0'', hex_digit (n div 16), hex_digit (n mod 16)]
     else [c])"

definition json_str :: "string \<Rightarrow> string" where
  "json_str s = [CHR 0x22] @ concat (map json_char s) @ [CHR 0x22]"

definition stats_json :: "stats_response \<Rightarrow> response" where
  "stats_json r = \<lparr>status_code = 200, headers = [], media_type = Some ''application/json'',
     content = ''{\"total\":'' @ str_of_int (total r) @ '',\"by_view\":['' @ join '','' (map (\<lambda>(u, n, l).
         ''{\"view_uri\":'' @ json_str u @ '',\"count\":'' @ str_of_int n @ '',\"last_accessed_at\":''
         @ json_str l @ ''}'') (by_view r))
       @ ''],\"by_token\":['' @ join '','' (map (\<lambda>(u, n).
         ''{\"token_uri\":'' @ json_str u @ '',\"count\":'' @ str_of_int n @ ''}'') (by_token r)) @ '']}''\<rparr>"

definition engine_routes ::
  "libs \<Rightarrow> 's upstream \<Rightarrow> client \<Rightarrow> settings \<Rightarrow> clock \<Rightarrow> (string \<Rightarrow> nat \<Rightarrow> string) \<Rightarrow> 's \<Rightarrow> app_request
    \<Rightarrow> (outcome \<times> 's) option" where
  "engine_routes L up c st clk label s req =
     (if a_method req \<noteq> ''GET'' then None
      else (let p = a_path req; auth = hdr req ''authorization'' in
        case (one_segment ''/.engine/views/'' p, one_segment ''/.engine/blob/'' p) of
          (Some view_id, _) \<Rightarrow>
            Some (get_view L up c st (clk_now clk) (clk_stamp clk) s auth view_id (a_params req))
        | (None, Some view_id) \<Rightarrow>
            Some (get_blob L up c st (clk_now clk) (clk_stamp clk) s auth view_id (a_params req))
        | (None, None) \<Rightarrow>
            if p = ''/.engine/discovery'' then Some (discover L up c st label s auth)
            else if p = ''/.engine/stats''
            then (case stats L up c s auth of (Inl e, s1) \<Rightarrow> Some (Inl e, s1)
                  | (Inr r, s1) \<Rightarrow> Some (Inr (stats_json r), s1))
            else None))"

text \<open>The engine on its own: a path none of its routes has is 404.\<close>

definition engine_app ::
  "libs \<Rightarrow> 's upstream \<Rightarrow> client \<Rightarrow> settings \<Rightarrow> clock \<Rightarrow> (string \<Rightarrow> nat \<Rightarrow> string) \<Rightarrow> 's \<Rightarrow> app_request
    \<Rightarrow> outcome \<times> 's" where
  "engine_app L up c st clk label s req =
     first_route [if a_method req = ''GET'' \<and> a_path req = ''/health'' then Some (Inr health_response, s)
                  else None, engine_routes L up c st clk label s req]
       (Inl (HTTPException 404 None []), s)"

text \<open>\<open>upstream_error_handler\<close>: what the client of an engine sees of an exception.\<close>

definition app_reply :: "outcome \<Rightarrow> response" where
  "app_reply r = (case r of Inr x \<Rightarrow> x
     | Inl (UpstreamError _) \<Rightarrow> \<lparr>status_code = 502, headers = [], media_type = Some ''application/json'',
         content = ''{\"detail\":\"storage upstream refused\"}''\<rparr>
     | Inl (UpstreamNotFound _) \<Rightarrow> \<lparr>status_code = 502, headers = [], media_type = Some ''application/json'',
         content = ''{\"detail\":\"storage upstream refused\"}''\<rparr>
     | Inl e \<Rightarrow> exn_response e)"

section \<open>The bundled pod\<close>

text \<open>What an in-process request looks like to the application: the path of the URL, decoded.\<close>

definition url_path :: "string \<Rightarrow> string" where
  "url_path url =
     (let after_scheme = drop 1 (dropWhile (\<lambda>c. c \<noteq> CHR '':'') url);
          path = dropWhile (\<lambda>c. c \<noteq> CHR ''/'') (if startswith after_scheme ''//'' then drop 2 after_scheme
                   else after_scheme);
          plain = takeWhile (\<lambda>c. c \<noteq> CHR ''?'' \<and> c \<noteq> CHR ''#'') path
      in case unquote plain of None \<Rightarrow> plain | Some p \<Rightarrow> p)"

definition app_request_of :: "request \<Rightarrow> app_request" where
  "app_request_of r = \<lparr>a_method = req_method r, a_path = url_path (req_url r), a_params = [],
     a_headers = req_headers r, a_body = req_body r\<rparr>"

text \<open>
  The engine's requests reach the whole application again. A request the engine makes carries
  the engine token, so a nested engine route only validates it; the depth bounds the nesting.
\<close>

fun bundled_app ::
  "nat \<Rightarrow> libs \<Rightarrow> fresh \<Rightarrow> settings \<Rightarrow> client \<Rightarrow> clock \<Rightarrow> (string \<Rightarrow> nat \<Rightarrow> string) \<Rightarrow> backend
    \<Rightarrow> app_request \<Rightarrow> outcome \<times> backend" where
  "bundled_app 0 L f st c clk label b req = storage_app L f st b req"
| "bundled_app (Suc n) L f st c clk label b req =
     (let up = (\<lambda>b' r. (case bundled_app n L f st c clk label b' (app_request_of r) of
                   (out, b'') \<Rightarrow> (app_reply out, b'')))
      in first_route
       [map_option (\<lambda>r. (r, b)) (public_routes req), sparql_routes L st b req,
        views_routes L f st b req, internal_routes L f st b req, system_routes L f st b req,
        engine_routes L up c st clk label b req]
       (ldp_routes L f st b req (tl (a_path req))))"

end
