(* ===== verification/TokenProps.thy ===== *)
theory TokenProps
  imports Tokens Samples
begin

text \<open>
  What token matching decides, and that issuing, validating and revoking fit together: a record
  in the store whose digest no other document states is found, decides, and reads back as issued.
\<close>

section \<open>The rows\<close>

definition row_types :: "row list \<Rightarrow> string \<Rightarrow> string set" where
  "row_types rows u =
     {m. \<exists>row\<in>set rows. map_of row ''tokenUri'' = Some u \<and> map_of row ''tokenType'' = Some m}"

definition last_stored :: "row list \<Rightarrow> string \<Rightarrow> string option" where
  "last_stored rows u = foldl (\<lambda>acc row.
     if map_of row ''tokenUri'' = Some u \<and> map_of row ''stored'' \<noteq> None
     then map_of row ''stored'' else acc) None rows"

lemma row_types_simps [simp]:
  "row_types [] u = {}"
  "row_types (rows @ [row]) u = row_types rows u
     \<union> (if map_of row ''tokenUri'' = Some u then set_option (map_of row ''tokenType'') else {})"
  by (auto simp: row_types_def)

lemma last_stored_simps [simp]:
  "last_stored [] u = None"
  "last_stored (rows @ [row]) u =
     (if map_of row ''tokenUri'' = Some u \<and> map_of row ''stored'' \<noteq> None
      then map_of row ''stored'' else last_stored rows u)"
  unfolding last_stored_def by (auto simp del: not_None_eq)

lemma add_row_hash:
  "map_of (snd (add_row acc row)) u =
    (if map_of row ''tokenUri'' = Some u \<and> map_of row ''stored'' \<noteq> None
     then map_of row ''stored'' else map_of (snd acc) u)"
  by (cases acc; cases "map_of row ''tokenUri''"; cases "map_of row ''stored''")
    (simp_all add: add_row_def update_conv')

lemma add_row_types:
  "map_of (fst (add_row acc row)) u =
    (if map_of row ''tokenUri'' = Some u \<and> map_of row ''tokenType'' \<noteq> None
     then Some (case map_of (fst acc) u of None \<Rightarrow> [the (map_of row ''tokenType'')]
       | Some ms \<Rightarrow> List.insert (the (map_of row ''tokenType'')) ms)
     else map_of (fst acc) u)"
  by (cases acc; cases "map_of row ''tokenUri''"; cases "map_of row ''tokenType''")
    (auto simp: add_row_def update_conv' split: option.splits)

lemma add_row_distinct:
  "distinct (map fst (fst acc)) \<Longrightarrow> distinct (map fst (fst (add_row acc row)))"
  by (cases acc; cases "map_of row ''tokenUri''"; cases "map_of row ''tokenType''")
    (simp_all add: add_row_def distinct_update)

lemma collect_rows:
  "map_of (snd (foldl add_row ([], []) rows)) u = last_stored rows u"
  "(map_of (fst (foldl add_row ([], []) rows)) u = None) = (row_types rows u = {})"
  "map_of (fst (foldl add_row ([], []) rows)) u = Some ms \<Longrightarrow> set ms = row_types rows u"
  "distinct (map fst (fst (foldl add_row ([], []) rows)))"
proof -
  show "map_of (snd (foldl add_row ([], []) rows)) u = last_stored rows u"
    by (induction rows rule: rev_induct) (simp_all only: foldl_append foldl.simps add_row_hash
        last_stored_simps snd_conv map_of.simps)
  show "(map_of (fst (foldl add_row ([], []) rows)) u = None) = (row_types rows u = {})"
    by (induction rows rule: rev_induct) (auto simp: add_row_types)
  show "map_of (fst (foldl add_row ([], []) rows)) u = Some ms \<Longrightarrow> set ms = row_types rows u"
  proof (induction rows arbitrary: ms rule: rev_induct)
    case (snoc row rows)
    have none: "map_of (fst (foldl add_row ([], []) rows)) u = None \<Longrightarrow> row_types rows u = {}"
      by (induction rows rule: rev_induct) (auto simp: add_row_types split: if_splits)
    from snoc none show ?case
      by (cases "map_of row ''tokenType''")
        (auto simp: add_row_types split: if_splits option.splits)
  qed simp
  show "distinct (map fst (fst (foldl add_row ([], []) rows)))"
    by (induction rows rule: rev_induct) (simp_all add: add_row_distinct)
qed

text \<open>A token URI the rows let in: its stored digest is the presented one, and it is of an
  allowed type.\<close>

definition admitted :: "row list \<Rightarrow> string \<Rightarrow> node list \<Rightarrow> string \<Rightarrow> bool" where
  "admitted rows h allowed u \<longleftrightarrow> last_stored rows u = Some h \<and>
     (\<exists>t\<in>set allowed. node_str t \<in> row_types rows u)"

definition ascii :: "string \<Rightarrow> bool" where
  "ascii s = list_all (\<lambda>c. ord_of c < 128) s"

lemma first_match_ok:
  "first_match T H h allowed us = Inr (u, t) \<Longrightarrow>
   u \<in> set us \<and> map_of H u = Some h \<and> t \<in> set allowed \<and> node_str t \<in> set (the (map_of T u))"
  by (induction us)
    (auto simp: Let_def compare_digest_def find_Some_iff split: option.splits sum.splits bool.splits
      if_splits)

lemma first_match_error:
  "first_match T H h allowed us = Inl e \<Longrightarrow> e = unauthorized \<or> e = LibraryError"
  by (induction us)
    (auto simp: Let_def compare_digest_def split: option.splits sum.splits bool.splits if_splits)

lemma first_match_least:
  assumes "sorted us" and "ascii h" and "\<forall>u\<in>set us. \<forall>s. map_of H u = Some s \<longrightarrow> ascii s"
  shows "first_match T H h allowed us = Inl unauthorized \<and>
      (\<forall>v\<in>set us. \<not> (map_of H v = Some h \<and> (\<exists>t\<in>set allowed. node_str t \<in> set (the (map_of T v)))))
    \<or> (\<exists>u t. first_match T H h allowed us = Inr (u, t) \<and>
      (\<forall>v\<in>set us. map_of H v = Some h \<and> (\<exists>t\<in>set allowed. node_str t \<in> set (the (map_of T v)))
         \<longrightarrow> u \<le> v))"
  using assms(1,3)
proof (induction us)
  case (Cons w us)
  let ?ok = "\<lambda>v. map_of H v = Some h \<and> (\<exists>t\<in>set allowed. node_str t \<in> set (the (map_of T v)))"
  have cmp: "compare_digest h s = Inr (h = s)" if "map_of H w = Some s" for s
    using Cons.prems(2) assms(2) that by (simp add: compare_digest_def ascii_def)
  show ?case
  proof (cases "?ok w")
    case True
    then obtain t where "find (\<lambda>t. node_str t \<in> set (the (map_of T w))) allowed = Some t"
      by (cases "find (\<lambda>t. node_str t \<in> set (the (map_of T w))) allowed") (auto simp: find_None_iff)
    with True cmp [of h] have "first_match T H h allowed (w # us) = Inr (w, t)" by simp
    moreover have "\<forall>v\<in>set (w # us). w \<le> v" using Cons.prems(1) by auto
    ultimately show ?thesis by blast
  next
    case False
    have "find (\<lambda>t. node_str t \<in> set (the (map_of T w))) allowed = None" if "map_of H w = Some h"
      using False that by (auto simp: find_None_iff)
    with cmp have "first_match T H h allowed (w # us) = first_match T H h allowed us"
      by (auto simp: Let_def split: option.splits sum.splits bool.splits)
    with False Cons.IH Cons.prems show ?thesis by auto
  qed
qed simp

lemma match_token_rows_decides_base:
  assumes "ascii h" and "\<forall>u s. last_stored rows u = Some s \<longrightarrow> ascii s"
  shows "case match_token_rows rows h allowed of
      Inl e \<Rightarrow> e = unauthorized \<and> (\<forall>u. \<not> admitted rows h allowed u)
    | Inr (u, t) \<Rightarrow> admitted rows h allowed u \<and> (\<forall>v. admitted rows h allowed v \<longrightarrow> u \<le> v)
        \<and> t \<in> set allowed \<and> node_str t \<in> row_types rows u"
proof -
  obtain T H where acc: "foldl add_row ([], []) rows = (T, H)" by fastforce
  note c = collect_rows [of rows, unfolded acc fst_conv snd_conv]
  have ok: "map_of H v = Some h \<and> (\<exists>t\<in>set allowed. node_str t \<in> set (the (map_of T v)))
      \<and> v \<in> set (map fst T) \<longleftrightarrow> admitted rows h allowed v" for v
  proof (cases "map_of T v")
    case None
    then show ?thesis using c(2) [of v] by (auto simp: admitted_def map_of_eq_None_iff)
  next
    case (Some ms)
    moreover have "v \<in> fst ` set T" using Some by (metis map_of_eq_None_iff option.distinct(1))
    ultimately show ?thesis using c(1) [of v] c(3) [OF Some] by (simp add: admitted_def)
  qed
  have m: "match_token_rows rows h allowed = first_match T H h allowed (sort (map fst T))"
    by (simp add: match_token_rows_def acc)
  have a: "\<forall>u\<in>set (sort (map fst T)). \<forall>s. map_of H u = Some s \<longrightarrow> ascii s"
    using assms(2) c(1) by simp
  from first_match_least [OF sorted_sort assms(1) a, of T allowed] show ?thesis
  proof (elim disjE conjE exE)
    assume e: "first_match T H h allowed (sort (map fst T)) = Inl unauthorized"
      and n: "\<forall>v\<in>set (sort (map fst T)). \<not> (map_of H v = Some h \<and>
        (\<exists>t\<in>set allowed. node_str t \<in> set (the (map_of T v))))"
    from n have "\<not> admitted rows h allowed u" for u using ok [of u] by auto
    with m e show ?thesis by simp
  next
    fix u t
    assume r: "first_match T H h allowed (sort (map fst T)) = Inr (u, t)"
      and least: "\<forall>v\<in>set (sort (map fst T)). map_of H v = Some h \<and>
        (\<exists>t\<in>set allowed. node_str t \<in> set (the (map_of T v))) \<longrightarrow> u \<le> v"
    from first_match_ok [OF r] have u: "u \<in> fst ` set T" "map_of H u = Some h" "t \<in> set allowed"
      "node_str t \<in> set (the (map_of T u))" by auto
    from u(1) obtain ms where ms: "map_of T u = Some ms" by (metis map_of_eq_None_iff option.exhaust)
    have "admitted rows h allowed u" using ok [of u] u by auto
    moreover have "admitted rows h allowed v \<Longrightarrow> u \<le> v" for v
      using ok [of v] least by auto
    moreover have "node_str t \<in> row_types rows u" using u(4) ms c(3) [OF ms] by simp
    ultimately show ?thesis using m r u(3) by simp
  qed
qed

text \<open>Token matching: the rows of the lookup decide. The answer is the least token URI that is
  admitted, with an allowed type it carries; where none is, it is the uniform 401.\<close>

theorem match_token_rows_decides:
  assumes "ascii h" and "\<forall>u s. last_stored rows u = Some s \<longrightarrow> ascii s"
  shows "case match_token_rows rows h allowed of
      Inl e \<Rightarrow> e = unauthorized \<and> (\<forall>u. \<not> admitted rows h allowed u)
    | Inr (u, t) \<Rightarrow> admitted rows h allowed u \<and> (\<forall>v. admitted rows h allowed v \<longrightarrow> u \<le> v)
        \<and> t \<in> set allowed \<and> node_str t \<in> row_types rows u"
  using assms by (rule match_token_rows_decides_base)

lemma match_token_rows_decides_witness:
  "case match_token_rows
      [[(''tokenUri'', ''t2''), (''stored'', ''h''), (''tokenType'', ''a'')],
       [(''tokenUri'', ''t1''), (''stored'', ''h''), (''tokenType'', ''b'')]] ''h'' [URIRef ''a''] of
    Inl e \<Rightarrow> False | Inr (u, t) \<Rightarrow> u = ''t2''"
proof -
  let ?rows = "[[(''tokenUri'', ''t2''), (''stored'', ''h''), (''tokenType'', ''a'')],
       [(''tokenUri'', ''t1''), (''stored'', ''h''), (''tokenType'', ''b'')]] :: row list"
  have ls: "last_stored ?rows u = (if u = ''t1'' \<or> u = ''t2'' then Some ''h'' else None)" for u
    by (auto simp: last_stored_def)
  have h: "ascii ''h''" by code_simp
  have t2: "admitted ?rows ''h'' [URIRef ''a''] u \<longleftrightarrow> u = ''t2''" for u
    by (auto simp: admitted_def ls row_types_def)
  have st: "\<forall>u s. last_stored ?rows u = Some s \<longrightarrow> ascii s" using h by (simp add: ls)
  from match_token_rows_decides [OF h st, of "[URIRef ''a'']"] show ?thesis
    unfolding t2 by (auto split: sum.splits)
qed


section \<open>Validation\<close>

lemma validate_ok:
  assumes "validate_token_one_of L b raw allowed = Inr rec"
  obtains rows u t g where
    "run_query L (WholeDataset (contexts b)) LOOKUP_QUERY
       (bind_terms L (Some [(''presented'', digest L raw)]) None) = Inr (SelectAnswer rows)"
    "match_token_rows (string_rows rows) (digest L raw) allowed = Inr (u, t)"
    "backend_read b u = Inr g" "token_record_from_graph g u t = Inr rec"
  using assms
  by (auto simp: validate_token_one_of_def backend_query_def query_scope_of_def Let_def
      split: sum.splits query_answer.splits exn.splits storage_error.splits prod.splits)

lemma token_record_uri:
  "token_record_from_graph g u t = Inr rec \<Longrightarrow> token_uri rec = u \<and> token_type rec = node_str t"
  by (auto simp: token_record_from_graph_def Let_def split: option.splits)

lemma match_token_rows_ok:
  assumes "match_token_rows rows h allowed = Inr (u, t)"
  shows "admitted rows h allowed u \<and> t \<in> set allowed \<and> node_str t \<in> row_types rows u"
proof -
  obtain T H where acc: "foldl add_row ([], []) rows = (T, H)" by fastforce
  note c = collect_rows [of rows, unfolded acc fst_conv snd_conv]
  from assms have "first_match T H h allowed (sort (map fst T)) = Inr (u, t)"
    by (simp add: match_token_rows_def acc)
  from first_match_ok [OF this] have u: "u \<in> fst ` set T" "map_of H u = Some h" "t \<in> set allowed"
      "node_str t \<in> set (the (map_of T u))" by auto
  from u(1) obtain ms where ms: "map_of T u = Some ms" by (metis map_of_eq_None_iff option.exhaust)
  then have "node_str t \<in> row_types rows u" using u(4) c(3) by simp
  with u c(1) [of u] show ?thesis by (auto simp: admitted_def)
qed


text \<open>Revocation is immediate: once the record of a token has been deleted, no text validates
  as that token any more, whatever the query engine answers.\<close>

theorem revoked_token_is_dead:
  assumes "revoke_token b uri = (Inr x, b')"
  shows "\<not> (validate_token_one_of L b' raw allowed = Inr rec \<and> token_uri rec = uri)"
proof
  assume "validate_token_one_of L b' raw allowed = Inr rec \<and> token_uri rec = uri"
  then have v: "validate_token_one_of L b' raw allowed = Inr rec" and u: "token_uri rec = uri" by blast+
  from v obtain g where "backend_read b' (token_uri rec) = Inr g"
    by (cases rule: validate_ok) (auto dest: token_record_uri)
  moreover have "backend_read b' uri = Inl (Storage ResourceNotFound)"
    by (rule system.read_delete) (use assms in \<open>simp add: revoke_token_def\<close>)
  ultimately show False using u by simp
qed


section \<open>Issuing and validating\<close>

text \<open>
  The documented meaning of the lookup query: one row for each token digest equal to the bound
  text and each type of its subject, over all graphs of the dataset.
\<close>

definition union_of :: "(string \<times> graph) list \<Rightarrow> graph" where
  "union_of cs = concat (map snd cs)"

definition lookup_rows :: "(string \<times> graph) list \<Rightarrow> string \<Rightarrow> (string \<times> node) list list" where
  "lookup_rows cs h = concat (map (\<lambda>(s, p, v).
     if p = POD_tokenHash \<and> node_str v = h
     then map (\<lambda>t. [(''tokenUri'', s), (''stored'', v), (''tokenType'', t)])
            (g_objects (union_of cs) (Some s) RDF_type)
     else []) (union_of cs))"

definition lookup_law :: "libs \<Rightarrow> bool" where
  "lookup_law L \<longleftrightarrow> (\<forall>cs h. \<exists>rows. run_query L (WholeDataset cs) LOOKUP_QUERY
       (Some [(''presented'', Lit h None None)]) = Inr (SelectAnswer rows)
     \<and> set rows = set (lookup_rows cs h))"

lemma lookup_rows_iff:
  "row \<in> set (lookup_rows cs h) \<longleftrightarrow> (\<exists>s v t. row = [(''tokenUri'', s), (''stored'', v), (''tokenType'', t)]
     \<and> (s, POD_tokenHash, v) \<in> set (union_of cs) \<and> node_str v = h
     \<and> (s, RDF_type, t) \<in> set (union_of cs))"
  by (auto simp: lookup_rows_def split: if_splits) (force+)

lemma union_of_iff: "t \<in> set (union_of cs) \<longleftrightarrow> (\<exists>n g. (n, g) \<in> set cs \<and> t \<in> set g)"
  unfolding union_of_def set_concat set_map by force

lemma last_stored_const:
  assumes "\<exists>row\<in>set rows. map_of row ''tokenUri'' = Some u"
    and "\<forall>row\<in>set rows. map_of row ''stored'' = Some h"
  shows "last_stored rows u = Some h"
  using assms by (induction rows rule: rev_induct) auto

lemma ground_iso_set:
  assumes "graph_iso g h" and "\<forall>t\<in>set g. ground t"
  shows "set h = set g"
proof -
  from assms(1) obtain f where "set h = rename_triple f ` set g" by (auto simp: graph_iso_def)
  with assms(2) show ?thesis by (simp add: ground_rename)
qed

text \<open>The contexts after a write of one document.\<close>

lemma reload_context_distinct:
  "reload_context L b n p pub = (r, b') \<Longrightarrow> distinct (map fst (contexts b)) \<Longrightarrow>
   distinct (map fst (contexts b'))"
  by (auto simp: reload_context_def Let_def distinct_update split: sum.splits option.splits)

lemma write_system_distinct:
  "write_system L b u g = (r, b') \<Longrightarrow> distinct (map fst (contexts b)) \<Longrightarrow>
   distinct (map fst (contexts b'))"
  by (erule write_system_cases)
    (auto simp: mkdirs_fields write_bytes_fields dest: reload_context_distinct)

lemma write_system_contexts:
  assumes w: "write_system L b u g = (Inr x, b')" and d: "distinct (map fst (contexts b))"
    and c: "(n, k) \<in> set (contexts b')"
  shows "n = u \<and> k = context_graph b' u \<or> n \<noteq> u \<and> (n, k) \<in> set (contexts b)"
proof -
  have m: "map_of (contexts b') n = Some k"
    using c write_system_distinct [OF w d] by (rule map_of_is_SomeI [rotated])
  show ?thesis
  proof (cases "n = u")
    case True
    then show ?thesis using m by (simp add: context_graph_def)
  next
    case False
    then have "map_of (contexts b) n = Some k"
      using m write_system_other_contexts [OF w] by simp
    then show ?thesis using False by (blast dest: map_of_SomeD)
  qed
qed

lemma record_graph_set:
  "u = ns @ ''tokens/'' @ rid \<Longrightarrow> set (record_graph L ns rid h ty linked name) =
     {(URIRef u, RDF_type, POD_Token), (URIRef u, RDF_type, ty),
      (URIRef u, POD_tokenHash, typed_lit L (XSD ''string'') h),
      (URIRef u, POD_policyRef, URIRef (ns @ ''tokens/policies/'' @ rid)),
      (URIRef u, POD_enforcementCount, typed_lit L (XSD ''integer'') (str_of_int 0)),
      (URIRef u, POD_lastUsedAt, typed_lit L (XSD ''dateTime'') EPOCH)}
     \<union> (\<lambda>v. (URIRef u, POD_linkedView, URIRef v)) ` set linked
     \<union> (case name of None \<Rightarrow> {} | Some n \<Rightarrow> if n = [] then {} else
         {(URIRef u, DC_title, typed_lit L (XSD ''string'') n)})"
  by (auto simp: record_graph_def Let_def split: option.splits)

lemma g_value_is:
  "(\<And>w. (s, p, w) \<in> set g \<longleftrightarrow> w = v) \<Longrightarrow> g_value g s p = Some v"
  by (rule g_value_unique) auto

text \<open>What the record of a fresh token reads back as.\<close>

lemma record_reads_back:
  assumes u: "u = ns @ ''tokens/'' @ rid"
    and g: "set g = set (record_graph L ns rid h ty linked name)"
    and int: "integer_lexical L"
  shows "\<exists>rec. token_record_from_graph g u t = Inr rec
    \<and> token_uri rec = u \<and> token_type rec = node_str t
    \<and> set (linked_view_uris rec) = set linked \<and> sorted (linked_view_uris rec)
    \<and> policy_ref rec = Some (ns @ ''tokens/policies/'' @ rid) \<and> enforcement_count rec = 0
    \<and> last_used_at rec = lit_lexical L (XSD ''dateTime'') EPOCH"
proof -
  let ?s = "URIRef u"
  note rs = g [unfolded record_graph_set [OF u]]
  have v: "g_value g ?s POD_enforcementCount = Some (typed_lit L (XSD ''integer'') (str_of_int 0))"
    "g_value g ?s POD_policyRef = Some (URIRef (ns @ ''tokens/policies/'' @ rid))"
    "g_value g ?s POD_lastUsedAt = Some (typed_lit L (XSD ''dateTime'') EPOCH)"
    by (rule g_value_is; auto simp: rs split: option.splits if_splits)+
  have l: "set (map node_str (g_objects g (Some ?s) POD_linkedView)) = set linked"
  proof -
    have "x \<in> set (g_objects g (Some ?s) POD_linkedView) \<longleftrightarrow> x \<in> URIRef ` set linked" for x
      by (auto simp: rs split: option.splits if_splits)
    then have "set (g_objects g (Some ?s) POD_linkedView) = URIRef ` set linked" by blast
    then show ?thesis by (simp add: image_image)
  qed
  have i: "py_int (lit_lexical L (XSD ''integer'') (str_of_int 0)) = Some 0"
    using int by (simp add: integer_lexical_def)
  show ?thesis
    using l by (simp add: token_record_from_graph_def Let_def v i)
qed

lemma digest_hex_ascii:
  "digest_hex L \<Longrightarrow> ascii (digest L raw) \<and> \<not> iri_scheme (digest L raw)"
proof -
  assume "digest_hex L"
  then have hex: "list_all is_hex (digest L raw)" by (simp add: digest_hex_def digest_def)
  have "\<not> is_hex CHR '':''" by (simp add: is_hex_def is_digit_def ord_of_def)
  with hex have colon: "CHR '':'' \<notin> set (digest L raw)" by (auto simp: list_all_iff)
  have "is_hex c \<Longrightarrow> ord_of c < 128" for c by (auto simp: is_hex_def is_digit_def)
  with hex have "ascii (digest L raw)" by (auto simp: ascii_def list_all_iff)
  moreover have "\<not> iri_scheme (digest L raw)"
  proof
    assume "iri_scheme (digest L raw)"
    then obtain c cs t where "digest L raw = c # cs" "dropWhile is_scheme_char cs = CHR '':'' # t"
      by (auto simp: iri_scheme_def startswith_iff split: list.splits)
    then have "CHR '':'' \<in> set (digest L raw)"
      by (metis list.set_intros(1) list.set_intros(2) set_dropWhileD)
    with colon show False by blast
  qed
  ultimately show ?thesis by blast
qed

text \<open>A record is in the store, and no other document states its digest.\<close>

definition recorded :: "backend \<Rightarrow> string \<Rightarrow> graph \<Rightarrow> bool" where
  "recorded b u g \<longleftrightarrow> (\<exists>h. backend_read b u = Inr h \<and> set h = set g)"

definition digest_elsewhere :: "backend \<Rightarrow> string \<Rightarrow> string \<Rightarrow> bool" where
  "digest_elsewhere b u h \<longleftrightarrow> (\<exists>n g s v. (n, g) \<in> set (contexts b) \<and> n \<noteq> u
     \<and> (s, POD_tokenHash, v) \<in> set g \<and> node_str v = h)"

lemma recorded_context: "recorded b u g \<Longrightarrow> set (context_graph b u) = set g"
  by (auto simp: recorded_def backend_read_def split: sum.splits if_splits)

lemma write_record_recorded:
  assumes w: "write_record L b ns rid h ty linked name = (Inr uri, b')" and rt: "turtle_roundtrip L"
    and ty: "\<not> is_bnode ty"
  shows "uri = ns @ ''tokens/'' @ rid" and "recorded b' uri (record_graph L ns rid h ty linked name)"
    and "\<exists>x. write_system L b uri (record_graph L ns rid h ty linked name) = (Inr x, b')"
proof -
  let ?g = "record_graph L ns rid h ty linked name"
  from w show uri: "uri = ns @ ''tokens/'' @ rid"
    and ws: "\<exists>x. write_system L b uri ?g = (Inr x, b')"
    by (auto simp: write_record_def Let_def split: prod.splits sum.splits)
  then obtain k where k: "backend_read b' uri = Inr k" "stored_as L uri ?g k"
    using system.read_write by blast
  have "\<forall>t\<in>set ?g. ground t"
    unfolding record_graph_set [OF refl] using ty by (auto split: option.splits if_splits)
  from ground_iso_set [OF stored_as_iso [OF k(2) rt] this] k(1)
  show "recorded b' uri ?g" by (simp add: recorded_def)
qed

lemma digest_elsewhere_write:
  assumes "write_system L b u g = (Inr x, b')" and "distinct (map fst (contexts b))"
    and "\<not> digest_elsewhere b u h"
  shows "\<not> digest_elsewhere b' u h"
  using write_system_contexts [OF assms(1,2)] assms(3) unfolding digest_elsewhere_def by blast

text \<open>The rows of the lookup are then rows of that record, and the record decides.\<close>

lemma recorded_rows:
  assumes rec: "recorded b u (record_graph L ns rid h ty linked name)" and u: "u = ns @ ''tokens/'' @ rid"
    and d: "distinct (map fst (contexts b))" and only: "\<not> digest_elsewhere b u h"
    and str: "lit_lexical L (XSD ''string'') h = h"
  shows "[(''tokenUri'', URIRef u), (''stored'', typed_lit L (XSD ''string'') h), (''tokenType'', ty)]
      \<in> set (lookup_rows (contexts b) h)"
    and "r \<in> set (lookup_rows (contexts b) h) \<Longrightarrow> \<exists>v t. r = [(''tokenUri'', URIRef u), (''stored'', v), (''tokenType'', t)]
      \<and> node_str v = h"
proof -
  note ctx = recorded_context [OF rec] and rs = record_graph_set [OF u, of L h ty linked name]
  have there: "(u, context_graph b u) \<in> set (contexts b)"
  proof -
    have "context_graph b u \<noteq> []" using ctx unfolding rs by auto
    then show ?thesis unfolding context_graph_def
      by (cases "map_of (contexts b) u") (simp_all add: map_of_SomeD)
  qed
  have "(URIRef u, POD_tokenHash, typed_lit L (XSD ''string'') h) \<in> set (context_graph b u)"
    "(URIRef u, RDF_type, ty) \<in> set (context_graph b u)"
    unfolding ctx rs by simp_all
  with there have "(URIRef u, POD_tokenHash, typed_lit L (XSD ''string'') h) \<in> set (union_of (contexts b))"
    "(URIRef u, RDF_type, ty) \<in> set (union_of (contexts b))"
    unfolding union_of_iff by blast+
  then show "[(''tokenUri'', URIRef u), (''stored'', typed_lit L (XSD ''string'') h), (''tokenType'', ty)]
      \<in> set (lookup_rows (contexts b) h)"
    using str by (simp add: lookup_rows_iff)
  have hash: "s = URIRef u"
    if t: "(s, POD_tokenHash, v) \<in> set (union_of (contexts b))" "node_str v = h" for s v
  proof -
    from t obtain n k where k: "(n, k) \<in> set (contexts b)" "(s, POD_tokenHash, v) \<in> set k"
      by (auto simp: union_of_iff)
    with only t(2) have "n = u" unfolding digest_elsewhere_def by blast
    with k(1) there d have "k = context_graph b u" using eq_key_imp_eq_value by metis
    with k(2) have "(s, POD_tokenHash, v) \<in> set (context_graph b u)" by simp
    then show ?thesis unfolding ctx rs by (auto split: option.splits if_splits)
  qed
  assume "r \<in> set (lookup_rows (contexts b) h)"
  then obtain s v t where "r = [(''tokenUri'', s), (''stored'', v), (''tokenType'', t)]"
    "(s, POD_tokenHash, v) \<in> set (union_of (contexts b))" "node_str v = h"
    by (auto simp: lookup_rows_iff)
  with hash show "\<exists>v t. r = [(''tokenUri'', URIRef u), (''stored'', v), (''tokenType'', t)] \<and> node_str v = h"
    by blast
qed

lemma last_stored_in:
  "last_stored rs v = Some s \<Longrightarrow> \<exists>r\<in>set rs. map_of r ''tokenUri'' = Some v \<and> map_of r ''stored'' = Some s"
  by (induction rs rule: rev_induct) (auto split: if_splits)

text \<open>What the type markers of the rows are: those of the record, in the whole dataset.\<close>

definition marked :: "backend \<Rightarrow> string \<Rightarrow> string \<Rightarrow> bool" where
  "marked b u m \<longleftrightarrow> (\<exists>n g t. (n, g) \<in> set (contexts b) \<and> (URIRef u, RDF_type, t) \<in> set g \<and> node_str t = m)"

lemma recorded_matches:
  assumes rec: "recorded b u (record_graph L ns rid h ty linked name)" and u: "u = ns @ ''tokens/'' @ rid"
    and d: "distinct (map fst (contexts b))" and only: "\<not> digest_elsewhere b u h"
    and str: "lit_lexical L (XSD ''string'') h = h" and ascii: "ascii h"
    and rows: "set rows = set (lookup_rows (contexts b) h)"
    and ty: "ty \<in> set allowed" and other: "\<forall>t\<in>set allowed. t = ty \<or> \<not> marked b u (node_str t)"
  shows "match_token_rows (string_rows rows) h allowed = Inr (u, ty)"
proof -
  let ?rs = "string_rows rows"
  note mine = recorded_rows(1) [OF rec u d only str] and all = recorded_rows(2) [OF rec u d only str]
  have row: "map_of r ''tokenUri'' = Some u \<and> map_of r ''stored'' = Some h" if "r \<in> set ?rs" for r
    using that all unfolding string_rows_def set_map rows by force
  have "[(''tokenUri'', u), (''stored'', h), (''tokenType'', node_str ty)] \<in> set ?rs"
    using mine str unfolding string_rows_def set_map rows by force
  then have "\<exists>r\<in>set ?rs. map_of r ''tokenUri'' = Some u" "node_str ty \<in> row_types ?rs u"
    unfolding row_types_def by force+
  then have adm: "admitted ?rs h allowed u"
    using row last_stored_const [of ?rs u h] ty by (auto simp: admitted_def)
  have only_u: "s = h \<and> v = u" if "last_stored ?rs v = Some s" for v s
    using last_stored_in [OF that] row by force
  then have asc: "\<forall>u s. last_stored ?rs u = Some s \<longrightarrow> ascii s" using ascii by blast
  have types: "marked b u m" if "m \<in> row_types ?rs u" for m
  proof -
    from that obtain r where r: "r \<in> set rows" "map_of (map (\<lambda>(v, n). (v, node_str n)) r) ''tokenType'' = Some m"
      by (auto simp: row_types_def string_rows_def)
    then obtain s v t where "r = [(''tokenUri'', s), (''stored'', v), (''tokenType'', t)]"
      "(s, RDF_type, t) \<in> set (union_of (contexts b))"
      unfolding rows lookup_rows_iff by blast
    moreover from this all r(1) rows have "s = URIRef u" by force
    ultimately show ?thesis using r(2) by (force simp: marked_def union_of_iff)
  qed
  show ?thesis
  proof (cases "match_token_rows ?rs h allowed")
    case (Inl e)
    with match_token_rows_decides_base [OF ascii asc, of allowed] adm show ?thesis by simp
  next
    case (Inr p)
    obtain v t where p: "p = (v, t)" by (cases p)
    with Inr match_token_rows_decides_base [OF ascii asc, of allowed]
    have v: "last_stored ?rs v = Some h" "t \<in> set allowed" "node_str t \<in> row_types ?rs v"
      by (auto simp: admitted_def find_Some_iff)
    have "v = u" using only_u [OF v(1)] by (rule conjunct2)
    with v(3) types other v(2) have "t = ty" by blast
    with \<open>v = u\<close> Inr p show ?thesis by simp
  qed
qed

lemma recorded_validates:
  assumes rec: "recorded b u (record_graph L ns rid (digest L raw) ty linked name)"
    and u: "u = ns @ ''tokens/'' @ rid"
    and lk: "lookup_law L" and int: "integer_lexical L" and hex: "digest_hex L" and lex: "string_lexical L"
    and d: "distinct (map fst (contexts b))" and only: "\<not> digest_elsewhere b u (digest L raw)"
    and ty: "ty \<in> set allowed" and other: "\<forall>t\<in>set allowed. t = ty \<or> \<not> marked b u (node_str t)"
  shows "\<exists>rec. validate_token_one_of L b raw allowed = Inr rec
    \<and> token_uri rec = u \<and> token_type rec = node_str ty
    \<and> set (linked_view_uris rec) = set linked \<and> sorted (linked_view_uris rec)
    \<and> policy_ref rec = Some (ns @ ''tokens/policies/'' @ rid) \<and> enforcement_count rec = 0
    \<and> last_used_at rec = lit_lexical L (XSD ''dateTime'') EPOCH"
proof -
  let ?h = "digest L raw"
  have ascii: "ascii ?h" and scheme: "\<not> iri_scheme ?h" using digest_hex_ascii [OF hex] by blast+
  have str: "lit_lexical L (XSD ''string'') ?h = ?h" using lex by (simp add: string_lexical_def)
  have bind: "bind_terms L (Some [(''presented'', ?h)]) None = Some [(''presented'', Lit ?h None None)]"
    using scheme by (simp add: bind_terms_def to_term_def)
  obtain rows where rows: "run_query L (WholeDataset (contexts b)) LOOKUP_QUERY
      (Some [(''presented'', Lit ?h None None)]) = Inr (SelectAnswer rows)"
    "set rows = set (lookup_rows (contexts b) ?h)"
    using lk unfolding lookup_law_def by blast
  note match = recorded_matches [OF rec u d only str ascii rows(2) ty other]
  from rec obtain h where h: "backend_read b u = Inr h"
    "set h = set (record_graph L ns rid ?h ty linked name)" unfolding recorded_def by blast
  have "validate_token_one_of L b raw allowed = token_record_from_graph h u ty"
    unfolding validate_token_one_of_def backend_query_def query_scope_of_def Let_def
    by (simp add: bind rows(1) match h(1))
  with record_reads_back [OF u h(2) int, of ty] show ?thesis by (simp only: simp_thms)
qed

lemma written_record_validates:
  assumes w: "write_record L b ns rid (digest L raw) ty linked name = (Inr uri, b')"
    and rt: "turtle_roundtrip L" and lk: "lookup_law L" and int: "integer_lexical L"
    and d: "distinct (map fst (contexts b))"
    and hex: "digest_hex L" and lex: "string_lexical L"
    and fresh: "\<not> digest_elsewhere b (ns @ ''tokens/'' @ rid) (digest L raw)"
    and ty: "\<not> is_bnode ty"
  shows "uri = ns @ ''tokens/'' @ rid \<and> (\<exists>rec. validate_token L b' raw ty = Inr rec
    \<and> token_uri rec = uri \<and> token_type rec = node_str ty
    \<and> set (linked_view_uris rec) = set linked \<and> sorted (linked_view_uris rec)
    \<and> policy_ref rec = Some (ns @ ''tokens/policies/'' @ rid) \<and> enforcement_count rec = 0
    \<and> last_used_at rec = lit_lexical L (XSD ''dateTime'') EPOCH)"
proof -
  note rec = write_record_recorded [OF w rt ty]
  from rec(3) obtain x where ws: "write_system L b uri (record_graph L ns rid (digest L raw) ty linked name) = (Inr x, b')"
    by blast
  have "\<not> digest_elsewhere b' uri (digest L raw)"
    by (rule digest_elsewhere_write [OF ws d]) (use fresh rec(1) in simp)
  from recorded_validates [OF rec(2,1) lk int hex lex write_system_distinct [OF ws d] this, of "[ty]"] rec(1)
  show ?thesis by (simp add: validate_token_def)
qed

text \<open>A library for the witnesses that also answers the lookup query.\<close>

definition token_libs :: "(graph \<times> string) list \<Rightarrow> libs" where
  "token_libs tbl = (table_libs tbl)
     \<lparr>run_query := (\<lambda>scope q bindings. Inr (SelectAnswer (case scope of
          WholeDataset cs \<Rightarrow> (case bindings of
             Some [(v, n)] \<Rightarrow> if q = LOOKUP_QUERY then lookup_rows cs (node_str n) else []
           | _ \<Rightarrow> [])
        | UnionOf gs \<Rightarrow> [])))\<rparr>"

lemma token_libs_laws:
  "lookup_law (token_libs tbl)" "integer_lexical (token_libs tbl)" "digest_hex (token_libs tbl)"
  "string_lexical (token_libs tbl)" "table_ok tbl \<Longrightarrow> turtle_roundtrip (token_libs tbl)"
  "etag_invariant (token_libs tbl)"
proof -
  show "lookup_law (token_libs tbl)" by (simp add: lookup_law_def token_libs_def)
  show "integer_lexical (token_libs tbl)"
    using integer_lexical_table [of tbl] by (simp add: integer_lexical_def token_libs_def)
  show "digest_hex (token_libs tbl)"
    using digest_hex_table [of tbl] by (simp add: digest_hex_def token_libs_def)
  show "string_lexical (token_libs tbl)"
    using string_lexical_table [of tbl] by (simp add: string_lexical_def token_libs_def)
  show "table_ok tbl \<Longrightarrow> turtle_roundtrip (token_libs tbl)"
    using turtle_roundtrip_table [of tbl] by (simp add: turtle_roundtrip_def token_libs_def)
  show "etag_invariant (token_libs tbl)"
    using etag_invariant_table [of tbl] by (simp add: etag_invariant_def token_libs_def)
qed

text \<open>Round trip of a grant: the secret that issuing a token returns validates as a consumer
  token, and its record names exactly the views and the policy it was issued for, a delivery
  count of zero and the sentinel time. Only the digest is looked up, so this holds as long as no
  other record has that digest.\<close>

theorem issued_token_validates:
  assumes "issue_token L plaintext rid b ns linked POD_ConsumerToken name = (Inr (secret, uri), b')"
    and "turtle_roundtrip L" and "lookup_law L" and "integer_lexical L" and "string_lexical L"
    and "digest_hex L" and "distinct (map fst (contexts b))"
    and "\<forall>n g s v. (n, g) \<in> set (contexts b) \<and> n \<noteq> ns @ ''tokens/'' @ rid
        \<and> (s, POD_tokenHash, v) \<in> set g \<longrightarrow> node_str v \<noteq> digest L plaintext"
  shows "secret = plaintext \<and> (\<exists>rec. validate_token L b' secret POD_ConsumerToken = Inr rec
    \<and> token_uri rec = uri \<and> token_type rec = node_str POD_ConsumerToken
    \<and> set (linked_view_uris rec) = set linked
    \<and> policy_ref rec = Some (ns @ ''tokens/policies/'' @ rid) \<and> enforcement_count rec = 0
    \<and> last_used_at rec = lit_lexical L (XSD ''dateTime'') EPOCH)"
proof -
  from assms(1) have w: "write_record L b ns rid (digest L plaintext) POD_ConsumerToken linked name
      = (Inr uri, b')" and s: "secret = plaintext"
    by (auto simp: issue_token_def allocate_record_id_def split: sum.splits prod.splits exn.splits
        storage_error.splits)
  have f: "\<not> digest_elsewhere b (ns @ ''tokens/'' @ rid) (digest L plaintext)"
    using assms(8) unfolding digest_elsewhere_def by blast
  have "\<not> is_bnode POD_ConsumerToken" by simp
  from written_record_validates [OF w assms(2,3,4,7,6,5) f this] s show ?thesis by blast
qed

definition demo_grant_graph :: graph where
  "demo_grant_graph = record_graph (token_libs []) ''b:/.system/'' ''r1''
     (digest (token_libs []) ''secret'') POD_ConsumerToken [''b:/.system/views/v''] (Some ''bob'')"

definition demo_empty :: backend where
  "demo_empty = \<lparr>storage_root = [''s''], backend_base = ''b:/'', files = [([''s''], Dir)], contexts = []\<rparr>"

lemma ok_pair_snd: "is_ok (fst p) \<Longrightarrow> \<exists>x y b. p = (Inr (x, y), b)"
  by (cases p; cases "fst p") auto

lemma issued_token_validates_witness:
  "\<exists>secret uri b' rec. issue_token (token_libs [(demo_grant_graph, ''g'')]) ''secret'' ''r1'' demo_empty
      ''b:/.system/'' [''b:/.system/views/v''] POD_ConsumerToken (Some ''bob'') = (Inr (secret, uri), b')
    \<and> validate_token (token_libs [(demo_grant_graph, ''g'')]) b' secret POD_ConsumerToken = Inr rec
    \<and> set (linked_view_uris rec) = {''b:/.system/views/v''}"
proof -
  let ?L = "token_libs [(demo_grant_graph, ''g'')]"
  let ?p = "issue_token ?L ''secret'' ''r1'' demo_empty ''b:/.system/'' [''b:/.system/views/v'']
      POD_ConsumerToken (Some ''bob'')"
  have "is_ok (fst ?p)" by code_simp
  then obtain secret uri b' where p: "?p = (Inr (secret, uri), b')" using ok_pair_snd by blast
  have t: "table_ok [(demo_grant_graph, ''g'')]" by code_simp
  have d: "distinct (map fst (contexts demo_empty))" by code_simp
  have f: "\<forall>n g s v. (n, g) \<in> set (contexts demo_empty) \<and> n \<noteq> ''b:/.system/'' @ ''tokens/'' @ ''r1''
        \<and> (s, POD_tokenHash, v) \<in> set g \<longrightarrow> node_str v \<noteq> digest ?L ''secret''"
    by (simp add: demo_empty_def)
  from issued_token_validates [OF p token_libs_laws(5) [OF t] token_libs_laws(1,2,4,3) d f] p
  show ?thesis by auto
qed

definition demo_granted :: backend where
  "demo_granted = snd (issue_token (token_libs [(demo_grant_graph, ''g'')]) ''secret'' ''r1'' demo_empty
      ''b:/.system/'' [''b:/.system/views/v''] POD_ConsumerToken (Some ''bob''))"


lemma revoked_token_is_dead_witness:
  "\<exists>b'. revoke_token demo_granted ''b:/.system/tokens/r1'' = (Inr (), b')
    \<and> (\<nexists>rec. validate_token_one_of (token_libs [(demo_grant_graph, ''g'')]) b' ''secret'' [POD_ConsumerToken]
         = Inr rec \<and> token_uri rec = ''b:/.system/tokens/r1'')"
proof -
  have "fst (revoke_token demo_granted ''b:/.system/tokens/r1'') = Inr ()" by code_simp
  then obtain b' where r: "revoke_token demo_granted ''b:/.system/tokens/r1'' = (Inr (), b')"
    by (cases "revoke_token demo_granted ''b:/.system/tokens/r1''") simp
  from revoked_token_is_dead [OF r] r show ?thesis by blast
qed

end
