(* ===== verification/SystemProps.thy ===== *)
theory SystemProps
  imports Client TokenProps
begin

text \<open>
  What the management surface promises: the view engine can change the enforcement fields of a
  record and nothing else, every write of an access-log entry or of a policy stores the
  canonical form only, and browsing keeps the engine out of what it may not read.
\<close>

section \<open>A document as a set of triples\<close>

text \<open>\<open>rdflib.compare.isomorphic\<close> is documented to decide isomorphism; this is the half used.\<close>

definition isomorphic_sound :: "libs \<Rightarrow> bool" where
  "isomorphic_sound L \<longleftrightarrow> (\<forall>g h. isomorphic L g h \<longrightarrow> graph_iso g h)"

lemma isomorphic_sound_table: "isomorphic_sound (table_libs tbl)"
  unfolding isomorphic_sound_def
  by (auto simp: table_libs_def list_all_iff intro!: graph_iso_set_eq)

lemma graph_iso_trans [trans]:
  assumes "graph_iso g h" and "graph_iso h k"
  shows "graph_iso g k"
proof -
  from assms obtain f e where f: "inj f" "set h = rename_triple f ` set g"
    and e: "inj e" "set k = rename_triple e ` set h"
    unfolding graph_iso_def by blast
  have node: "rename_node e (rename_node f n) = rename_node (e \<circ> f) n" for n
    by (cases n) simp_all
  have "rename_triple e (rename_triple f t) = rename_triple (e \<circ> f) t" for t
    by (simp add: rename_triple_def node)
  then have "set k = rename_triple (e \<circ> f) ` set g"
    by (simp add: e(2) f(2) image_image)
  moreover have "inj (e \<circ> f)" using f(1) e(1) by (rule inj_compose [rotated])
  ultimately show ?thesis unfolding graph_iso_def by blast
qed

lemma set_without:
  "t \<in> set (without g s enf) \<longleftrightarrow> t \<in> set g \<and> \<not> (fst t = s \<and> fst (snd t) \<in> set enf)"
  by (cases t) (auto simp: without_def)

lemma graph_iso_without:
  assumes "graph_iso g h" and "\<forall>p\<in>set enf. is_uri p"
  shows "graph_iso (without g (URIRef u) enf) (without h (URIRef u) enf)"
proof -
  from assms(1) obtain f where f: "inj f" "set h = rename_triple f ` set g"
    unfolding graph_iso_def by blast
  have enf: "rename_node f p \<in> set enf \<longleftrightarrow> p \<in> set enf" for p
    using assms(2) by (cases p) (auto simp: is_uri_iff)
  have keep: "rename_triple f t \<in> set (without h (URIRef u) enf) \<longleftrightarrow>
      t \<in> set (without g (URIRef u) enf)" if "t \<in> set g" for t
    using that f(2) by (simp add: set_without rename_triple_def enf)
  have "set (without h (URIRef u) enf) = rename_triple f ` set (without g (URIRef u) enf)"
  proof (rule set_eqI)
    fix t
    show "t \<in> set (without h (URIRef u) enf) \<longleftrightarrow>
        t \<in> rename_triple f ` set (without g (URIRef u) enf)"
    proof
      assume t: "t \<in> set (without h (URIRef u) enf)"
      then have "t \<in> set h" by (simp add: set_without)
      with f(2) obtain v where v: "v \<in> set g" "t = rename_triple f v" by blast
      with t keep [OF v(1)] show "t \<in> rename_triple f ` set (without g (URIRef u) enf)" by blast
    next
      assume "t \<in> rename_triple f ` set (without g (URIRef u) enf)"
      then obtain v where v: "v \<in> set (without g (URIRef u) enf)" "t = rename_triple f v" by blast
      then have "v \<in> set g" by (simp add: set_without)
      with v keep show "t \<in> set (without h (URIRef u) enf)" by blast
    qed
  qed
  with f(1) show ?thesis unfolding graph_iso_def by blast
qed

section \<open>A small managed store\<close>

text \<open>One record of each kind of token, with the statements the operations read, for the witnesses.\<close>

definition token_sample :: "string \<Rightarrow> string \<Rightarrow> string \<Rightarrow> graph" where
  "token_sample uri secret kind = [(URIRef uri, RDF_type, POD kind),
     (URIRef uri, POD_tokenHash, Lit (digest (table_libs []) secret) (Some (XSD ''string'')) None)]"

definition grant_uri :: string where
  "grant_uri = ''b:/.system/tokens/r''"

definition grant_graph :: "string \<Rightarrow> graph" where
  "grant_graph n = token_sample grant_uri ''s'' ''ConsumerToken''
     @ [(URIRef grant_uri, POD_enforcementCount, Lit n (Some (XSD ''integer'')) None)]"

definition entry_graph :: graph where
  "entry_graph = (let u = URIRef ''b:/.system/access-log/e'' in
     [(u, RDF_type, POD_AccessLogEntry), (u, POD_accessLogView, URIRef ''b:/.system/views/v''),
      (u, POD_accessLogToken, URIRef grant_uri),
      (u, POD_accessLogTimestamp, Lit ''2024-01-01T00:00:00Z'' (Some (XSD ''dateTime'')) None)])"

definition policy_graph :: graph where
  "policy_graph = (let u = URIRef ''b:/.system/tokens/policies/r'' in
     [(u, RDF_type, POD_Policy), (u, POD_maxRetrievals, Lit ''3'' (Some (XSD ''integer'')) None)])"

definition sys_libs :: libs where
  "sys_libs = token_libs [(grant_graph ''0'', ''g''), (grant_graph ''1'', ''h''),
     (token_sample ''b:/.system/tokens/a'' ''a'' ''AdminToken'', ''a''),
     (token_sample ''b:/.system/tokens/e'' ''e'' ''EngineToken'', ''e''),
     (entry_graph, ''l''), (policy_graph, ''p'')]"

definition sys_store :: backend where
  "sys_store = \<lparr>storage_root = [''s''], backend_base = ''b:/'',
     files = [([''s''], Dir), ([''s'', ''.system''], Dir), ([''s'', ''.system'', ''tokens''], Dir),
       ([''s'', ''.system'', ''tokens'', ''r.ttl''], File ''g''),
       ([''s'', ''.system'', ''tokens'', ''a.ttl''], File ''a''),
       ([''s'', ''.system'', ''tokens'', ''e.ttl''], File ''e'')],
     contexts = [(grant_uri, grant_graph ''0''),
       (''b:/.system/tokens/a'', token_sample ''b:/.system/tokens/a'' ''a'' ''AdminToken''),
       (''b:/.system/tokens/e'', token_sample ''b:/.system/tokens/e'' ''e'' ''EngineToken'')]\<rparr>"

lemma sys_libs_laws: "turtle_roundtrip sys_libs" "isomorphic_sound sys_libs"
proof -
  show "turtle_roundtrip sys_libs"
    unfolding sys_libs_def by (rule token_libs_laws(5)) (simp add: table_ok_def ord_of_def)
  show "isomorphic_sound sys_libs"
    using isomorphic_sound_table by (simp add: sys_libs_def isomorphic_sound_def token_libs_def)
qed

lemma sys_store_engine: "is_ok (get_storage_token sys_libs sys_store (Some ''Bearer e''))"
  by code_simp

lemma sys_store_admin: "is_ok (get_admin_token sys_libs sys_store (Some ''Bearer a''))"
  by code_simp

lemma sys_store_ns: "make_system_ns ''b:/'' = ''b:/.system/''"
  by code_simp

lemmas sys_store_steps = sys_store_engine sys_store_admin sys_store_ns

lemma ok_pair1: "is_ok (fst p) \<Longrightarrow> \<exists>x b. p = (Inr x, b)"
  by (cases p; cases "fst p") auto

section \<open>Conditional replacement\<close>

lemma replace_if_unchanged_true:
  assumes "replace_if_unchanged L b u g etag etag_of = (Inr True, b')"
  shows "etag_of (g_copy (context_graph b u)) = etag \<and> write_system L b u g = (Inr (), b')
    \<and> backend_read b u = Inr (g_copy (context_graph b u))"
  using assms
  by (auto simp: replace_if_unchanged_def backend_read_def split: sum.splits if_splits prod.splits)

lemma replace_if_unchanged_false:
  "replace_if_unchanged L b u g etag etag_of = (Inr False, b') \<Longrightarrow> b' = b"
  by (auto simp: replace_if_unchanged_def split: sum.splits if_splits prod.splits)

lemma apply_enforcement_put_cases:
  assumes "apply_enforcement_put L b u sub etag = (r, b')"
  obtains (refused) e where "r = Inl e" "b' = b"
  | (failed) e where "r = Inl e" "write_system L b u sub = (Inl e, b')"
  | (replaced) "r = Inr (plain_response 200 [(''ETag'', etag_for_graph L sub), (''Location'', u)])"
      "write_system L b u sub = (Inr (), b')"
proof -
  obtain x b1 where q: "replace_if_unchanged L b u sub etag (etag_for_graph L) = (x, b1)"
    by fastforce
  from q consider e where "x = Inl e" "b1 = b" | e where "x = Inl e" "write_system L b u sub = (Inl e, b1)"
    | "x = Inr False" "b1 = b" | "x = Inr True" "write_system L b u sub = (Inr (), b1)"
    by (auto simp: replace_if_unchanged_def split: sum.splits if_splits prod.splits)
  then show ?thesis
    by cases (use assms q that in \<open>auto simp: apply_enforcement_put_def\<close>)
qed

lemma guard_enforcement_put_ok:
  assumes "guard_enforcement_put L b u sub enf im inm = Inr etag"
  obtains g where "backend_read b u = Inr g" "etag = etag_for_graph L g"
    "check_preconditions im inm (Some (etag_for_graph L g)) True = Inr ()"
    "isomorphic L (without g (URIRef u) enf) (without sub (URIRef u) enf)"
  using assms
  by (auto simp: guard_enforcement_put_def Let_def split: sum.splits if_splits exn.splits
      storage_error.splits)

lemma enforcement_put_cases:
  assumes "enforcement_put L b u enf body ct im inm = (r, b')"
  obtains (refused) e where "r = Inl e" "b' = b"
  | (failed) e sub where "r = Inl e" "write_system L b u sub = (Inl e, b')"
  | (replaced) sub g where "r = Inr (plain_response 200 [(''ETag'', etag_for_graph L sub), (''Location'', u)])"
      "parse_rdf_body L body ct u = Inr sub" "backend_read b u = Inr g"
      "check_preconditions im inm (Some (etag_for_graph L g)) True = Inr ()"
      "isomorphic L (without g (URIRef u) enf) (without sub (URIRef u) enf)"
      "write_system L b u sub = (Inr (), b')"
proof (cases "parse_rdf_body L body ct u")
  case (Inl e)
  with assms show ?thesis by (intro refused) (auto simp: enforcement_put_def)
next
  case sub: (Inr sub)
  show ?thesis
  proof (cases "guard_enforcement_put L b u sub enf im inm")
    case (Inl e)
    with assms sub show ?thesis by (intro refused) (auto simp: enforcement_put_def)
  next
    case (Inr etag)
    with assms sub have a: "apply_enforcement_put L b u sub etag = (r, b')"
      by (simp add: enforcement_put_def)
    from Inr obtain g where g: "backend_read b u = Inr g"
      "check_preconditions im inm (Some (etag_for_graph L g)) True = Inr ()"
      "isomorphic L (without g (URIRef u) enf) (without sub (URIRef u) enf)"
      by (rule guard_enforcement_put_ok)
    from a show ?thesis
    proof (cases rule: apply_enforcement_put_cases)
      case replaced
      from that(3) [OF replaced(1) sub g replaced(2)] show ?thesis .
    qed (rule that; assumption)+
  qed
qed

lemmas engine_fields = TOKEN_ENFORCEMENT_FIELDS_def VIEW_ENFORCEMENT_FIELDS_def

lemma engine_fields_uris:
  "enf \<in> {TOKEN_ENFORCEMENT_FIELDS, VIEW_ENFORCEMENT_FIELDS} \<Longrightarrow> \<forall>p\<in>set enf. is_uri p"
  by (auto simp: engine_fields)

text \<open>C16. Least privilege of the view engine: an accepted enforcement write of a record names the
  present version of it (or \<open>*\<close>), and leaves every statement of the record but its enforcement
  fields as it was, up to the labels of blank nodes: type, digest, linked views, policy and
  template cannot be changed with the engine's credential. No other document changes.\<close>

theorem engine_put_least_privilege:
  assumes "enforcement_put L b u enf body ct im inm = (Inr r, b')"
    and "enf \<in> {TOKEN_ENFORCEMENT_FIELDS, VIEW_ENFORCEMENT_FIELDS}"
    and "isomorphic_sound L" and "turtle_roundtrip L"
  shows "\<exists>g h. backend_read b u = Inr g \<and> backend_read b' u = Inr h
    \<and> (im = Some ''*'' \<or> im = Some (etag_for_graph L g))
    \<and> graph_iso (without g (URIRef u) enf) (without h (URIRef u) enf)
    \<and> (\<forall>s p v. ground (s, p, v) \<and> \<not> (s = URIRef u \<and> p \<in> set enf) \<longrightarrow>
          ((s, p, v) \<in> set h \<longleftrightarrow> (s, p, v) \<in> set g))
    \<and> (\<forall>v. apart b u v \<longrightarrow> backend_read b' v = backend_read b v)"
  using assms(1)
proof (cases rule: enforcement_put_cases)
  case (replaced sub g)
  from system.read_write [OF replaced(6)] obtain h
    where h: "backend_read b' u = Inr h" "stored_as L u sub h" by blast
  have iso: "graph_iso (without g (URIRef u) enf) (without h (URIRef u) enf)"
    using replaced(5) assms(3) graph_iso_without [OF stored_as_iso [OF h(2) assms(4)]
        engine_fields_uris [OF assms(2)]]
    unfolding isomorphic_sound_def by (blast intro: graph_iso_trans)
  have same: "(s, p, v) \<in> set h \<longleftrightarrow> (s, p, v) \<in> set g"
    if "ground (s, p, v)" "\<not> (s = URIRef u \<and> p \<in> set enf)" for s p v
    using graph_iso_ground [OF iso that(1)] that(2) by (simp add: set_without)
  have "im = Some ''*'' \<or> im = Some (etag_for_graph L g)"
    using replaced(4) by (auto simp: check_preconditions_ok)
  with replaced(3) h(1) iso same system.read_write_separate [OF replaced(6)] show ?thesis by blast
qed simp_all

lemma engine_put_least_privilege_witness:
  "\<exists>r b' h. enforcement_put sys_libs sys_store grant_uri TOKEN_ENFORCEMENT_FIELDS ''h''
      (Some ''text/turtle'') (Some ''*'') None = (Inr r, b')
    \<and> backend_read b' grant_uri = Inr h
    \<and> ((URIRef grant_uri, RDF_type, POD_ConsumerToken) \<in> set h)"
proof -
  let ?p = "enforcement_put sys_libs sys_store grant_uri TOKEN_ENFORCEMENT_FIELDS ''h''
      (Some ''text/turtle'') (Some ''*'') None"
  have "is_ok (fst ?p)" by code_simp
  then obtain r b' where p: "?p = (Inr r, b')" using ok_pair1 by blast
  have old: "backend_read sys_store grant_uri = Inr (grant_graph ''0'')" by code_simp
  have t: "ground (URIRef grant_uri, RDF_type, POD_ConsumerToken)"
    "\<not> (URIRef grant_uri = URIRef grant_uri \<and> RDF_type \<in> set TOKEN_ENFORCEMENT_FIELDS)"
    by (simp_all add: engine_fields)
  from engine_put_least_privilege [OF p _ sys_libs_laws(2,1)] obtain g h where
    g: "backend_read sys_store grant_uri = Inr g" "backend_read b' grant_uri = Inr h"
    "(URIRef grant_uri, RDF_type, POD_ConsumerToken) \<in> set h \<longleftrightarrow>
     (URIRef grant_uri, RDF_type, POD_ConsumerToken) \<in> set g"
    using t by blast
  from g(1) have "g = grant_graph ''0''" unfolding old by simp
  then have "(URIRef grant_uri, RDF_type, POD_ConsumerToken) \<in> set g"
    by (simp add: grant_graph_def token_sample_def)
  with p g(2,3) show ?thesis by blast
qed

section \<open>The access log\<close>

lemma canonical_entry_ok:
  assumes "canonical_entry L u sub = Inr e"
  obtains view token stamp where "set e = {(URIRef u, RDF_type, POD_AccessLogEntry),
      (URIRef u, POD_accessLogView, URIRef view), (URIRef u, POD_accessLogToken, URIRef token),
      (URIRef u, POD_accessLogTimestamp, typed_lit L (XSD ''dateTime'') stamp)}"
    "parse_xsd_datetime stamp \<noteq> None"
proof -
  from assms obtain view token stamp where "e = g_adds []
      [(URIRef u, RDF_type, POD_AccessLogEntry), (URIRef u, POD_accessLogView, URIRef view),
       (URIRef u, POD_accessLogToken, URIRef token),
       (URIRef u, POD_accessLogTimestamp, typed_lit L (XSD ''dateTime'') (node_str stamp))]"
    "parse_xsd_datetime (node_str stamp) \<noteq> None"
    by (auto simp only: canonical_entry_def Let_def sum.inject sum.simps(4)
        split: if_splits option.splits node.splits prod.splits)
  then show ?thesis by (intro that [of view token "node_str stamp"]) (simp_all only: set_g_adds, auto)
qed

text \<open>C35. No record can be smuggled in through the access log: whatever a holder of a storage
  credential posts, an accepted entry is stored as exactly four statements about the freshly
  minted entry itself (its type, the view, the token, a readable time). No token, view or policy
  statement reaches the dataset this way, and no other document changes.\<close>

theorem access_log_canonical:
  assumes "append_access_log L eid b base auth body ct = (Inr r, b')" and "turtle_roundtrip L"
  shows "\<exists>u view token stamp h. u = make_system_ns base @ ''access-log/'' @ eid
    \<and> backend_read b' u = Inr h
    \<and> set h = {(URIRef u, RDF_type, POD_AccessLogEntry), (URIRef u, POD_accessLogView, URIRef view),
        (URIRef u, POD_accessLogToken, URIRef token),
        (URIRef u, POD_accessLogTimestamp, typed_lit L (XSD ''dateTime'') stamp)}
    \<and> parse_xsd_datetime stamp \<noteq> None
    \<and> (\<forall>v. apart b u v \<longrightarrow> backend_read b' v = backend_read b v)"
proof -
  define u where "u = make_system_ns base @ ''access-log/'' @ eid"
  from assms(1) obtain sub e y where c: "canonical_entry L u sub = Inr e"
    and w: "write_system L b u e = (Inr y, b')"
    by (auto simp: append_access_log_def Let_def u_def split: sum.splits prod.splits)
  from c obtain view token stamp where e: "set e = {(URIRef u, RDF_type, POD_AccessLogEntry),
      (URIRef u, POD_accessLogView, URIRef view), (URIRef u, POD_accessLogToken, URIRef token),
      (URIRef u, POD_accessLogTimestamp, typed_lit L (XSD ''dateTime'') stamp)}"
    and stamp: "parse_xsd_datetime stamp \<noteq> None" by (rule canonical_entry_ok)
  from system.read_write [OF w] obtain h where h: "backend_read b' u = Inr h" "stored_as L u e h"
    by blast
  have "\<forall>t\<in>set e. ground t" unfolding e by simp
  then have "set h = set e" by (rule ground_iso_set [OF stored_as_iso [OF h(2) assms(2)]])
  with u_def h(1) stamp system.read_write_separate [OF w] show ?thesis unfolding e by blast
qed

lemma access_log_write:
  "is_ok (fst (append_access_log sys_libs ''e'' sys_store ''b:/'' (Some ''Bearer e'') ''l''
      (Some ''text/turtle'')))"
proof -
  let ?u = "''b:/.system/access-log/e''"
  have "parse_rdf_body sys_libs ''l'' (Some ''text/turtle'') ?u = Inr entry_graph" by code_simp
  moreover have "canonical_entry sys_libs ?u entry_graph = Inr entry_graph" by code_simp
  moreover have "is_ok (fst (write_system sys_libs sys_store ?u entry_graph))" by code_simp
  ultimately show ?thesis using sys_store_steps
    by (auto simp: append_access_log_def Let_def is_ok_iff split: prod.splits)
qed

lemma access_log_canonical_witness:
  "\<exists>r b' u h. append_access_log sys_libs ''e'' sys_store ''b:/'' (Some ''Bearer e'') ''l''
      (Some ''text/turtle'') = (Inr r, b')
    \<and> backend_read b' u = Inr h \<and> card (set h) \<le> 4"
proof -
  obtain r b' where p: "append_access_log sys_libs ''e'' sys_store ''b:/'' (Some ''Bearer e'') ''l''
      (Some ''text/turtle'') = (Inr r, b')"
    using ok_pair1 [OF access_log_write] by blast
  from access_log_canonical [OF p sys_libs_laws(1)] obtain u h a b c d where
    h: "backend_read b' u = Inr h" "set h = {a, b, c, d}" by blast
  have "card (set h) \<le> 4" unfolding h(2) by (simp add: card_insert_if)
  with p h(1) show ?thesis by blast
qed

section \<open>Policies\<close>

text \<open>
  rdflib normalises a well-typed literal to the canonical text of the same value, which stays
  readable; an ill-typed one keeps its text.
\<close>

definition datetime_readable :: "libs \<Rightarrow> bool" where
  "datetime_readable L \<longleftrightarrow> (\<forall>v. parse_xsd_datetime v \<noteq> None \<longrightarrow>
     parse_xsd_datetime (lit_lexical L (XSD ''dateTime'') v) \<noteq> None)"

definition integer_readable :: "libs \<Rightarrow> bool" where
  "integer_readable L \<longleftrightarrow> (\<forall>v. py_int v \<noteq> None \<longrightarrow> py_int (lit_lexical L (XSD ''integer'') v) \<noteq> None)"

lemma readable_table: "datetime_readable sys_libs" "integer_readable sys_libs"
  by (simp_all add: datetime_readable_def integer_readable_def sys_libs_def token_libs_def table_libs_def)

lemma canonical_policy_set:
  "canonical_policy L g s c ps acc = Inr k \<Longrightarrow> t \<in> set k \<Longrightarrow>
   t \<in> set acc \<or> (\<exists>p dt v. (p, dt) \<in> set ps \<and> t = (c, p, typed_lit L dt v) \<and> validate_constraint v dt)"
proof (induction L g s c ps acc rule: canonical_policy.induct)
  case (2 L g s c p dt rest acc)
  show ?case
  proof (cases "g_value g s p")
    case None
    with 2 show ?thesis by auto
  next
    case (Some v)
    with 2(3) have ok: "validate_constraint (node_str v) dt"
      and k: "canonical_policy L g s c rest (g_add acc (c, p, typed_lit L dt (node_str v))) = Inr k"
      by (auto split: if_splits)
    from 2(2) [OF Some ok k 2(4)] ok show ?thesis by auto
  qed
qed simp

lemma canonical_policy_keeps:
  "canonical_policy L g s c ps acc = Inr k \<Longrightarrow> set acc \<subseteq> set k"
  by (induction L g s c ps acc rule: canonical_policy.induct) (auto split: option.splits if_splits)

lemma with_moment_denies:
  "with_moment v P reason = Inl e \<Longrightarrow> (\<And>n. v = Some n \<Longrightarrow> parse_xsd_datetime (node_str n) \<noteq> None) \<Longrightarrow>
   e = denied reason"
  by (auto simp: with_moment_def split: option.splits if_splits)

lemma with_number_denies:
  "with_number v P reason = Inl e \<Longrightarrow> (\<And>n. v = Some n \<Longrightarrow> py_int (node_str n) \<noteq> None) \<Longrightarrow>
   e = denied reason"
  by (auto simp: with_number_def split: option.splits if_splits)

lemma check_interval_denies:
  "check_interval rec v now = Inl e \<Longrightarrow> (\<And>n. v = Some n \<Longrightarrow> py_int (node_str n) \<noteq> None) \<Longrightarrow>
   parse_xsd_datetime (last_used_at rec) \<noteq> None \<Longrightarrow> e = denied ''min interval not elapsed''"
  by (auto simp: check_interval_def split: option.splits if_splits dest: with_number_denies)

lemma all_checks_error: "all_checks rs = Inl e \<Longrightarrow> Inl e \<in> set rs"
  by (induction rs) (auto split: sum.splits)

text \<open>A policy document all of whose constraints can be read: the decision over it does not fail.\<close>

definition readable_policy :: "string \<Rightarrow> graph \<Rightarrow> bool" where
  "readable_policy u h \<longleftrightarrow>
     (\<forall>p n. g_value h (URIRef u) p = Some n \<and> p \<in> {POD_expiresAt, POD_validFrom, POD_validUntil} \<longrightarrow>
        parse_xsd_datetime (node_str n) \<noteq> None)
     \<and> (\<forall>p n. g_value h (URIRef u) p = Some n \<and> p \<in> {POD_maxRetrievals, POD_minInterval} \<longrightarrow>
        py_int (node_str n) \<noteq> None)"

lemma readable_policy_denies:
  assumes c: "check_grant_policy rec h now = Inl e" and ref: "policy_ref rec = Some u"
    and last: "parse_xsd_datetime (last_used_at rec) \<noteq> None" and "readable_policy u h"
  shows "\<exists>reason. e = denied reason"
proof -
  let ?v = "g_value h (URIRef u)"
  from assms(4) have moment: "\<And>n. ?v p = Some n \<Longrightarrow> parse_xsd_datetime (node_str n) \<noteq> None"
    if "p \<in> {POD_expiresAt, POD_validFrom, POD_validUntil}" for p
    using that unfolding readable_policy_def by blast
  from assms(4) have number: "\<And>n. ?v p = Some n \<Longrightarrow> py_int (node_str n) \<noteq> None"
    if "p \<in> {POD_maxRetrievals, POD_minInterval}" for p
    using that unfolding readable_policy_def by blast
  note denies = with_moment_denies [OF _ moment] with_number_denies [OF _ number]
    check_interval_denies [OF _ number last]
  from all_checks_error [OF c [unfolded check_grant_policy_def Let_def ref option.simps]]
  consider "with_moment (?v POD_expiresAt) (\<lambda>t. t < now) ''expired'' = Inl e"
    | "with_moment (?v POD_validFrom) (\<lambda>t. now < t) ''not yet valid'' = Inl e"
    | "with_moment (?v POD_validUntil) (\<lambda>t. t < now) ''window elapsed'' = Inl e"
    | "with_number (?v POD_maxRetrievals) (\<lambda>k. k \<le> enforcement_count rec) ''max retrievals reached'' = Inl e"
    | "check_interval rec (?v POD_minInterval) now = Inl e"
    by auto
  then show ?thesis by cases (drule denies; blast)+
qed

lemma canonical_policy_readable:
  assumes k: "canonical_policy L g s (URIRef u) POLICY_CONSTRAINTS [(URIRef u, RDF_type, POD_Policy)] = Inr k"
    and hk: "set h = set k" and "datetime_readable L" and "integer_readable L"
  shows "readable_policy u h"
  unfolding readable_policy_def
proof (intro conjI allI impI; elim conjE)
  note mem = canonical_policy_set [OF k]
  fix p n assume v: "g_value h (URIRef u) p = Some n"
  show "parse_xsd_datetime (node_str n) \<noteq> None" if "p \<in> {POD_expiresAt, POD_validFrom, POD_validUntil}"
    using mem [of "(URIRef u, p, n)"] g_value_Some [OF v] that assms(3)
    by (auto simp: hk POLICY_CONSTRAINTS_def validate_constraint_def datetime_readable_def)
  show "py_int (node_str n) \<noteq> None" if "p \<in> {POD_maxRetrievals, POD_minInterval}"
    using mem [of "(URIRef u, p, n)"] g_value_Some [OF v] that assms(4)
    by (auto simp: hk POLICY_CONSTRAINTS_def validate_constraint_def integer_readable_def)
qed

lemma write_policy_ok:
  assumes "write_policy L b base auth pid body ct = (Inr r, b')"
    and u: "u = make_system_ns base @ ''tokens/policies/'' @ pid" and "turtle_roundtrip L"
  obtains g s k h where
    "canonical_policy L g s (URIRef u) POLICY_CONSTRAINTS [(URIRef u, RDF_type, POD_Policy)] = Inr k"
    and "backend_read b' u = Inr h" and "set h = set k"
proof -
  from assms(1) obtain g s k y where
    k: "canonical_policy L g s (URIRef u) POLICY_CONSTRAINTS [(URIRef u, RDF_type, POD_Policy)] = Inr k"
    and w: "write_system L b u k = (Inr y, b')"
    unfolding write_policy_def Let_def u [symmetric]
    by (auto split: sum.splits prod.splits list.splits exn.splits storage_error.splits option.splits)
  from system.read_write [OF w] obtain h where h: "backend_read b' u = Inr h" "stored_as L u k h"
    by blast
  have "\<forall>t\<in>set k. ground t" using canonical_policy_set [OF k] by (force simp: POLICY_CONSTRAINTS_def)
  then have "set h = set k" by (rule ground_iso_set [OF stored_as_iso [OF h(2) assms(3)]])
  with k h(1) show ?thesis by (rule that)
qed

text \<open>C34. A policy the owner may store is one the engine can enforce: what an accepted policy
  document holds is canonical (its own type and typed, readable constraints, nothing else), so
  that the decision over it never fails to read a constraint: every refusal is a 403 that names
  the constraint, never an internal error.\<close>

theorem stored_policy_decides:
  assumes "write_policy L b base auth pid body ct = (Inr r, b')"
    and "turtle_roundtrip L" and "datetime_readable L" and "integer_readable L"
  shows "\<exists>u h. u = make_system_ns base @ ''tokens/policies/'' @ pid \<and> backend_read b' u = Inr h
    \<and> (URIRef u, RDF_type, POD_Policy) \<in> set h
    \<and> (\<forall>s p v. (s, p, v) \<in> set h \<longrightarrow> s = URIRef u \<and> (p = RDF_type \<or> p \<in> fst ` set POLICY_CONSTRAINTS))
    \<and> (\<forall>rec now e. policy_ref rec = Some u \<and> parse_xsd_datetime (last_used_at rec) \<noteq> None
         \<and> check_grant_policy rec h now = Inl e \<longrightarrow> (\<exists>reason. e = denied reason))"
proof -
  define u where "u = make_system_ns base @ ''tokens/policies/'' @ pid"
  obtain g s k h where k: "canonical_policy L g s (URIRef u) POLICY_CONSTRAINTS [(URIRef u, RDF_type, POD_Policy)] = Inr k"
    and h: "backend_read b' u = Inr h" and hk: "set h = set k"
    by (rule write_policy_ok [OF assms(1) u_def assms(2)])
  note readable = canonical_policy_readable [OF k hk assms(3,4)]
  have type: "(URIRef u, RDF_type, POD_Policy) \<in> set h"
    using canonical_policy_keeps [OF k] by (simp add: hk)
  have closed: "\<forall>s p v. (s, p, v) \<in> set h \<longrightarrow> s = URIRef u \<and> (p = RDF_type \<or> p \<in> fst ` set POLICY_CONSTRAINTS)"
    using canonical_policy_set [OF k] by (force simp: hk)
  have decide: "\<forall>rec now e. policy_ref rec = Some u \<and> parse_xsd_datetime (last_used_at rec) \<noteq> None
      \<and> check_grant_policy rec h now = Inl e \<longrightarrow> (\<exists>reason. e = denied reason)"
    using readable_policy_denies [OF _ _ _ readable] by auto
  show ?thesis
    by (rule exI [of _ u], rule exI [of _ h]) (intro conjI u_def h type closed decide)
qed

lemma stored_policy_decides_witness:
  "\<exists>r b' h. write_policy sys_libs sys_store ''b:/'' (Some ''Bearer a'') ''r'' ''p''
      (Some ''text/turtle'') = (Inr r, b')
    \<and> backend_read b' ''b:/.system/tokens/policies/r'' = Inr h
    \<and> (URIRef ''b:/.system/tokens/policies/r'', RDF_type, POD_Policy) \<in> set h"
proof -
  let ?p = "write_policy sys_libs sys_store ''b:/'' (Some ''Bearer a'') ''r'' ''p'' (Some ''text/turtle'')"
  let ?u = "''b:/.system/tokens/policies/r''"
  have "parse_rdf_body sys_libs ''p'' (Some ''text/turtle'') ?u = Inr policy_graph" by code_simp
  moreover have "g_subjects policy_graph RDF_type POD_Policy = [URIRef ?u]" by code_simp
  moreover have "canonical_policy sys_libs policy_graph (URIRef ?u) (URIRef ?u) POLICY_CONSTRAINTS
      [(URIRef ?u, RDF_type, POD_Policy)] = Inr policy_graph" by code_simp
  moreover have "is_ok (fst (write_system sys_libs sys_store ?u policy_graph))" by code_simp
  moreover have "serialize_graph sys_libs ''turtle'' policy_graph \<noteq> None" by code_simp
  moreover have "backend_read sys_store ?u = Inl (Storage ResourceNotFound)" by code_simp
  ultimately have "is_ok (fst ?p)" using sys_store_steps
    by (auto simp: write_policy_def Let_def is_ok_iff split: prod.splits option.splits)
  then obtain r b' where p: "?p = (Inr r, b')" using ok_pair1 by blast
  have u: "make_system_ns ''b:/'' @ ''tokens/policies/'' @ ''r'' = ''b:/.system/tokens/policies/r''"
    by code_simp
  from stored_policy_decides [OF p sys_libs_laws(1) readable_table] obtain h where
    "backend_read b' ''b:/.system/tokens/policies/r'' = Inr h"
    "(URIRef ''b:/.system/tokens/policies/r'', RDF_type, POD_Policy) \<in> set h"
    unfolding u by blast
  with p show ?thesis by blast
qed

text \<open>The decision on that policy, for a grant with two deliveries: it is let through.\<close>

definition demo_record :: token_record where
  "demo_record = \<lparr>token_uri = grant_uri, token_type = [], linked_view_uris = [],
     policy_ref = Some ''b:/.system/tokens/policies/r'', enforcement_count = 2, last_used_at = EPOCH\<rparr>"

lemma check_policy_exact_witness:
  "check_policy sys_libs 0 demo_record (Some policy_graph) (Some []) (Some ''v'') = Inr ()"
proof -
  have v: "g_value policy_graph (URIRef ''b:/.system/tokens/policies/r'') p =
      (if p = RDF_type then Some POD_Policy
       else if p = POD_maxRetrievals then Some (Lit ''3'' (Some (XSD ''integer'')) None) else None)" for p
    by (auto simp: policy_graph_def Let_def)
  have three: "py_int ''3'' = Some 3" by code_simp
  show ?thesis
    by (subst check_policy_exact) (simp add: v demo_record_def three)
qed

end
