(* ===== verification/AppProps.thy ===== *)
theory AppProps
  imports Apps SystemProps
begin

text \<open>
  The storage application as a whole: which requests can change the store, and with which
  credential. The statements quantify over every request, whatever its method, path and body.
\<close>

section \<open>One request\<close>

lemma first_route_cases:
  "first_route rs d = x \<Longrightarrow> Some x \<in> set rs \<or> x = d"
  by (induction rs) (auto split: option.splits)

lemma storage_app_cases:
  assumes "storage_app L f st b req = r"
  obtains (public_page) x where "public_routes req = Some x" "r = (x, b)"
  | (sparql) "public_routes req = None" "sparql_routes L st b req = Some r"
  | (views) "public_routes req = None" "views_routes L f st b req = Some r"
  | (internal) "public_routes req = None" "internal_routes L f st b req = Some r"
  | (sys) "public_routes req = None" "system_routes L f st b req = Some r"
  | (ldp) "public_routes req = None" "ldp_routes L f st b req (tl (a_path req)) = r"
  using assms unfolding storage_app_def
  by (cases "public_routes req") (auto split: option.splits)

text \<open>A validated token is of one of the types that were allowed.\<close>

lemma validated_type:
  assumes "validate_token_one_of L b raw allowed = Inr rec"
  shows "token_type rec \<in> node_str ` set allowed"
  using assms
proof (cases rule: validate_ok)
  case (1 rows u t g)
  with match_token_rows_ok [OF 1(2)] token_record_uri [OF 1(4)] show ?thesis by auto
qed

lemma admin_token_type:
  "get_admin_token L b auth = Inr rec \<Longrightarrow> token_type rec = node_str POD_AdminToken"
  by (auto simp: get_admin_token_def validate_token_def dest: validated_type split: sum.splits)

lemma storage_token_type:
  "get_storage_token L b auth = Inr rec \<Longrightarrow>
   token_type rec = node_str POD_AdminToken \<or> token_type rec = node_str POD_EngineToken"
  by (auto simp: get_storage_token_def dest: validated_type split: sum.splits)

section \<open>Who can change the store\<close>

text \<open>The request is the owner's, or it is one of the engine's three writes.\<close>

definition owner_request :: "libs \<Rightarrow> backend \<Rightarrow> app_request \<Rightarrow> bool" where
  "owner_request L b req \<longleftrightarrow> (\<exists>rec. token_type rec = node_str POD_AdminToken \<and>
     (get_admin_token L b (hdr req ''authorization'') = Inr rec
      \<or> get_storage_token L b (hdr req ''authorization'') = Inr rec))"

definition engine_write :: "libs \<Rightarrow> fresh \<Rightarrow> settings \<Rightarrow> backend \<Rightarrow> app_request \<Rightarrow> outcome \<times> backend \<Rightarrow> bool" where
  "engine_write L f st b req r \<longleftrightarrow>
     (\<exists>rec. get_storage_token L b (hdr req ''authorization'') = Inr rec
        \<and> token_type rec = node_str POD_EngineToken) \<and>
     (append_access_log L (f_entry_id f) b (base_uri st) (hdr req ''authorization'') (a_body req)
            (hdr req ''content-type'') = r
      \<or> (\<exists>u enf. enf \<in> {TOKEN_ENFORCEMENT_FIELDS, VIEW_ENFORCEMENT_FIELDS} \<and>
           enforcement_put L b u enf (a_body req) (hdr req ''content-type'')
                 (hdr req ''if-match'') (hdr req ''if-none-match'') = r))"

lemma owner_by_admin: "get_admin_token L b (hdr req ''authorization'') = Inr rec \<Longrightarrow> owner_request L b req"
  unfolding owner_request_def using admin_token_type by blast

lemma sparql_routes_inert: "sparql_routes L st b req = Some (x, b') \<Longrightarrow> b' = b"
  by (auto simp: sparql_routes_def split: if_splits)

lemma views_routes_writes:
  assumes "views_routes L f st b req = Some (x, b')" and "b' \<noteq> b"
  shows "owner_request L b req \<or> engine_write L f st b req (x, b')"
proof (cases "get_admin_token L b (hdr req ''authorization'')")
  case (Inr rec)
  then show ?thesis by (auto intro: owner_by_admin)
next
  case (Inl e)
  with assms obtain i where
    r: "replace_view L (f_labels f) b (base_uri st) (hdr req ''authorization'') i (a_body req)
        (hdr req ''content-type'') (hdr req ''if-match'') (hdr req ''if-none-match'') = (x, b')"
    by (auto simp: views_routes_def create_view_def delete_view_def split: if_splits option.splits)
  with assms(2) obtain rec where rec: "get_storage_token L b (hdr req ''authorization'') = Inr rec"
    by (auto simp: replace_view_def split: sum.splits)
  show ?thesis
  proof (cases "token_type rec = node_str POD_EngineToken")
    case True
    with r rec show ?thesis unfolding engine_write_def replace_view_def Let_def
      by (intro disjI2 conjI) auto
  next
    case False
    with storage_token_type [OF rec] rec show ?thesis unfolding owner_request_def by blast
  qed
qed

lemma internal_routes_writes:
  assumes "internal_routes L f st b req = Some (x, b')" and "b' \<noteq> b"
  shows "owner_request L b req \<or> engine_write L f st b req (x, b')"
proof -
  from assms obtain rec where rec: "get_storage_token L b (hdr req ''authorization'') = Inr rec"
    by (auto simp: internal_routes_def append_access_log_def put_token_enforcement_def
        split: if_splits option.splits sum.splits)
  from storage_token_type [OF this] show ?thesis
  proof
    assume "token_type rec = node_str POD_AdminToken"
    with rec show ?thesis unfolding owner_request_def by blast
  next
    assume e: "token_type rec = node_str POD_EngineToken"
    from assms(1) rec have "append_access_log L (f_entry_id f) b (base_uri st)
          (hdr req ''authorization'') (a_body req) (hdr req ''content-type'') = (x, b')
      \<or> (\<exists>u. enforcement_put L b u TOKEN_ENFORCEMENT_FIELDS (a_body req)
          (hdr req ''content-type'') (hdr req ''if-match'') (hdr req ''if-none-match'') = (x, b'))"
      by (auto simp: internal_routes_def put_token_enforcement_def split: if_splits option.splits)
    with e rec show ?thesis unfolding engine_write_def by blast
  qed
qed

lemma system_routes_writes:
  assumes "system_routes L f st b req = Some (x, b')" and "b' \<noteq> b"
  shows "owner_request L b req"
proof (cases "get_admin_token L b (hdr req ''authorization'')")
  case (Inr rec)
  then show ?thesis by (rule owner_by_admin)
next
  case (Inl e)
  with assms show ?thesis
    by (auto simp: system_routes_def issue_grant_def write_policy_def revoke_system_def Let_def
        split: if_splits option.splits)
qed

lemma ldp_routes_writes:
  assumes "ldp_routes L f st b req path = (x, b')" and "b' \<noteq> b"
  shows "owner_request L b req"
proof (cases "get_admin_token L b (hdr req ''authorization'')")
  case (Inr rec)
  then show ?thesis by (rule owner_by_admin)
next
  case (Inl e)
  have reads: "with_token t b (y, b) = (x, b') \<Longrightarrow> b' = b" for t y
    by (auto simp: with_token_def split: sum.splits)
  show ?thesis
    using assms reads by (auto simp: ldp_routes_def Let_def Inl with_token_def split: if_splits)
qed

lemma store_change_needs_credential:
  assumes "storage_app L f st b req = (x, b')" and "b' \<noteq> b"
  shows "owner_request L b req \<or> engine_write L f st b req (x, b')"
  using assms(1)
proof (cases rule: storage_app_cases)
  case sparql
  from sparql_routes_inert [OF this(2)] assms(2) show ?thesis by blast
next
  case views
  from views_routes_writes [OF this(2) assms(2)] show ?thesis .
next
  case internal
  from internal_routes_writes [OF this(2) assms(2)] show ?thesis .
next
  case sys
  from system_routes_writes [OF this(2) assms(2)] show ?thesis ..
next
  case ldp
  from ldp_routes_writes [OF this(2) assms(2)] show ?thesis ..
qed (use assms(2) in simp)

text \<open>C1. Who can write: whatever the request, the store changes only if the presented credential is
  a validated admin token, or is a validated engine token and the request is one of the engine's
  three writes: an access-log entry, or a conditional write of the enforcement fields of a token
  or of a view. Consumer tokens and anonymous requests change nothing.\<close>

theorem writes_need_credential:
  assumes "storage_app L f st b req = (x, b')" and "b' \<noteq> b"
  shows "(\<exists>rec. token_type rec = node_str POD_AdminToken \<and>
       (get_admin_token L b (hdr req ''authorization'') = Inr rec
        \<or> get_storage_token L b (hdr req ''authorization'') = Inr rec))
    \<or> engine_write L f st b req (x, b')"
  using store_change_needs_credential [OF assms] unfolding owner_request_def .

section \<open>Requests without a credential\<close>


section \<open>Two requests\<close>

definition demo_settings :: settings where
  "demo_settings = \<lparr>base_uri = ''b:/'', root_path = [''s''], host = ''localhost'', tls_mode = Off,
     ssl_keyfile = None, ssl_certfile = None, admin_token = Some ''a'', engine_token = Some ''e'',
     state_storage_url = None, set_state_graph = ''urn:ldp:engine-state'', data_source_url = None,
     data_source_base_uri = None, data_source_token = None, data_source_auth = ''bearer''\<rparr>"

definition demo_fresh :: fresh where
  "demo_fresh = \<lparr>f_secret = ''x'', f_record_id = ''n'', f_entry_id = ''e'', f_view_id = ''i'',
     f_uuid = ''01234567'', f_labels = []\<rparr>"

definition log_request :: app_request where
  "log_request = \<lparr>a_method = ''POST'', a_path = ''/.system/access-log'', a_params = [],
     a_headers = [(''Authorization'', ''Bearer e''), (''Content-Type'', ''text/turtle'')], a_body = ''l''\<rparr>"

definition bare_request :: app_request where
  "bare_request = \<lparr>a_method = ''GET'', a_path = ''/x'', a_params = [], a_headers = [], a_body = []\<rparr>"

lemma access_log_wrote:
  assumes "append_access_log L eid b base auth body ct = (Inr r, b')"
  shows "\<exists>h. backend_read b' (make_system_ns base @ ''access-log/'' @ eid) = Inr h"
  using assms system.read_write
  by (force simp: append_access_log_def Let_def split: sum.splits prod.splits)

lemma log_request_writes:
  "\<exists>r b'. storage_app sys_libs demo_fresh demo_settings sys_store log_request = (Inr r, b')
     \<and> b' \<noteq> sys_store"
proof -
  let ?p = "append_access_log sys_libs ''e'' sys_store ''b:/'' (Some ''Bearer e'') ''l'' (Some ''text/turtle'')"
  obtain r b' where p: "?p = (Inr r, b')" using ok_pair1 [OF access_log_write] by blast
  have h: "hdr log_request ''authorization'' = Some ''Bearer e''"
    "hdr log_request ''content-type'' = Some ''text/turtle''" by code_simp+
  have "storage_app sys_libs demo_fresh demo_settings sys_store log_request = ?p"
    using h by (simp add: storage_app_def public_routes_def sparql_routes_def views_routes_def
        internal_routes_def log_request_def demo_settings_def demo_fresh_def one_segment_def
        CONSTRAINTS_PATH_def Let_def)
  moreover have "backend_read sys_store (make_system_ns ''b:/'' @ ''access-log/'' @ ''e'')
      = Inl (Storage ResourceNotFound)" by code_simp
  with access_log_wrote [OF p] have "b' \<noteq> sys_store" by auto
  ultimately show ?thesis using p by simp
qed

lemma writes_need_credential_witness:
  "\<exists>r b'. storage_app sys_libs demo_fresh demo_settings sys_store log_request = (r, b')
     \<and> (owner_request sys_libs sys_store log_request
        \<or> engine_write sys_libs demo_fresh demo_settings sys_store log_request (r, b'))"
proof -
  obtain r b' where p: "storage_app sys_libs demo_fresh demo_settings sys_store log_request = (Inr r, b')"
    and ne: "b' \<noteq> sys_store" using log_request_writes by blast
  from writes_need_credential [OF p ne] p show ?thesis unfolding owner_request_def by blast
qed


end
