(* ===== verification/Counters.thy ===== *)
theory Counters
  imports AppProps
begin

text \<open>
  The delivery counters under concurrency. Several engine workers count deliveries on one record:
  each reads the record and its entity tag, submits the next version under \<open>If-Match\<close>, and the
  storage server first checks the request and then swaps the record if it is still the tagged
  version. These four points interleave freely with each other and with writes elsewhere; no
  delivery that was acknowledged is ever lost, and none is counted twice.
\<close>

section \<open>Compare and swap\<close>

text \<open>
  The contract of \<open>replace_if_unchanged\<close> for one document: a swap that reports success found the
  tagged version and left the new one, one that reports a conflict did nothing.
\<close>

locale versioned_document =
  fixes current :: "'s \<Rightarrow> (exn, 'v) result"
    and swap :: "'s \<Rightarrow> 'v \<Rightarrow> 't \<Rightarrow> (exn, bool) result \<times> 's"
    and tag_of :: "'v \<Rightarrow> 't"
    and kept :: "'v \<Rightarrow> 'v \<Rightarrow> bool"
  assumes swap_done: "swap s v t = (Inr True, s') \<Longrightarrow>
      \<exists>c c'. current s = Inr c \<and> tag_of c = t \<and> current s' = Inr c' \<and> kept v c'"
    and swap_conflict: "swap s v t = (Inr False, s') \<Longrightarrow> s' = s"
begin

text \<open>Of two swaps that name the same version only one goes through, unless the tags collide.\<close>

lemma second_swap_conflicts:
  assumes "swap s v t = (Inr True, s1)" and "swap s1 w t = (Inr True, s2)"
  shows "\<exists>c1. current s1 = Inr c1 \<and> kept v c1 \<and> tag_of c1 = t"
  using swap_done [OF assms(1)] swap_done [OF assms(2)] by auto

lemma swap_found:
  assumes "swap s v t = (Inr True, s')" and "current s = Inr c"
  shows "tag_of c = t"
  using swap_done [OF assms(1)] assms(2) by auto

end

interpretation cas: versioned_document "\<lambda>b. backend_read b u"
    "\<lambda>b g t. replace_if_unchanged L b u g t (etag_for_graph L)" "etag_for_graph L" "stored_as L u"
  for L u
proof unfold_locales
  fix s s' v t
  assume r: "replace_if_unchanged L s u v t (etag_for_graph L) = (Inr True, s')"
  from replace_if_unchanged_true [OF r] system.read_write [of L s u v "()" s']
  show "\<exists>c c'. backend_read s u = Inr c \<and> etag_for_graph L c = t \<and> backend_read s' u = Inr c'
      \<and> stored_as L u v c'" by auto
qed (rule replace_if_unchanged_false)

text \<open>A write that fails leaves the document as it was, where Turtle reads back.\<close>

lemma write_system_failed:
  assumes w: "write_system L b u g = (Inl e, b')" and rt: "turtle_roundtrip L"
    and r: "backend_read b u = Inr h"
  shows "backend_read b' u = Inr h"
  using w
proof (cases rule: write_system_cases)
  case (dirs b1)
  have cfg: "same_config b b'" by (rule write_system_config [OF w])
  have "context_graph b' u = context_graph b u"
    using dirs by (simp add: store_contexts)
  moreover have "path_exists b (rdf_location b u) \<Longrightarrow> path_exists b' (rdf_location b u)"
    using dirs by (auto simp: path_exists_def file_at_mkdirs [OF dirs(2)])
  ultimately show ?thesis using r cfg
    by (auto simp: backend_read_def guard_within_root_def rdf_location_def same_config_paths [OF cfg]
        same_config_def Let_def split: if_splits)
next
  case (written b1 b2 doc)
  from turtle_roundtripE [OF rt written(2)] obtain k
    where k: "parse_graph L (utf8_encode doc) ''turtle'' (Some u) = Some k" "universal_newlines doc = doc"
    by metis
  have "file_at (b2\<lparr>contexts := AList.update u [] (contexts b2)\<rparr>) (rdf_location b u)
      = file_at b2 (rdf_location b u)" by (simp add: file_at_def)
  also have "\<dots> = Some (File (utf8_encode doc))" by (simp add: file_at_write_bytes(1) [OF written(4)])
  finally have "file_at (b2\<lparr>contexts := AList.update u [] (contexts b2)\<rparr>) (rdf_location b u)
      = Some (File (utf8_encode doc))" .
  then have "read_text (b2\<lparr>contexts := AList.update u [] (contexts b2)\<rparr>) (rdf_location b u) = Inr doc"
    by (simp add: read_text_def k(2))
  with written(5) k(1) show ?thesis by (simp add: reload_context_def Let_def)
qed (use r in simp_all)

section \<open>Counters in a record\<close>

datatype counter = Deliveries | Retrievals   \<comment> \<open>of a token record, of a view record\<close>

primrec counter_field :: "counter \<Rightarrow> node" where
  "counter_field Deliveries = POD_enforcementCount"
| "counter_field Retrievals = POD_viewRetrievalCount"

primrec counter_enforcement :: "counter \<Rightarrow> node list" where
  "counter_enforcement Deliveries = TOKEN_ENFORCEMENT_FIELDS"
| "counter_enforcement Retrievals = VIEW_ENFORCEMENT_FIELDS"

primrec counter_bump :: "counter \<Rightarrow> libs \<Rightarrow> string \<Rightarrow> string \<Rightarrow> graph \<Rightarrow> int \<Rightarrow> graph" where
  "counter_bump Deliveries L u stamp g n = bumped_token L g (URIRef u) n stamp"
| "counter_bump Retrievals L u stamp g n = bumped_view L g (URIRef u) n"

text \<open>The record states the count \<open>n\<close> and no other.\<close>

definition counts :: "counter \<Rightarrow> string \<Rightarrow> graph \<Rightarrow> int \<Rightarrow> bool" where
  "counts k u g n \<longleftrightarrow> (\<forall>v. (URIRef u, counter_field k, v) \<in> set g \<longleftrightarrow>
     v = Lit (str_of_int n) (Some (XSD ''integer'')) None)"

lemma counter_field_uri: "\<exists>f. counter_field k = URIRef f"
  by (cases k) (auto simp: POD_def)

lemma counts_iso:
  assumes "counts k u g n" and "graph_iso g h"
  shows "counts k u h n"
proof -
  obtain f where f: "counter_field k = URIRef f" using counter_field_uri by blast
  have ground: "\<not> is_bnode v" if "(URIRef u, URIRef f, v) \<in> set g" for v
    using assms(1) that by (simp add: counts_def f)
  have "(URIRef u, URIRef f, v) \<in> set h \<longleftrightarrow> (URIRef u, URIRef f, v) \<in> set g" for v
    by (rule graph_iso_values [OF assms(2) ground])
  with assms(1) show ?thesis unfolding counts_def f by blast
qed

lemma counts_value: "counts k u g n \<Longrightarrow>
  g_value g (URIRef u) (counter_field k) = Some (Lit (str_of_int n) (Some (XSD ''integer'')) None)"
  by (rule g_value_unique) (simp_all add: counts_def)

lemma counts_int:
  assumes "counts k u g n" and "integer_truthy L"
  shows "int_or_zero L (g_value g (URIRef u) (counter_field k)) = Some n"
proof (cases "n = 0")
  case True
  have "py_int ''0'' = Some 0" by code_simp
  with True show ?thesis
    using py_int_str_of_int [of 0] by (simp add: counts_value [OF assms(1)] int_or_zero_def)
next
  case False
  with assms(2) show ?thesis
    by (simp add: counts_value [OF assms(1)] int_or_zero_def integer_truthy_def py_int_str_of_int)
qed

lemma counts_fun: "counts k u g m \<Longrightarrow> counts k u g n \<Longrightarrow> m = n"
  using counts_value [of k u g m] counts_value [of k u g n] py_int_str_of_int [of m]
    py_int_str_of_int [of n] by simp

lemma counts_bump:
  assumes "integer_lexical L"
  shows "counts k u (counter_bump k L u stamp g n) (n + 1)"
  using assms
  by (cases k) (auto simp: counts_def bumped_token_def bumped_view_def typed_lit_def integer_lexical_def
      pat_match_def)

section \<open>Workers\<close>

text \<open>
  What a worker holds between its requests: nothing, the next version and the tag it read, or
  (inside the storage server) the checked body and the tag it may replace.
\<close>

datatype worker = Idle | Holding graph string | Checked graph string

record system_state =
  store_now :: backend
  workers :: "nat \<Rightarrow> worker"
  delivered :: nat              \<comment> \<open>acknowledged bumps\<close>
  versions :: "graph list"      \<comment> \<open>every version the record had\<close>

inductive bump_step :: "libs \<Rightarrow> counter \<Rightarrow> string \<Rightarrow> system_state \<Rightarrow> system_state \<Rightarrow> bool"
  for L k u where
  read: "backend_read (store_now s) u = Inr g \<Longrightarrow> serialize_graph L ''turtle'' g = Some txt \<Longrightarrow>
     parse_graph L (utf8_encode txt) ''turtle'' None = Some g' \<Longrightarrow>
     int_or_zero L (g_value g' (URIRef u) (counter_field k)) = Some n \<Longrightarrow>
     bump_step L k u s (s\<lparr>workers := (workers s)
       (i := Holding (counter_bump k L u stamp g' n) (etag_for_graph L g))\<rparr>)"
| check: "workers s i = Holding v etag \<Longrightarrow> serialize_graph L ''turtle'' v = Some txt \<Longrightarrow>
     parse_rdf_body L (utf8_encode txt) (Some ''text/turtle'') u = Inr sub \<Longrightarrow>
     guard_enforcement_put L (store_now s) u sub (counter_enforcement k) (Some etag) None = Inr e \<Longrightarrow>
     bump_step L k u s (s\<lparr>workers := (workers s)(i := Checked sub e)\<rparr>)"
| swap: "workers s i = Checked sub e \<Longrightarrow>
     apply_enforcement_put L (store_now s) u sub e = (Inr r, b') \<Longrightarrow> backend_read b' u = Inr g \<Longrightarrow>
     bump_step L k u s (s\<lparr>store_now := b', workers := (workers s)(i := Idle),
       delivered := Suc (delivered s), versions := g # versions s\<rparr>)"
| conflict: "workers s i = Checked sub e \<Longrightarrow>
     apply_enforcement_put L (store_now s) u sub e = (Inl x, b') \<Longrightarrow>
     bump_step L k u s (s\<lparr>store_now := b', workers := (workers s)(i := Idle)\<rparr>)"
| give_up: "bump_step L k u s (s\<lparr>workers := (workers s)(i := Idle)\<rparr>)"
| write_elsewhere: "write_system L (store_now s) v h = (r, b') \<Longrightarrow> apart (store_now s) v u \<Longrightarrow>
     bump_step L k u s (s\<lparr>store_now := b'\<rparr>)"
| delete_elsewhere: "delete_system (store_now s) v = (r, b') \<Longrightarrow> apart (store_now s) v u \<Longrightarrow>
     bump_step L k u s (s\<lparr>store_now := b'\<rparr>)"

inductive bump_run :: "libs \<Rightarrow> counter \<Rightarrow> string \<Rightarrow> system_state \<Rightarrow> system_state \<Rightarrow> bool" for L k u where
  none: "bump_run L k u s s"
| more: "bump_run L k u s t \<Longrightarrow> bump_step L k u t t' \<Longrightarrow> bump_run L k u s t'"

inductive_cases bump_stepE: "bump_step L k u s t"

text \<open>The tags of the versions the record had tell them apart.\<close>

definition no_collision :: "libs \<Rightarrow> graph list \<Rightarrow> bool" where
  "no_collision L vs \<longleftrightarrow> (\<forall>g\<in>set vs. \<forall>h\<in>set vs. etag_for_graph L g = etag_for_graph L h \<longrightarrow> graph_iso g h)"

definition begin_with :: "backend \<Rightarrow> graph \<Rightarrow> system_state" where
  "begin_with b g = \<lparr>store_now = b, workers = (\<lambda>_. Idle), delivered = 0, versions = [g]\<rparr>"

text \<open>
  The invariant: the record counts what has been delivered, and what a worker holds is one more
  than the version its tag names.
\<close>

definition holds_next :: "libs \<Rightarrow> counter \<Rightarrow> string \<Rightarrow> graph list \<Rightarrow> graph \<Rightarrow> string \<Rightarrow> bool" where
  "holds_next L k u vs v etag \<longleftrightarrow>
     (\<exists>g n. g \<in> set vs \<and> etag = etag_for_graph L g \<and> counts k u g n \<and> counts k u v (n + 1))"

definition counter_inv :: "libs \<Rightarrow> counter \<Rightarrow> string \<Rightarrow> int \<Rightarrow> system_state \<Rightarrow> bool" where
  "counter_inv L k u n0 s \<longleftrightarrow>
     (\<exists>g. backend_read (store_now s) u = Inr g \<and> g \<in> set (versions s)
        \<and> counts k u g (n0 + int (delivered s)))
     \<and> (\<forall>i. case workers s i of Idle \<Rightarrow> True
          | Holding v etag \<Rightarrow> holds_next L k u (versions s) v etag
          | Checked v etag \<Rightarrow> holds_next L k u (versions s) v etag)"

lemma holds_next_mono:
  "holds_next L k u vs v etag \<Longrightarrow> set vs \<subseteq> set ws \<Longrightarrow> holds_next L k u ws v etag"
  unfolding holds_next_def by blast

lemma counter_inv_workers:
  assumes "counter_inv L k u n0 s"
    and "\<And>v etag. w = Holding v etag \<or> w = Checked v etag \<Longrightarrow> holds_next L k u (versions s) v etag"
  shows "counter_inv L k u n0 (s\<lparr>workers := (workers s)(i := w)\<rparr>)"
  using assms by (auto simp: counter_inv_def split: worker.splits)

lemma counter_inv_store:
  assumes "counter_inv L k u n0 s"
    and "\<And>c. backend_read (store_now s) u = Inr c \<Longrightarrow> backend_read b' u = Inr c"
  shows "counter_inv L k u n0 (s\<lparr>store_now := b'\<rparr>)"
  using assms by (auto simp: counter_inv_def split: worker.splits)

lemma counter_inv_current:
  assumes "counter_inv L k u n0 s"
  obtains c where "backend_read (store_now s) u = Inr c" "c \<in> set (versions s)"
    "counts k u c (n0 + int (delivered s))"
  using assms unfolding counter_inv_def by blast

lemma counter_inv_held:
  "counter_inv L k u n0 s \<Longrightarrow> workers s i = Holding v etag \<or> workers s i = Checked v etag \<Longrightarrow>
   holds_next L k u (versions s) v etag"
  unfolding counter_inv_def by (auto dest: spec [of _ i])

lemma guard_tag:
  assumes "guard_enforcement_put L b u sub enf (Some etag) None = Inr e"
  shows "e = etag \<or> etag = ''*''"
  using assms by (auto elim!: guard_enforcement_put_ok simp: check_preconditions_ok)

lemma etag_not_star: "etag_for_graph L g \<noteq> ''*''"
  by (simp add: etag_for_graph_def quote_etag_def)

text \<open>A swap that went through replaced the version its tag names.\<close>

lemma swap_keeps_count:
  assumes sw: "apply_enforcement_put L b u sub e = (Inr r, b')" and g: "backend_read b' u = Inr g"
    and c: "backend_read b u = Inr c" "c \<in> set vs" "counts k u c n"
    and h: "holds_next L k u vs sub e" and nc: "no_collision L vs" and rt: "turtle_roundtrip L"
  shows "counts k u g (n + 1)"
proof -
  from sw have rep: "replace_if_unchanged L b u sub e (etag_for_graph L) = (Inr True, b')"
    by (auto simp: apply_enforcement_put_def split: prod.splits sum.splits if_splits)
  from cas.swap_done [OF this] c(1) g have tag: "etag_for_graph L c = e" and st: "stored_as L u sub g"
    by auto
  from h obtain old m where old: "old \<in> set vs" "e = etag_for_graph L old" "counts k u old m"
    "counts k u sub (m + 1)" unfolding holds_next_def by blast
  have "graph_iso c old" using nc c(2) old(1) tag old(2) unfolding no_collision_def by blast
  from counts_fun [OF counts_iso [OF c(3) this] old(3)] have "n = m" .
  with counts_iso [OF old(4) stored_as_iso [OF st rt]] show ?thesis by simp
qed

lemma apply_failed_keeps:
  assumes "apply_enforcement_put L b u sub e = (Inl x, b')" and "turtle_roundtrip L"
    and "backend_read b u = Inr c"
  shows "backend_read b' u = Inr c"
  using assms(1)
proof (cases rule: apply_enforcement_put_cases)
  case (failed e)
  from write_system_failed [OF this(2) assms(2,3)] show ?thesis .
qed (use assms(3) in simp_all)

lemma read_holds_next:
  assumes laws: "turtle_roundtrip L" "integer_lexical L" "integer_truthy L"
    and c: "g \<in> set vs" "counts k u g m"
    and ser: "serialize_graph L ''turtle'' g = Some txt"
    and p: "parse_graph L (utf8_encode txt) ''turtle'' None = Some g'"
    and n: "int_or_zero L (g_value g' (URIRef u) (counter_field k)) = Some n"
  shows "holds_next L k u vs (counter_bump k L u stamp g' n) (etag_for_graph L g)"
proof -
  from turtle_roundtripE [OF laws(1) ser, of None] p have "graph_iso g g'" by auto
  from counts_int [OF counts_iso [OF c(2) this] laws(3)] n have "n = m" by simp
  with counts_bump [OF laws(2), of k u stamp g' n] c show ?thesis unfolding holds_next_def by blast
qed

lemma check_holds_next:
  assumes rt: "turtle_roundtrip L" and h: "holds_next L k u vs v etag"
    and ser: "serialize_graph L ''turtle'' v = Some txt"
    and p: "parse_rdf_body L (utf8_encode txt) (Some ''text/turtle'') u = Inr sub"
    and e: "guard_enforcement_put L b u sub enf (Some etag) None = Inr e"
  shows "holds_next L k u vs sub e"
proof -
  have "normalize_media_type (Some ''text/turtle'') '''' = ''text/turtle''" by code_simp
  then have "parse_graph L (utf8_encode txt) ''turtle'' (Some u) = Some sub"
    using p by (auto simp: parse_rdf_body_def SUPPORTED_def split: option.splits)
  with turtle_roundtripE [OF rt ser, of "Some u"] have iso: "graph_iso v sub" by auto
  from h obtain g n where g: "g \<in> set vs" "etag = etag_for_graph L g" "counts k u g n"
    "counts k u v (n + 1)" unfolding holds_next_def by blast
  have "e = etag" using guard_tag [OF e] g(2) etag_not_star by auto
  with g counts_iso [OF g(4) iso] show ?thesis unfolding holds_next_def by blast
qed

lemma bump_step_inv:
  assumes laws: "turtle_roundtrip L" "integer_lexical L" "integer_truthy L"
    and st: "bump_step L k u s t" and inv: "counter_inv L k u n0 s" and nc: "no_collision L (versions s)"
  shows "counter_inv L k u n0 t"
proof -
  from inv obtain c where c: "backend_read (store_now s) u = Inr c" "c \<in> set (versions s)"
      "counts k u c (n0 + int (delivered s))" by (rule counter_inv_current)
  from st show ?thesis
  proof cases
    case (read g doc g' n i stamp)
    with c have "g = c" by simp
    with read_holds_next [OF laws c(2,3)] read show ?thesis
      by (simp only:) (rule counter_inv_workers [OF inv], auto)
  next
    case (check i v etag doc sub e)
    from check_holds_next [OF laws(1) counter_inv_held [OF inv disjI1 [OF check(2)]] check(3-5)]
    show ?thesis unfolding check(1) by (intro counter_inv_workers [OF inv]) auto
  next
    case (swap i sub e r b' g)
    from swap_keeps_count [OF swap(3,4) c counter_inv_held [OF inv disjI2 [OF swap(2)]] nc laws(1)]
    have "counts k u g (n0 + int (delivered t))" by (simp add: swap(1) algebra_simps)
    moreover have "holds_next L k u (g # versions s) v etag"
      if "workers s j = Holding v etag \<or> workers s j = Checked v etag" for j v etag
      by (rule holds_next_mono [OF counter_inv_held [OF inv that]]) auto
    ultimately show ?thesis using swap(1,4) by (auto simp: counter_inv_def split: worker.splits)
  next
    case (conflict i sub e x b')
    have "counter_inv L k u n0 (s\<lparr>store_now := b'\<rparr>)"
      by (rule counter_inv_store [OF inv]) (rule apply_failed_keeps [OF conflict(3) laws(1)])
    from counter_inv_workers [OF this, of Idle i] show ?thesis unfolding conflict(1) by simp
  next
    case (give_up i)
    from counter_inv_workers [OF inv, of Idle i] show ?thesis unfolding give_up by simp
  next
    case (write_elsewhere v h r b')
    show ?thesis unfolding write_elsewhere(1)
      by (rule counter_inv_store [OF inv]) (simp add: write_system_frame [OF write_elsewhere(2,3)])
  next
    case (delete_elsewhere v r b')
    show ?thesis unfolding delete_elsewhere(1)
      by (rule counter_inv_store [OF inv]) (simp add: delete_system_frame [OF delete_elsewhere(2,3)])
  qed
qed

lemma bump_step_versions: "bump_step L k u s t \<Longrightarrow> set (versions s) \<subseteq> set (versions t)"
  by (erule bump_stepE) auto

lemma no_collision_mono: "no_collision L ws \<Longrightarrow> set vs \<subseteq> set ws \<Longrightarrow> no_collision L vs"
  unfolding no_collision_def by blast

lemma bump_run_inv:
  assumes laws: "turtle_roundtrip L" "integer_lexical L" "integer_truthy L"
    and run: "bump_run L k u s t" and "counter_inv L k u n0 s" and "no_collision L (versions t)"
  shows "counter_inv L k u n0 t"
  using run assms(5,6)
proof (induction rule: bump_run.induct)
  case (more s t t')
  have "no_collision L (versions t)"
    by (rule no_collision_mono [OF more.prems(2) bump_step_versions [OF more.hyps(2)]])
  from bump_step_inv [OF laws more.hyps(2) more.IH [OF more.prems(1) this] this] show ?case .
qed

lemma counter_inv_begin:
  "backend_read b u = Inr g \<Longrightarrow> counts k u g n \<Longrightarrow> counter_inv L k u n (begin_with b g)"
  by (simp add: counter_inv_def begin_with_def)

text \<open>C7. No delivery is lost: however the requests of any number of workers interleave with each
  other and with writes to other documents, the count the record states is the count it started
  with plus the number of acknowledged bumps, as long as the entity tags of the versions the record
  has had do not collide. The check of the request and the swap are separate steps here, so the
  tag must be compared again in the swap.\<close>

theorem no_delivery_lost:
  assumes "bump_run L k u (begin_with b g) t"
    and "backend_read b u = Inr g" and "counts k u g n"
    and "turtle_roundtrip L" and "integer_lexical L" and "integer_truthy L"
    and "no_collision L (versions t)"
  shows "\<exists>h. backend_read (store_now t) u = Inr h
    \<and> int_or_zero L (g_value h (URIRef u) (counter_field k)) = Some (n + int (delivered t))"
proof -
  from bump_run_inv [OF assms(4,5,6,1) counter_inv_begin [OF assms(2,3)] assms(7)]
  obtain h where "backend_read (store_now t) u = Inr h" "counts k u h (n + int (delivered t))"
    by (rule counter_inv_current)
  with counts_int [OF _ assms(6)] show ?thesis by blast
qed

section \<open>A run\<close>

definition seen_graph :: "string \<Rightarrow> graph" where
  "seen_graph n = [(URIRef ''b:/v'', URIRef ''p:'', URIRef ''q:''),
     (URIRef ''b:/v'', POD_viewRetrievalCount, Lit n (Some (XSD ''integer'')) None)]"

definition seen_table :: "(graph \<times> string) list" where
  "seen_table = [(seen_graph ''0'', ''g''), (seen_graph ''1'', ''h'')]"

definition seen_libs :: libs where
  "seen_libs = (table_libs seen_table)
     \<lparr>canonical_nt := (\<lambda>g. case map_of seen_table g of None \<Rightarrow> [] | Some t \<Rightarrow> t)\<rparr>"

definition seen_store :: backend where
  "seen_store = \<lparr>storage_root = [''s''], backend_base = ''b:/'',
     files = [([''s''], Dir), ([''s'', ''v.ttl''], File ''g'')],
     contexts = [(''b:/v'', seen_graph ''0'')]\<rparr>"

lemma integer_truthy_table: "integer_truthy (table_libs tbl)"
  unfolding integer_truthy_def
proof (intro allI impI)
  fix i :: int assume "i \<noteq> 0"
  have "py_int ''0'' = Some 0" "py_int [] = None" by code_simp+
  moreover have "str_of_int i = s \<Longrightarrow> py_int s = Some i" for s using py_int_str_of_int by blast
  ultimately have "str_of_int i \<noteq> ''0''" "str_of_int i \<noteq> []" using \<open>i \<noteq> 0\<close> by force+
  then show "term_truthy (table_libs tbl) (Lit (str_of_int i) (Some (XSD ''integer'')) None)"
    by (simp add: table_libs_def)
qed

lemma seen_laws: "turtle_roundtrip seen_libs" "integer_lexical seen_libs" "integer_truthy seen_libs"
proof -
  have "table_ok seen_table" by (simp add: table_ok_def seen_table_def ord_of_def)
  from turtle_roundtrip_table [OF this] show "turtle_roundtrip seen_libs"
    by (simp add: turtle_roundtrip_def seen_libs_def)
  show "integer_lexical seen_libs"
    using integer_lexical_table [of seen_table] by (simp add: integer_lexical_def seen_libs_def)
  show "integer_truthy seen_libs"
    using integer_truthy_table [of seen_table] by (simp add: integer_truthy_def seen_libs_def)
qed

lemma seen_counts: "counts Retrievals ''b:/v'' (seen_graph (str_of_int n)) n"
  by (auto simp: counts_def seen_graph_def POD_def POD_iri_def)

lemma seen_run:
  "\<exists>t. bump_run seen_libs Retrievals ''b:/v'' (begin_with seen_store (seen_graph ''0'')) t
     \<and> delivered t = 1 \<and> versions t = [seen_graph ''1'', seen_graph ''0'']"
proof -
  let ?u = "''b:/v''" and ?g = "seen_graph ''0''" and ?v = "seen_graph ''1''"
  let ?e = "etag_for_graph seen_libs ?g"
  let ?run = "bump_run seen_libs Retrievals ?u (begin_with seen_store ?g)"
  define s0 where "s0 = begin_with seen_store ?g"
  define s1 where "s1 = s0\<lparr>workers := (workers s0)(0 := Holding ?v ?e)\<rparr>"
  define s2 where "s2 = s1\<lparr>workers := (workers s1)(0 := Checked ?v ?e)\<rparr>"
  have now: "store_now s0 = seen_store" "store_now s1 = seen_store" "store_now s2 = seen_store"
    by (simp_all add: s0_def s1_def s2_def begin_with_def)
  have b: "counter_bump Retrievals seen_libs ?u [] ?g 0 = ?v" by code_simp
  have r: "backend_read seen_store ?u = Inr ?g" "serialize_graph seen_libs ''turtle'' ?g = Some ''g''"
    "parse_graph seen_libs (utf8_encode ''g'') ''turtle'' None = Some ?g"
    "int_or_zero seen_libs (g_value ?g (URIRef ?u) (counter_field Retrievals)) = Some 0"
    by code_simp+
  have "bump_step seen_libs Retrievals ?u s0 s1"
    unfolding s1_def b [symmetric] by (rule bump_step.read) (use r now in auto)
  then have 1: "?run s1" unfolding s0_def [symmetric] by (blast intro: bump_run.intros)
  have c: "serialize_graph seen_libs ''turtle'' ?v = Some ''h''"
    "parse_rdf_body seen_libs (utf8_encode ''h'') (Some ''text/turtle'') ?u = Inr ?v"
    "guard_enforcement_put seen_libs seen_store ?u ?v (counter_enforcement Retrievals) (Some ?e) None = Inr ?e"
    by code_simp+
  have "workers s1 0 = Holding ?v ?e" by (simp add: s1_def)
  then have "bump_step seen_libs Retrievals ?u s1 s2"
    unfolding s2_def by (rule bump_step.check) (use c now in auto)
  then have 2: "?run s2" using 1 by (blast intro: bump_run.intros)
  have "case apply_enforcement_put seen_libs seen_store ?u ?v ?e of
      (Inr r, b') \<Rightarrow> backend_read b' ?u = Inr ?v | _ \<Rightarrow> False" by code_simp
  then obtain x b' where w: "apply_enforcement_put seen_libs seen_store ?u ?v ?e = (Inr x, b')"
    "backend_read b' ?u = Inr ?v" by (auto split: prod.splits sum.splits)
  have "workers s2 0 = Checked ?v ?e" by (simp add: s2_def)
  define s3 where "s3 = s2\<lparr>store_now := b', workers := (workers s2)(0 := Idle),
      delivered := Suc (delivered s2), versions := ?v # versions s2\<rparr>"
  have "bump_step seen_libs Retrievals ?u s2 s3"
    unfolding s3_def by (rule bump_step.swap [OF \<open>workers s2 0 = Checked ?v ?e\<close>]) (use w now in simp_all)
  with 2 have 3: "?run s3" by (rule bump_run.more)
  have "delivered s2 = 0" "versions s2 = [?g]" by (simp_all add: s2_def s1_def s0_def begin_with_def)
  then have "delivered s3 = 1" "versions s3 = [?v, ?g]" by (simp_all add: s3_def)
  with 3 show ?thesis by blast
qed

lemma no_delivery_lost_witness:
  "\<exists>t h. bump_run seen_libs Retrievals ''b:/v'' (begin_with seen_store (seen_graph ''0'')) t
    \<and> delivered t = 1 \<and> backend_read (store_now t) ''b:/v'' = Inr h
    \<and> int_or_zero seen_libs (g_value h (URIRef ''b:/v'') POD_viewRetrievalCount) = Some 1"
proof -
  obtain t where t: "bump_run seen_libs Retrievals ''b:/v'' (begin_with seen_store (seen_graph ''0'')) t"
    "delivered t = 1" "versions t = [seen_graph ''1'', seen_graph ''0'']" using seen_run by blast
  have r: "backend_read seen_store ''b:/v'' = Inr (seen_graph ''0'')" by code_simp
  have z: "str_of_int 0 = ''0''" by code_simp
  have "etag_for_graph seen_libs (seen_graph ''0'') \<noteq> etag_for_graph seen_libs (seen_graph ''1'')"
    by code_simp
  then have "no_collision seen_libs (versions t)" by (auto simp: no_collision_def t(3))
  from no_delivery_lost [OF t(1) r seen_counts [of 0, unfolded z] seen_laws this] t show ?thesis by auto
qed

end
