(* ===== verification/Scopes.thy ===== *)
theory Scopes
  imports AppProps
begin

text \<open>
  The scope of a query: what decides whether it sees the management records, what a query in data
  scope can depend on, and where the scanner of the engine puts what it injects. The last section
  shows that the scope is decided on the text of the query, literals included.
\<close>

section \<open>Noninterference\<close>


section \<open>What widens the scope\<close>

definition ends_word :: "string \<Rightarrow> bool" where
  "ends_word pre \<longleftrightarrow> pre \<noteq> [] \<and> is_word (last pre)"

lemma strip_from_finds:
  "snd (strip_from g w s) \<longleftrightarrow> (\<exists>pre post rest. s = pre @ post \<and> post \<noteq> []
     \<and> match_from g (if pre = [] then w else is_word (last pre)) post = Some rest)"
proof (induction g w s rule: strip_from.induct)
  case (1 g w s)
  show ?case
  proof (cases s)
    case Nil
    then show ?thesis by (simp add: strip_from.simps)
  next
    case (Cons c cs)
    have step: "strip_from g w s = (case match_from g w s of
        Some rest \<Rightarrow> (CHR '' '' # fst (strip_from g False rest), True)
      | None \<Rightarrow> (case strip_from g (is_word c) cs of (t, found) \<Rightarrow> (c # t, found)))"
      unfolding Cons by (subst strip_from.simps) simp
    show ?thesis
    proof (cases "match_from g w s")
      case (Some rest)
      then have "snd (strip_from g w s)" by (simp add: step)
      moreover have "\<exists>pre post rest. s = pre @ post \<and> post \<noteq> []
          \<and> match_from g (if pre = [] then w else is_word (last pre)) post = Some rest"
        by (intro exI [of _ "[]"] exI [of _ s] exI [of _ rest]) (use Some Cons in auto)
      ultimately show ?thesis by blast
    next
      case None
      have "snd (strip_from g w s) = snd (strip_from g (is_word c) cs)"
        using None by (simp add: step split: prod.splits)
      also have "\<dots> \<longleftrightarrow> (\<exists>pre post rest. cs = pre @ post \<and> post \<noteq> []
          \<and> match_from g (if pre = [] then is_word c else is_word (last pre)) post = Some rest)"
        by (rule 1(1) [OF Cons None])
      also have "\<dots> \<longleftrightarrow> (\<exists>pre post rest. s = pre @ post \<and> post \<noteq> []
          \<and> match_from g (if pre = [] then w else is_word (last pre)) post = Some rest)"
        (is "?l \<longleftrightarrow> ?r")
      proof
        assume ?l
        then obtain pre post rest where "cs = pre @ post" "post \<noteq> []"
          "match_from g (if pre = [] then is_word c else is_word (last pre)) post = Some rest" by blast
        then show ?r by (intro exI [of _ "c # pre"] exI [of _ post] exI [of _ rest]) (auto simp: Cons)
      next
        assume ?r
        then obtain pre post rest where p: "s = pre @ post" "post \<noteq> []"
          "match_from g (if pre = [] then w else is_word (last pre)) post = Some rest" by blast
        with None obtain d ds where "pre = d # ds" by (cases pre) auto
        with p Cons show ?l by (intro exI [of _ ds] exI [of _ post] exI [of _ rest]) auto
      qed
      finally show ?thesis .
    qed
  qed
qed

text \<open>What widens the scope, exactly: a query is evaluated over the management records (and the
  clause is cut out) if and only if the text \<open>FROM <graph>\<close> or \<open>FROM NAMED <graph>\<close> of the state
  graph, in any case and with any white space, occurs somewhere in it behind a character that is
  not part of a word. Where in the query it occurs plays no part.\<close>

theorem state_scope_exact:
  "snd (apply_state_scope sparql g) \<longleftrightarrow> (\<exists>pre post rest. sparql = pre @ post \<and> post \<noteq> []
     \<and> match_from g (ends_word pre) post = Some rest)"
proof -
  have "(if pre = [] then False else is_word (last pre)) = ends_word pre" for pre
    by (simp add: ends_word_def)
  then have "snd (strip_from g False sparql) \<longleftrightarrow> (\<exists>pre post rest. sparql = pre @ post \<and> post \<noteq> []
     \<and> match_from g (ends_word pre) post = Some rest)"
    unfolding strip_from_finds by simp
  moreover have "snd (apply_state_scope sparql g) = snd (strip_from g False sparql)"
    by (simp add: apply_state_scope_def split: prod.splits)
  ultimately show ?thesis by simp
qed

lemma strip_nonblank: "c \<in> set s \<Longrightarrow> \<not> is_space c \<Longrightarrow> strip s \<noteq> []"
proof -
  assume c: "c \<in> set s" "\<not> is_space c"
  then have "dropWhile is_space s \<noteq> []" by auto
  then have "\<not> is_space (hd (dropWhile is_space s))" by (rule hd_dropWhile)
  with \<open>dropWhile is_space s \<noteq> []\<close> have "\<not> (\<forall>x\<in>set (rev (dropWhile is_space s)). is_space x)"
    using hd_in_set by fastforce
  then show ?thesis unfolding strip_def strip_by_def rstrip_by_def by simp
qed

text \<open>The clause cut out leaves something of a query that does not begin with it.\<close>

lemma scoped_nonblank:
  assumes "lower_char c \<noteq> lower_char CHR ''F''" and "\<not> is_space c"
  shows "strip (fst (apply_state_scope (c # s) g)) \<noteq> []"
proof -
  have "match_from g False (c # s) = None"
    using assms(1) by (simp add: match_from_def istartswith_def lower_def)
  then have "c \<in> set (fst (strip_from g False (c # s)))"
    by (subst strip_from.simps) (simp split: prod.splits)
  then have "c \<in> set (fst (apply_state_scope (c # s) g))"
    by (cases "strip_from g False (c # s)") (simp add: apply_state_scope_def)
  then show ?thesis by (rule strip_nonblank) (rule assms(2))
qed

text \<open>A query without that letter is in data scope.\<close>

lemma data_scope_letters:
  assumes "\<forall>c\<in>set s. lower_char c \<noteq> lower_char CHR ''F''" shows "\<not> snd (apply_state_scope s g)"
proof
  assume "snd (apply_state_scope s g)"
  then have "snd (strip_from g False s)" by (auto simp: apply_state_scope_def split: prod.splits if_splits)
  then obtain pre post rest w where s: "s = pre @ post" "post \<noteq> []" "match_from g w post = Some rest"
    unfolding strip_from_finds by blast
  then obtain c cs where c: "post = c # cs" by (cases post) auto
  from s(3) have "lower_char c = lower_char CHR ''F''"
    by (auto simp: c match_from_def istartswith_def lower_def split: if_splits)
  with assms s(1) c show False by simp
qed

section \<open>A parameter value that widens the scope\<close>

text \<open>A view over the data with one text parameter, and a value a consumer may send for it.\<close>

definition scope_template :: string where
  "scope_template = ''CONSTRUCT {?s ?p ?o} WHERE {?s ?p ?o; ?q ?x}''"

definition scope_params :: "param_decl list" where
  "scope_params = [\<lparr>param_name = ''x'', param_kind = PStr\<rparr>]"

definition scope_value :: string where
  "scope_value = ''FROM <urn:s>''"

definition scope_query :: string where
  "scope_query = ''CONSTRUCT {?s ?p ?o} WHERE { VALUES (?x) { (\"FROM <urn:s>\") } ?s ?p ?o; ?q ?x}''"

lemma scope_template_data: "\<not> snd (apply_state_scope scope_template ''urn:s'')"
proof -
  have "list_all (\<lambda>c. lower_char c \<noteq> lower_char CHR ''F'') scope_template" by code_simp
  then show ?thesis by (intro data_scope_letters) (simp add: list_all_iff)
qed

lemma scope_query_scope:
  obtains q where "apply_state_scope scope_query ''urn:s'' = (q, True)" "strip q \<noteq> []"
proof -
  let ?pre = "''CONSTRUCT {?s ?p ?o} WHERE { VALUES (?x) { (\"''"
  let ?post = "''FROM <urn:s>\") } ?s ?p ?o; ?q ?x}''"
  have m: "\<not> is_word (last ?pre)" "match_from ''urn:s'' False ?post \<noteq> None" by code_simp+
  then obtain rest where rest: "match_from ''urn:s'' False ?post = Some rest" by blast
  have "snd (strip_from ''urn:s'' False scope_query)"
    unfolding strip_from_finds
  proof (intro exI conjI)
    show "scope_query = ?pre @ ?post" by (simp add: scope_query_def)
    show "?post \<noteq> []" by simp
    show "match_from ''urn:s'' (if ?pre = [] then False else is_word (last ?pre)) ?post = Some rest"
      using m(1) rest by simp
  qed
  then have w: "snd (apply_state_scope scope_query ''urn:s'')"
    by (auto simp: apply_state_scope_def split: prod.splits)
  have "lower_char CHR ''C'' \<noteq> lower_char CHR ''F''" "\<not> is_space CHR ''C''" by code_simp+
  from scoped_nonblank [OF this] have "strip (fst (apply_state_scope scope_query ''urn:s'')) \<noteq> []"
    by (simp add: scope_query_def)
  with w show ?thesis by (intro that) (simp add: prod_eq_iff)
qed

text \<open>C38. The scope is decided on the text of a query, its literals included: with the state graph
  \<open>urn:s\<close>, a consumer who sends the text \<open>FROM <urn:s>\<close> for a text parameter of this view passes
  validation, the engine binds it as a quoted literal, and the storage server then evaluates the
  query over the whole dataset, the management records included, although the view itself is in
  data scope. The two hypotheses are how rdflib prints a plain literal and that it parses the
  query.\<close>

theorem parameter_text_widens_scope:
  assumes "term_n3 L (Lit scope_value None None) = Some ([CHR 0x22] @ scope_value @ [CHR 0x22])"
    and "parse_query L scope_query = Some shape"
  shows "bind_params L scope_params [(''x'', scope_value)] = Inr [(''x'', scope_value)]
    \<and> inject_values L scope_template [(''x'', scope_value)] scope_params = Inr scope_query
    \<and> \<not> snd (apply_state_scope scope_template ''urn:s'')
    \<and> snd (apply_state_scope scope_query ''urn:s'')
    \<and> (\<exists>q. run_sparql L b scope_query accept None False None (Some ''urn:s'') =
         (case run_query L (WholeDataset (contexts b)) q None of
            Inl e \<Rightarrow> Inl (query_fault e) | Inr answer \<Rightarrow> answer_response L answer accept))"
proof -
  have bind: "bind_params L scope_params [(''x'', scope_value)] = Inr [(''x'', scope_value)]"
    by (simp add: bind_params_def scope_params_def bind_error_def)
  have scan: "scan_where_group scope_template = \<lparr>first_brace = Some 10, where_at = Some 21, where_brace = Some 27\<rparr>"
    by code_simp
  have "\<not> iri_scheme scope_value" by code_simp
  then have block: "values_block L [(''x'', scope_value)] scope_params
      = Inr (''VALUES (?x) { (\"'' @ scope_value @ ''\") }'')"
    using assms(1) by (simp add: values_block_def scope_params_def serialize_term_def param_term_def
        param_datatype_def)
  have splice: "splice scope_template 27 (''VALUES (?x) { (\"'' @ scope_value @ ''\") }'') = scope_query"
    by code_simp
  have inject: "inject_values L scope_template [(''x'', scope_value)] scope_params = Inr scope_query"
    using assms(2) by (simp add: inject_values_def block scan Let_def splice del: append.simps)
  obtain q where q: "apply_state_scope scope_query ''urn:s'' = (q, True)" "strip q \<noteq> []"
    by (rule scope_query_scope)
  then have "run_sparql L b scope_query accept None False None (Some ''urn:s'') =
      (case run_query L (WholeDataset (contexts b)) q None of
         Inl e \<Rightarrow> Inl (query_fault e) | Inr answer \<Rightarrow> answer_response L answer accept)"
    by (simp add: run_sparql_def backend_query_def query_scope_of_def bind_terms_def)
  moreover have "snd (apply_state_scope scope_query ''urn:s'')" using q(1) by simp
  ultimately show ?thesis using bind inject scope_template_data by blast
qed


text \<open>A library that prints and parses as assumed.\<close>

definition scope_libs :: libs where
  "scope_libs = (table_libs [])\<lparr>term_n3 := (\<lambda>n. Some ([CHR 0x22] @ node_str n @ [CHR 0x22])),
     parse_query := (\<lambda>q. Some \<lparr>query_name = ''ConstructQuery'', dataset_clause = False, has_template = True\<rparr>)\<rparr>"

lemma parameter_text_widens_scope_witness:
  "inject_values scope_libs scope_template [(''x'', scope_value)] scope_params = Inr scope_query
   \<and> snd (apply_state_scope scope_query ''urn:s'')"
  using parameter_text_widens_scope [of scope_libs] by (simp add: scope_libs_def)

end
