(* ===== verification/Scanner.thy ===== *)
theory Scanner
  imports AppProps
begin

text \<open>
  The scanner of \<open>ldp_view_engine/bindings.py\<close>: the positions it reports are what it says they
  are, and the injection of a VALUES block inserts text at the WHERE group and changes nothing else.
\<close>

section \<open>The positions\<close>

text \<open>What a reported position must be in the query.\<close>

definition is_where :: "string \<Rightarrow> nat \<Rightarrow> bool" where
  "is_where q k \<longleftrightarrow> k + 5 \<le> length q \<and> upper (take 5 (drop k q)) = ''WHERE''
     \<and> (k + 5 < length q \<longrightarrow> \<not> token_char (q ! (k + 5)))"

definition is_brace :: "string \<Rightarrow> nat \<Rightarrow> bool" where
  "is_brace q j \<longleftrightarrow> j < length q \<and> q ! j = CHR ''{''"

text \<open>The state of the scan after the first \<open>i\<close> characters.\<close>

definition scan_inv :: "string \<Rightarrow> nat \<Rightarrow> where_group \<Rightarrow> bool" where
  "scan_inv q i st \<longleftrightarrow>
     (\<forall>k. where_at st = Some k \<longrightarrow> is_where q k \<and> k + 5 \<le> i)
   \<and> (\<forall>j. where_brace st = Some j \<longrightarrow> is_brace q j \<and> j < i
        \<and> (\<exists>k. where_at st = Some k \<and> k + 5 \<le> j)
        \<and> (\<exists>f. first_brace st = Some f \<and> f \<le> j))
   \<and> (\<forall>f. first_brace st = Some f \<longrightarrow> is_brace q f \<and> f < i)"

lemma scan_inv_mono: "scan_inv q i st \<Longrightarrow> i \<le> i' \<Longrightarrow> scan_inv q i' st"
  unfolding scan_inv_def by (meson le_trans less_le_trans)

lemma scan_inv_brace:
  assumes "scan_inv q i st" and "is_brace q i"
  shows "scan_inv q (Suc i) (see_brace i st)"
  using assms unfolding scan_inv_def see_brace_def
  by (auto split: if_splits)

lemma length_upper [simp]: "length (upper s) = length s"
  by (simp add: upper_def)

lemma see_token_inv:
  assumes inv: "scan_inv q i st" and s: "drop i q = c # cs" and w: "w = c # takeWhile token_char cs"
  shows "scan_inv q (i + length w) (see_token i w st)"
proof (cases "where_at st = None \<and> upper w = ''WHERE''")
  case True
  then have "where_brace st = None" using inv by (cases "where_brace st") (auto simp: scan_inv_def)
  have five: "length w = 5" using True length_upper [of w] by simp
  have len: "length (drop i q) = Suc (length cs)" by (simp add: s)
  have cs: "cs = takeWhile token_char cs @ dropWhile token_char cs" by simp
  have q: "drop i q = w @ dropWhile token_char cs" by (simp add: s w)
  have "is_where q i" unfolding is_where_def
  proof (intro conjI impI)
    show "i + 5 \<le> length q" using arg_cong [OF q, of length] five by simp
    show "upper (take 5 (drop i q)) = ''WHERE''" using True five by (simp add: q)
    assume "i + 5 < length q"
    then have nth: "q ! (i + 5) = drop i q ! 5" by simp
    have "length q - i = 5 + length (dropWhile token_char cs)"
      using arg_cong [OF q, of length] five by simp
    with \<open>i + 5 < length q\<close> have "length (dropWhile token_char cs) \<noteq> 0" by linarith
    then have "dropWhile token_char cs \<noteq> []" by (simp only: length_0_conv not_False_eq_True)
    then show "\<not> token_char (q ! (i + 5))"
      using five hd_dropWhile [of token_char cs] hd_conv_nth [of "dropWhile token_char cs"] nth
      by (simp only: q nth_append) simp
  qed
  with True \<open>where_brace st = None\<close> five scan_inv_mono [OF inv, of "i + 5"] show ?thesis
    by (auto simp: see_token_def scan_inv_def)
next
  case False
  then show ?thesis using scan_inv_mono [OF inv] by (auto simp: see_token_def)
qed

lemma scan_step_inv:
  assumes inv: "scan_inv q i st" and s: "drop i q = s" "s \<noteq> []"
  shows "scan_inv q (i + (length s - length (fst (scan_step i s st)))) (snd (scan_step i s st))"
proof -
  obtain c cs where c: "s = c # cs" using s(2) by (cases s) auto
  have b: "is_brace q i" if "c = CHR ''{''"
  proof -
    have "i < length q" using s by (cases "i < length q") auto
    moreover have "q ! i = c" using s(1) c Cons_nth_drop_Suc [OF \<open>i < length q\<close>] by simp
    ultimately show ?thesis using that by (simp add: is_brace_def)
  qed
  let ?w = "c # takeWhile token_char cs"
  have len: "length cs = length (takeWhile token_char cs) + length (dropWhile token_char cs)"
    by (metis length_append takeWhile_dropWhile_id)
  have token: "scan_inv q (i + length ?w) (see_token i ?w st)"
    by (rule see_token_inv [OF inv _ refl]) (simp add: s c)
  have w: "i + (length s - length (dropWhile token_char cs)) = i + length ?w"
    using len by (simp add: c)
  show ?thesis
    using scan_inv_mono [OF inv] scan_inv_brace [OF inv b] token w
    by (simp add: scan_step_def Let_def c)
qed

lemma suffix_skip_string: "suffix (skip_string ql s) s"
proof (induction ql s rule: skip_string.induct)
  case (1 ql s)
  show ?case
  proof (cases s)
    case (Cons c cs)
    have "suffix (skip_string ql (drop 1 cs)) (c # cs)" if "c = CHR 0x5C"
      using 1(1) [OF Cons that] suffix_drop [of 1 cs] by (meson suffix_ConsI suffix_order.trans)
    moreover have "suffix (skip_string ql cs) (c # cs)" if "c \<noteq> CHR 0x5C" "\<not> startswith s ql"
      using 1(2) [OF Cons that] by (rule suffix_ConsI)
    ultimately show ?thesis
      by (subst skip_string.simps) (auto simp: Cons suffix_drop)
  qed (simp add: skip_string.simps)
qed

lemma suffix_parts: "suffix (skip_string ql (drop n s)) s" "suffix (drop n (dropWhile P s)) s"
  "suffix (dropWhile P (drop n s)) s"
  by (rule suffix_order.trans [OF suffix_skip_string suffix_drop]
      suffix_order.trans [OF suffix_drop suffix_dropWhile]
      suffix_order.trans [OF suffix_dropWhile suffix_drop])+

lemma suffix_scan_step: "suffix (fst (scan_step i s st)) s"
  by (simp add: scan_step_def Let_def suffix_parts suffix_dropWhile suffix_drop)

lemma suffix_is_drop: "suffix r s \<Longrightarrow> r = drop (length s - length r) s"
  by (auto simp: suffix_def)

lemma scan_loop_inv:
  "drop i q = s \<Longrightarrow> i \<le> length q \<Longrightarrow> scan_inv q i st \<Longrightarrow> scan_inv q (length q) (scan_loop i s st)"
proof (induction i s st rule: scan_loop.induct)
  case (1 i s st)
  show ?case
  proof (cases "s = []")
    case True
    with 1 show ?thesis by (simp add: scan_loop.simps)
  next
    case False
    obtain rest st' where step: "scan_step i s st = (rest, st')" by (cases "scan_step i s st")
    have suf: "suffix rest s" using suffix_scan_step [of i s st] by (simp add: step)
    let ?i = "i + (length s - length rest)"
    have "drop ?i q = drop (length s - length rest) s"
      using drop_drop [of "length s - length rest" i q] 1(2) by (simp add: add.commute)
    then have "drop ?i q = rest" using suffix_is_drop [OF suf] by simp
    moreover have "?i \<le> length q" using 1(2,3) by auto
    moreover have "scan_inv q ?i st'" using scan_step_inv [OF 1(4,2) False] by (simp add: step)
    ultimately have "scan_inv q (length q) (scan_loop ?i rest st')"
      by (intro 1(1) [OF False step [symmetric]])
    then show ?thesis using False step by (subst scan_loop.simps) simp
  qed
qed

text \<open>C39. The scanner reports what it says: the WHERE it found is the five letters of the keyword, not
  followed by a character of a name, the braces are braces, the group brace is behind the keyword,
  and all positions are inside the query.\<close>

theorem scan_reports_positions:
  assumes "scan_where_group q = r"
  shows "(\<forall>k. where_at r = Some k \<longrightarrow> is_where q k)
    \<and> (\<forall>j. where_brace r = Some j \<longrightarrow> is_brace q j
         \<and> (\<exists>k. where_at r = Some k \<and> k + 5 \<le> j) \<and> (\<exists>f. first_brace r = Some f \<and> f \<le> j))
    \<and> (\<forall>f. first_brace r = Some f \<longrightarrow> is_brace q f)"
proof -
  have "scan_inv q 0 \<lparr>first_brace = None, where_at = None, where_brace = None\<rparr>"
    by (simp add: scan_inv_def)
  from scan_loop_inv [OF _ _ this, of q] have "scan_inv q (length q) (scan_where_group q)"
    by (simp add: scan_where_group_def)
  then have "scan_inv q (length q) r" using assms by simp
  then show ?thesis unfolding scan_inv_def by blast
qed

lemma scan_reports_positions_witness:
  "\<exists>k. where_at (scan_where_group ''SELECT ?where { } WHERE { }'') = Some k
     \<and> is_where ''SELECT ?where { } WHERE { }'' k"
proof -
  have "where_at (scan_where_group ''SELECT ?where { } WHERE { }'') = Some 18" by code_simp
  with scan_reports_positions [OF refl, of "''SELECT ?where { } WHERE { }''"] show ?thesis by blast
qed

section \<open>Injection\<close>

lemma splice_at_brace:
  assumes "is_brace q j"
  shows "\<exists>pre post. q = pre @ ''{'' @ post \<and> length pre = j \<and> splice q j block = pre @ ''{ '' @ block @ '' '' @ post"
proof -
  have j: "j < length q" "q ! j = CHR ''{''" using assms by (simp_all add: is_brace_def)
  then have "q = take j q @ ''{'' @ drop (Suc j) q" using id_take_nth_drop [OF j(1)] by simp
  moreover have "take (Suc j) q = take j q @ ''{''" using j by (simp add: take_Suc_conv_app_nth)
  ultimately show ?thesis using j(1)
    by (intro exI [of _ "take j q"] exI [of _ "drop (Suc j) q"]) (simp add: splice_def)
qed

text \<open>C33. Binding a view's parameters inserts and never rewrites: the query that is sent is the
  template with one VALUES block put behind a brace that stands behind its WHERE keyword; every
  other character of the template is kept, in its place, and the result is a query that parses.\<close>

theorem inject_values_inserts:
  assumes "inject_values L template bound decls = Inr q" and "bound \<noteq> []"
  shows "\<exists>block pre post k. values_block L bound decls = Inr block
    \<and> template = pre @ ''{'' @ post \<and> q = pre @ ''{ '' @ block @ '' '' @ post
    \<and> is_where template k \<and> k + 5 \<le> length pre \<and> parse_query L q \<noteq> None"
proof -
  let ?r = "scan_where_group template"
  from assms obtain block k j where r: "values_block L bound decls = Inr block"
    "where_at ?r = Some k" "where_brace ?r = Some j" "q = splice template j block" "parse_query L q \<noteq> None"
    by (auto simp: inject_values_def Let_def split: sum.splits option.splits if_splits)
  have "scan_inv template 0 \<lparr>first_brace = None, where_at = None, where_brace = None\<rparr>"
    by (simp add: scan_inv_def)
  from scan_loop_inv [OF _ _ this, of template] have "scan_inv template (length template) ?r"
    by (simp add: scan_where_group_def)
  with r(2,3) have "is_where template k" "is_brace template j" "k + 5 \<le> j"
    by (auto simp: scan_inv_def)
  with splice_at_brace [OF this(2), of block] r show ?thesis by metis
qed

definition scan_libs :: libs where
  "scan_libs = (table_libs [])\<lparr>parse_query := (\<lambda>q. Some \<lparr>query_name = ''ConstructQuery'',
     dataset_clause = False, has_template = True\<rparr>)\<rparr>"

lemma inject_values_inserts_witness:
  "\<exists>q pre post. inject_values scan_libs ''CONSTRUCT {?s ?p ?o} WHERE {?s ?p ?o}'' [(''s'', ''b:x'')]
      [\<lparr>param_name = ''s'', param_kind = PIri\<rparr>] = Inr q
    \<and> ''CONSTRUCT {?s ?p ?o} WHERE {?s ?p ?o}'' = pre @ ''{'' @ post \<and> length q > length (pre @ ''{'' @ post)"
proof -
  let ?i = "inject_values scan_libs ''CONSTRUCT {?s ?p ?o} WHERE {?s ?p ?o}'' [(''s'', ''b:x'')]
      [\<lparr>param_name = ''s'', param_kind = PIri\<rparr>]"
  have "is_ok ?i" by code_simp
  then obtain q where q: "?i = Inr q" by (auto simp: is_ok_iff)
  from inject_values_inserts [OF q] obtain block pre post where
    "''CONSTRUCT {?s ?p ?o} WHERE {?s ?p ?o}'' = pre @ ''{'' @ post"
    "q = pre @ ''{ '' @ block @ '' '' @ post" by blast
  then have "''CONSTRUCT {?s ?p ?o} WHERE {?s ?p ?o}'' = pre @ ''{'' @ post
      \<and> length q > length (pre @ ''{'' @ post)" by simp
  with q show ?thesis by blast
qed

section \<open>Parameters\<close>

lemma bind_loop_sound:
  "bind_loop L raw ds bound = Inr bound' \<Longrightarrow>
   (\<forall>x. map_of bound' x = (if (\<exists>d\<in>set ds. param_name d = x) \<and> map_of raw x \<noteq> None
        then map_of raw x else map_of bound x))
   \<and> (\<forall>d\<in>set ds. \<forall>v. map_of raw (param_name d) = Some v \<longrightarrow> bind_error L d v = None)"
proof (induction L raw ds bound rule: bind_loop.induct)
  case (2 L raw d ds bound)
  show ?case
  proof (cases "map_of raw (param_name d)")
    case None
    with 2(1,3) show ?thesis by auto
  next
    case (Some v)
    with 2(3) have e: "bind_error L d v = None" by (auto split: option.splits)
    from 2(2) [OF Some e] 2(3) Some e show ?thesis by (auto simp: update_conv')
  qed
qed simp

text \<open>C32. What is bound is what was asked and declared: the bound parameters are exactly the declared
  ones the request supplies, each with the value supplied, and each value passed the check of every
  declaration of that name; undeclared parameters never reach a query.\<close>

theorem bind_params_exact:
  assumes "bind_params L decls raw = Inr bound"
  shows "map_of bound x = (if \<exists>d\<in>set decls. param_name d = x then map_of raw x else None)
    \<and> (\<forall>d\<in>set decls. \<forall>v. map_of bound (param_name d) = Some v \<longrightarrow> bind_error L d v = None)"
  using bind_loop_sound [OF assms [unfolded bind_params_def]] by (auto split: if_splits)

lemma bind_params_exact_witness:
  "map_of (case bind_params scan_libs [\<lparr>param_name = ''n'', param_kind = PInt\<rparr>] [(''n'', ''3''), (''m'', ''4'')]
     of Inr b \<Rightarrow> b | Inl _ \<Rightarrow> []) ''n'' = Some ''3''"
proof -
  let ?b = "bind_params scan_libs [\<lparr>param_name = ''n'', param_kind = PInt\<rparr>] [(''n'', ''3''), (''m'', ''4'')]"
  have "is_ok ?b" by code_simp
  then obtain b where b: "?b = Inr b" by (auto simp: is_ok_iff)
  from bind_params_exact [OF b, of "''n''"] show ?thesis unfolding b by simp
qed

section \<open>A fixed beginning\<close>

text \<open>What was seen stays as it was seen.\<close>

definition settled :: "where_group \<Rightarrow> bool" where
  "settled st \<longleftrightarrow> first_brace st \<noteq> None \<and> where_at st \<noteq> None \<and> where_brace st \<noteq> None"

lemma scan_settled: "settled st \<Longrightarrow> scan_loop i s st = st"
proof (induction i s st rule: scan_loop.induct)
  case (1 i s st)
  obtain rest st' where step: "scan_step i s st = (rest, st')" by (cases "scan_step i s st")
  then have "st' = st"
    using 1(2) by (auto simp: settled_def scan_step_def Let_def see_brace_def see_token_def split: if_splits)
  with 1 step show ?case by (subst scan_loop.simps) auto
qed

text \<open>
  A round of the scan that leaves something of a text does the same when more text follows; so a
  scan of a fixed beginning is the beginning of every scan.
\<close>

lemma dropWhile_more: "dropWhile P s \<noteq> [] \<Longrightarrow> dropWhile P (s @ t) = dropWhile P s @ t"
  by (induction s) auto

lemma takeWhile_more: "dropWhile P s \<noteq> [] \<Longrightarrow> takeWhile P (s @ t) = takeWhile P s"
  by (induction s) auto

lemma scan_step_more:
  assumes "scan_step i s st = (rest, st')" "s \<noteq> []" "rest \<noteq> []" "hd s \<noteq> CHR 0x27" "hd s \<noteq> CHR 0x22"
  shows "scan_step i (s @ t) st = (rest @ t, st')"
proof -
  obtain c cs where s: "s = c # cs" using assms(2) by (cases s) auto
  have d: "drop (Suc 0) (dropWhile P cs) \<noteq> [] \<Longrightarrow>
      drop (Suc 0) (dropWhile P (cs @ t)) = drop (Suc 0) (dropWhile P cs) @ t" for P
    using dropWhile_more [of P cs t] by (cases "dropWhile P cs") auto
  have "ord_of CHR ''#'' \<noteq> 10" by (simp add: ord_of_def)
  with assms d [of "\<lambda>c. c \<noteq> CHR ''>''"] show ?thesis unfolding s append_Cons
    by (auto simp: scan_step_def Let_def dropWhile_more takeWhile_more split: if_splits)
qed

fun scan_rounds :: "nat \<Rightarrow> nat \<Rightarrow> string \<Rightarrow> where_group \<Rightarrow> (nat \<times> string \<times> where_group) option" where
  "scan_rounds 0 i s st = Some (i, s, st)"
| "scan_rounds (Suc n) i s st = (if s = [] \<or> hd s = CHR 0x27 \<or> hd s = CHR 0x22 then None
     else (case scan_step i s st of (rest, st') \<Rightarrow>
       if rest = [] then None else scan_rounds n (i + (length s - length rest)) rest st'))"

lemma scan_rounds_more:
  "scan_rounds n i s st = Some (i', r, st') \<Longrightarrow> scan_loop i (s @ t) st = scan_loop i' (r @ t) st'"
proof (induction n i s st rule: scan_rounds.induct)
  case (2 n i s st)
  obtain rest st1 where step: "scan_step i s st = (rest, st1)" by (cases "scan_step i s st")
  with 2(2) have ok: "s \<noteq> []" "hd s \<noteq> CHR 0x27" "hd s \<noteq> CHR 0x22" "rest \<noteq> []"
    and n: "scan_rounds n (i + (length s - length rest)) rest st1 = Some (i', r, st')"
    by (auto split: if_splits)
  have "length rest \<le> length s" using scan_step_shorter [OF ok(1), of i st] step by simp
  then have "scan_loop i (s @ t) st = scan_loop (i + (length s - length rest)) (rest @ t) st1"
    using ok scan_step_more [OF step ok(1,4,2,3), of t] by (subst scan_loop.simps) simp
  with 2(1) [OF _ step [symmetric] ok(4) n] ok show ?case by simp
qed simp

lemma scan_brace: "scan_loop i (CHR ''{'' # s) st = scan_loop (Suc i) s (see_brace i st)"
  by (subst scan_loop.simps) (simp add: scan_step_def Let_def)

text \<open>The lookup query of the tokens, whatever is inserted behind its brace.\<close>

lemma lookup_beginning:
  "scan_where_group (take 112 LOOKUP_QUERY @ t) = \<lparr>first_brace = Some 111, where_at = Some 105, where_brace = Some 111\<rparr>"
proof -
  let ?a = "''PREFIX pod: <https://lukasberka.github.io/ldp-personal-store/vocab#>''"
  let ?b = "nl @ ''SELECT ?tokenUri''" and ?c = "'' ?stored ?tokenType''" and ?d = "'' WHERE {''"
  let ?st = "\<lparr>first_brace = None, where_at = None, where_brace = None\<rparr>"
  let ?st' = "?st\<lparr>where_at := Some 105\<rparr>"
  have q: "take 112 LOOKUP_QUERY @ t = ?a @ ?b @ ?c @ ?d @ t"
  proof -
    have "take 112 LOOKUP_QUERY = ?a @ ?b @ ?c @ ?d" by code_simp
    then show ?thesis by simp
  qed
  have r: "scan_rounds 5 0 (?a @ nl) ?st = Some (68, nl, ?st)"
    "scan_rounds 4 68 (?b @ '' '') ?st = Some (85, '' '', ?st)"
    "scan_rounds 4 85 (?c @ '' '') ?st = Some (104, '' '', ?st)"
    "scan_rounds 3 104 ?d ?st = Some (111, ''{'', ?st')"
    by code_simp+
  have "scan_loop 0 (take 112 LOOKUP_QUERY @ t) ?st = scan_loop 68 (?b @ ?c @ ?d @ t) ?st"
    using scan_rounds_more [OF r(1), of "''SELECT ?tokenUri'' @ ?c @ ?d @ t"] unfolding q by simp
  also have "\<dots> = scan_loop 85 (?c @ ?d @ t) ?st"
    using scan_rounds_more [OF r(2), of "''?stored ?tokenType'' @ ?d @ t"] by simp
  also have "\<dots> = scan_loop 104 (?d @ t) ?st"
    using scan_rounds_more [OF r(3), of "''WHERE {'' @ t"] by simp
  also have "\<dots> = scan_loop 111 (''{'' @ t) ?st'"
    using scan_rounds_more [OF r(4), of t] by simp
  finally show ?thesis
    by (simp add: scan_where_group_def scan_brace scan_settled settled_def see_brace_def)
qed

lemma lookup_scan: "scan_where_group LOOKUP_QUERY
   = \<lparr>first_brace = Some 111, where_at = Some 105, where_brace = Some 111\<rparr>"
  using lookup_beginning [of "drop 112 LOOKUP_QUERY"] by simp

lemma spliced_lookup_scan: "where_at (scan_where_group (splice LOOKUP_QUERY 111 block)) = Some 105"
  unfolding splice_def using lookup_beginning [of "'' '' @ block @ '' '' @ drop 112 LOOKUP_QUERY"] by simp

end
