(* ===== verification/EngineProps.thy ===== *)
theory EngineProps
  imports AppProps
begin

text \<open>
  What the view engine promises its two sides: nothing is delivered before every check has passed
  and every delivery is recorded, a refused request leaves no trace in the store, a result names
  no existing resource of the data source, and discovery lists the linked views only.
\<close>

section \<open>Recording a delivery\<close>

text \<open>Recording fails with the errors of the network or of the record, never with a refusal.\<close>

lemma bump_loop_no_refusal [simp]:
  "(bump_loop k L up c s u counter upd = (Inl (HTTPException n d h), s')) = False"
proof (induction k L up c s u counter upd rule: bump_loop.induct)
  case (2 k L up c s u counter upd)
  have read: "read_record_with_etag L up c s u \<noteq> (Inl (HTTPException n d h), s1)" for s1
    by (auto simp: read_record_with_etag_def expect_def parse_text_def split: prod.splits option.splits
        sum.splits if_splits)
  have put: "conditional_put L up c s1 u v etag \<noteq> (Inl (HTTPException n d h), s2)" for s1 v etag s2
    by (auto simp: conditional_put_def split: prod.splits option.splits)
  show ?case using 2 read put
    by (auto split: prod.splits sum.splits option.splits if_splits)
qed simp

lemma record_delivery_no_refusal [simp]:
  "(record_delivery L up c s tok view stamp = (Inl (HTTPException n d h), s')) = False"
  by (auto simp: record_delivery_def bump_token_enforcement_def bump_view_enforcement_def
      client_append_access_log_def expect_def split: prod.splits sum.splits if_splits)

section \<open>The network\<close>

text \<open>An upstream some of whose requests only read.\<close>

locale read_only_requests =
  fixes up :: "'s upstream" and is_read :: "request \<Rightarrow> bool"
  assumes read_keeps: "is_read r \<Longrightarrow> snd (up s r) = s"
begin

lemma read_state: "is_read r \<Longrightarrow> up s r = (x, s') \<Longrightarrow> s' = s"
  using read_keeps [of r s] by simp

text \<open>What the client asks of it in a client configuration \<open>c\<close>: reads of records and queries.\<close>

definition client_reads :: "client \<Rightarrow> bool" where
  "client_reads c \<longleftrightarrow> (\<forall>r. req_method r = ''GET''
     \<or> req_method r = ''POST'' \<and> (req_url r = c_state_base c @ ''sparql'' \<or> req_url r = c_data_base c @ ''sparql'')
     \<longrightarrow> is_read r)"

lemma read_graph_state: "client_reads c \<Longrightarrow> read_graph L up c s u = (x, s') \<Longrightarrow> s' = s"
  by (auto simp: read_graph_def get_turtle_def client_reads_def split: prod.splits dest!: read_state [rotated])

lemma post_query_state:
  "client_reads c \<Longrightarrow> base = c_state_base c \<or> base = c_data_base c \<Longrightarrow>
   post_query up s q a base hs = (x, s') \<Longrightarrow> s' = s"
  by (auto simp: post_query_def client_reads_def split: prod.splits dest!: read_state [rotated])

lemma select_state_state: "client_reads c \<Longrightarrow> select_state L up c s q = (x, s') \<Longrightarrow> s' = s"
  by (auto simp: select_state_def split: prod.splits sum.splits dest: post_query_state [rotated -1])

lemma select_data_state: "client_reads c \<Longrightarrow> select_data L up c s q = (x, s') \<Longrightarrow> s' = s"
  by (auto simp: select_data_def split: prod.splits sum.splits dest: post_query_state [rotated -1])

lemma construct_state: "client_reads c \<Longrightarrow> construct L up c s q = (x, s') \<Longrightarrow> s' = s"
  by (auto simp: construct_def split: prod.splits sum.splits dest: post_query_state [rotated -1])

lemma open_stream_state: "client_reads c \<Longrightarrow> open_binary_stream up c s u = (x, s') \<Longrightarrow> s' = s"
  by (auto simp: open_binary_stream_def client_reads_def split: prod.splits dest!: read_state [rotated])

lemmas client_states = read_graph_state select_state_state select_data_state construct_state
  open_stream_state

lemma validate_state:
  "client_reads c \<Longrightarrow> validate_via_storage L up c s raw ty = (x, s') \<Longrightarrow> s' = s"
  by (auto simp: validate_via_storage_def Let_def split: sum.splits prod.splits exn.splits
      dest!: client_states [rotated])

lemma token_state: "client_reads c \<Longrightarrow> get_engine_token L up c s a ty = (x, s') \<Longrightarrow> s' = s"
  by (auto simp: get_engine_token_def split: sum.splits dest: validate_state [rotated])

lemma load_view_state: "client_reads c \<Longrightarrow> load_view L up c s u = (x, s') \<Longrightarrow> s' = s"
  by (auto simp: load_view_def split: sum.splits prod.splits exn.splits dest!: client_states [rotated])

lemma load_policy_state: "client_reads c \<Longrightarrow> load_policy L up c s p = (x, s') \<Longrightarrow> s' = s"
  by (auto simp: load_policy_def split: option.splits sum.splits prod.splits exn.splits
      dest!: client_states [rotated])

lemma rewrite_state:
  "client_reads c \<Longrightarrow> rewrite_upstream_uris L up c s g base eb vid bound = (x, s') \<Longrightarrow> s' = s"
  by (auto simp: rewrite_upstream_uris_def Let_def split: if_splits sum.splits prod.splits
      dest!: client_states [rotated])

lemma pipeline_state:
  "client_reads c \<Longrightarrow> view_pipeline L up c now s tok view gd qp = (x, s') \<Longrightarrow> s' = s"
  by (auto simp: view_pipeline_def split: if_splits sum.splits prod.splits
      dest!: client_states [rotated] load_view_state [rotated] load_policy_state [rotated])

text \<open>A refusal of a consumer route was decided before anything was recorded.\<close>

lemma get_view_refused:
  assumes c: "client_reads c"
    and g: "get_view L up c st now stamp s auth vid qp = (Inl (HTTPException n d h), s')"
  shows "s' = s"
proof -
  obtain x s0 where t: "get_engine_token L up c s auth POD_ConsumerToken = (x, s0)" by fastforce
  have "s0 = s" by (rule token_state [OF c t])
  with g t show ?thesis
    by (auto simp: get_view_def Let_def split: sum.splits prod.splits option.splits
        dest: pipeline_state [OF c] rewrite_state [OF c])
qed

lemma get_blob_refused:
  assumes c: "client_reads c"
    and g: "get_blob L up c st now stamp s auth vid qp = (Inl (HTTPException n d h), s')"
  shows "s' = s"
proof -
  obtain x s0 where t: "get_engine_token L up c s auth POD_ConsumerToken = (x, s0)" by fastforce
  have "s0 = s" by (rule token_state [OF c t])
  with g t show ?thesis
    by (auto simp: get_blob_def Let_def split: sum.splits prod.splits option.splits if_splits exn.splits
        dest: pipeline_state [OF c] open_stream_state [OF c])
qed

end

section \<open>The storage role as the upstream\<close>

text \<open>The storage application answering a request of the client (also in-process).\<close>

definition storage_upstream :: "libs \<Rightarrow> fresh \<Rightarrow> settings \<Rightarrow> backend upstream" where
  "storage_upstream L f st = (\<lambda>b r. (case storage_app L f st b (app_request_of r) of
     (out, b') \<Rightarrow> (app_reply out, b')))"

definition reads_only :: "request \<Rightarrow> bool" where
  "reads_only r \<longleftrightarrow> req_method r = ''GET'' \<or> url_path (req_url r) = ''/sparql''
     \<and> req_method r = ''POST''"

lemma storage_get_keeps:
  assumes "storage_app L f st b req = (x, b')" and "a_method req = ''GET''"
  shows "b' = b"
  using assms(1)
proof (cases rule: storage_app_cases)
  case sparql
  from sparql_routes_inert [OF this(2)] show ?thesis .
next
  case ldp
  then show ?thesis using assms(2) by (auto simp: ldp_routes_def with_token_def Let_def split: sum.splits)
qed (use assms(2) in \<open>auto simp: views_routes_def internal_routes_def system_routes_def Let_def
    split: option.splits if_splits\<close>)

lemma storage_query_keeps:
  assumes "storage_app L f st b req = (x, b')" and "a_path req = ''/sparql''" and "a_method req = ''POST''"
  shows "b' = b"
  using assms
  by (auto simp: storage_app_def public_routes_def sparql_routes_def CONSTRAINTS_PATH_def)

interpretation storage: read_only_requests "storage_upstream L f st" reads_only for L f st
proof unfold_locales
  fix r s
  assume r: "reads_only r"
  obtain x b' where a: "storage_app L f st s (app_request_of r) = (x, b')" by fastforce
  from r have "b' = s" unfolding reads_only_def
    using storage_get_keeps [OF a] storage_query_keeps [OF a] by (auto simp: app_request_of_def)
  then show "snd (storage_upstream L f st s r) = s" by (simp add: storage_upstream_def a)
qed

section \<open>Refusals\<close>

definition sparql_paths :: "client \<Rightarrow> bool" where
  "sparql_paths c \<longleftrightarrow> url_path (c_state_base c @ ''sparql'') = ''/sparql''
     \<and> url_path (c_data_base c @ ''sparql'') = ''/sparql''"

lemma storage_client_reads: "sparql_paths c \<Longrightarrow> storage.client_reads c"
  by (auto simp: storage.client_reads_def sparql_paths_def reads_only_def)

text \<open>C8. A refused consumer leaves no trace: when the view or the blob route answers with an HTTP
  error (no token, view not granted, parameters, policy, not found), nothing has been written to
  the store behind the engine, so that a refusal is neither counted nor logged and cannot use up
  a grant.\<close>

theorem refused_leaves_no_trace:
  assumes "url_path (c_state_base c @ ''sparql'') = ''/sparql''"
    and "url_path (c_data_base c @ ''sparql'') = ''/sparql''"
    and "get_view L (storage_upstream L f st) c st now stamp b auth vid qp = (Inl (HTTPException n d h), b')
      \<or> get_blob L (storage_upstream L f st) c st now stamp b auth vid qp = (Inl (HTTPException n d h), b')"
  shows "b' = b"
  using assms storage.get_view_refused storage.get_blob_refused storage_client_reads
  unfolding sparql_paths_def by metis

section \<open>What a consumer gets to see\<close>

lemma view_pipeline_ok:
  assumes "view_pipeline L up c now s token view guard qp = (Inr (v, bound, result), s')"
  shows "view \<in> set (linked_view_uris token)" and "guard = Inr ()"
  using assms by (auto simp: view_pipeline_def split: if_splits sum.splits)

lemma get_blob_ok:
  assumes "get_blob L up c st now stamp s auth vid qp = (Inr r, s')"
  obtains token s0 v bound result s1 u reply s2 where
    "get_engine_token L up c s auth POD_ConsumerToken = (Inr token, s0)"
    "map_of qp ''uri'' = Some u"
    "view_pipeline L up c now s0 token (make_system_ns (base_uri st) @ ''views/'' @ vid)
       (Inr ()) qp = (Inr (v, bound, result), s1)"
    "blob_guard st (Some u) = Inr ()" "in_result u result"
    "open_binary_stream up c s1 u = (Inr reply, s2)" "content r = content reply"
    "record_delivery L up c s2 (token_uri token) (make_system_ns (base_uri st) @ ''views/'' @ vid) stamp
       = (Inr (), s')"
proof -
  let ?view = "make_system_ns (base_uri st) @ ''views/'' @ vid"
  from assms obtain token s0 v bound result s1 reply s2 where
    r: "get_engine_token L up c s auth POD_ConsumerToken = (Inr token, s0)"
    "view_pipeline L up c now s0 token ?view (blob_guard st (map_of qp ''uri'')) qp
       = (Inr (v, bound, result), s1)"
    "in_result (the (map_of qp ''uri'')) result"
    "open_binary_stream up c s1 (the (map_of qp ''uri'')) = (Inr reply, s2)" "content r = content reply"
    "record_delivery L up c s2 (token_uri token) ?view stamp = (Inr (), s')"
    by (auto simp: get_blob_def Let_def split: sum.splits prod.splits if_splits exn.splits)
  from view_pipeline_ok(2) [OF r(2)] have g: "blob_guard st (map_of qp ''uri'') = Inr ()" .
  then obtain u where "map_of qp ''uri'' = Some u" by (auto simp: blob_guard_def split: option.splits)
  with that [OF r(1) this] r g show ?thesis by simp
qed

lemma blob_guard_ok [result_iff]:
  "blob_guard st (Some u) = Inr x \<longleftrightarrow> startswith u (effective_data_source_base_uri st)
     \<and> \<not> startswith u (make_system_ns (effective_data_source_base_uri st))"
  by (simp add: blob_guard_def)

lemma open_binary_stream_ok:
  "open_binary_stream up c s u = (Inr reply, s') \<Longrightarrow>
   up s \<lparr>req_method = ''GET'', req_url = data_url c u, req_headers = c_data_headers c, req_body = []\<rparr>
     = (reply, s') \<and> status_code reply = 200"
  by (auto simp: open_binary_stream_def split: prod.splits if_splits)

text \<open>C10. The blob proxy is no open relay: bytes are delivered only to a consumer token that is linked to
  the view, for a URI of the data source outside its \<open>.system/\<close> tree that the consumer's own
  result names as subject or object, they are the bytes the data source answered that URI with,
  and the delivery has been counted and logged.\<close>

theorem blob_confined:
  assumes "get_blob L up c st now stamp s auth vid qp = (Inr r, s')"
  shows "\<exists>token u s0 s1 s2 v bound result reply.
     get_engine_token L up c s auth POD_ConsumerToken = (Inr token, s0)
     \<and> make_system_ns (base_uri st) @ ''views/'' @ vid \<in> set (linked_view_uris token)
     \<and> map_of qp ''uri'' = Some u \<and> startswith u (effective_data_source_base_uri st)
     \<and> \<not> startswith u (make_system_ns (effective_data_source_base_uri st))
     \<and> view_pipeline L up c now s0 token (make_system_ns (base_uri st) @ ''views/'' @ vid) (Inr ()) qp
         = (Inr (v, bound, result), s1) \<and> in_result u result
     \<and> up s1 \<lparr>req_method = ''GET'', req_url = data_url c u, req_headers = c_data_headers c,
         req_body = []\<rparr> = (reply, s2) \<and> status_code reply = 200 \<and> content r = content reply
     \<and> record_delivery L up c s2 (token_uri token) (make_system_ns (base_uri st) @ ''views/'' @ vid) stamp
         = (Inr (), s')"
  using assms
proof (rule get_blob_ok)
  fix token s0 v bound result s1 u reply s2
  assume b: "get_engine_token L up c s auth POD_ConsumerToken = (Inr token, s0)"
    "map_of qp ''uri'' = Some u"
    "view_pipeline L up c now s0 token (make_system_ns (base_uri st) @ ''views/'' @ vid) (Inr ()) qp
      = (Inr (v, bound, result), s1)"
    "blob_guard st (Some u) = Inr ()" "in_result u result"
    "open_binary_stream up c s1 u = (Inr reply, s2)" "content r = content reply"
    "record_delivery L up c s2 (token_uri token) (make_system_ns (base_uri st) @ ''views/'' @ vid) stamp
      = (Inr (), s')"
  from open_binary_stream_ok [OF b(6)] view_pipeline_ok(1) [OF b(3)] b(4) [unfolded blob_guard_ok] b
  show ?thesis by blast
qed

text \<open>Rewriting maps every statement, and what it maps to is the map's value or the term itself.\<close>

lemma in_result_iff: "in_result u g \<longleftrightarrow> (\<exists>s p q. (s, p, q) \<in> set g \<and> (s = URIRef u \<or> q = URIRef u))"
  by (auto simp: in_result_def list_ex_iff)

lemma remap_uri: "remap m n = URIRef u \<longleftrightarrow>
  (\<exists>v. n = URIRef v \<and> (m v = Some u \<or> m v = None \<and> v = u))"
  by (auto simp: remap_def split: node.splits option.splits)

lemma term_candidates_iff:
  "u \<in> set (term_candidates g base) \<longleftrightarrow> in_result u g \<and> startswith u base"
  by (force simp: term_candidates_def in_result_iff split: node.splits)

lemma in_result_rewrite:
  "in_result u (rewrite_graph m g) \<longleftrightarrow>
   (\<exists>v. in_result v g \<and> (m v = Some u \<or> m v = None \<and> v = u))"
proof -
  have "in_result u (rewrite_graph m g) \<longleftrightarrow>
      (\<exists>s p q. (s, p, q) \<in> set g \<and> (remap m s = URIRef u \<or> remap m q = URIRef u))"
    by (force simp: in_result_iff rewrite_graph_def)
  also have "\<dots> \<longleftrightarrow> (\<exists>v. in_result v g \<and> (m v = Some u \<or> m v = None \<and> v = u))"
    unfolding remap_uri in_result_iff by blast
  finally show ?thesis .
qed

text \<open>What the rewriting puts for a URI, when the data source lists these resources.\<close>

definition hidden :: "string set \<Rightarrow> string \<Rightarrow> string \<Rightarrow> string \<Rightarrow> (string \<times> string) list \<Rightarrow> string \<Rightarrow> string option" where
  "hidden listed base eb vid bound u =
     (if startswith u base \<and> u \<in> listed then Some (proxy_url eb vid bound u) else None)"

text \<open>C26. A result names no resource of the data source: after rewriting, a subject or object below the
  data source's base is either a proxy URL made from a term of the result, or a term the data
  source does not list as a resource; and nothing else of the result is changed: each of its
  statements is kept with the listed resources replaced and all else as it was.\<close>

theorem rewrite_hides_resources:
  assumes "rewrite_upstream_uris L up c s g base eb vid bound = (Inr out, s')"
  shows "\<exists>listed. (term_candidates g base \<noteq> [] \<longrightarrow>
       (\<exists>rows. select_data L up c s RESOURCE_URIS_QUERY = (Inr rows, s')
          \<and> (\<forall>u. u \<in> listed \<longleftrightarrow> (\<exists>row\<in>set rows. map_of row ''r'' = Some u))))
     \<and> (\<forall>u. in_result u out \<and> startswith u base \<longrightarrow>
         (\<exists>v. in_result v g \<and> u = proxy_url eb vid bound v) \<or> in_result u g \<and> u \<notin> listed)
     \<and> set out = (\<lambda>(x, p, y). (remap (hidden listed base eb vid bound) x, p,
         remap (hidden listed base eb vid bound) y)) ` set g"
proof (cases "term_candidates g base = []")
  case True
  with assms have "out = g" by (simp add: rewrite_upstream_uris_def)
  moreover have "remap (hidden {} base eb vid bound) n = n" for n
    by (auto simp: remap_def hidden_def split: node.splits)
  ultimately show ?thesis using True by (intro exI [of _ "{}"]) auto
next
  case False
  with assms obtain rows where rows: "select_data L up c s RESOURCE_URIS_QUERY = (Inr rows, s')"
    and out: "out = rewrite_graph (\<lambda>u. if u \<in> set (term_candidates g base)
        \<and> u \<in> set (List.map_filter (\<lambda>row. map_of row ''r'') rows)
        then Some (proxy_url eb vid bound u) else None) g" (is "_ = rewrite_graph ?m g")
    by (auto simp: rewrite_upstream_uris_def Let_def split: sum.splits prod.splits)
  define listed where "listed = {u. \<exists>row\<in>set rows. map_of row ''r'' = Some u}"
  let ?h = "hidden listed base eb vid bound"
  have m: "?m u = (if in_result u g then ?h u else None)" for u
    by (force simp: term_candidates_iff hidden_def listed_def List.map_filter_def)
  have "(remap ?m x, p, remap ?m y) = (remap ?h x, p, remap ?h y)" if "(x, p, y) \<in> set g" for x p y
    using that by (auto simp: remap_def m in_result_iff split: node.splits)
  then have "set out = (\<lambda>(x, p, y). (remap ?h x, p, remap ?h y)) ` set g"
    by (force simp: out rewrite_graph_def simp del: prod.inject)
  moreover have "in_result u out \<Longrightarrow> startswith u base \<Longrightarrow>
      (\<exists>v. in_result v g \<and> u = proxy_url eb vid bound v) \<or> in_result u g \<and> u \<notin> listed" for u
    unfolding out in_result_rewrite m by (auto simp: hidden_def split: if_splits)
  ultimately show ?thesis using rows by (intro exI [of _ listed]) (auto simp: listed_def)
qed

section \<open>Discovery\<close>

lemma describe_params_contains:
  "(x, LDP_contains, y) \<in> set (describe_params g member label k ds) \<longleftrightarrow> (x, LDP_contains, y) \<in> set g"
  by (induction ds arbitrary: g k) auto

lemma describe_member_contains:
  "describe_member L up c label s g member u = (Inr g', s') \<Longrightarrow>
   (x, LDP_contains, y) \<in> set g' \<longleftrightarrow> (x, LDP_contains, y) \<in> set g"
  by (auto simp: describe_member_def describe_params_contains split: prod.splits sum.splits exn.splits)

lemma describe_all_contains:
  "describe_all L up c st label s x g us = (Inr g', s') \<Longrightarrow>
   {m. (x, LDP_contains, m) \<in> set g'} = {m. (x, LDP_contains, m) \<in> set g} \<union> engine_member st ` set us"
proof (induction us arbitrary: s g)
  case (Cons u us)
  then obtain g1 s1 where m: "describe_member L up c (label u) s
      (g_add g (x, LDP_contains, engine_member st u)) (engine_member st u) u = (Inr g1, s1)"
    "describe_all L up c st label s1 x g1 us = (Inr g', s')"
    by (auto simp: Let_def split: prod.splits sum.splits)
  from Cons.IH [OF m(2)] describe_member_contains [OF m(1)] show ?case by auto
qed simp

text \<open>C27. Discovery shows a consumer exactly what the grant unlocks: the container it answers with lists
  one member for each view the token is linked to, under the engine's address for it, and no
  other; whatever the view records themselves say.\<close>

theorem discovery_lists_grant:
  assumes "discover L up c st label s auth = (Inr r, s')"
  shows "\<exists>token s0 g. get_engine_token L up c s auth POD_ConsumerToken = (Inr token, s0)
    \<and> serialize_graph L ''turtle'' g = Some (content r)
    \<and> {m. (URIRef (make_engine_ns (base_uri st) @ ''discovery''), LDP_contains, m) \<in> set g}
      = engine_member st ` set (linked_view_uris token)"
proof -
  let ?x = "URIRef (make_engine_ns (base_uri st) @ ''discovery'')"
  let ?g = "g_adds [] [(?x, RDF_type, LDP_Resource), (?x, RDF_type, LDP_RDFSource),
    (?x, RDF_type, LDP_BasicContainer)]"
  from assms obtain token s0 g doc where d:
    "get_engine_token L up c s auth POD_ConsumerToken = (Inr token, s0)"
    "describe_all L up c st label s0 ?x ?g (linked_view_uris token) = (Inr g, s')"
    "serialize_graph L ''turtle'' g = Some doc" "content r = content (turtle_reply 200
       [(''Link'', CONTAINER_LINK), (''Allow'', ''GET, HEAD, OPTIONS'')] doc)"
    by (auto simp: discover_def Let_def split: sum.splits prod.splits option.splits)
  have "{m. (?x, LDP_contains, m) \<in> set ?g} = {}" by auto
  with describe_all_contains [OF d(2)] d(1,3,4) show ?thesis by (auto simp: turtle_reply_def)
qed

section \<open>A delivery ends\<close>

text \<open>An upstream that counts the requests it answers.\<close>

definition counted_upstream :: "'s upstream \<Rightarrow> ('s \<times> nat) upstream" where
  "counted_upstream up = (\<lambda>(s, n) r. case up s r of (x, s') \<Rightarrow> (x, (s', Suc n)))"

lemma read_record_counted:
  "read_record_with_etag L (counted_upstream up) c (s, n) u
     = (fst (read_record_with_etag L up c s u), (snd (read_record_with_etag L up c s u), Suc n))"
  by (simp add: read_record_with_etag_def counted_upstream_def split: prod.splits)

lemma conditional_put_counted:
  "\<exists>k\<le>1. conditional_put L (counted_upstream up) c (s, n) u g etag
     = (fst (conditional_put L up c s u g etag), (snd (conditional_put L up c s u g etag), n + k))"
  by (auto simp: conditional_put_def counted_upstream_def split: prod.splits option.splits
      intro: exI [of _ 0] exI [of _ 1])

lemma bump_loop_counted:
  "\<exists>k\<le>2 * fuel. bump_loop fuel L (counted_upstream up) c (s, n) u counter upd
     = (fst (bump_loop fuel L up c s u counter upd), (snd (bump_loop fuel L up c s u counter upd), n + k))"
proof (induction fuel arbitrary: s n)
  case 0
  then show ?case by simp
next
  case (Suc fuel)
  obtain r1 s1 where r: "read_record_with_etag L up c s u = (r1, s1)" by fastforce
  show ?case
  proof (cases "\<exists>g etag m. r1 = Inr (g, etag) \<and> int_or_zero L (g_value g (URIRef u) counter) = Some m")
    case False
    with r show ?thesis
      by (auto simp: read_record_counted split: sum.splits option.splits intro!: exI [of _ 1])
  next
    case True
    then obtain g etag m where g: "r1 = Inr (g, etag)"
      "int_or_zero L (g_value g (URIRef u) counter) = Some m" by blast
    obtain r2 s2 where p: "conditional_put L up c s1 u (upd g m) etag = (r2, s2)" by fastforce
    from conditional_put_counted [of L up c s1 "Suc n" u "upd g m" etag] p obtain k where
      k: "k \<le> 1" "conditional_put L (counted_upstream up) c (s1, Suc n) u (upd g m) etag = (r2, (s2, Suc n + k))"
      by auto
    from Suc.IH [of s2 "Suc n + k"] obtain j where j: "j \<le> 2 * fuel"
      "bump_loop fuel L (counted_upstream up) c (s2, Suc n + k) u counter upd
        = (fst (bump_loop fuel L up c s2 u counter upd), (snd (bump_loop fuel L up c s2 u counter upd), Suc n + k + j))"
      by blast
    show ?thesis
    proof (cases "r2 = Inr 412")
      case True
      with r g p k j show ?thesis
        by (intro exI [of _ "Suc (k + j)"]) (simp add: read_record_counted)
    next
      case False
      with r g p k show ?thesis
        by (intro exI [of _ "Suc k"]) (auto simp: read_record_counted split: sum.splits)
    qed
  qed
qed

text \<open>C30. Recording a delivery ends: whatever the storage server answers, conflicts for ever included,
  the engine makes at most 41 requests (two per attempt, ten attempts for each of the two
  counters, one log entry), and counting them changes nothing else.\<close>

theorem record_delivery_bounded:
  "\<exists>k\<le>41. record_delivery L (counted_upstream up) c (s, n) token view stamp
     = (fst (record_delivery L up c s token view stamp),
        (snd (record_delivery L up c s token view stamp), n + k))"
proof -
  let ?upt = "\<lambda>g count. bumped_token L g (URIRef token) count stamp"
  let ?upv = "\<lambda>g count. bumped_view L g (URIRef view) count"
  have ten: "2 * ENFORCEMENT_MAX_RETRIES = 20" by (simp add: ENFORCEMENT_MAX_RETRIES_def)
  obtain r1 s1 where 1: "bump_loop ENFORCEMENT_MAX_RETRIES L up c s token POD_enforcementCount ?upt = (r1, s1)"
    by fastforce
  with bump_loop_counted [of ENFORCEMENT_MAX_RETRIES L up c s n token POD_enforcementCount ?upt] ten
  obtain i where i: "i \<le> 20" "bump_loop ENFORCEMENT_MAX_RETRIES L (counted_upstream up) c (s, n) token
      POD_enforcementCount ?upt = (r1, (s1, n + i))" by auto
  obtain r2 s2 where 2: "bump_loop ENFORCEMENT_MAX_RETRIES L up c s1 view POD_viewRetrievalCount ?upv = (r2, s2)"
    by fastforce
  with bump_loop_counted [of ENFORCEMENT_MAX_RETRIES L up c s1 "n + i" view POD_viewRetrievalCount ?upv] ten
  obtain j where j: "j \<le> 20" "bump_loop ENFORCEMENT_MAX_RETRIES L (counted_upstream up) c (s1, n + i) view
      POD_viewRetrievalCount ?upv = (r2, (s2, n + i + j))" by auto
  have log: "client_append_access_log (counted_upstream up) c (s', m) view token stamp
      = (fst (client_append_access_log up c s' view token stamp),
         (snd (client_append_access_log up c s' view token stamp), Suc m))" for s' m
    by (simp add: client_append_access_log_def counted_upstream_def split: prod.splits)
  note defs = record_delivery_def bump_token_enforcement_def bump_view_enforcement_def
  show ?thesis
  proof (cases r1)
    case (Inl e)
    with 1 i show ?thesis by (intro exI [of _ i]) (simp add: defs)
  next
    case r1: (Inr x)
    show ?thesis
    proof (cases r2)
      case (Inl e)
      with r1 1 i 2 j show ?thesis by (intro exI [of _ "i + j"]) (simp add: defs)
    next
      case (Inr y)
      with r1 1 i 2 j show ?thesis by (intro exI [of _ "Suc (i + j)"]) (simp add: defs log)
    qed
  qed
qed

end
