(* ===== verification/Consumer.thy ===== *)
theory Consumer
  imports EngineProps Scanner
begin

text \<open>
  One consumer at the desk of the engine: concrete stores, and the properties of the engine at
  a delivery that goes through and at one that is refused.
\<close>

section \<open>The two stores\<close>

text \<open>
  A state store and a data source that answer the requests of one delivery: a token linked to one
  view, the view (a template without parameters), the result of its query (which names one blob
  of the data source), and the blob. The state counts the writes.
\<close>

definition desk_client :: client where
  "desk_client = \<lparr>c_base_uri = ''b:/'', c_state_base = ''s:/'', c_data_base = ''d:/'',
     c_data_base_uri = ''e:/'', c_state_headers = [], c_data_headers = [], c_state_graph = ''g:''\<rparr>"

definition desk_settings :: settings where
  "desk_settings = demo_settings\<lparr>base_uri := ''b:/'', data_source_base_uri := Some ''e:/''\<rparr>"

definition desk_reply :: "nat \<Rightarrow> string \<Rightarrow> response" where
  "desk_reply st text = \<lparr>status_code = st, headers = [(''ETag'', ''x'')], media_type = None, content = text\<rparr>"

definition desk_upstream :: "nat upstream" where
  "desk_upstream n r =
     (if req_method r = ''GET'' then
        (if req_url r = ''s:/t'' then desk_reply 200 ''t''
         else if req_url r = ''d:/k'' then desk_reply 200 ''bytes'' else desk_reply 200 ''v'', n)
      else if req_method r = ''PUT'' then (desk_reply 200 [], Suc n)
      else if req_url r = ''s:/sparql'' then (desk_reply 200 ''tokens'', n)
      else if req_url r = ''d:/sparql''
      then (desk_reply 200 (if (''Accept'', ''text/turtle'') \<in> set (req_headers r) then ''r'' else ''names''), n)
      else (desk_reply 201 [], Suc n))"

definition desk_libs :: libs where
  "desk_libs = (table_libs [])
     \<lparr>parse_graph := (\<lambda>data fmt base. Some
        (if data = ''t'' then [(URIRef ''b:/t'', POD_linkedView, URIRef ''b:/.system/views/v'')]
         else if data = ''r'' then [(URIRef ''x:'', URIRef ''p:'', URIRef ''e:/k'')]
         else [(URIRef ''b:/.system/views/v'', POD_contentTypeHint, Lit ''text/turtle'' None None)])),
      serialize_graph := (\<lambda>fmt g. Some ''out''),
      sha256_hex := (\<lambda>s. ''h''),
      results_json := (\<lambda>s. Some (if s = ''tokens''
         then [[(''tokenUri'', ''b:/t''), (''stored'', ''h''), (''tokenType'', node_str POD_ConsumerToken)]]
         else [[(''r'', ''e:/k'')]])),
      parse_query := (\<lambda>q. Some \<lparr>query_name = ''ConstructQuery'', dataset_clause = False, has_template = True\<rparr>)\<rparr>"

definition desk_lookup :: string where
  "desk_lookup = splice LOOKUP_QUERY 111 (''VALUES (?presented) { (\"h\") }'')"

lemma desk_lookup_scan: "where_at (scan_where_group desk_lookup) = Some 105"
  unfolding desk_lookup_def by (rule spliced_lookup_scan)

text \<open>The token of the consumer, and the query of the view.\<close>

definition desk_token :: token_record where
  "desk_token = \<lparr>token_uri = ''b:/t'', token_type = node_str POD_ConsumerToken,
     linked_view_uris = [''b:/.system/views/v''], policy_ref = None, enforcement_count = 0,
     last_used_at = EPOCH\<rparr>"

lemma desk_token: "get_engine_token desk_libs desk_upstream desk_client 0 (Some ''Bearer c'') POD_ConsumerToken
     = (Inr desk_token, 0)"
proof -
  have b: "require_bearer (Some ''Bearer c'') = Inr ''c''" by code_simp
  have i: "inject_values_block LOOKUP_QUERY (''VALUES (?presented) { (\"'' @ ''h'' @ ''\") }'') = Inr desk_lookup"
    unfolding inject_values_block_def lookup_scan by (simp add: desk_lookup_def)
  obtain q where q: "state_scoped desk_client desk_lookup = Inr q"
    by (simp add: state_scoped_def find_where_keyword_def desk_lookup_scan)
  have d: "digest desk_libs ''c'' = ''h''" by (simp add: digest_def desk_libs_def)
  have s: "select_state desk_libs desk_upstream desk_client 0 q
      = (Inr [[(''tokenUri'', ''b:/t''), (''stored'', ''h''), (''tokenType'', node_str POD_ConsumerToken)]], 0)"
    by (simp add: select_state_def post_query_def desk_upstream_def desk_client_def desk_reply_def
        expect_def rows_of_def desk_libs_def)
  have m: "match_token_rows [[(''tokenUri'', ''b:/t''), (''stored'', ''h''),
      (''tokenType'', node_str POD_ConsumerToken)]] ''h'' [POD_ConsumerToken] = Inr (''b:/t'', POD_ConsumerToken)"
    by code_simp
  have r: "read_graph desk_libs desk_upstream desk_client 0 ''b:/t''
      = (Inr [(URIRef ''b:/t'', POD_linkedView, URIRef ''b:/.system/views/v'')], 0)" by code_simp
  have t: "token_record_from_graph [(URIRef ''b:/t'', POD_linkedView, URIRef ''b:/.system/views/v'')]
      ''b:/t'' POD_ConsumerToken = Inr desk_token" by code_simp
  show ?thesis
    by (simp add: get_engine_token_def b validate_via_storage_def Let_def d i q s m r t del: append.simps)
qed

lemma desk_pipeline:
  "view_pipeline desk_libs desk_upstream desk_client 0 0 desk_token ''b:/.system/views/v'' (Inr ()) []
     = (Inr (\<lparr>view_uri = ''b:/.system/views/v'', view_title = [], view_description = [],
         construct_template = [], content_type_hint = ''text/turtle'', params = []\<rparr>, [],
         [(URIRef ''x:'', URIRef ''p:'', URIRef ''e:/k'')]), 0)"
  by code_simp

section \<open>Deliveries\<close>

lemma desk_view: "make_system_ns (base_uri desk_settings) = ''b:/.system/''"
  by code_simp

lemma desk_record: "record_delivery desk_libs desk_upstream desk_client 0 ''b:/t'' ''b:/.system/views/v'' [] = (Inr (), 3)"
  by code_simp

lemma desk_blob:
  "get_blob desk_libs desk_upstream desk_client desk_settings 0 [] 0 (Some ''Bearer c'') ''v'' [(''uri'', ''e:/k'')]
     = (Inr \<lparr>status_code = 200, headers = [], media_type = Some ''application/octet-stream'',
         content = ''bytes''\<rparr>, 3)"
proof -
  have g: "blob_guard desk_settings (Some ''e:/k'') = Inr ()" by code_simp
  have p: "view_pipeline desk_libs desk_upstream desk_client 0 0 desk_token ''b:/.system/views/v'' (Inr ())
      [(''uri'', ''e:/k'')] = view_pipeline desk_libs desk_upstream desk_client 0 0 desk_token ''b:/.system/views/v'' (Inr ()) []"
    by code_simp
  have i: "in_result ''e:/k'' [(URIRef ''x:'', URIRef ''p:'', URIRef ''e:/k'')]" by code_simp
  have o: "open_binary_stream desk_upstream desk_client 0 ''e:/k'' = (Inr (desk_reply 200 ''bytes''), 0)"
    by code_simp
  have w: "wire_content_type (desk_reply 200 ''bytes'') = None" by code_simp
  have u: "token_uri desk_token = ''b:/t''" by (simp add: desk_token_def)
  have c: "content (desk_reply 200 ''bytes'') = ''bytes''" by (simp add: desk_reply_def)
  show ?thesis
    by (simp add: get_blob_def desk_token desk_view Let_def g p desk_pipeline i o u desk_record w c)
qed

text \<open>The bytes arrive, counted twice and logged once.\<close>

lemma blob_confined_witness:
  "\<exists>r u. get_blob desk_libs desk_upstream desk_client desk_settings 0 [] 0 (Some ''Bearer c'') ''v''
       [(''uri'', ''e:/k'')] = (Inr r, 3)
     \<and> map_of [(''uri'', ''e:/k'')] ''uri'' = Some u
     \<and> startswith u (effective_data_source_base_uri desk_settings)"
  using blob_confined [OF desk_blob] desk_blob by blast

lemma refused_leaves_no_trace_witness:
  "get_view sys_libs (storage_upstream sys_libs demo_fresh demo_settings) desk_client demo_settings 0 []
     sys_store None ''v'' [] = (Inl unauthorized, sys_store)"
proof -
  obtain b' where g: "get_view sys_libs (storage_upstream sys_libs demo_fresh demo_settings) desk_client
      demo_settings 0 [] sys_store None ''v'' [] = (Inl unauthorized, b')"
    by (simp add: get_view_def get_engine_token_def require_bearer_def)
  have "url_path (c_state_base desk_client @ ''sparql'') = ''/sparql''"
    "url_path (c_data_base desk_client @ ''sparql'') = ''/sparql''" by code_simp+
  from refused_leaves_no_trace [OF this] g show ?thesis unfolding unauthorized_def by blast
qed

lemma rewrite_hides_resources_witness:
  "\<exists>out. rewrite_upstream_uris desk_libs desk_upstream desk_client 0
       [(URIRef ''x:'', URIRef ''p:'', URIRef ''e:/k'')] ''e:/'' ''b:/.engine/'' ''v'' [] = (Inr out, 0)
     \<and> \<not> in_result ''e:/k'' out"
proof -
  let ?g = "[(URIRef ''x:'', URIRef ''p:'', URIRef ''e:/k'')]"
  let ?r = "rewrite_upstream_uris desk_libs desk_upstream desk_client 0 ?g ''e:/'' ''b:/.engine/'' ''v'' []"
  have "is_ok (fst ?r) \<and> snd ?r = 0" by code_simp
  then obtain out where r: "?r = (Inr out, 0)" by (auto simp: is_ok_iff prod_eq_iff)
  have c: "term_candidates ?g ''e:/'' \<noteq> []" by code_simp
  have s: "select_data desk_libs desk_upstream desk_client 0 RESOURCE_URIS_QUERY = (Inr [[(''r'', ''e:/k'')]], 0)"
    by (simp add: select_data_def post_query_def desk_upstream_def desk_client_def desk_reply_def
        expect_def rows_of_def desk_libs_def)
  from rewrite_hides_resources [OF r] obtain listed where
    q: "\<exists>rows. select_data desk_libs desk_upstream desk_client 0 RESOURCE_URIS_QUERY = (Inr rows, 0)
       \<and> (\<forall>u. u \<in> listed \<longleftrightarrow> (\<exists>row\<in>set rows. map_of row ''r'' = Some u))" and
    h: "\<forall>u. in_result u out \<and> startswith u ''e:/'' \<longrightarrow>
      (\<exists>v. in_result v ?g \<and> u = proxy_url ''b:/.engine/'' ''v'' [] v) \<or> in_result u ?g \<and> u \<notin> listed"
    using c by (elim exE conjE) (rule that, blast+)
  from q obtain rows where l: "select_data desk_libs desk_upstream desk_client 0 RESOURCE_URIS_QUERY = (Inr rows, 0)"
    "\<And>u. u \<in> listed \<longleftrightarrow> (\<exists>row\<in>set rows. map_of row ''r'' = Some u)" by (elim exE conjE) (rule that, simp_all)
  from l(1) s have "rows = [[(''r'', ''e:/k'')]]" by simp
  with l(2) have "''e:/k'' \<in> listed" by simp
  moreover have "proxy_url ''b:/.engine/'' ''v'' [] v \<noteq> ''e:/k''" for v by (simp add: proxy_url_def)
  moreover have "startswith ''e:/k'' ''e:/''" by code_simp
  ultimately have "\<not> in_result ''e:/k'' out" using spec [OF h, of "''e:/k''"] by force
  with r show ?thesis by blast
qed

lemma discovery_lists_grant_witness:
  "\<exists>r g. discover desk_libs desk_upstream desk_client desk_settings (\<lambda>u k. []) 0 (Some ''Bearer c'') = (Inr r, 0)
     \<and> {m. (URIRef ''b:/.engine/discovery'', LDP_contains, m) \<in> set g} = {URIRef ''b:/.engine/views/v''}"
proof -
  let ?d = "discover desk_libs desk_upstream desk_client desk_settings (\<lambda>u k. []) 0 (Some ''Bearer c'')"
  let ?x = "URIRef (make_engine_ns (base_uri desk_settings) @ ''discovery'')"
  let ?g = "g_adds [] [(?x, RDF_type, LDP_Resource), (?x, RDF_type, LDP_RDFSource), (?x, RDF_type, LDP_BasicContainer)]"
  have l: "linked_view_uris desk_token = [''b:/.system/views/v'']" by (simp add: desk_token_def)
  let ?a = "describe_all desk_libs desk_upstream desk_client desk_settings (\<lambda>u k. []) 0 ?x ?g [''b:/.system/views/v'']"
  have "is_ok (fst ?a) \<and> snd ?a = 0" by code_simp
  then obtain g where a: "?a = (Inr g, 0)" by (auto simp: is_ok_iff prod_eq_iff)
  have "serialize_graph desk_libs ''turtle'' g = Some ''out''" by (simp add: desk_libs_def)
  with a obtain r where d: "?d = (Inr r, 0)"
    unfolding discover_def desk_token by (simp add: l Let_def)
  have e: "make_engine_ns (base_uri desk_settings) = ''b:/.engine/''"
    "engine_member desk_settings ''b:/.system/views/v'' = URIRef ''b:/.engine/views/v''" by code_simp+
  from discovery_lists_grant [OF d] d show ?thesis by (auto simp: desk_token l e)
qed

end
