(* ===== verification/Proxies.thy ===== *)
theory Proxies
  imports Prelude
begin

text \<open>
  The two bearer-injecting reverse proxies, \<open>penny/proxy.py\<close> and
  \<open>w3c_ldp_test_suite/auth_proxy.py\<close>: how a request is read and forwarded, and how the answer
  is returned. The socket is the text that is left to read; the upstream's answer is an argument
  (\<open>Inl\<close> is a transport error and its message).
\<close>

section \<open>Headers and bodies\<close>

type_synonym headers = "(string \<times> string) list"

definition HOP_BY_HOP :: "string list" where
  "HOP_BY_HOP = [''connection'', ''keep-alive'', ''proxy-authenticate'', ''proxy-authorization'', ''te'',
     ''trailers'', ''transfer-encoding'', ''upgrade'', ''content-length'', ''host'']"

definition CORS :: headers where
  "CORS = [(''Access-Control-Allow-Origin'', ''*''),
     (''Access-Control-Allow-Methods'', ''GET, HEAD, POST, PUT, DELETE, OPTIONS, PATCH''),
     (''Access-Control-Allow-Headers'',
        ''Authorization, Content-Type, Slug, Link, Accept, Prefer, If-Match, If-None-Match''),
     (''Access-Control-Expose-Headers'',
        ''ETag, Location, Link, Allow, Accept-Post, Preference-Applied, WWW-Authenticate, ''
        @ ''Content-Type''),
     (''Access-Control-Allow-Private-Network'', ''true''), (''Access-Control-Max-Age'', ''600'')]"

text \<open>\<open>self.headers.get(name, default)\<close>: the first header of that name.\<close>

definition get_header :: "headers \<Rightarrow> string \<Rightarrow> string \<Rightarrow> string" where
  "get_header hs name dflt =
     (case find (\<lambda>(k, v). lower k = lower name) hs of None \<Rightarrow> dflt | Some (k, v) \<Rightarrow> v)"

definition contains_text :: "string \<Rightarrow> string \<Rightarrow> bool" where
  "contains_text s w = list_ex (\<lambda>k. startswith (drop k s) w) [0..<Suc (length s)]"

definition hex_digit_val :: "char \<Rightarrow> int option" where
  "hex_digit_val c = (let n = int (ord_of c) in
     if is_digit c then Some (n - 48)
     else if 97 \<le> n \<and> n \<le> 102 then Some (n - 87)
     else if 65 \<le> n \<and> n \<le> 70 then Some (n - 55) else None)"

fun hex_digits :: "bool \<Rightarrow> int \<Rightarrow> string \<Rightarrow> int option" where
  "hex_digits after acc [] = (if after then Some acc else None)"
| "hex_digits after acc (c # cs) = (case hex_digit_val c of
     Some d \<Rightarrow> hex_digits True (acc * 16 + d) cs
   | None \<Rightarrow> if c = CHR ''_'' \<and> after \<and> cs \<noteq> [] then hex_digits False acc cs else None)"

text \<open>\<open>int(s, 16)\<close>\<close>

definition py_int16 :: "string \<Rightarrow> int option" where
  "py_int16 s =
     (let t = strip s; neg = startswith t ''-'';
          u = (if neg \<or> startswith t ''+'' then drop 1 t else t);
          v = (if startswith (lower u) ''0x'' then drop (if startswith (drop 2 u) ''_'' then 3 else 2) u else u)
      in map_option (\<lambda>n. if neg then - n else n) (hex_digits False 0 v))"

text \<open>\<open>rfile.readline()\<close> and \<open>rfile.read(n)\<close>: the result and what is left.\<close>

definition read_line :: "string \<Rightarrow> string \<times> string" where
  "read_line s = (case dropWhile (\<lambda>c. ord_of c \<noteq> 10) s of
     [] \<Rightarrow> (s, []) | c # r \<Rightarrow> (takeWhile (\<lambda>c. ord_of c \<noteq> 10) s @ [c], r))"

definition read_bytes :: "int \<Rightarrow> string \<Rightarrow> string \<times> string" where
  "read_bytes n s = (if n < 0 then (s, []) else (take (nat n) s, drop (nat n) s))"

lemma read_line_shorter: "s \<noteq> [] \<Longrightarrow> length (snd (read_line s)) < length s"
proof (cases "dropWhile (\<lambda>c. ord_of c \<noteq> 10) s")
  case (Cons c r)
  then have "length (c # r) \<le> length s" by (metis length_dropWhile_le)
  then show ?thesis by (simp add: read_line_def Cons)
next
  case Nil
  assume "s \<noteq> []"
  then show ?thesis unfolding read_line_def Nil list.case by simp
qed

lemma read_line_le: "length (snd (read_line s)) \<le> length s"
  by (cases "s = []") (simp_all add: read_line_def read_line_shorter [unfolded read_line_def] less_imp_le)

lemma read_bytes_le: "length (snd (read_bytes n s)) \<le> length s"
  by (simp add: read_bytes_def)

text \<open>The chunked body: \<open>None\<close> where a size line is not a number.\<close>

function read_chunks :: "string \<Rightarrow> string option" where
  "read_chunks s =
     (if s = [] then Some []
      else (let line = fst (read_line s); rest = snd (read_line s);
                field = hd (split_on CHR '';'' (strip line))
            in case py_int16 (if field = [] then ''0'' else field) of None \<Rightarrow> None
               | Some n \<Rightarrow>
                   if n = 0 then Some []
                   else map_option ((@) (fst (read_bytes n rest)))
                          (read_chunks (snd (read_line (snd (read_bytes n rest)))))))"
  by pat_completeness auto
termination
proof (relation "measure length", goal_cases)
  case (2 s l r f n)
  have "length (snd (read_line (snd (read_bytes n (snd (read_line s)))))) \<le> length (snd (read_line s))"
    using read_line_le read_bytes_le order_trans by blast
  with 2 read_line_shorter [of s] show ?case by simp
qed simp

declare read_chunks.simps [simp del]

definition read_sized :: "headers \<Rightarrow> string \<Rightarrow> string option" where
  "read_sized hs s = (let v = get_header hs ''Content-Length'' ''0'' in
     case py_int (if v = [] then ''0'' else v) of None \<Rightarrow> None
     | Some n \<Rightarrow> Some (if n = 0 then [] else fst (read_bytes n s)))"

definition penny_read_body :: "headers \<Rightarrow> string \<Rightarrow> string option" where
  "penny_read_body hs s =
     (if contains_text (lower (get_header hs ''Transfer-Encoding'' [])) ''chunked''
      then read_chunks s else read_sized hs s)"

text \<open>A dictionary comprehension over header items, and one assignment to it.\<close>

definition dict_of :: "headers \<Rightarrow> headers" where
  "dict_of hs = foldl (\<lambda>d (k, v). AList.update k v d) [] hs"

section \<open>Forwarding\<close>

record upstream_request =
  up_method :: string
  up_path :: string
  up_headers :: headers
  up_body :: string

record upstream_response =
  ur_status :: nat
  ur_headers :: headers
  ur_payload :: string

datatype proxy_reply =
    Reply nat headers string
  | BadGateway string
  | Dropped

definition penny_headers :: "string \<Rightarrow> string \<Rightarrow> headers \<Rightarrow> headers" where
  "penny_headers token host_port hs =
     (let kept = dict_of (filter (\<lambda>(k, v). lower k \<notin> set HOP_BY_HOP
                \<and> \<not> startswith (lower k) ''access-control-'') hs);
          authed = (if list_ex (\<lambda>(k, v). lower k = ''authorization'') kept then kept
                    else AList.update ''Authorization'' (''Bearer '' @ token) kept)
      in AList.update ''Host'' host_port authed)"

definition is_preflight :: "string \<Rightarrow> headers \<Rightarrow> bool" where
  "is_preflight command hs \<longleftrightarrow> command = ''OPTIONS''
     \<and> list_ex (\<lambda>(k, v). lower k = ''access-control-request-method'') hs"

definition penny_reply :: "string \<Rightarrow> string + upstream_response \<Rightarrow> proxy_reply" where
  "penny_reply command answer = (case answer of
     Inl msg \<Rightarrow> BadGateway (''Bad gateway: '' @ msg)
   | Inr r \<Rightarrow> Reply (ur_status r)
       (filter (\<lambda>(k, v). \<not> (lower k \<in> set HOP_BY_HOP \<or> startswith (lower k) ''access-control-'')) (ur_headers r)
        @ CORS @ [(''Content-Length'', str_of_nat (length (ur_payload r)))])
       (if command \<noteq> ''HEAD'' then ur_payload r else []))"

text \<open>\<open>_forward\<close>: the request sent, if any, and the reply.\<close>

definition penny_forward ::
  "string \<Rightarrow> string \<Rightarrow> (upstream_request \<Rightarrow> string + upstream_response) \<Rightarrow> string \<Rightarrow> string \<Rightarrow> headers
    \<Rightarrow> string \<Rightarrow> upstream_request option \<times> proxy_reply" where
  "penny_forward token host_port pod command path hs rfile =
     (if is_preflight command hs
      then (None, Reply 204 (CORS @ [(''Content-Length'', ''0'')]) [])
      else (case penny_read_body hs rfile of
        None \<Rightarrow> (None, Dropped)
      | Some body \<Rightarrow>
         (let req = \<lparr>up_method = command, up_path = path,
                up_headers = penny_headers token host_port hs, up_body = body\<rparr>
          in (Some req, penny_reply command (pod req)))))"

definition suite_headers :: "string \<Rightarrow> string \<Rightarrow> headers \<Rightarrow> headers" where
  "suite_headers token host_port hs =
     AList.update ''Host'' host_port (AList.update ''Authorization'' (''Bearer '' @ token)
       (dict_of (filter (\<lambda>(k, v). lower k \<notin> set HOP_BY_HOP) hs)))"

definition suite_reply :: "string \<Rightarrow> string + upstream_response \<Rightarrow> proxy_reply" where
  "suite_reply command answer = (case answer of
     Inl msg \<Rightarrow> BadGateway (''Bad gateway: '' @ msg)
   | Inr r \<Rightarrow> Reply (ur_status r)
       (filter (\<lambda>(k, v). lower k \<notin> set HOP_BY_HOP) (ur_headers r)
        @ [(''Content-Length'', str_of_nat (length (ur_payload r)))])
       (if command \<noteq> ''HEAD'' then ur_payload r else []))"

definition suite_forward ::
  "string \<Rightarrow> string \<Rightarrow> (upstream_request \<Rightarrow> string + upstream_response) \<Rightarrow> string \<Rightarrow> string \<Rightarrow> headers
    \<Rightarrow> string \<Rightarrow> upstream_request option \<times> proxy_reply" where
  "suite_forward token host_port pod command path hs rfile =
     (case read_sized hs rfile of None \<Rightarrow> (None, Dropped)
      | Some body \<Rightarrow>
         (let req = \<lparr>up_method = command, up_path = path,
                up_headers = suite_headers token host_port hs, up_body = body\<rparr>
          in (Some req, suite_reply command (pod req))))"

section \<open>What is forwarded\<close>

lemma dict_of_keys: "fst ` set (dict_of hs) = fst ` set hs"
proof -
  have "fst ` set (foldl (\<lambda>d (k, v). AList.update k v d) d hs) = fst ` set d \<union> fst ` set hs" for d
  proof (induction hs arbitrary: d)
    case (Cons x hs)
    obtain k v where "x = (k, v)" by (cases x)
    then show ?case by (simp add: Cons.IH dom_update)
  qed simp
  then show ?thesis by (simp add: dict_of_def)
qed

text \<open>Which headers the GUI proxy passes on; credentials are among them.\<close>

abbreviation forwardable :: "string \<Rightarrow> bool" where
  "forwardable k \<equiv> lower k \<notin> set HOP_BY_HOP \<and> \<not> startswith (lower k) ''access-control-''"

abbreviation names_auth :: "headers \<Rightarrow> bool" where
  "names_auth hs \<equiv> \<exists>k\<in>fst ` set hs. lower k = ''authorization''"

lemma auth_forwardable: "lower k = ''authorization'' \<Longrightarrow> forwardable k"
  by (simp add: HOP_BY_HOP_def)

lemma auth_not_host: "lower k = ''authorization'' \<Longrightarrow> k \<noteq> ''Host''"
  by (auto simp: lower_def lower_char_def is_ascii_upper_def ord_of_def Let_def)

lemma kept_keys: "fst ` set (dict_of (filter (\<lambda>(k, v). forwardable k) hs)) = {k \<in> fst ` set hs. forwardable k}"
  unfolding dict_of_keys by force

lemma kept_auth:
  "list_ex (\<lambda>(k, v). lower k = ''authorization'') (dict_of (filter (\<lambda>(k, v). forwardable k) hs)) \<longleftrightarrow> names_auth hs"
  (is "list_ex _ ?kept \<longleftrightarrow> _")
proof -
  have "list_ex (\<lambda>(k, v). lower k = ''authorization'') ?kept \<longleftrightarrow> names_auth ?kept"
    by (force simp: list_ex_iff)
  also have "\<dots> \<longleftrightarrow> names_auth hs" unfolding kept_keys using auth_forwardable by blast
  finally show ?thesis .
qed

text \<open>Dropping other headers does not change the value under a name, the last one given.\<close>

lemma dict_of_filter:
  assumes ok: "\<And>v. P (k, v)"
  shows "map_of (dict_of (filter P hs)) k = map_of (dict_of hs) k"
proof -
  have "map_of (foldl (\<lambda>d (k, v). AList.update k v d) d (filter P hs)) k =
      map_of (foldl (\<lambda>d (k, v). AList.update k v d) e hs) k" if "map_of d k = map_of e k" for d e
    using that
  proof (induction hs arbitrary: d e)
    case (Cons x xs)
    obtain a v where x: "x = (a, v)" by (cases x)
    show ?case
    proof (cases "P x")
      case True
      have "map_of (AList.update a v d) k = map_of (AList.update a v e) k"
        using Cons.prems by (simp add: update_conv')
      from Cons.IH [OF this] True show ?thesis by (simp add: x)
    next
      case False
      with ok have "a \<noteq> k" by (auto simp: x)
      then have "map_of d k = map_of (AList.update a v e) k"
        using Cons.prems by (simp add: update_conv')
      from Cons.IH [OF this] False show ?thesis by (auto simp: x)
    qed
  qed simp
  then show ?thesis by (simp add: dict_of_def)
qed

lemma penny_headers_keys:
  assumes "k \<in> fst ` set (penny_headers token host_port hs)"
  shows "k = ''Host'' \<or> forwardable k"
proof -
  have "fst ` set (penny_headers token host_port hs) \<subseteq> insert ''Host'' (insert ''Authorization''
      (fst ` set (dict_of (filter (\<lambda>(k, v). forwardable k) hs))))"
    by (simp add: penny_headers_def dom_update Let_def) blast
  with assms consider "k = ''Host''" | "k = ''Authorization''" | "k \<in> fst ` set hs" "forwardable k"
    unfolding kept_keys by blast
  then show ?thesis
  proof cases
    case 2
    have "lower ''Authorization'' = ''authorization''" by code_simp
    with 2 show ?thesis using auth_forwardable [of k] by simp
  qed simp_all
qed

text \<open>C40. The GUI proxy adds a credential only where the client sent none: a request that carries
  an \<open>Authorization\<close> header (in any case) keeps it, one without gets exactly the injected bearer;
  no hop-by-hop header but the recomputed \<open>Host\<close> and no \<open>Access-Control-\<close> header is forwarded.\<close>

theorem penny_forwards_credentials:
  "(\<forall>k\<in>fst ` set (penny_headers token host_port hs).
      k = ''Host'' \<or> (lower k \<notin> set HOP_BY_HOP \<and> \<not> startswith (lower k) ''access-control-''))
   \<and> (if \<exists>k\<in>fst ` set hs. lower k = ''authorization''
      then \<forall>k. lower k = ''authorization'' \<longrightarrow>
             map_of (penny_headers token host_port hs) k = map_of (dict_of hs) k
      else map_of (penny_headers token host_port hs) ''Authorization'' = Some (''Bearer '' @ token))"
proof (intro conjI ballI penny_headers_keys)
  show "if names_auth hs
      then \<forall>k. lower k = ''authorization'' \<longrightarrow>
             map_of (penny_headers token host_port hs) k = map_of (dict_of hs) k
      else map_of (penny_headers token host_port hs) ''Authorization'' = Some (''Bearer '' @ token)"
  proof (cases "names_auth hs")
    case True
    have "map_of (penny_headers token host_port hs) k = map_of (dict_of hs) k" if k: "lower k = ''authorization''" for k
      using True kept_auth [of hs] auth_not_host [OF k] dict_of_filter [of "\<lambda>(k, v). forwardable k" k hs]
        auth_forwardable [OF k]
      by (simp add: penny_headers_def update_conv' Let_def)
    with True show ?thesis by simp
  next
    case False
    then show ?thesis using kept_auth [of hs] by (simp add: penny_headers_def update_conv' Let_def)
  qed
qed

lemma penny_forwards_credentials_witness:
  "map_of (penny_headers ''t'' ''h:1'' [(''Accept'', ''*/*''), (''Connection'', ''close'')]) ''Authorization''
     = Some ''Bearer t''
   \<and> ''Connection'' \<notin> fst ` set (penny_headers ''t'' ''h:1'' [(''Accept'', ''*/*''), (''Connection'', ''close'')])"
proof -
  let ?hs = "[(''Accept'', ''*/*''), (''Connection'', ''close'')] :: headers"
  have l: "lower ''Connection'' = ''connection''" "lower ''Accept'' = ''accept''" by code_simp+
  then have "\<not> (\<exists>k\<in>fst ` set ?hs. lower k = ''authorization'')" by simp
  moreover have "lower ''Connection'' \<in> set HOP_BY_HOP" by (simp add: l HOP_BY_HOP_def)
  ultimately show ?thesis
    using penny_forwards_credentials [of "''t''" "''h:1''" ?hs] by auto
qed

end
