(* ===== verification/Documents.thy ===== *)
theory Documents
  imports Locations
begin

text \<open>
  The backend as a map from URIs to documents, which is what \<open>storage/backend.py\<close> promises of
  any \<open>StorageBackend\<close>. The promise holds for plain URIs, those whose segments are not taken for
  parts of the file tree; on them the filesystem backend refines the map, operation by operation
  and for any sequence of operations.
\<close>

section \<open>Plain URIs\<close>

definition plain_segment :: "string \<Rightarrow> bool" where
  "plain_segment s \<longleftrightarrow> s \<noteq> [] \<and> CHR ''/'' \<notin> set s \<and> s \<noteq> ''.'' \<and> s \<noteq> ''..'' \<and> \<not> endswith s ''.ttl''"

definition plain_last :: "string \<Rightarrow> bool" where
  "plain_last s \<longleftrightarrow> CHR ''/'' \<notin> set s \<and> s \<noteq> ''.'' \<and> s \<noteq> ''..'' \<and> \<not> endswith s ''.ttl''
     \<and> \<not> endswith s ''.meta''"

definition plain_uri :: "string \<Rightarrow> string \<Rightarrow> bool" where
  "plain_uri base u \<longleftrightarrow> startswith u base \<and>
     (let segs = split_on CHR ''/'' (removeprefix u base)
      in list_all plain_segment (butlast segs) \<and> plain_last (last segs))"

lemma plain_uriE:
  assumes "plain_uri base u"
  obtains ss l where "u = base @ join ''/'' (ss @ [l])" "list_all plain_segment ss" "plain_last l"
proof (rule that)
  let ?segs = "split_on CHR ''/'' (removeprefix u base)"
  from assms have "u = base @ removeprefix u base"
    by (auto simp: plain_uri_def startswith_iff)
  also have "removeprefix u base = join ''/'' ?segs" by (rule join_split_on [symmetric])
  also have "?segs = butlast ?segs @ [last ?segs]" by simp
  finally show "u = base @ join ''/'' (butlast ?segs @ [last ?segs])" .
qed (use assms in \<open>simp_all add: plain_uri_def Let_def\<close>)

lemma join_snoc_append: "join sep (ss @ [l]) @ t = join sep (ss @ [l @ t])"
  by (induction sep ss rule: join.induct) auto

text \<open>The segments of such a text, as a path, are the segments themselves.\<close>

lemma path_segments_join:
  assumes "list_all plain_segment ss" and "CHR ''/'' \<notin> set l"
  shows "path_segments (join ''/'' (ss @ [l])) = ss @ (if l = [] \<or> l = ''.'' then [] else [l])"
proof -
  from assms have "\<forall>w\<in>set (ss @ [l]). CHR ''/'' \<notin> set w"
    by (auto simp: list_all_iff plain_segment_def)
  then have "split_on CHR ''/'' (join ''/'' (ss @ [l])) = ss @ [l]" by (intro split_on_join) simp
  moreover have "filter (\<lambda>w. w \<noteq> [] \<and> w \<noteq> ''.'') ss = ss"
    using assms(1) by (intro filter_True) (auto simp: list_all_iff plain_segment_def)
  ultimately show ?thesis by (simp add: path_segments_def)
qed

lemma join_not_slash:
  assumes "list_all plain_segment ss" and "CHR ''/'' \<notin> set l"
  shows "\<not> startswith (join ''/'' (ss @ [l])) ''/''"
proof (cases ss)
  case Nil
  then show ?thesis using assms(2) by (cases l) (auto simp: startswith_def)
next
  case (Cons s ss')
  with assms(1) have "s \<noteq> []" "CHR ''/'' \<notin> set s" by (auto simp: plain_segment_def)
  moreover have "\<exists>t. join ''/'' (ss @ [l]) = s @ t" using Cons by (cases ss') auto
  ultimately show ?thesis by (cases s) (auto simp: startswith_def)
qed

text \<open>Where a plain URI is stored.\<close>

definition clean_root :: "backend \<Rightarrow> bool" where
  "clean_root b \<longleftrightarrow> ''..'' \<notin> set (storage_root b)"

lemma clean_root_config: "same_config b b' \<Longrightarrow> clean_root b' = clean_root b"
  by (simp add: clean_root_def same_config_def)

lemma dots_free: "list_all plain_segment ss \<Longrightarrow> ''..'' \<notin> set ss"
  by (auto simp: list_all_iff plain_segment_def)

lemma plain_locations:
  assumes "list_all plain_segment ss" and "plain_last l" and "clean_root b"
    and u: "u = backend_base b @ join ''/'' (ss @ [l])"
  shows "rdf_location b u = storage_root b @ ss @ [l @ ''.ttl'']"
    and "bin_location b u = storage_root b @ ss @ (if l = [] then [] else [l])"
proof -
  have l: "CHR ''/'' \<notin> set l" "CHR ''/'' \<notin> set (l @ ''.ttl'')" "l \<noteq> ''.''" "l \<noteq> ''..''"
    using assms(2) by (auto simp: plain_last_def)
  have "length (l @ ''.ttl'') \<ge> 4" by simp
  then have t: "l @ ''.ttl'' \<noteq> []" "l @ ''.ttl'' \<noteq> ''.''" "l @ ''.ttl'' \<noteq> ''..''" by auto
  have root: "''..'' \<notin> set (storage_root b)" using assms(3) by (simp add: clean_root_def)
  have "uri_to_rdf_path b u = storage_root b @ ss @ [l @ ''.ttl'']"
    unfolding uri_to_rdf_path_def join_path_def u removeprefix_append join_snoc_append
    using path_segments_join [OF assms(1) l(2)] join_not_slash [OF assms(1) l(2)] t by simp
  then show "rdf_location b u = storage_root b @ ss @ [l @ ''.ttl'']"
    using root t dots_free [OF assms(1)] by (simp add: rdf_location_def resolve_def resolve_from_clean)
  have "uri_to_bin_path b u = storage_root b @ ss @ (if l = [] then [] else [l])"
    unfolding uri_to_bin_path_def join_path_def u removeprefix_append
    using path_segments_join [OF assms(1) l(1)] join_not_slash [OF assms(1) l(1)] l by simp
  then show "bin_location b u = storage_root b @ ss @ (if l = [] then [] else [l])"
    using root l dots_free [OF assms(1)] by (simp add: bin_location_def resolve_def resolve_from_clean)
qed

lemma append_name_append [simp]: "q \<noteq> [] \<Longrightarrow> append_name (r @ q) s = r @ append_name q s"
  by (simp add: append_name_def butlast_append)

lemma ttl_meta_neq:
  assumes "plain_last l"
  shows "l @ ''.ttl'' \<noteq> w @ ''.meta.ttl''"
proof
  assume "l @ ''.ttl'' = w @ ''.meta.ttl''"
  then have "l @ ''.ttl'' = (w @ ''.meta'') @ ''.ttl''" by simp
  then have "l = w @ ''.meta''" by (simp only: append_same_eq)
  with assms show False by (simp add: plain_last_def)
qed

text \<open>Beside the root, no file has the name of the root's description.\<close>

lemma root_meta_neq:
  assumes "k \<noteq> ''.meta.ttl''"
  shows "append_name r ''.meta.ttl'' \<noteq> r @ [k]" and "append_name r ''.meta.ttl'' \<noteq> r @ q @ [j, k]"
proof -
  show "append_name r ''.meta.ttl'' \<noteq> r @ [k]"
  proof (cases r rule: rev_cases)
    case Nil
    with assms show ?thesis by (simp add: append_name_def)
  next
    case (snoc p x)
    then have "length (append_name r ''.meta.ttl'') = length r" by (simp add: append_name_def)
    then show ?thesis by (auto dest: arg_cong [where f = length])
  qed
  have "length (append_name r ''.meta.ttl'') \<le> Suc (length r)" by (simp add: append_name_def)
  then show "append_name r ''.meta.ttl'' \<noteq> r @ q @ [j, k]" by (auto dest: arg_cong [where f = length])
qed

lemma snoc_two: "xs \<noteq> [] \<Longrightarrow> \<exists>q j. xs @ [k] = q @ [j, k]"
  by (cases xs rule: rev_cases) auto

lemma segments_slash_free: "list_all plain_segment ss \<Longrightarrow> plain_last l \<Longrightarrow> \<forall>w\<in>set (ss @ [l]). CHR ''/'' \<notin> set w"
  by (auto simp: list_all_iff plain_segment_def plain_last_def)

lemma plain_not_meta:
  assumes "plain_uri base u" and "plain_uri base v"
  shows "v \<noteq> u @ ''.meta''"
proof
  assume eq: "v = u @ ''.meta''"
  from assms(1) obtain ss l where U: "u = base @ join ''/'' (ss @ [l])" "list_all plain_segment ss" "plain_last l"
    by (rule plain_uriE)
  from assms(2) obtain rs k where V: "v = base @ join ''/'' (rs @ [k])" "list_all plain_segment rs" "plain_last k"
    by (rule plain_uriE)
  have "join ''/'' (rs @ [k]) = join ''/'' (ss @ [l @ ''.meta''])"
    using U(1) V(1) eq by (simp add: join_snoc_append)
  moreover have "split_on CHR ''/'' (join ''/'' (rs @ [k])) = rs @ [k]"
    using segments_slash_free [OF V(2,3)] by (intro split_on_join) auto
  moreover have "split_on CHR ''/'' (join ''/'' (ss @ [l @ ''.meta''])) = ss @ [l @ ''.meta'']"
    using segments_slash_free [OF U(2,3)] by (intro split_on_join) auto
  ultimately have "rs @ [k] = ss @ [l @ ''.meta'']" by metis
  then have "k = l @ ''.meta''" by (simp only: append1_eq_conv)
  with V(3) show False by (simp add: plain_last_def)
qed

text \<open>Two plain URIs are apart, and a binary is apart from the document of its own URI.\<close>

lemma plain_clear_of:
  assumes c: "clean_root b" and u: "plain_uri (backend_base b) u" and v: "plain_uri (backend_base b) v"
  shows "v \<noteq> u @ ''.meta''" and "\<not> prefix (rdf_location b v) (bin_location b u)"
    and "rdf_location b v \<noteq> append_name (bin_location b u) ''.meta.ttl''"
    and "v \<noteq> u \<Longrightarrow> \<not> prefix (rdf_location b v) (rdf_location b u)"
proof -
  from u obtain ss l where U: "u = backend_base b @ join ''/'' (ss @ [l])" "list_all plain_segment ss"
    "plain_last l" by (rule plain_uriE)
  from v obtain rs k where V: "v = backend_base b @ join ''/'' (rs @ [k])" "list_all plain_segment rs"
    "plain_last k" by (rule plain_uriE)
  note lu = plain_locations [OF U(2,3) c U(1)] and lv = plain_locations [OF V(2,3) c V(1)]
  have ends: "endswith (k @ ''.ttl'') ''.ttl''" by simp
  have ttl: "k @ ''.ttl'' \<notin> set ss" "k @ ''.ttl'' \<noteq> l"
    using U(2,3) ends unfolding list_all_iff plain_segment_def plain_last_def by blast+
  have pre: "prefix (rs @ [k @ ''.ttl'']) xs \<Longrightarrow> k @ ''.ttl'' \<in> set xs" for xs
    by (auto simp: prefix_def)
  show "v \<noteq> u @ ''.meta''" by (rule plain_not_meta [OF u v])
  show "\<not> prefix (rdf_location b v) (bin_location b u)"
    unfolding lu lv using pre [of "ss @ (if l = [] then [] else [l])"] ttl by (auto split: if_splits)
  show "rdf_location b v \<noteq> append_name (bin_location b u) ''.meta.ttl''"
  proof (cases "ss @ (if l = [] then [] else [l]) = []")
    case True
    have "k @ ''.ttl'' \<noteq> ''.meta.ttl''" using ttl_meta_neq [OF V(3), of "[]"] by simp
    note meta = root_meta_neq [OF this]
    have "append_name (storage_root b) ''.meta.ttl'' \<noteq> storage_root b @ rs @ [k @ ''.ttl'']"
      by (cases "rs = []") (use meta snoc_two [of rs "k @ ''.ttl''"] in fastforce)+
    with True show ?thesis unfolding lu lv by auto
  next
    case False
    then show ?thesis unfolding lu lv
      using ttl_meta_neq [OF V(3)] by (auto simp: append_name_def)
  qed
  assume ne: "v \<noteq> u"
  show "\<not> prefix (rdf_location b v) (rdf_location b u)"
  proof
    assume "prefix (rdf_location b v) (rdf_location b u)"
    then have "prefix (rs @ [k @ ''.ttl'']) (ss @ [l @ ''.ttl''])" unfolding lu lv by simp
    then have "rs @ [k @ ''.ttl''] = ss @ [l @ ''.ttl'']"
      using pre [of ss] ttl by (auto simp: prefix_snoc)
    with ne U V show False by simp
  qed
qed

lemma plain_apart:
  assumes "clean_root b" "plain_uri (backend_base b) u" "plain_uri (backend_base b) v" "v \<noteq> u"
  shows "apart b u v"
  unfolding apart_def using plain_clear_of [OF assms(1-3)] assms(4) by blast

section \<open>What is seen of a URI\<close>

text \<open>URIs of binaries name a file: their last segment is not empty.\<close>

definition plain_file :: "string \<Rightarrow> string \<Rightarrow> bool" where
  "plain_file base u \<longleftrightarrow> plain_uri base u \<and> last (split_on CHR ''/'' (removeprefix u base)) \<noteq> []"

definition document :: "backend \<Rightarrow> string \<Rightarrow> graph option" where
  "document b u = (if plain_uri (backend_base b) u
     then (case backend_read b u of Inr g \<Rightarrow> Some g | Inl _ \<Rightarrow> None) else None)"

definition blob :: "backend \<Rightarrow> string \<Rightarrow> string option" where
  "blob b u = (if plain_file (backend_base b) u
     then (case stream_binary b u of Inr cs \<Rightarrow> Some (concat cs) | Inl _ \<Rightarrow> None) else None)"

lemma plain_fileE:
  assumes "plain_file base u"
  obtains ss l where "u = base @ join ''/'' (ss @ [l])" "list_all plain_segment ss" "plain_last l" "l \<noteq> []"
proof -
  from assms have "plain_uri base u" and n: "last (split_on CHR ''/'' (removeprefix u base)) \<noteq> []"
    by (simp_all add: plain_file_def)
  from this(1) obtain ss l where U: "u = base @ join ''/'' (ss @ [l])" "list_all plain_segment ss"
    "plain_last l" by (rule plain_uriE)
  then have "split_on CHR ''/'' (removeprefix u base) = ss @ [l]"
    using split_on_join [of "ss @ [l]" "CHR ''/''"]
    by (auto simp: list_all_iff plain_segment_def plain_last_def)
  with U n that show ?thesis by simp
qed

lemma plain_guards:
  assumes "clean_root b" and "plain_uri (backend_base b) u"
  shows "is_relative_to (rdf_location b u) (storage_root b)"
    and "is_relative_to (bin_location b u) (storage_root b)"
  using assms(2)
  by (rule plain_uriE; use plain_locations [OF _ _ assms(1)] in simp)+

lemma document_eq:
  assumes "clean_root b" and "plain_uri (backend_base b) u"
  shows "document b u = (if path_exists b (rdf_location b u) then Some (g_copy (context_graph b u)) else None)"
  using plain_guards(1) [OF assms] assms(2)
  by (simp add: document_def backend_read_def guard_within_root_def rdf_location_def Let_def)

lemma blob_eq:
  assumes "clean_root b" and "plain_file (backend_base b) u"
  shows "blob b u = (case file_at b (bin_location b u) of Some (File d) \<Rightarrow> Some d | _ \<Rightarrow> None)"
proof -
  have "plain_uri (backend_base b) u" using assms(2) by (simp add: plain_file_def)
  from plain_guards(2) [OF assms(1) this] have "guard_within_root b (uri_to_bin_path b u) = Inr (bin_location b u)"
    by (simp add: guard_within_root_def bin_location_def Let_def)
  then show ?thesis using assms(2)
    by (simp add: blob_def stream_binary_def concat_chunks CHUNK_SIZE_def split: option.splits fnode.splits)
qed

lemma blob_cong:
  assumes "clean_root b" and "same_config b b'"
    and "\<And>d. plain_file (backend_base b) v \<Longrightarrow>
      file_at b' (bin_location b v) = Some (File d) \<longleftrightarrow> file_at b (bin_location b v) = Some (File d)"
  shows "blob b' v = blob b v"
proof (cases "plain_file (backend_base b) v")
  case True
  have base: "backend_base b' = backend_base b" using assms(2) by (simp add: same_config_def)
  have c: "clean_root b'" using assms(1) clean_root_config [OF assms(2)] by simp
  have "\<forall>d. file_at b' (bin_location b v) = Some (File d) \<longleftrightarrow> file_at b (bin_location b v) = Some (File d)"
    using assms(3) [OF True] by simp
  then show ?thesis
    unfolding blob_eq [OF assms(1) True] blob_eq [OF c True [folded base]] same_config_paths(4) [OF assms(2)]
    by (cases "file_at b (bin_location b v)"; cases "file_at b' (bin_location b v)")
      (auto split: fnode.splits)
next
  case False
  then show ?thesis using assms(2) by (simp add: blob_def same_config_def)
qed

lemma document_cong:
  assumes "same_config b b'" and "plain_uri (backend_base b) v \<Longrightarrow> backend_read b' v = backend_read b v"
  shows "document b' v = document b v"
  using assms by (auto simp: document_def same_config_def)

section \<open>Files under the operations\<close>

text \<open>Making directories changes no file, and the operations write to their own files only.\<close>

lemma write_system_other_files:
  assumes w: "write_system L b u g = (r, b')" and q: "q \<noteq> rdf_location b u"
  shows "file_at b' q = Some (File d) \<longleftrightarrow> file_at b q = Some (File d)"
  using w q
  by (cases rule: write_system_cases)
    (auto simp: file_at_mkdirs file_at_write_bytes(1) reload_context_fields(4))

lemma write_binary_other_files:
  assumes w: "write_binary L b u data ct = (r, b')"
    and q: "q \<noteq> bin_location b u" "q \<noteq> append_name (bin_location b u) ''.meta.ttl''"
  shows "file_at b' q = Some (File d) \<longleftrightarrow> file_at b q = Some (File d)"
  using w q
  by (cases rule: write_binary_cases)
    (auto simp: file_at_mkdirs file_at_write_bytes(1) reload_context_fields(4))

lemma delete_system_other_files:
  assumes d: "delete_system b u = (r, b')"
    and q: "q \<noteq> rdf_location b u" "q \<noteq> bin_location b u" "q \<noteq> append_name (bin_location b u) ''.meta.ttl''"
  shows "file_at b' q = file_at b q"
  using d q by (cases rule: delete_system_cases) (auto simp: file_at_unlink)

text \<open>The file of a binary is no document, no description and not the file of another binary.\<close>

lemma plain_file_clear_of:
  assumes c: "clean_root b" and u: "plain_uri (backend_base b) u" and v: "plain_file (backend_base b) v"
  shows "bin_location b v \<noteq> rdf_location b u"
    and "bin_location b v \<noteq> append_name (bin_location b u) ''.meta.ttl''"
    and "plain_file (backend_base b) u \<Longrightarrow> v \<noteq> u \<Longrightarrow> bin_location b v \<noteq> bin_location b u"
proof -
  from u obtain ss l where U: "u = backend_base b @ join ''/'' (ss @ [l])" "list_all plain_segment ss"
    "plain_last l" by (rule plain_uriE)
  from v obtain rs k where V: "v = backend_base b @ join ''/'' (rs @ [k])" "list_all plain_segment rs"
    "plain_last k" "k \<noteq> []" by (rule plain_fileE)
  note lu = plain_locations [OF U(2,3) c U(1)] and lv = plain_locations [OF V(2,3) c V(1)]
  have k: "k \<noteq> t @ ''.ttl''" for t
    using V(3) endswith_append [of t "''.ttl''"] by (auto simp: plain_last_def simp del: endswith_append)
  show "bin_location b v \<noteq> rdf_location b u"
    unfolding lu lv using V(4) k [of l] by simp
  have "k \<noteq> w @ ''.meta.ttl''" for w using k [of "w @ ''.meta''"] by simp
  note meta = this this [of "[]"]
  show "bin_location b v \<noteq> append_name (bin_location b u) ''.meta.ttl''"
  proof (cases "ss @ (if l = [] then [] else [l]) = []")
    case True
    from k [of "''.meta''"] have "k \<noteq> ''.meta.ttl''" by simp
    note root = root_meta_neq [OF this]
    have "append_name (storage_root b) ''.meta.ttl'' \<noteq> storage_root b @ rs @ [k]"
      by (cases "rs = []") (use root snoc_two [of rs k] in fastforce)+
    with True V(4) show ?thesis unfolding lu lv by auto
  next
    case False
    then show ?thesis unfolding lu lv using meta V(4) by (auto simp: append_name_def)
  qed
  assume "plain_file (backend_base b) u" and ne: "v \<noteq> u"
  from this(1) obtain ss' l' where U': "u = backend_base b @ join ''/'' (ss' @ [l'])"
    "list_all plain_segment ss'" "plain_last l'" "l' \<noteq> []" by (rule plain_fileE)
  show "bin_location b v \<noteq> bin_location b u"
    unfolding plain_locations(2) [OF U'(2,3) c U'(1)] lv(2) using ne U' V by auto
qed

section \<open>The contract\<close>

text \<open>
  The store a \<open>StorageBackend\<close> promises: documents and binaries by URI. What is kept of a written
  document is its Turtle reading, which \<open>kept\<close> relates to it.
\<close>

record pod =
  docs :: "string \<Rightarrow> graph option"
  blobs :: "string \<Rightarrow> string option"

datatype store_op = Put_Doc string graph | Put_Blob string string string | Remove string

inductive pod_step :: "(string \<Rightarrow> graph \<Rightarrow> graph \<Rightarrow> bool) \<Rightarrow> pod \<Rightarrow> store_op \<Rightarrow> pod \<Rightarrow> bool" for kept where
  put_doc: "kept u g h \<Longrightarrow> pod_step kept p (Put_Doc u g) (p\<lparr>docs := (docs p)(u \<mapsto> h)\<rparr>)"
| put_blob: "pod_step kept p (Put_Blob u data ct) (p\<lparr>blobs := (blobs p)(u \<mapsto> data)\<rparr>)"
| remove_doc: "docs p u = Some h \<Longrightarrow> pod_step kept p (Remove u) (p\<lparr>docs := (docs p)(u := None)\<rparr>)"
| remove_blob: "docs p u = None \<Longrightarrow> blobs p u = Some d \<Longrightarrow>
     pod_step kept p (Remove u) (p\<lparr>blobs := (blobs p)(u := None)\<rparr>)"

inductive_simps pod_step_simps [simp]:
  "pod_step kept p (Put_Doc u g) p'" "pod_step kept p (Put_Blob u data ct) p'" "pod_step kept p (Remove u) p'"

text \<open>The operations of the backend, and the store it represents.\<close>

primrec apply_op :: "libs \<Rightarrow> backend \<Rightarrow> store_op \<Rightarrow> (exn, unit) result \<times> backend" where
  "apply_op L b (Put_Doc u g) = backend_write L b u g"
| "apply_op L b (Put_Blob u data ct) = write_binary L b u data ct"
| "apply_op L b (Remove u) = backend_delete b u"

definition pod_of :: "backend \<Rightarrow> pod" where
  "pod_of b = \<lparr>docs = document b, blobs = blob b\<rparr>"

text \<open>
  Binaries are named like files; a container's URI is removed only while its document is there
  (without one, the removal would reach the binary whose name it shares).
\<close>

primrec op_plain :: "backend \<Rightarrow> store_op \<Rightarrow> bool" where
  "op_plain b (Put_Doc u g) \<longleftrightarrow> plain_uri (backend_base b) u"
| "op_plain b (Put_Blob u data ct) \<longleftrightarrow> plain_file (backend_base b) u"
| "op_plain b (Remove u) \<longleftrightarrow> plain_uri (backend_base b) u
     \<and> (plain_file (backend_base b) u \<or> document b u \<noteq> None)"

definition backend_step :: "libs \<Rightarrow> backend \<Rightarrow> store_op \<Rightarrow> backend \<Rightarrow> bool" where
  "backend_step L b op b' \<longleftrightarrow> op_plain b op \<and> apply_op L b op = (Inr (), b')"

lemma write_refines:
  assumes c: "clean_root b" and u: "plain_uri (backend_base b) u"
    and w: "backend_write L b u g = (Inr x, b')"
  shows "\<exists>h. stored_as L u g h \<and> document b' = (document b)(u \<mapsto> h) \<and> blob b' = blob b"
proof -
  have cfg: "same_config b b'" by (rule backend_write_config [OF w])
  from backend_write_eq [OF w] have s: "write_system L b u g = (Inr x, b')" by auto
  from write_system_ok [OF s] obtain h where h: "backend_read b' u = Inr h" "stored_as L u g h" by blast
  have "document b' v = ((document b)(u \<mapsto> h)) v" for v
  proof (cases "v = u")
    case True
    then show ?thesis using h(1) u cfg by (simp add: document_def same_config_def)
  next
    case False
    have "document b' v = document b v"
      by (rule document_cong [OF cfg]) (rule write_system_frame [OF s plain_apart [OF c u _ False]])
    with False show ?thesis by simp
  qed
  moreover have "blob b' v = blob b v" for v
    by (rule blob_cong [OF c cfg]) (rule write_system_other_files [OF s plain_file_clear_of(1) [OF c u]])
  ultimately show ?thesis using h(2) by blast
qed

lemma write_binary_document:
  assumes c: "clean_root b" and u: "plain_uri (backend_base b) u"
    and w: "write_binary L b u data ct = (r, b')"
  shows "document b' v = document b v"
proof (rule document_cong [OF write_binary_config [OF w]])
  assume v: "plain_uri (backend_base b) v"
  note clear = plain_clear_of [OF c u v]
  have ne: "rdf_location b v \<noteq> bin_location b u" "\<not> prefix (rdf_location b v) (butlast (bin_location b u))"
    using clear(2) by (auto, meson prefix_order.trans prefixeq_butlast)
  show "backend_read b' v = backend_read b v"
  proof (rule backend_read_cong [OF write_binary_config [OF w]])
    from w show "file_at b' (rdf_location b v) = file_at b (rdf_location b v)"
      by (cases rule: write_binary_cases)
        (auto simp: file_at_mkdirs file_at_write_bytes(1) reload_context_fields ne clear(3))
    from w show "context_graph b' v = context_graph b v"
      by (cases rule: write_binary_cases) (use clear(1) in \<open>auto simp: store_contexts reload_context_fields(6)\<close>)
  qed
qed

lemma write_binary_refines:
  assumes c: "clean_root b" and u: "plain_file (backend_base b) u"
    and w: "write_binary L b u data ct = (Inr x, b')"
  shows "document b' = document b \<and> blob b' = (blob b)(u \<mapsto> data)"
proof -
  have pu: "plain_uri (backend_base b) u" using u by (simp add: plain_file_def)
  have cfg: "same_config b b'" by (rule write_binary_config [OF w])
  have "blob b' v = ((blob b)(u \<mapsto> data)) v" for v
  proof (cases "v = u")
    case True
    then show ?thesis using write_binary_ok [OF w] u cfg
      by (simp add: blob_def same_config_def concat_chunks CHUNK_SIZE_def)
  next
    case False
    have "blob b' v = blob b v"
      using write_binary_other_files [OF w] plain_file_clear_of [OF c pu] u False
      by (intro blob_cong [OF c cfg]) blast
    with False show ?thesis by simp
  qed
  moreover have "document b' v = document b v" for v by (rule write_binary_document [OF c pu w])
  ultimately show ?thesis by blast
qed

lemma delete_document:
  assumes c: "clean_root b" and u: "plain_uri (backend_base b) u"
    and s: "delete_system b u = (Inr x, b')"
  shows "document b' = (document b)(u := None)"
proof
  fix v show "document b' v = ((document b)(u := None)) v"
  proof (cases "v = u")
    case True
    then show ?thesis using delete_system_ok [OF s] by (simp add: document_def)
  next
    case False
    have "document b' v = document b v"
      by (rule document_cong [OF delete_system_config [OF s]])
        (rule delete_system_frame [OF s plain_apart [OF c u _ False]])
    with False show ?thesis by simp
  qed
qed

lemma delete_document_blobs:
  assumes c: "clean_root b" and u: "plain_uri (backend_base b) u"
    and s: "delete_system b u = (Inr x, b')" and p: "path_exists b (rdf_location b u)"
  shows "blob b' v = blob b v"
proof -
  from s p have "file_at b' q = file_at b q" if "q \<noteq> rdf_location b u" for q
    using that by (cases rule: delete_system_cases) (auto simp: file_at_unlink)
  then show ?thesis
    using plain_file_clear_of(1) [OF c u] by (intro blob_cong [OF c delete_system_config [OF s]]) simp
qed

lemma delete_blob:
  assumes c: "clean_root b" and u: "plain_file (backend_base b) u"
    and s: "delete_system b u = (Inr x, b')" and p: "\<not> path_exists b (rdf_location b u)"
  shows "\<exists>data. blob b u = Some data" and "blob b' = (blob b)(u := None)"
proof -
  have pu: "plain_uri (backend_base b) u" using u by (simp add: plain_file_def)
  note cfg = delete_system_config [OF s]
  from s p obtain b1 where "unlink b (bin_location b u) = Inr b1"
    by (cases rule: delete_system_cases) auto
  then show "\<exists>data. blob b u = Some data"
    by (auto simp: blob_eq [OF c u] unlink_def split: option.splits fnode.splits)
  from s p have gone: "file_at b' (bin_location b u) = None"
    by (cases rule: delete_system_cases) (auto simp: file_at_unlink split: if_splits)
  have "blob b' v = ((blob b)(u := None)) v" for v
  proof (cases "v = u")
    case True
    have "plain_file (backend_base b') u" "clean_root b'"
      using u c cfg clean_root_config [OF cfg] by (simp_all add: same_config_def)
    from blob_eq [OF this(2,1)] gone True show ?thesis by (simp add: same_config_paths [OF cfg])
  next
    case False
    note clear = plain_file_clear_of [OF c pu]
    have "blob b' v = blob b v"
      using delete_system_other_files [OF s] clear(1,2) clear(3) [OF _ u False] by (intro blob_cong [OF c cfg]) simp
    with False show ?thesis by simp
  qed
  then show "blob b' = (blob b)(u := None)" by blast
qed

lemma delete_refines:
  assumes c: "clean_root b" and u: "op_plain b (Remove u)"
    and d: "backend_delete b u = (Inr x, b')"
  shows "pod_step kept (pod_of b) (Remove u) (pod_of b')"
proof -
  from u have pu: "plain_uri (backend_base b) u" by simp
  from backend_delete_eq [OF d] have s: "delete_system b u = (Inr x, b')" by auto
  note doc = delete_document [OF c pu s]
  show ?thesis
  proof (cases "path_exists b (rdf_location b u)")
    case True
    then have "document b u = Some (g_copy (context_graph b u))" by (simp add: document_eq [OF c pu])
    with doc delete_document_blobs [OF c pu s True] show ?thesis by (auto simp: pod_of_def fun_eq_iff)
  next
    case False
    then have none: "document b u = None" by (simp add: document_eq [OF c pu])
    with u have "plain_file (backend_base b) u" by simp
    from delete_blob [OF c this s False] doc none show ?thesis by (auto simp: pod_of_def fun_eq_iff)
  qed
qed

section \<open>Refinement\<close>

inductive runs :: "('s \<Rightarrow> 'o \<Rightarrow> 's \<Rightarrow> bool) \<Rightarrow> 's \<Rightarrow> 'o list \<Rightarrow> 's \<Rightarrow> bool" for step where
  runs_Nil: "runs step s [] s"
| runs_Cons: "step s x t \<Longrightarrow> runs step t xs u \<Longrightarrow> runs step s (x # xs) u"

locale forward_simulation =
  fixes conc :: "'s \<Rightarrow> 'o \<Rightarrow> 's \<Rightarrow> bool" and spec :: "'a \<Rightarrow> 'o \<Rightarrow> 'a \<Rightarrow> bool"
    and abs :: "'s \<Rightarrow> 'a" and inv :: "'s \<Rightarrow> bool"
  assumes simulates: "inv s \<Longrightarrow> conc s x t \<Longrightarrow> spec (abs s) x (abs t)"
    and inv_kept: "inv s \<Longrightarrow> conc s x t \<Longrightarrow> inv t"
begin

lemma runs_simulated: "runs conc s xs t \<Longrightarrow> inv s \<Longrightarrow> runs spec (abs s) xs (abs t)"
proof (induction rule: runs.induct)
  case (runs_Cons s x t xs u)
  then show ?case by (blast intro: runs.runs_Cons simulates inv_kept)
qed (rule runs.runs_Nil)

lemma runs_inv: "runs conc s xs t \<Longrightarrow> inv s \<Longrightarrow> inv t"
  by (induction rule: runs.induct) (auto intro: inv_kept)

end

lemma backend_step_refines:
  assumes c: "clean_root b" and st: "backend_step L b op b'"
  shows "pod_step (stored_as L) (pod_of b) op (pod_of b')"
proof (cases op)
  case (Put_Doc u g)
  with st have "plain_uri (backend_base b) u" "backend_write L b u g = (Inr (), b')"
    by (simp_all add: backend_step_def)
  from write_refines [OF c this] Put_Doc show ?thesis by (auto simp: pod_of_def)
next
  case (Put_Blob u data ct)
  with st have "plain_file (backend_base b) u" "write_binary L b u data ct = (Inr (), b')"
    by (simp_all add: backend_step_def)
  from write_binary_refines [OF c this] Put_Blob show ?thesis by (auto simp: pod_of_def)
next
  case (Remove u)
  with st have "op_plain b (Remove u)" "backend_delete b u = (Inr (), b')"
    by (simp_all add: backend_step_def)
  from delete_refines [OF c this] Remove show ?thesis by blast
qed

lemma backend_step_config: "backend_step L b op b' \<Longrightarrow> same_config b b'"
  by (cases op) (auto simp: backend_step_def backend_write_config write_binary_config backend_delete_config)

interpretation contract: forward_simulation "backend_step L" "pod_step (stored_as L)" pod_of clean_root for L
proof unfold_locales
  fix s x t
  show "clean_root s \<Longrightarrow> backend_step L s x t \<Longrightarrow> pod_step (stored_as L) (pod_of s) x (pod_of t)"
    by (rule backend_step_refines)
  show "clean_root s \<Longrightarrow> backend_step L s x t \<Longrightarrow> clean_root t"
    by (simp add: clean_root_config [OF backend_step_config])
qed

text \<open>C5. The filesystem backend refines a map: for plain URIs, any sequence of successful writes of
  documents, writes of binaries and removals changes the documents and binaries that can be read
  exactly as the same sequence changes a pair of maps, each write at its own URI and nothing else,
  although the URIs share one file tree and one dataset of named graphs.\<close>

theorem backend_refines_map:
  assumes "runs (backend_step L) b ops b'" and "''..'' \<notin> set (storage_root b)"
  shows "runs (pod_step (stored_as L)) (pod_of b) ops (pod_of b')"
  by (rule contract.runs_simulated [OF assms(1)]) (simp add: clean_root_def assms(2))

end
