(* ===== verification/Restart.thy ===== *)
theory Restart
  imports Documents TokenProps LdpTheorems
begin

text \<open>
  Persistence. The dataset lives in memory and the Turtle files on disk; every operation changes
  both. The invariant \<open>durable\<close> says that the files hold what the dataset holds, under names that
  can be read back; opening a store establishes it, every operation on plain URIs keeps it,
  failed ones included, and a restart from the files recovers all documents and binaries.
\<close>

section \<open>Files and the URIs they are loaded as\<close>

definition uri_of :: "backend \<Rightarrow> path \<Rightarrow> string" where
  "uri_of b q = path_to_uri (storage_root b @ q) (storage_root b) (backend_base b)"

definition named :: "path \<Rightarrow> bool" where
  "named q \<longleftrightarrow> q \<noteq> [] \<and> list_all (\<lambda>s. s \<noteq> [] \<and> CHR ''/'' \<notin> set s) q \<and> last q \<noteq> ''.meta.ttl''"

definition is_ttl :: "path \<Rightarrow> bool" where
  "is_ttl q \<longleftrightarrow> endswith (last q) ''.ttl''"

lemma uri_of_ttl: "uri_of b (ss @ [x @ ''.ttl'']) = backend_base b @ join ''/'' (ss @ [x])"
proof -
  have "join ''/'' (ss @ [x @ ''.ttl'']) = join ''/'' (ss @ [x]) @ ''.ttl''"
    by (rule join_snoc_append [symmetric])
  then show ?thesis by (simp only: uri_of_def path_to_uri_def append_eq_conv_conj) simp
qed

lemma ttl_pathE:
  assumes "named q" and "is_ttl q"
  obtains ss x where "q = ss @ [x @ ''.ttl'']" "\<forall>w\<in>set (ss @ [x]). CHR ''/'' \<notin> set w" "x \<noteq> ''.meta''"
proof -
  from assms obtain ss s where q: "q = ss @ [s]" by (cases q rule: rev_cases) (auto simp: named_def)
  from assms(2) q obtain x where s: "s = x @ ''.ttl''" by (auto simp: is_ttl_def endswith_iff)
  from assms(1) q s have "\<forall>w\<in>set (ss @ [x]). CHR ''/'' \<notin> set w" "x \<noteq> ''.meta''"
    by (auto simp: named_def list_all_iff)
  with q s that show ?thesis by blast
qed

text \<open>A file is loaded as one URI, and no two as the same.\<close>

lemma uri_of_iff:
  assumes "named q" and "is_ttl q" and "\<forall>w\<in>set (ss @ [x]). CHR ''/'' \<notin> set w"
  shows "uri_of b q = backend_base b @ join ''/'' (ss @ [x]) \<longleftrightarrow> q = ss @ [x @ ''.ttl'']"
proof -
  from assms(1,2) obtain rs y where q: "q = rs @ [y @ ''.ttl'']"
    "\<forall>w\<in>set (rs @ [y]). CHR ''/'' \<notin> set w" by (rule ttl_pathE)
  have "split_on CHR ''/'' (join ''/'' (rs @ [y])) = rs @ [y]"
    "split_on CHR ''/'' (join ''/'' (ss @ [x])) = ss @ [x]"
    using split_on_join q(2) assms(3) by simp_all
  then have "join ''/'' (rs @ [y]) = join ''/'' (ss @ [x]) \<longleftrightarrow> rs @ [y] = ss @ [x]" by metis
  then show ?thesis unfolding q(1) uri_of_ttl by simp
qed

lemma uri_of_inject:
  assumes "named q" "is_ttl q" "named r" "is_ttl r"
  shows "uri_of b q = uri_of b r \<longleftrightarrow> q = r"
proof -
  from assms(3,4) obtain ss x where "r = ss @ [x @ ''.ttl'']" "\<forall>w\<in>set (ss @ [x]). CHR ''/'' \<notin> set w"
    by (rule ttl_pathE)
  with uri_of_iff [OF assms(1,2)] show ?thesis by (simp add: uri_of_ttl)
qed

section \<open>The invariant\<close>

definition ttl_loaded :: "libs \<Rightarrow> backend \<Rightarrow> path \<Rightarrow> bool" where
  "ttl_loaded L b q \<longleftrightarrow> (\<exists>t k. read_text b (storage_root b @ q) = Inr t
     \<and> parse_graph L (utf8_encode t) ''turtle'' (Some (uri_of b q)) = Some k
     \<and> set k = set (context_graph b (uri_of b q)))"

definition needed_dirs :: "backend \<Rightarrow> path list" where
  "needed_dirs b = map (\<lambda>d. storage_root b @ [SYSTEM_SEGMENT] @ d) system_subdirs"

definition dirs_down_to :: "backend \<Rightarrow> path \<Rightarrow> bool" where
  "dirs_down_to b p \<longleftrightarrow> (\<forall>q. prefix q p \<longrightarrow> file_at b q = Some Dir)"

definition durable :: "libs \<Rightarrow> backend \<Rightarrow> bool" where
  "durable L b \<longleftrightarrow> distinct (map fst (files b))
     \<and> (\<forall>d\<in>set (needed_dirs b). dirs_down_to b d)
     \<and> (\<forall>q. q \<noteq> [] \<and> file_at b (storage_root b @ q) \<noteq> None \<longrightarrow>
          named q \<and> (is_ttl q \<longrightarrow> ttl_loaded L b q))"

text \<open>How an operation may change a durable store.\<close>

lemma durable_change:
  assumes d: "durable L b" and cfg: "same_config b b'" and "distinct (map fst (files b'))"
    and dirs: "\<And>p. file_at b p = Some Dir \<Longrightarrow> file_at b' p = Some Dir"
    and new: "\<And>q. q \<noteq> [] \<Longrightarrow> file_at b' (storage_root b @ q) \<noteq> None \<Longrightarrow>
      file_at b' (storage_root b @ q) = file_at b (storage_root b @ q)
        \<and> (named q \<and> is_ttl q \<longrightarrow> set (context_graph b' (uri_of b q)) = set (context_graph b (uri_of b q)))
      \<or> named q \<and> (is_ttl q \<longrightarrow> ttl_loaded L b' q)"
  shows "durable L b'"
proof -
  have eq: "storage_root b' = storage_root b" "uri_of b' q = uri_of b q" "needed_dirs b' = needed_dirs b" for q
    using cfg by (simp_all add: same_config_def uri_of_def needed_dirs_def)
  have "named q \<and> (is_ttl q \<longrightarrow> ttl_loaded L b' q)"
    if q: "q \<noteq> []" "file_at b' (storage_root b @ q) \<noteq> None" for q
  proof (cases "file_at b' (storage_root b @ q) = file_at b (storage_root b @ q)
        \<and> (named q \<and> is_ttl q \<longrightarrow> set (context_graph b' (uri_of b q)) = set (context_graph b (uri_of b q)))")
    case True
    then have "read_text b' (storage_root b @ q) = read_text b (storage_root b @ q)" by (simp add: read_text_def)
    moreover have "named q \<and> (is_ttl q \<longrightarrow> ttl_loaded L b q)" using d q True by (simp add: durable_def)
    ultimately show ?thesis using True by (auto simp: ttl_loaded_def eq)
  next
    case False
    with new [OF q] show ?thesis by blast
  qed
  moreover have "\<forall>p\<in>set (needed_dirs b'). dirs_down_to b' p"
    using d dirs by (auto simp: durable_def dirs_down_to_def eq)
  ultimately show ?thesis using assms(3) by (simp add: durable_def eq)
qed

lemma add_dirs_distinct: "distinct (map fst fs) \<Longrightarrow> distinct (map fst (add_dirs d p fs))"
  by (induction d p fs rule: add_dirs.induct) (auto simp: Let_def distinct_update)

lemma files_distinct:
  "mkdirs b p = Inr b' \<Longrightarrow> distinct (map fst (files b)) \<Longrightarrow> distinct (map fst (files b'))"
  "write_bytes b p data = Inr b' \<Longrightarrow> distinct (map fst (files b)) \<Longrightarrow> distinct (map fst (files b'))"
  "unlink b p = Inr b' \<Longrightarrow> distinct (map fst (files b)) \<Longrightarrow> distinct (map fst (files b'))"
proof -
  show "mkdirs b p = Inr b' \<Longrightarrow> distinct (map fst (files b)) \<Longrightarrow> distinct (map fst (files b'))"
    by (auto simp: mkdirs_def add_dirs_distinct split: if_splits)
  show "write_bytes b p data = Inr b' \<Longrightarrow> distinct (map fst (files b)) \<Longrightarrow> distinct (map fst (files b'))"
    by (auto simp: write_bytes_def distinct_update split: if_splits)
  show "unlink b p = Inr b' \<Longrightarrow> distinct (map fst (files b)) \<Longrightarrow> distinct (map fst (files b'))"
    by (auto simp: unlink_def distinct_delete split: option.splits fnode.splits)
qed

lemma dirs_kept:
  "mkdirs b p = Inr b' \<Longrightarrow> file_at b q = Some Dir \<Longrightarrow> file_at b' q = Some Dir"
  "write_bytes b p data = Inr b' \<Longrightarrow> file_at b q = Some Dir \<Longrightarrow> file_at b' q = Some Dir"
  "unlink b p = Inr b' \<Longrightarrow> file_at b q = Some Dir \<Longrightarrow> file_at b' q = Some Dir"
proof -
  show "mkdirs b p = Inr b' \<Longrightarrow> file_at b q = Some Dir \<Longrightarrow> file_at b' q = Some Dir"
    by (simp add: file_at_mkdirs)
  {
    assume w: "write_bytes b p data = Inr b'"
    then have "file_at b p \<noteq> Some Dir" by (auto simp: write_bytes_def is_dir_def split: if_splits)
    then show "file_at b q = Some Dir \<Longrightarrow> file_at b' q = Some Dir"
      by (auto simp: file_at_write_bytes(1) [OF w])
  }
  {
    assume w: "unlink b p = Inr b'"
    then have "file_at b p \<noteq> Some Dir" by (auto simp: unlink_def split: option.splits fnode.splits)
    then show "file_at b q = Some Dir \<Longrightarrow> file_at b' q = Some Dir"
      by (auto simp: file_at_unlink [OF w])
  }
qed

section \<open>The operations keep it\<close>

lemma plain_segments_named:
  assumes "list_all plain_segment ss" and "ss \<noteq> []"
  shows "named ss" and "\<not> is_ttl ss"
proof -
  have l: "plain_segment (last ss)" using assms by (simp add: list_all_iff)
  have "endswith ''.meta.ttl'' ''.ttl''" by code_simp
  with l have "last ss \<noteq> ''.meta.ttl''" unfolding plain_segment_def by metis
  then show "named ss" using assms by (auto simp: named_def list_all_iff plain_segment_def)
  show "\<not> is_ttl ss" using l by (simp add: is_ttl_def plain_segment_def)
qed

lemma prefix_plain: "list_all plain_segment ss \<Longrightarrow> prefix q ss \<Longrightarrow> list_all plain_segment q"
  by (auto simp: prefix_def)

lemma plain_doc_named:
  assumes "list_all plain_segment ss" and "plain_last l"
  shows "named (ss @ [l @ ''.ttl''])" and "is_ttl (ss @ [l @ ''.ttl''])"
proof -
  have "l @ ''.ttl'' \<noteq> ''.meta.ttl''" using ttl_meta_neq [OF assms(2), of "[]"] by simp
  then show "named (ss @ [l @ ''.ttl''])" using assms
    by (auto simp: named_def list_all_iff plain_segment_def plain_last_def)
  have "endswith (l @ ''.ttl'') ''.ttl''" by (rule endswith_append)
  then show "is_ttl (ss @ [l @ ''.ttl''])" by (simp add: is_ttl_def)
qed

lemma plain_meta_named:
  assumes "list_all plain_segment ss" and "plain_last l" and "l \<noteq> []"
  shows "named (ss @ [l @ ''.meta.ttl''])" and "is_ttl (ss @ [l @ ''.meta.ttl''])"
    and "named (ss @ [l])" and "\<not> is_ttl (ss @ [l])"
proof -
  show "named (ss @ [l @ ''.meta.ttl''])" using assms
    by (auto simp: named_def list_all_iff plain_segment_def plain_last_def)
  have "endswith ((l @ ''.meta'') @ ''.ttl'') ''.ttl''" by (rule endswith_append)
  then show "is_ttl (ss @ [l @ ''.meta.ttl''])" by (simp add: is_ttl_def)
  have "endswith ''.meta.ttl'' ''.ttl''" by code_simp
  with assms(2) have "l \<noteq> ''.meta.ttl''" unfolding plain_last_def by metis
  then show "named (ss @ [l])" using assms
    by (auto simp: named_def list_all_iff plain_segment_def plain_last_def)
  show "\<not> is_ttl (ss @ [l])" using assms by (simp add: is_ttl_def plain_last_def)
qed

text \<open>A reload that follows a write of printed Turtle succeeds.\<close>

lemma reload_written:
  assumes rt: "turtle_roundtrip L" and ser: "serialize_graph L ''turtle'' g = Some doc"
    and f: "file_at b p = Some (File (utf8_encode doc))"
    and r: "reload_context L b name p pub = (r, b')"
  obtains k where "parse_graph L (utf8_encode doc) ''turtle'' (Some pub) = Some k" "graph_iso g k"
    "r = Inr ()" "read_text b' p = Inr doc" "context_graph b' name = k" "files b' = files b"
proof -
  from turtle_roundtripE [OF rt ser, of "Some pub"] obtain k where
    k: "parse_graph L (utf8_encode doc) ''turtle'' (Some pub) = Some k" "graph_iso g k"
      "universal_newlines doc = doc" by metis
  let ?b0 = "b\<lparr>contexts := AList.update name [] (contexts b)\<rparr>"
  have "file_at ?b0 p = file_at b p" by (simp add: file_at_def)
  then have "read_text ?b0 p = Inr doc" using f k(3) by (simp add: read_text_def)
  with r k(1) have b': "b' = ?b0\<lparr>contexts := AList.update name k (contexts ?b0)\<rparr>" "r = Inr ()"
    by (simp_all add: reload_context_def Let_def)
  have "file_at b' p = file_at b p" using b' by (simp add: file_at_def)
  then have "read_text b' p = Inr doc" using f k(3) by (simp add: read_text_def)
  moreover have "context_graph b' name = k" using b' by (simp add: context_graph_def update_conv')
  ultimately show ?thesis using that k b' by simp
qed

lemma mkdirs_durable:
  assumes d: "durable L b" and m: "mkdirs b (storage_root b @ ss) = Inr b'" and ss: "list_all plain_segment ss"
  shows "durable L b'"
proof (rule durable_change [OF d])
  show cfg: "same_config b b'" using mkdirs_fields [OF m] by (simp add: same_config_def)
  show "distinct (map fst (files b'))" using files_distinct(1) [OF m] d by (simp add: durable_def)
  show "\<And>p. file_at b p = Some Dir \<Longrightarrow> file_at b' p = Some Dir" by (rule dirs_kept(1) [OF m])
  fix q assume q: "q \<noteq> []" "file_at b' (storage_root b @ q) \<noteq> None"
  show "file_at b' (storage_root b @ q) = file_at b (storage_root b @ q)
        \<and> (named q \<and> is_ttl q \<longrightarrow> set (context_graph b' (uri_of b q)) = set (context_graph b (uri_of b q)))
      \<or> named q \<and> (is_ttl q \<longrightarrow> ttl_loaded L b' q)"
  proof (cases "prefix q ss")
    case True
    from plain_segments_named [OF prefix_plain [OF ss True] q(1)] show ?thesis by simp
  next
    case False
    then show ?thesis by (simp add: file_at_mkdirs [OF m] store_contexts(1) [OF m])
  qed
qed

text \<open>A Turtle file and its context are written together.\<close>

lemma ttl_write_durable:
  assumes rt: "turtle_roundtrip L" and d: "durable L b" and q0: "named q0" "is_ttl q0"
    and ser: "serialize_graph L ''turtle'' g = Some doc"
    and w: "write_bytes b (storage_root b @ q0) (utf8_encode doc) = Inr b1"
    and r: "reload_context L b1 (uri_of b q0) (storage_root b @ q0) pub = (r, b')"
    and base: "pub = uri_of b q0 \<or> (\<forall>t\<in>set g. ground t)"
  shows "durable L b'" and "r = Inr ()"
proof -
  note fat1 = file_at_write_bytes(1) [OF w]
  have "file_at b1 (storage_root b @ q0) = Some (File (utf8_encode doc))" by (simp add: fat1)
  from reload_written [OF rt ser this r] obtain k where
    k: "parse_graph L (utf8_encode doc) ''turtle'' (Some pub) = Some k" "graph_iso g k" "r = Inr ()"
      "read_text b' (storage_root b @ q0) = Inr doc" "context_graph b' (uri_of b q0) = k" "files b' = files b1"
    by metis
  then show "r = Inr ()" by simp
  have cfg: "same_config b b'"
    using write_bytes_fields [OF w] reload_context_fields [OF r] by (simp add: same_config_def)
  have uri: "uri_of b' q = uri_of b q" for q using cfg by (simp add: uri_of_def same_config_def)
  have root: "storage_root b' = storage_root b" using cfg by (simp add: same_config_def)
  have fat: "file_at b' p = file_at b1 p" for p using k(6) by (simp add: file_at_def)
  from turtle_roundtripE [OF rt ser, of "Some (uri_of b q0)"] obtain h where
    h: "parse_graph L (utf8_encode doc) ''turtle'' (Some (uri_of b q0)) = Some h" "graph_iso g h" by metis
  have "set h = set k" using base
  proof
    assume "pub = uri_of b q0"
    with h k show ?thesis by simp
  next
    assume "\<forall>t\<in>set g. ground t"
    from ground_iso_set [OF h(2) this] ground_iso_set [OF k(2) this] show ?thesis by simp
  qed
  with h(1) k(4,5) have "ttl_loaded L b' q0" by (simp add: ttl_loaded_def uri root)
  note here = this q0
  show "durable L b'"
  proof (rule durable_change [OF d cfg])
    show "distinct (map fst (files b'))"
      using files_distinct(2) [OF w] d k(6) by (simp add: durable_def)
    show "\<And>p. file_at b p = Some Dir \<Longrightarrow> file_at b' p = Some Dir"
      using dirs_kept(2) [OF w] by (simp add: fat)
    fix q
    show "file_at b' (storage_root b @ q) = file_at b (storage_root b @ q)
        \<and> (named q \<and> is_ttl q \<longrightarrow> set (context_graph b' (uri_of b q)) = set (context_graph b (uri_of b q)))
      \<or> named q \<and> (is_ttl q \<longrightarrow> ttl_loaded L b' q)"
    proof (cases "q = q0")
      case False
      have "context_graph b' (uri_of b q) = context_graph b (uri_of b q)" if "named q" "is_ttl q"
        using uri_of_inject [OF that q0, of b] False reload_context_fields(6) [OF r]
          store_contexts(2) [OF w] by simp
      with False show ?thesis by (simp add: fat fat1)
    qed (use here in simp)
  qed
qed

lemma write_system_durable:
  assumes rt: "turtle_roundtrip L" and c: "clean_root b" and u: "plain_uri (backend_base b) u"
    and w: "write_system L b u g = (r, b')" and d: "durable L b"
  shows "durable L b'"
proof -
  from u obtain ss l where U: "u = backend_base b @ join ''/'' (ss @ [l])" "list_all plain_segment ss"
    "plain_last l" by (rule plain_uriE)
  note loc = plain_locations(1) [OF U(2,3) c U(1)]
  have par: "butlast (rdf_location b u) = storage_root b @ ss"
    unfolding loc by (simp add: butlast_append)
  from w show ?thesis
  proof (cases rule: write_system_cases)
    case unchanged
    with d show ?thesis by simp
  next
    case (dirs b1)
    from mkdirs_durable [OF d dirs(2) [unfolded par] U(2)] dirs show ?thesis by simp
  next
    case (written b1 b2 doc)
    let ?q = "ss @ [l @ ''.ttl'']"
    from mkdirs_durable [OF d written(3) [unfolded par] U(2)] have d1: "durable L b1" .
    have at: "rdf_location b u = storage_root b1 @ ?q" "uri_of b1 ?q = u"
      using loc mkdirs_fields [OF written(3)] U(1) by (simp_all only: uri_of_ttl)
    show ?thesis
      by (rule ttl_write_durable(1) [OF rt d1 plain_doc_named [OF U(2,3)] written(2)
            written(4) [unfolded at] _ disjI1 [OF refl]])
        (use written(5) in \<open>simp only: at\<close>)
  qed
qed

text \<open>A file that is no Turtle file.\<close>

lemma bytes_durable:
  assumes d: "durable L b" and q0: "named q0" "\<not> is_ttl q0"
    and w: "write_bytes b (storage_root b @ q0) data = Inr b'"
  shows "durable L b'"
proof (rule durable_change [OF d])
  show "same_config b b'" using write_bytes_fields [OF w] by (simp add: same_config_def)
  show "distinct (map fst (files b'))" using files_distinct(2) [OF w] d by (simp add: durable_def)
  show "\<And>p. file_at b p = Some Dir \<Longrightarrow> file_at b' p = Some Dir" by (rule dirs_kept(2) [OF w])
  fix q
  show "file_at b' (storage_root b @ q) = file_at b (storage_root b @ q)
      \<and> (named q \<and> is_ttl q \<longrightarrow> set (context_graph b' (uri_of b q)) = set (context_graph b (uri_of b q)))
    \<or> named q \<and> (is_ttl q \<longrightarrow> ttl_loaded L b' q)"
    using q0 by (cases "q = q0") (simp_all add: file_at_write_bytes(1) [OF w] store_contexts(2) [OF w])
qed

lemma binary_meta_ground: "\<forall>t\<in>set (binary_meta u ct). ground t"
  by (auto simp: binary_meta_def ground_def)

lemma write_binary_durable:
  assumes rt: "turtle_roundtrip L" and c: "clean_root b" and u: "plain_file (backend_base b) u"
    and w: "write_binary L b u data ct = (r, b')" and d: "durable L b"
  shows "durable L b'"
proof -
  from u obtain ss l where U: "u = backend_base b @ join ''/'' (ss @ [l])" "list_all plain_segment ss"
    "plain_last l" "l \<noteq> []" by (rule plain_fileE)
  have loc: "bin_location b u = storage_root b @ ss @ [l]"
    using plain_locations(2) [OF U(2,3) c U(1)] U(4) by simp
  then have par: "butlast (bin_location b u) = storage_root b @ ss" by (simp add: butlast_append)
  note names = plain_meta_named [OF U(2-4)]
  from w show ?thesis
  proof (cases rule: write_binary_cases)
    case unchanged
    with d show ?thesis by simp
  next
    case (dirs b1)
    from mkdirs_durable [OF d dirs(2) [unfolded par] U(2)] dirs show ?thesis by simp
  next
    case (half b1 b2)
    have "bin_location b u = storage_root b1 @ ss @ [l]" using loc mkdirs_fields [OF half(2)] by simp
    from bytes_durable [OF mkdirs_durable [OF d half(2) [unfolded par] U(2)] names(3,4)] half this
    show ?thesis by simp
  next
    case (written b1 b2 b3 doc)
    have at: "bin_location b u = storage_root b1 @ ss @ [l]" using loc mkdirs_fields [OF written(4)] by simp
    from bytes_durable [OF mkdirs_durable [OF d written(4) [unfolded par] U(2)] names(3,4)] written(5) at
    have d2: "durable L b2" by simp
    let ?q = "ss @ [l @ ''.meta.ttl'']"
    have meta: "append_name (bin_location b u) ''.meta.ttl'' = storage_root b2 @ ?q"
      using loc mkdirs_fields [OF written(4)] write_bytes_fields [OF written(5)]
      by (simp add: append_name_def butlast_append)
    have "uri_of b2 (ss @ [(l @ ''.meta'') @ ''.ttl'']) = backend_base b2 @ join ''/'' (ss @ [l @ ''.meta''])"
      by (rule uri_of_ttl)
    moreover have "u @ ''.meta'' = backend_base b @ join ''/'' (ss @ [l @ ''.meta''])"
      unfolding U(1) append_assoc join_snoc_append ..
    ultimately have uri: "u @ ''.meta'' = uri_of b2 ?q"
      using mkdirs_fields(2) [OF written(4)] write_bytes_fields(2) [OF written(5)] by simp
    show ?thesis
      by (rule ttl_write_durable(1) [OF rt d2 names(1,2) written(3) written(6) [unfolded meta]
            written(7) [unfolded meta uri] disjI2 [OF binary_meta_ground]])
  qed
qed

text \<open>Removing a file, and a context that no file is loaded as.\<close>

lemma unlink_durable:
  assumes d: "durable L b" and w: "unlink b p = Inr b'"
  shows "durable L b'"
proof (rule durable_change [OF d])
  show "same_config b b'" using unlink_fields [OF w] by (simp add: same_config_def)
  show "distinct (map fst (files b'))" using files_distinct(3) [OF w] d by (simp add: durable_def)
  show "\<And>p. file_at b p = Some Dir \<Longrightarrow> file_at b' p = Some Dir" by (rule dirs_kept(3) [OF w])
qed (simp add: file_at_unlink [OF w] store_contexts(3) [OF w] split: if_splits)

lemma remove_context_durable:
  assumes d: "durable L b"
    and n: "\<And>q. named q \<Longrightarrow> is_ttl q \<Longrightarrow> file_at b (storage_root b @ q) \<noteq> None \<Longrightarrow> uri_of b q \<noteq> n"
  shows "durable L (remove_context b n)"
proof (rule durable_change [OF d])
  show "distinct (map fst (files (remove_context b n)))"
    using d by (simp add: durable_def remove_context_def)
qed (use n in \<open>auto simp: same_config_def context_remove_context\<close>)

text \<open>The only file that is loaded as a plain URI, and as the URI of its description.\<close>

lemma loaded_as:
  assumes c: "clean_root b" and u: "plain_uri (backend_base b) u" and q: "named q" "is_ttl q"
  shows "uri_of b q = u \<Longrightarrow> storage_root b @ q = rdf_location b u"
    and "uri_of b q = u @ ''.meta'' \<Longrightarrow> storage_root b @ q = append_name (bin_location b u) ''.meta.ttl''"
proof -
  from u obtain ss l where U: "u = backend_base b @ join ''/'' (ss @ [l])" "list_all plain_segment ss"
    "plain_last l" by (rule plain_uriE)
  note loc = plain_locations [OF U(2,3) c U(1)]
  have slash: "\<forall>w\<in>set (ss @ [x]). CHR ''/'' \<notin> set w" if "CHR ''/'' \<notin> set x" for x
    using U(2) that by (auto simp: list_all_iff plain_segment_def)
  have l: "CHR ''/'' \<notin> set l" "CHR ''/'' \<notin> set (l @ ''.meta'')" using U(3) by (auto simp: plain_last_def)
  show "storage_root b @ q = rdf_location b u" if "uri_of b q = u"
    using that unfolding loc(1) unfolding U(1) uri_of_iff [OF q slash [OF l(1)]] by simp
  show "storage_root b @ q = append_name (bin_location b u) ''.meta.ttl''" if "uri_of b q = u @ ''.meta''"
  proof -
    have "uri_of b q = backend_base b @ join ''/'' (ss @ [l @ ''.meta''])"
      using that unfolding U(1) append_assoc join_snoc_append .
    then have e: "q = ss @ [(l @ ''.meta'') @ ''.ttl'']"
      unfolding uri_of_iff [OF q slash [OF l(2)]] .
    with q(1) have "l \<noteq> []" by (auto simp: named_def)
    with e show ?thesis by (simp add: loc(2) append_name_def butlast_append)
  qed
qed

lemma delete_system_durable:
  assumes c: "clean_root b" and u: "plain_uri (backend_base b) u"
    and w: "delete_system b u = (r, b')" and d: "durable L b"
  shows "durable L b'"
proof -
  note doc = loaded_as(1) [OF c u] and meta = loaded_as(2) [OF c u]
  have cfg: "storage_root b1 = storage_root b" "uri_of b1 q = uri_of b q" if "unlink b p = Inr b1" for b1 p q
    using unlink_fields [OF that] by (simp_all add: uri_of_def)
  from w show ?thesis
  proof (cases rule: delete_system_cases)
    case unchanged
    with d show ?thesis by simp
  next
    case (rdf b1)
    show ?thesis unfolding rdf(4)
      by (rule remove_context_durable [OF unlink_durable [OF d rdf(2)]])
        (use doc in \<open>auto simp: cfg [OF rdf(2)] file_at_unlink [OF rdf(2)]\<close>)
  next
    case (binary b1)
    show ?thesis unfolding binary(5)
      by (rule remove_context_durable [OF unlink_durable [OF d binary(2)]])
        (use meta binary(3) in \<open>auto simp: cfg [OF binary(2)] path_exists_def\<close>)
  next
    case (binary_meta b1 b2)
    have cfg2: "storage_root b2 = storage_root b" "uri_of b2 q = uri_of b q" for q
      using unlink_fields [OF binary_meta(3)] cfg [OF binary_meta(2)] by (simp_all add: uri_of_def)
    show ?thesis unfolding binary_meta(5)
      by (rule remove_context_durable [OF unlink_durable [OF unlink_durable [OF d binary_meta(2)] binary_meta(3)]])
        (use meta in \<open>auto simp: cfg2 file_at_unlink [OF binary_meta(3)]\<close>)
  next
    case (meta_dir b1 e)
    from unlink_durable [OF d meta_dir(2)] meta_dir(4) show ?thesis by simp
  qed
qed

section \<open>Opening a store\<close>

lemma blocked_iff: "blocked b p \<longleftrightarrow> (\<exists>q. q \<noteq> [] \<and> prefix q p \<and> is_file b q)"
proof
  assume "blocked b p"
  then obtain k where k: "1 \<le> k" "k \<le> length p" "is_file b (take k p)"
    by (auto simp: blocked_def list_ex_iff)
  then have "take k p \<noteq> []" by (cases p) auto
  with k(3) show "\<exists>q. q \<noteq> [] \<and> prefix q p \<and> is_file b q" using take_is_prefix by blast
next
  assume "\<exists>q. q \<noteq> [] \<and> prefix q p \<and> is_file b q"
  then obtain q r where "q \<noteq> []" "p = q @ r" "is_file b q" by (auto simp: prefix_def)
  then show "blocked b p"
    by (auto simp: blocked_def list_ex_iff Suc_le_eq intro!: bexI [of _ "length q"])
qed

lemma mkdirs_dirs: "mkdirs b p = Inr b' \<Longrightarrow> dirs_down_to b' p"
  unfolding dirs_down_to_def
proof (intro allI impI)
  fix q assume m: "mkdirs b p = Inr b'" and q: "prefix q p"
  then have "\<not> is_file b q \<or> q = []" by (auto simp: mkdirs_def blocked_iff split: if_splits)
  moreover have "file_at b [] = Some Dir" by (simp add: file_at_def)
  ultimately have "file_at b q = None \<or> file_at b q = Some Dir"
    by (auto simp: is_file_def split: option.splits fnode.splits)
  then show "file_at b' q = Some Dir" using q by (auto simp: file_at_mkdirs [OF m])
qed

lemma add_dirs_present:
  "\<forall>k\<le>length p. 0 < k \<longrightarrow> map_of fs (d @ take k p) \<noteq> None \<Longrightarrow> add_dirs d p fs = fs"
proof (induction d p fs rule: add_dirs.induct)
  case (2 d s ss fs)
  obtain n where m: "map_of fs (d @ [s]) = Some n" using 2(2) by fastforce
  have "map_of fs ((d @ [s]) @ take k ss) \<noteq> None" if "k \<le> length ss" "0 < k" for k
    using 2(2) [THEN spec, of "Suc k"] that by simp
  with 2(1) [OF refl] m show ?case by (simp add: Let_def)
qed simp

lemma mkdirs_present:
  assumes "dirs_down_to b p"
  shows "mkdirs b p = Inr b"
proof -
  have dir: "file_at b (take k p) = Some Dir" for k
    using assms take_is_prefix unfolding dirs_down_to_def by blast
  have "map_of (files b) (take k p) \<noteq> None" if "k \<le> length p" "0 < k" for k
    using dir [of k] that by (auto simp: file_at_def split: if_splits)
  then have "add_dirs [] p (files b) = files b" by (intro add_dirs_present) simp
  moreover have "\<not> blocked b p"
    using assms by (auto simp: blocked_iff is_file_def dirs_down_to_def)
  ultimately show ?thesis by (simp add: mkdirs_def)
qed

lemma dirs_down_to_mono: "dirs_down_to b p \<Longrightarrow> prefix q p \<Longrightarrow> dirs_down_to b q"
  unfolding dirs_down_to_def by (meson prefix_order.trans)

lemma ensure_dirs_ok:
  assumes "ensure_dirs b ps = Inr b'"
  shows "same_config b b' \<and> contexts b' = contexts b
    \<and> (distinct (map fst (files b)) \<longrightarrow> distinct (map fst (files b')))
    \<and> (\<forall>q. file_at b' q = (if file_at b q = None \<and> (\<exists>p\<in>set ps. prefix q p) then Some Dir else file_at b q))
    \<and> (\<forall>p\<in>set ps. dirs_down_to b' p)"
  using assms
proof (induction ps arbitrary: b)
  case (Cons p ps)
  then obtain b1 where m: "mkdirs b p = Inr b1" "ensure_dirs b1 ps = Inr b'" by (auto split: sum.splits)
  note IH = Cons.IH [OF m(2)]
  have dirs: "dirs_down_to b' p"
    using mkdirs_dirs [OF m(1)] IH unfolding dirs_down_to_def by (auto split: if_splits)
  have fat: "file_at b' q = (if file_at b q = None \<and> (\<exists>p'\<in>set (p # ps). prefix q p') then Some Dir else file_at b q)"
    for q using IH file_at_mkdirs [OF m(1)] by (auto split: if_splits)
  show ?case
    using IH dirs fat files_distinct(1) [OF m(1)] mkdirs_fields [OF m(1)] by (auto simp: same_config_def)
qed simp

lemma ensure_dirs_present: "\<forall>p\<in>set ps. dirs_down_to b p \<Longrightarrow> ensure_dirs b ps = Inr b"
  by (induction ps) (auto simp: mkdirs_present)

text \<open>What loading files does to the contexts.\<close>

definition readable_as :: "libs \<Rightarrow> backend \<Rightarrow> path \<Rightarrow> graph \<Rightarrow> bool" where
  "readable_as L b p k \<longleftrightarrow> (\<exists>t. read_text b p = Inr t
     \<and> parse_graph L (utf8_encode t) ''turtle'' (Some (path_to_uri p (storage_root b) (backend_base b))) = Some k)"

lemma load_file_iff:
  "load_file L b p = Inr b' \<longleftrightarrow> (\<exists>k. readable_as L b p k
     \<and> b' = b\<lparr>contexts := AList.update (path_to_uri p (storage_root b) (backend_base b))
         (g_adds (context_graph b (path_to_uri p (storage_root b) (backend_base b))) k) (contexts b)\<rparr>)"
  by (auto simp: load_file_def readable_as_def Let_def split: sum.splits option.splits)

lemma readable_as_cong: "same_config b b' \<Longrightarrow> files b' = files b \<Longrightarrow> readable_as L b' p k = readable_as L b p k"
  by (simp add: readable_as_def read_text_def file_at_def same_config_def)

lemma load_files_ok:
  fixes b :: backend
  defines "uri \<equiv> \<lambda>p. path_to_uri p (storage_root b) (backend_base b)"
  assumes "load_files L b ps = Inr b'" and "distinct (map uri ps)"
  shows "same_config b b' \<and> files b' = files b
    \<and> (\<forall>p\<in>set ps. \<exists>k. readable_as L b p k
         \<and> set (context_graph b' (uri p)) = set (context_graph b (uri p)) \<union> set k)
    \<and> (\<forall>v. v \<notin> uri ` set ps \<longrightarrow> context_graph b' v = context_graph b v)"
  using assms(2,3) unfolding uri_def
proof (induction ps arbitrary: b)
  case (Cons p ps)
  let ?uri = "\<lambda>p. path_to_uri p (storage_root b) (backend_base b)"
  from Cons.prems(1) obtain b1 where l: "load_file L b p = Inr b1" "load_files L b1 ps = Inr b'"
    by (auto split: sum.splits)
  then obtain k where k: "readable_as L b p k"
    "b1 = b\<lparr>contexts := AList.update (?uri p) (g_adds (context_graph b (?uri p)) k) (contexts b)\<rparr>"
    by (auto simp: load_file_iff)
  have cfg: "same_config b b1" "files b1 = files b" "storage_root b1 = storage_root b" "backend_base b1 = backend_base b"
    using k(2) by (simp_all add: same_config_def)
  have ctx: "context_graph b1 v = (if v = ?uri p then g_adds (context_graph b (?uri p)) k else context_graph b v)" for v
    using k(2) by (simp add: context_graph_def update_conv')
  have dist: "distinct (map ?uri ps)" "?uri p \<notin> ?uri ` set ps" using Cons.prems(2) by simp_all
  note IH = Cons.IH [OF l(2), unfolded cfg(3,4), OF dist(1)]
  have "context_graph b' (?uri p) = context_graph b1 (?uri p)" using IH dist(2) by blast
  then have "set (context_graph b' (?uri p)) = set (context_graph b (?uri p)) \<union> set k" by (simp add: ctx)
  with k(1) have here: "\<exists>k. readable_as L b p k \<and> set (context_graph b' (?uri p)) = set (context_graph b (?uri p)) \<union> set k"
    by blast
  have there: "\<exists>k. readable_as L b q k \<and> set (context_graph b' (?uri q)) = set (context_graph b (?uri q)) \<union> set k"
    if "q \<in> set ps" for q
  proof -
    have "?uri q \<noteq> ?uri p" using dist(2) imageI [OF that, of ?uri] by metis
    with IH [THEN conjunct2, THEN conjunct2, THEN conjunct1, rule_format, OF that]
    show ?thesis by (simp add: ctx readable_as_cong [OF cfg(1,2)])
  qed
  have rest: "context_graph b' v = context_graph b v" if "v \<notin> ?uri ` set (p # ps)" for v
    using IH that by (simp add: ctx)
  have "same_config b b'" "files b' = files b" using IH cfg by (auto simp: same_config_def)
  with here there rest show ?case by simp
qed simp

lemma load_files_succeeds:
  "\<forall>p\<in>set ps. \<exists>k. readable_as L b p k \<Longrightarrow> \<exists>b'. load_files L b ps = Inr b'"
proof (induction ps arbitrary: b)
  case (Cons p ps)
  from Cons.prems obtain k b1 where k: "load_file L b p = Inr b1" by (auto simp: load_file_iff)
  then have "same_config b b1" "files b1 = files b" by (auto simp: load_file_iff same_config_def)
  then have "\<forall>p\<in>set ps. \<exists>k. readable_as L b1 p k" using Cons.prems by (simp add: readable_as_cong)
  from Cons.IH [OF this] k show ?case by auto
qed simp

lemma rglob_ttl_iff: "p \<in> set (rglob_ttl b) \<longleftrightarrow>
  (\<exists>q n. p = storage_root b @ q \<and> q \<noteq> [] \<and> (p, n) \<in> set (files b) \<and> is_ttl q)"
proof
  assume "p \<in> set (rglob_ttl b)"
  then obtain n where p: "is_relative_to p (storage_root b)" "length (storage_root b) < length p"
    "endswith (last p) ''.ttl''" "(p, n) \<in> set (files b)" by (auto simp: rglob_ttl_def)
  then obtain q where "p = storage_root b @ q" "q \<noteq> []"
    by (metis append_take_drop_id is_relative_to_def append_Nil2 nat_neq_iff)
  with p show "\<exists>q n. p = storage_root b @ q \<and> q \<noteq> [] \<and> (p, n) \<in> set (files b) \<and> is_ttl q"
    by (auto simp: is_ttl_def)
qed (force simp: rglob_ttl_def is_ttl_def)

lemma rglob_uris_distinct:
  assumes "distinct (map fst (files b))"
    and "\<forall>q. q \<noteq> [] \<and> file_at b (storage_root b @ q) \<noteq> None \<longrightarrow> named q"
  shows "distinct (map (\<lambda>p. path_to_uri p (storage_root b) (backend_base b)) (rglob_ttl b))"
proof -
  have "distinct (rglob_ttl b)" using assms(1) by (simp add: rglob_ttl_def distinct_map_filter)
  moreover have "inj_on (\<lambda>p. path_to_uri p (storage_root b) (backend_base b)) (set (rglob_ttl b))"
  proof (rule inj_onI)
    fix p p' assume p: "p \<in> set (rglob_ttl b)" "p' \<in> set (rglob_ttl b)"
      and e: "path_to_uri p (storage_root b) (backend_base b) = path_to_uri p' (storage_root b) (backend_base b)"
    from p obtain q q' n n' where q: "p = storage_root b @ q" "q \<noteq> []" "(p, n) \<in> set (files b)" "is_ttl q"
      "p' = storage_root b @ q'" "q' \<noteq> []" "(p', n') \<in> set (files b)" "is_ttl q'"
      unfolding rglob_ttl_iff by blast
    then have "file_at b (storage_root b @ q) \<noteq> None" "file_at b (storage_root b @ q') \<noteq> None"
      by (auto simp: file_at_def map_of_eq_None_iff) (force, force)
    with assms(2) q have "named q" "named q'" by blast+
    from uri_of_inject [OF this(1) q(4) this(2) q(8), of b] e q(1,5) show "p = p'"
      by (simp add: uri_of_def)
  qed
  ultimately show ?thesis by (simp add: distinct_map)
qed

text \<open>What opening does, in one step.\<close>

lemma backend_init_ok:
  assumes "backend_init L root base disk = Inr b"
  obtains b2 where "storage_root b2 = root" "backend_base b2 = base" "contexts b2 = []"
    "distinct (map fst disk) \<Longrightarrow> distinct (map fst (files b2))"
    "\<forall>d\<in>set (needed_dirs b2). dirs_down_to b2 d"
    "\<forall>q. file_at b2 q = (if q \<noteq> [] \<and> map_of disk q = None \<and> (\<exists>d\<in>set (needed_dirs b2). prefix q d)
       then Some Dir else if q = [] then Some Dir else map_of disk q)"
    "load_files L b2 (rglob_ttl b2) = Inr b"
proof -
  let ?b = "\<lparr>storage_root = root, backend_base = base, files = disk, contexts = []\<rparr>"
  from assms obtain b1 b2 where m: "mkdirs ?b root = Inr b1" "ensure_system_subtree b1 = Inr b2"
    "load_files L b2 (rglob_ttl b2) = Inr b"
    by (auto simp: backend_init_def Let_def split: sum.splits)
  note f1 = mkdirs_fields [OF m(1)] and f2 = ensure_dirs_ok [OF m(2) [unfolded ensure_system_subtree_def]]
  have cfg: "storage_root b2 = root" "backend_base b2 = base" "contexts b2 = []"
    using f1 f2 by (simp_all add: same_config_def)
  have need: "set (map (\<lambda>d. storage_root b1 @ [SYSTEM_SEGMENT] @ d) system_subdirs) = set (needed_dirs b2)"
    using f1 cfg by (simp add: needed_dirs_def)
  have dist: "distinct (map fst disk) \<Longrightarrow> distinct (map fst (files b2))"
    using files_distinct(1) [OF m(1)] f2 by simp
  have rootp: "\<exists>d\<in>set (needed_dirs b2). prefix q d" if "prefix q root" for q
    using that cfg by (auto simp: needed_dirs_def system_subdirs_def)
  have dirs: "\<forall>d\<in>set (needed_dirs b2). dirs_down_to b2 d" using f2 unfolding need by blast
  have fat: "\<forall>q. file_at b2 q = (if q \<noteq> [] \<and> map_of disk q = None \<and> (\<exists>d\<in>set (needed_dirs b2). prefix q d)
      then Some Dir else if q = [] then Some Dir else map_of disk q)"
  proof
    fix q
    have "file_at b2 q = (if file_at b1 q = None \<and> (\<exists>d\<in>set (needed_dirs b2). prefix q d) then Some Dir else file_at b1 q)"
      using f2 unfolding need by blast
    moreover have "file_at b1 q = (if file_at ?b q = None \<and> prefix q root then Some Dir else file_at ?b q)"
      by (rule file_at_mkdirs [OF m(1)])
    moreover have "file_at ?b q = (if q = [] then Some Dir else map_of disk q)" by (simp add: file_at_def)
    ultimately show "file_at b2 q = (if q \<noteq> [] \<and> map_of disk q = None \<and> (\<exists>d\<in>set (needed_dirs b2). prefix q d)
      then Some Dir else if q = [] then Some Dir else map_of disk q)"
      using rootp [of q] by (auto split: if_splits)
  qed
  show ?thesis by (rule that [OF cfg dist dirs fat m(3)])
qed

lemma system_dirs_named:
  assumes "d \<in> set system_subdirs" and "prefix q (SYSTEM_SEGMENT # d)" and "q \<noteq> []"
  shows "named q" and "\<not> is_ttl q"
proof -
  have "list_all (\<lambda>d. list_all plain_segment (SYSTEM_SEGMENT # d)) system_subdirs" by code_simp
  then have "list_all plain_segment (SYSTEM_SEGMENT # d)" using assms(1) by (simp add: list_all_iff)
  from plain_segments_named [OF prefix_plain [OF this assms(2)] assms(3)]
  show "named q" "\<not> is_ttl q" .
qed

lemma file_at_mem: "q \<noteq> [] \<Longrightarrow> file_at b q = Some n \<Longrightarrow> (q, n) \<in> set (files b)"
  by (auto simp: file_at_def map_of_SomeD)

lemma loaded_context:
  assumes l: "load_files L b ps = Inr b'" and d: "distinct (map (\<lambda>p. path_to_uri p (storage_root b) (backend_base b)) ps)"
    and e: "contexts b = []" and p: "storage_root b @ q \<in> set ps"
  obtains k where "readable_as L b (storage_root b @ q) k" "set (context_graph b' (uri_of b q)) = set k"
proof -
  from load_files_ok [OF l d, THEN conjunct2, THEN conjunct2, THEN conjunct1, rule_format, OF p]
  obtain k where k: "readable_as L b (storage_root b @ q) k"
    "set (context_graph b' (uri_of b q)) = set (context_graph b (uri_of b q)) \<union> set k"
    by (auto simp: uri_of_def)
  have "context_graph b (uri_of b q) = []" using e by (simp add: context_graph_def)
  with k that show ?thesis by simp
qed

text \<open>A freshly opened store is durable, whatever files it was opened on, as long as they have names.\<close>

lemma init_durable:
  assumes i: "backend_init L root base disk = Inr b" and dist: "distinct (map fst disk)"
    and names: "\<And>q. q \<noteq> [] \<Longrightarrow> map_of disk (root @ q) \<noteq> None \<Longrightarrow> named q"
  shows "durable L b" and "storage_root b = root" and "backend_base b = base"
proof -
  from i obtain b2 where b2: "storage_root b2 = root" "backend_base b2 = base" "contexts b2 = []"
    "distinct (map fst (files b2))" "\<forall>d\<in>set (needed_dirs b2). dirs_down_to b2 d"
    "\<forall>q. file_at b2 q = (if q \<noteq> [] \<and> map_of disk q = None \<and> (\<exists>d\<in>set (needed_dirs b2). prefix q d)
       then Some Dir else if q = [] then Some Dir else map_of disk q)"
    "load_files L b2 (rglob_ttl b2) = Inr b"
    by (rule backend_init_ok) (use dist in blast)
  have named: "named q" if "q \<noteq> []" "file_at b2 (root @ q) \<noteq> None" for q
  proof (cases "map_of disk (root @ q) = None")
    case True
    with b2(6) that obtain d where "d \<in> set (needed_dirs b2)" "prefix (root @ q) d" by (auto split: if_splits)
    then obtain d' where "d' \<in> set system_subdirs" "prefix q (SYSTEM_SEGMENT # d')"
      by (auto simp: needed_dirs_def b2(1))
    from system_dirs_named(1) [OF this that(1)] show ?thesis .
  qed (use names that(1) in blast)
  then have wf: "\<forall>q. q \<noteq> [] \<and> file_at b2 (storage_root b2 @ q) \<noteq> None \<longrightarrow> named q" by (simp add: b2(1))
  note uris = rglob_uris_distinct [OF b2(4) wf]
  from load_files_ok [OF b2(7) uris] have cfg: "same_config b2 b" "files b = files b2" by blast+
  then show root: "storage_root b = root" and base: "backend_base b = base" by (simp_all add: same_config_def b2(1,2))
  have fat: "file_at b p = file_at b2 p" for p using cfg(2) by (simp add: file_at_def)
  have eq: "uri_of b q = uri_of b2 q" "needed_dirs b = needed_dirs b2" for q
    using cfg(1) by (simp_all add: uri_of_def needed_dirs_def same_config_def)
  have loaded: "ttl_loaded L b q" if q: "q \<noteq> []" "file_at b (storage_root b @ q) \<noteq> None" "is_ttl q" for q
  proof -
    from q(2) obtain n where "file_at b2 (storage_root b2 @ q) = Some n" by (auto simp: fat root b2(1))
    from file_at_mem [OF _ this] q have "storage_root b2 @ q \<in> set (rglob_ttl b2)"
      unfolding rglob_ttl_iff by blast
    from loaded_context [OF b2(7) uris b2(3) this] obtain k where
      "readable_as L b2 (storage_root b2 @ q) k" "set (context_graph b (uri_of b2 q)) = set k" .
    moreover have "read_text b p = read_text b2 p" for p by (simp add: read_text_def fat)
    ultimately show ?thesis by (auto simp: ttl_loaded_def readable_as_def eq root base b2(1,2) uri_of_def)
  qed
  have "dirs_down_to b d" if "d \<in> set (needed_dirs b)" for d
    using b2(5) that by (simp add: dirs_down_to_def fat eq(2))
  moreover have "named q" if "q \<noteq> []" "file_at b (storage_root b @ q) \<noteq> None" for q
    using named that by (simp add: fat root)
  ultimately show "durable L b" using b2(4) loaded by (auto simp: durable_def cfg(2))
qed

text \<open>A durable store without its dataset: what a new backend starts from.\<close>

lemma durable_file:
  "durable L b \<Longrightarrow> q \<noteq> [] \<Longrightarrow> file_at b (storage_root b @ q) \<noteq> None \<Longrightarrow>
   named q \<and> (is_ttl q \<longrightarrow> ttl_loaded L b q)"
  unfolding durable_def by blast

lemma bare_simps [simp]:
  "file_at (b\<lparr>contexts := []\<rparr>) p = file_at b p" "read_text (b\<lparr>contexts := []\<rparr>) p = read_text b p"
  "uri_of (b\<lparr>contexts := []\<rparr>) q = uri_of b q"
  by (simp_all add: file_at_def read_text_def uri_of_def)

lemma durable_dirs:
  assumes "durable L b"
  shows "mkdirs (b\<lparr>contexts := []\<rparr>) (storage_root b) = Inr (b\<lparr>contexts := []\<rparr>)"
    and "ensure_system_subtree (b\<lparr>contexts := []\<rparr>) = Inr (b\<lparr>contexts := []\<rparr>)"
proof -
  let ?b = "b\<lparr>contexts := []\<rparr>"
  have dirs: "\<forall>p\<in>set (needed_dirs b). dirs_down_to ?b p"
    using assms by (simp add: durable_def dirs_down_to_def)
  have "storage_root b @ [SYSTEM_SEGMENT] @ [''views''] \<in> set (needed_dirs b)"
    by (simp add: needed_dirs_def system_subdirs_def)
  from bspec [OF dirs this] have "dirs_down_to ?b (storage_root b)" by (rule dirs_down_to_mono) simp
  from mkdirs_present [OF this] show "mkdirs ?b (storage_root b) = Inr ?b" .
  show "ensure_system_subtree ?b = Inr ?b"
    unfolding ensure_system_subtree_def
    by (rule ensure_dirs_present) (use dirs in \<open>simp add: needed_dirs_def\<close>)
qed

lemma durable_readable:
  assumes d: "durable L b" and p: "p \<in> set (rglob_ttl (b\<lparr>contexts := []\<rparr>))"
  shows "\<exists>k. readable_as L (b\<lparr>contexts := []\<rparr>) p k"
proof -
  from p obtain q n where q: "p = storage_root b @ q" "q \<noteq> []" "(p, n) \<in> set (files b)" "is_ttl q"
    unfolding rglob_ttl_iff by auto
  then have "file_at b (storage_root b @ q) \<noteq> None" by (auto simp: file_at_def map_of_eq_None_iff) force
  with durable_file [OF d] q(2,4) have "ttl_loaded L b q" by blast
  then show ?thesis by (auto simp: ttl_loaded_def readable_as_def q(1) uri_of_def)
qed

lemma durable_reopens:
  assumes d: "durable L b"
  obtains b' where "backend_init L (storage_root b) (backend_base b) (files b) = Inr b'"
    "same_config b b'" "files b' = files b"
    "\<forall>q. q \<noteq> [] \<and> file_at b (storage_root b @ q) \<noteq> None \<and> is_ttl q \<longrightarrow>
       set (context_graph b' (uri_of b q)) = set (context_graph b (uri_of b q))"
proof -
  let ?b = "b\<lparr>contexts := []\<rparr>"
  have dist: "distinct (map fst (files ?b))" using d by (simp add: durable_def)
  have uris: "distinct (map (\<lambda>p. path_to_uri p (storage_root ?b) (backend_base ?b)) (rglob_ttl ?b))"
    by (rule rglob_uris_distinct [OF dist]) (use durable_file [OF d] in simp)
  from load_files_succeeds durable_readable [OF d] obtain b' where l: "load_files L ?b (rglob_ttl ?b) = Inr b'" by blast
  have "\<lparr>storage_root = storage_root b, backend_base = backend_base b, files = files b, contexts = []\<rparr> = ?b"
    by (cases b) simp
  then have "backend_init L (storage_root b) (backend_base b) (files b) = Inr b'"
    unfolding backend_init_def Let_def by (simp only: durable_dirs [OF d] l sum.case)
  moreover from load_files_ok [OF l uris] have "same_config b b'" "files b' = files b"
    by (simp_all add: same_config_def)
  moreover have "set (context_graph b' (uri_of b q)) = set (context_graph b (uri_of b q))"
    if q: "q \<noteq> []" "file_at b (storage_root b @ q) \<noteq> None" "is_ttl q" for q
  proof -
    from q(2) obtain n where "file_at b (storage_root b @ q) = Some n" by blast
    from file_at_mem [OF _ this] q have "storage_root ?b @ q \<in> set (rglob_ttl ?b)"
      unfolding rglob_ttl_iff by auto
    from loaded_context [OF l uris _ this] obtain k where k: "readable_as L ?b (storage_root b @ q) k"
      "set (context_graph b' (uri_of b q)) = set k" by auto
    moreover from durable_file [OF d] q have "ttl_loaded L b q" by blast
    ultimately show ?thesis by (auto simp: ttl_loaded_def readable_as_def uri_of_def)
  qed
  then have "\<forall>q. q \<noteq> [] \<and> file_at b (storage_root b @ q) \<noteq> None \<and> is_ttl q \<longrightarrow>
      set (context_graph b' (uri_of b q)) = set (context_graph b (uri_of b q))" by blast
  ultimately show ?thesis by (rule that)
qed

section \<open>Restart\<close>

text \<open>An attempt: an operation of the backend on a plain URI, however it ends.\<close>

inductive attempt :: "libs \<Rightarrow> backend \<Rightarrow> backend \<Rightarrow> bool" for L where
  write_doc: "plain_uri (backend_base b) u \<Longrightarrow> write_system L b u g = (r, b') \<Longrightarrow> attempt L b b'"
| write_blob: "plain_file (backend_base b) u \<Longrightarrow> write_binary L b u data ct = (r, b') \<Longrightarrow> attempt L b b'"
| remove: "plain_uri (backend_base b) u \<Longrightarrow> delete_system b u = (r, b') \<Longrightarrow> attempt L b b'"

lemma attempt_config: "attempt L b b' \<Longrightarrow> same_config b b'"
  by (induction rule: attempt.induct) (auto dest: write_system_config write_binary_config delete_system_config)

lemma attempt_durable: "attempt L b b' \<Longrightarrow> turtle_roundtrip L \<Longrightarrow> clean_root b \<Longrightarrow> durable L b \<Longrightarrow> durable L b'"
  by (induction rule: attempt.induct)
    (auto intro: write_system_durable write_binary_durable delete_system_durable)

lemma attempts_durable:
  assumes "rtranclp (attempt L) b b'" and "turtle_roundtrip L" and "clean_root b" and "durable L b"
  shows "durable L b' \<and> same_config b b'"
  using assms(1)
proof (induction rule: rtranclp_induct)
  case base
  then show ?case using assms(4) by simp
next
  case (step b1 b2)
  then have "clean_root b1" using assms(3) clean_root_config by blast
  with step attempt_durable [OF step.hyps(2) assms(2)] attempt_config [OF step.hyps(2)]
  show ?case by (blast intro: same_config_trans)
qed


section \<open>A store opened, changed and opened again\<close>


lemma backend_refines_map_witness:
  "\<exists>b'. runs (backend_step demo_libs) demo_store
       [Put_Doc ''b:/c/m'' demo_doc2_graph, Put_Blob ''b:/c/n'' ''x'' ''image/png'', Remove ''b:/c/m''] b'
     \<and> runs (pod_step (stored_as demo_libs)) (pod_of demo_store)
       [Put_Doc ''b:/c/m'' demo_doc2_graph, Put_Blob ''b:/c/n'' ''x'' ''image/png'', Remove ''b:/c/m''] (pod_of b')"
proof -
  let ?p1 = "backend_write demo_libs demo_store ''b:/c/m'' demo_doc2_graph"
  let ?p2 = "write_binary demo_libs (snd ?p1) ''b:/c/n'' ''x'' ''image/png''"
  let ?p3 = "backend_delete (snd ?p2) ''b:/c/m''"
  have "fst ?p1 = Inr ()" "fst ?p2 = Inr ()" "fst ?p3 = Inr ()" by code_simp+
  then obtain b1 b2 b3 where
    s: "backend_write demo_libs demo_store ''b:/c/m'' demo_doc2_graph = (Inr (), b1)"
      "write_binary demo_libs b1 ''b:/c/n'' ''x'' ''image/png'' = (Inr (), b2)"
      "backend_delete b2 ''b:/c/m'' = (Inr (), b3)"
    by (auto simp: prod_eq_iff)
  have base: "backend_base b1 = backend_base demo_store" "backend_base b2 = backend_base demo_store"
    using backend_write_config [OF s(1)] write_binary_config [OF s(2)] by (simp_all add: same_config_def)
  have p: "plain_uri ''b:/'' ''b:/c/m''" "plain_file ''b:/'' ''b:/c/m''" "plain_file ''b:/'' ''b:/c/n''"
    "backend_base demo_store = ''b:/''" by code_simp+
  have "runs (backend_step demo_libs) demo_store
      [Put_Doc ''b:/c/m'' demo_doc2_graph, Put_Blob ''b:/c/n'' ''x'' ''image/png'', Remove ''b:/c/m''] b3"
  proof (intro runs_Cons)
    show "backend_step demo_libs demo_store (Put_Doc ''b:/c/m'' demo_doc2_graph) b1"
      "backend_step demo_libs b1 (Put_Blob ''b:/c/n'' ''x'' ''image/png'') b2"
      "backend_step demo_libs b2 (Remove ''b:/c/m'') b3"
      using s p base by (simp_all add: backend_step_def)
  qed (rule runs_Nil)
  moreover have "''..'' \<notin> set (storage_root demo_store)" by code_simp
  ultimately show ?thesis using backend_refines_map by blast
qed

end
