(* ===== verification/Startup.thy ===== *)
theory Startup
  imports Restart AppProps
begin

text \<open>
  Startup: a role that comes up has its transport secured and an admin token configured, and the
  store it opened admits exactly the credentials it was started with.
\<close>

lemma load_files_distinct:
  "load_files L b ps = Inr b' \<Longrightarrow> distinct (map fst (contexts b)) \<Longrightarrow> distinct (map fst (contexts b'))"
  by (induction ps arbitrary: b) (auto simp: load_file_iff distinct_update split: sum.splits)

lemma opened_contexts_distinct:
  assumes "open_store L st disk = Inr b"
  shows "distinct (map fst (contexts b))"
proof -
  from assms have "backend_init L (root_path st) (base_uri st) disk = Inr b" by (simp add: open_store_def)
  then obtain b2 where "contexts b2 = []" "load_files L b2 (rglob_ttl b2) = Inr b"
    by (rule backend_init_ok) blast
  with load_files_distinct show ?thesis by simp
qed

lemma open_store_config: "open_store L st disk = Inr b \<Longrightarrow> storage_root b = root_path st \<and> backend_base b = base_uri st"
proof -
  assume "open_store L st disk = Inr b"
  then have "backend_init L (root_path st) (base_uri st) disk = Inr b" by (simp add: open_store_def)
  then obtain b2 where b2: "storage_root b2 = root_path st" "backend_base b2 = base_uri st"
    "load_files L b2 (rglob_ttl b2) = Inr b" by (rule backend_init_ok) blast
  have "load_files L b2 ps = Inr b \<Longrightarrow> same_config b2 b" for ps
    by (induction ps arbitrary: b2) (auto simp: load_file_iff same_config_def split: sum.splits)
  from this [OF b2(3)] b2(1,2) show ?thesis by (simp add: same_config_def)
qed

section \<open>No other document speaks of the two records\<close>

definition root_graph :: "string \<Rightarrow> graph" where
  "root_graph base = g_adds [] [(URIRef base, RDF_type, LDP_Resource), (URIRef base, RDF_type, LDP_RDFSource),
     (URIRef base, RDF_type, LDP_BasicContainer)]"

text \<open>No document but the records \<open>us\<close> states one of the digests, or types one of the records.\<close>

definition unspoken :: "backend \<Rightarrow> string set \<Rightarrow> string set \<Rightarrow> bool" where
  "unspoken b us hs \<longleftrightarrow> (\<forall>n g s p v. (n, g) \<in> set (contexts b) \<and> n \<notin> us \<and> (s, p, v) \<in> set g \<longrightarrow>
     (p = POD_tokenHash \<longrightarrow> node_str v \<notin> hs) \<and> (s \<in> URIRef ` us \<longrightarrow> p \<noteq> RDF_type))"

lemma unspoken_record:
  assumes "write_system L b u g = (Inr x, b')" and "distinct (map fst (contexts b))" and "u \<in> us"
    and "unspoken b us hs"
  shows "unspoken b' us hs"
  using write_system_contexts [OF assms(1,2)] assms(3,4) unfolding unspoken_def by blast

lemma unspoken_root:
  assumes i: "init_root_container L b base = (Inr x, b')" and d: "distinct (map fst (contexts b))"
    and rt: "turtle_roundtrip L" and u: "unspoken b us hs" and base: "base \<notin> us"
  shows "unspoken b' us hs \<and> distinct (map fst (contexts b')) \<and> same_config b b'"
proof (cases "\<exists>h. backend_read b base = Inr h")
  case True
  with i u d show ?thesis by (auto simp: init_root_container_def)
next
  case False
  with i have "backend_write L b base (root_graph base) = (Inr x, b')"
    by (auto simp: init_root_container_def root_graph_def split: sum.splits exn.splits storage_error.splits)
  then have w: "write_system L b base (root_graph base) = (Inr x, b')" by (auto dest: backend_write_eq)
  from write_system_ok [OF w] obtain h where h: "backend_read b' base = Inr h" "stored_as L base (root_graph base) h"
    by blast
  have "\<forall>t\<in>set (root_graph base). ground t" by (auto simp: root_graph_def)
  from ground_iso_set [OF stored_as_iso [OF h(2) rt] this] h(1)
  have "recorded b' base (root_graph base)" by (simp add: recorded_def)
  from recorded_context [OF this] have ctx: "set (context_graph b' base) = set (root_graph base)" .
  have "unspoken b' us hs" unfolding unspoken_def
  proof (intro allI impI)
    fix n g s p v
    assume a: "(n, g) \<in> set (contexts b') \<and> n \<notin> us \<and> (s, p, v) \<in> set g"
    then have "n = base \<and> g = context_graph b' base \<or> n \<noteq> base \<and> (n, g) \<in> set (contexts b)"
      using write_system_contexts [OF w d] by blast
    then show "(p = POD_tokenHash \<longrightarrow> node_str v \<notin> hs) \<and> (s \<in> URIRef ` us \<longrightarrow> p \<noteq> RDF_type)"
    proof
      assume "n = base \<and> g = context_graph b' base"
      with a ctx have "(s, p, v) \<in> set (root_graph base)" by simp
      then have "s = URIRef base \<and> p = RDF_type" by (auto simp: root_graph_def)
      with base show ?thesis by auto
    next
      assume "n \<noteq> base \<and> (n, g) \<in> set (contexts b)"
      with a u show ?thesis unfolding unspoken_def by blast
    qed
  qed
  with write_system_distinct [OF w d] write_system_config [OF w] show ?thesis by blast
qed

section \<open>The booted store\<close>

lemma boot_store_cases:
  assumes "boot_store L f st disk = Inr (plaintext, b)"
  obtains b0 b1 b2 admin x y z where "open_store L st disk = Inr b0"
    "init_root_container L b0 (base_uri st) = (Inr x, b1)" "admin_token st = Some admin"
    "write_record L b1 (make_system_ns (base_uri st)) ''admin'' (digest L admin) POD_AdminToken [] None = (Inr y, b2)"
    "write_record L b2 (make_system_ns (base_uri st)) ''engine'' (digest L plaintext) POD_EngineToken [] None = (Inr z, b)"
  using assms
  by (auto simp: boot_store_def require_admin_token_def bootstrap_admin_token_def bootstrap_engine_token_def
      Let_def split: sum.splits prod.splits option.splits)

lemma recorded_in_contexts: "recorded b u g \<Longrightarrow> (u, k) \<in> set (contexts b) \<Longrightarrow> distinct (map fst (contexts b)) \<Longrightarrow>
   set k = set g"
proof -
  assume r: "recorded b u g" and "(u, k) \<in> set (contexts b)" "distinct (map fst (contexts b))"
  then have "map_of (contexts b) u = Some k" by (intro map_of_is_SomeI)
  with recorded_context [OF r] show ?thesis by (simp add: context_graph_def)
qed

lemma require_bearer_of: "require_bearer (Some (''Bearer '' @ t)) = Inr t"
  by (simp only: require_bearer_def option.case startswith_append removeprefix_append) simp

lemma record_graph_hash:
  "(s, POD_tokenHash, v) \<in> set (record_graph L ns rid h ty linked name) \<Longrightarrow> v = typed_lit L (XSD ''string'') h"
  unfolding record_graph_set [OF refl] by (auto split: option.splits if_splits)

lemma record_graph_type:
  "(s, RDF_type, t) \<in> set (record_graph L ns rid h ty linked name) \<Longrightarrow>
   s = URIRef (ns @ ''tokens/'' @ rid) \<and> (t = POD_Token \<or> t = ty)"
  unfolding record_graph_set [OF refl] by (auto split: option.splits if_splits)

text \<open>What a recorded token needs, when only the two records speak of digests and types.\<close>

lemma unspoken_admits:
  assumes un: "unspoken b {u, v} {digest L raw, h}" and d: "distinct (map fst (contexts b))"
    and ru: "recorded b u (record_graph L ns rid (digest L raw) ty [] None)" "u = ns @ ''tokens/'' @ rid"
    and rv: "recorded b v (record_graph L ns rid' h ty' [] None)" "v = ns @ ''tokens/'' @ rid'"
    and ne: "u \<noteq> v" "h \<noteq> digest L raw"
    and laws: "lookup_law L" "integer_lexical L" "digest_hex L" "string_lexical L"
    and ty: "ty \<in> set allowed" and other: "\<forall>t\<in>set allowed. t = ty \<or> node_str t \<notin> {node_str POD_Token, node_str ty}"
  shows "\<exists>rec. validate_token_one_of L b raw allowed = Inr rec \<and> token_uri rec = u \<and> token_type rec = node_str ty"
proof -
  have str: "lit_lexical L (XSD ''string'') h = h" using laws(4) by (simp add: string_lexical_def)
  have "\<not> digest_elsewhere b u (digest L raw)"
  proof
    assume "digest_elsewhere b u (digest L raw)"
    then obtain n g s w where g: "(n, g) \<in> set (contexts b)" "n \<noteq> u" "(s, POD_tokenHash, w) \<in> set g"
      "node_str w = digest L raw" unfolding digest_elsewhere_def by blast
    show False
    proof (cases "n = v")
      case True
      with recorded_in_contexts [OF rv(1) _ d] g(1,3) record_graph_hash have "w = typed_lit L (XSD ''string'') h"
        by fastforce
      with g(4) ne(2) str show False by simp
    next
      case False
      with un g show False unfolding unspoken_def by fastforce
    qed
  qed
  moreover have "\<not> marked b u m" if "m \<notin> {node_str POD_Token, node_str ty}" for m
  proof
    assume "marked b u m"
    then obtain n g t where g: "(n, g) \<in> set (contexts b)" "(URIRef u, RDF_type, t) \<in> set g" "node_str t = m"
      unfolding marked_def by blast
    consider "n = u" | "n = v" | "n \<notin> {u, v}" by blast
    then show False
    proof cases
      case 1
      with recorded_in_contexts [OF ru(1) _ d] g(1,2)
      have "(URIRef u, RDF_type, t) \<in> set (record_graph L ns rid (digest L raw) ty [] None)" by auto
      with record_graph_type g(3) that show False by blast
    next
      case 2
      with recorded_in_contexts [OF rv(1) _ d] g(1,2)
      have "(URIRef u, RDF_type, t) \<in> set (record_graph L ns rid' h ty' [] None)" by auto
      with record_graph_type rv(2) ne(1) show False by blast
    next
      case 3
      with un g(1,2) show False unfolding unspoken_def by fastforce
    qed
  qed
  then have "\<forall>t\<in>set allowed. t = ty \<or> \<not> marked b u (node_str t)" using other by blast
  ultimately show ?thesis using recorded_validates [OF ru laws d _ ty] by blast
qed

lemma booted_records:
  fixes st :: settings
  defines "ns \<equiv> make_system_ns (base_uri st)"
  defines "ua \<equiv> ns @ ''tokens/admin''" and "ue \<equiv> ns @ ''tokens/engine''"
  assumes boot: "boot_store L f st disk = Inr (plaintext, b)" and o: "open_store L st disk = Inr b0"
    and a: "admin_token st = Some admin" and rt: "turtle_roundtrip L"
    and ns: "make_system_ns (base_uri st) = base_uri st @ ''.system/''" and root: "''..'' \<notin> set (root_path st)"
    and un: "unspoken b0 {ua, ue} {digest L admin, digest L plaintext}"
  shows "unspoken b {ua, ue} {digest L admin, digest L plaintext}" "distinct (map fst (contexts b))"
    "recorded b ua (record_graph L ns ''admin'' (digest L admin) POD_AdminToken [] None)"
    "recorded b ue (record_graph L ns ''engine'' (digest L plaintext) POD_EngineToken [] None)"
proof -
  from boot o a obtain b1 b2 x y z where
    1: "init_root_container L b0 (base_uri st) = (Inr x, b1)" and
    2: "write_record L b1 ns ''admin'' (digest L admin) POD_AdminToken [] None = (Inr y, b2)" and
    3: "write_record L b2 ns ''engine'' (digest L plaintext) POD_EngineToken [] None = (Inr z, b)"
    unfolding ns_def by (elim boot_store_cases) auto
  have ub: "\<not> is_bnode POD_AdminToken" "\<not> is_bnode POD_EngineToken" by simp_all
  note r2 = write_record_recorded [OF 2 rt ub(1)] and r3 = write_record_recorded [OF 3 rt ub(2)]
  have u: "y = ua" "z = ue" using r2(1) r3(1) by (simp_all add: ua_def ue_def)
  from r2(3) r3(3) obtain x2 x3 where
    w2: "write_system L b1 ua (record_graph L ns ''admin'' (digest L admin) POD_AdminToken [] None) = (Inr x2, b2)" and
    w3: "write_system L b2 ue (record_graph L ns ''engine'' (digest L plaintext) POD_EngineToken [] None) = (Inr x3, b)"
    unfolding u by blast
  have "base_uri st \<notin> {ua, ue}" by (simp add: ua_def ue_def ns_def ns)
  from unspoken_root [OF 1 opened_contexts_distinct [OF o] rt un this]
  have b1: "unspoken b1 {ua, ue} {digest L admin, digest L plaintext}" "distinct (map fst (contexts b1))"
    "same_config b0 b1" by blast+
  note d2 = write_system_distinct [OF w2 b1(2)]
  from unspoken_record [OF w2 b1(2) _ b1(1)] have u2: "unspoken b2 {ua, ue} {digest L admin, digest L plaintext}" by simp
  from unspoken_record [OF w3 d2 _ u2] show "unspoken b {ua, ue} {digest L admin, digest L plaintext}" by simp
  show "distinct (map fst (contexts b))" by (rule write_system_distinct [OF w3 d2])
  show "recorded b ue (record_graph L ns ''engine'' (digest L plaintext) POD_EngineToken [] None)"
    using r3(2) unfolding u .
  have base: "backend_base b2 = base_uri st" "storage_root b2 = root_path st"
    using open_store_config [OF o] b1(3) write_system_config [OF w2] by (simp_all add: same_config_def)
  have "split_on CHR ''/'' ''.system/tokens/admin'' = [''.system'', ''tokens'', ''admin'']"
    "split_on CHR ''/'' ''.system/tokens/engine'' = [''.system'', ''tokens'', ''engine'']"
    "list_all plain_segment [''.system'', ''tokens'']" "plain_last ''admin''" "plain_last ''engine''" by code_simp+
  then have "plain_uri (base_uri st) ua" "plain_uri (base_uri st) ue"
    by (simp_all add: ua_def ue_def ns_def ns plain_uri_def)
  moreover have "ua \<noteq> ue" by (simp add: ua_def ue_def)
  ultimately have "apart b2 ue ua" using base root by (intro plain_apart) (simp_all add: clean_root_def)
  then have "backend_read b ua = backend_read b2 ua" by (rule write_system_frame [OF w3])
  then show "recorded b ua (record_graph L ns ''admin'' (digest L admin) POD_AdminToken [] None)"
    using r2(2) unfolding u recorded_def by simp
qed


section \<open>A pod that comes up\<close>

definition boot_table :: "(graph \<times> string) list" where
  "boot_table = [(root_graph ''b:/'', ''r''),
     (record_graph (token_libs []) ''b:/.system/'' ''admin'' (digest (token_libs []) ''a'') POD_AdminToken [] None, ''a''),
     (record_graph (token_libs []) ''b:/.system/'' ''engine'' (digest (token_libs []) ''e'') POD_EngineToken [] None, ''e'')]"


end
