(* ===== verification/StoreSteps.thy ===== *)
theory StoreSteps
  imports AppProps Restart
begin

text \<open>
  Every request changes the store through the operations of the backend only, whichever handler
  answers it and however it ends; so an invariant of these operations is an invariant of the
  application. The invariant here is that the file tree is a tree and the dataset a function.
\<close>

section \<open>The operations of the backend as steps\<close>

inductive store_step :: "libs \<Rightarrow> backend \<Rightarrow> backend \<Rightarrow> bool" for L where
  doc: "write_system L b u g = (r, b') \<Longrightarrow> store_step L b b'"
| bin: "write_binary L b u data ct = (r, b') \<Longrightarrow> store_step L b b'"
| del: "delete_system b u = (r, b') \<Longrightarrow> store_step L b b'"

abbreviation store_steps :: "libs \<Rightarrow> backend \<Rightarrow> backend \<Rightarrow> bool" where
  "store_steps L \<equiv> rtranclp (store_step L)"

lemma write_system_steps: "write_system L b u g = (r, b') \<Longrightarrow> store_steps L b b'"
  by (blast intro: store_step.doc)

lemma write_binary_steps: "write_binary L b u data ct = (r, b') \<Longrightarrow> store_steps L b b'"
  by (blast intro: store_step.bin)

lemma delete_system_steps: "delete_system b u = (r, b') \<Longrightarrow> store_steps L b b'"
  by (blast intro: store_step.del)

lemma backend_write_steps: "backend_write L b u g = (r, b') \<Longrightarrow> store_steps L b b'"
  by (drule backend_write_eq) (auto dest: write_system_steps)

lemma backend_delete_steps: "backend_delete b u = (r, b') \<Longrightarrow> store_steps L b b'"
  by (drule backend_delete_eq) (auto dest: delete_system_steps)

lemma replace_steps: "replace_if_unchanged L b u g etag tag = (r, b') \<Longrightarrow> store_steps L b b'"
  by (auto simp: replace_if_unchanged_def dest: write_system_steps split: sum.splits if_splits prod.splits)

lemmas backend_steps = write_system_steps write_binary_steps delete_system_steps backend_write_steps
  backend_delete_steps replace_steps

section \<open>The handlers\<close>

lemma attach_steps: "attach_to_parent L b base u = (r, b') \<Longrightarrow> store_steps L b b'"
  by (auto simp: attach_to_parent_def Let_def dest: backend_steps
      split: sum.splits if_splits prod.splits exn.splits storage_error.splits)

lemma detach_steps: "detach_from_parent L b base u = (r, b') \<Longrightarrow> store_steps L b b'"
  by (auto simp: detach_from_parent_def Let_def dest: backend_steps
      split: sum.splits if_splits prod.splits exn.splits storage_error.splits)

lemma put_resource_steps: "put_resource L b base path body ct im inm = (r, b') \<Longrightarrow> store_steps L b b'"
  by (auto simp: put_resource_def put_rdf_resource_def put_binary_resource_def Let_def
      dest!: backend_steps attach_steps
      split: sum.splits if_splits prod.splits exn.splits storage_error.splits)

lemma post_member_steps: "post_member L uuid b base path body ct slug = (r, b') \<Longrightarrow> store_steps L b b'"
  by (auto simp: post_member_def Let_def dest!: backend_steps split: sum.splits if_splits prod.splits)

lemma delete_resource_steps: "delete_resource L b base path = (r, b') \<Longrightarrow> store_steps L b b'"
  by (auto simp: delete_resource_def Let_def dest!: backend_delete_steps [where L = L] detach_steps
      split: sum.splits if_splits prod.splits exn.splits storage_error.splits)

lemma write_record_steps: "write_record L b ns rid h ty linked name = (r, b') \<Longrightarrow> store_steps L b b'"
  by (auto simp: write_record_def Let_def dest!: backend_steps split: sum.splits prod.splits)

lemma issue_grant_steps: "issue_grant L secret rid b base auth body ct = (r, b') \<Longrightarrow> store_steps L b b'"
  by (auto simp: issue_grant_def issue_token_def Let_def dest!: write_record_steps
      split: sum.splits if_splits prod.splits option.splits)

lemma write_policy_steps: "write_policy L b base auth i body ct = (r, b') \<Longrightarrow> store_steps L b b'"
  by (auto simp: write_policy_def Let_def dest!: write_system_steps
      split: sum.splits if_splits prod.splits option.splits list.splits exn.splits storage_error.splits)

lemma revoke_system_steps: "revoke_system L b base auth path = (r, b') \<Longrightarrow> store_steps L b b'"
  by (auto simp: revoke_system_def revoke_token_def Let_def dest!: delete_system_steps [where L = L]
      split: sum.splits if_splits prod.splits option.splits exn.splits storage_error.splits)

lemma enforcement_put_steps: "enforcement_put L b u enf body ct im inm = (r, b') \<Longrightarrow> store_steps L b b'"
  by (auto simp: enforcement_put_def apply_enforcement_put_def Let_def dest!: backend_steps
      split: sum.splits if_splits prod.splits)

lemma put_token_enforcement_steps:
  "put_token_enforcement L b base auth i body ct im inm = (r, b') \<Longrightarrow> store_steps L b b'"
  by (auto simp: put_token_enforcement_def Let_def dest!: enforcement_put_steps split: sum.splits)

lemma append_access_log_steps: "append_access_log L i b base auth body ct = (r, b') \<Longrightarrow> store_steps L b b'"
  by (auto simp: append_access_log_def Let_def dest!: backend_steps split: sum.splits prod.splits)

lemma create_view_steps: "create_view L lab i b base auth body ct slug = (r, b') \<Longrightarrow> store_steps L b b'"
  by (auto simp: create_view_def store_view_def Let_def dest!: write_system_steps
      split: sum.splits prod.splits option.splits)

lemma replace_view_steps: "replace_view L lab b base auth i body ct im inm = (r, b') \<Longrightarrow> store_steps L b b'"
  by (auto simp: replace_view_def store_view_def Let_def dest!: write_system_steps enforcement_put_steps
      split: sum.splits prod.splits if_splits option.splits exn.splits storage_error.splits)

lemma delete_view_steps: "delete_view L b base auth i = (r, b') \<Longrightarrow> store_steps L b b'"
  by (auto simp: delete_view_def Let_def dest!: delete_system_steps [where L = L]
      split: sum.splits prod.splits if_splits exn.splits storage_error.splits)

lemmas handler_steps = put_resource_steps post_member_steps delete_resource_steps issue_grant_steps
  write_policy_steps revoke_system_steps put_token_enforcement_steps append_access_log_steps
  create_view_steps replace_view_steps delete_view_steps

lemma storage_app_steps:
  assumes "storage_app L f st b req = (x, b')"
  shows "store_steps L b b'"
  using assms
proof (cases rule: storage_app_cases)
  case sparql
  from sparql_routes_inert [OF this(2)] show ?thesis by simp
next
  case views
  then show ?thesis
    by (auto simp: views_routes_def dest!: create_view_steps replace_view_steps delete_view_steps
        split: if_splits option.splits)
next
  case internal
  then show ?thesis by (auto simp: internal_routes_def dest!: handler_steps split: if_splits option.splits)
next
  case sys
  then show ?thesis
    by (auto simp: system_routes_def Let_def dest!: handler_steps split: if_splits option.splits)
next
  case ldp
  then show ?thesis
    by (auto simp: ldp_routes_def with_token_def Let_def dest!: handler_steps split: if_splits sum.splits)
qed simp

section \<open>The tree\<close>

text \<open>
  The file tree is well formed: a path names one node, and what is not at the top is in a
  directory. The dataset has one graph for a name.
\<close>

definition tree_ok :: "backend \<Rightarrow> bool" where
  "tree_ok b \<longleftrightarrow> distinct (map fst (files b)) \<and> distinct (map fst (contexts b))
     \<and> list_all (\<lambda>p. list_all (\<lambda>q. q = p \<or> file_at b q = Some Dir) (prefixes p)) (map fst (files b))"

lemma tree_ok_iff: "tree_ok b \<longleftrightarrow> distinct (map fst (files b)) \<and> distinct (map fst (contexts b))
   \<and> (\<forall>p q. file_at b p \<noteq> None \<and> strict_prefix q p \<longrightarrow> file_at b q = Some Dir)"
proof -
  have there: "file_at b p \<noteq> None \<and> p \<noteq> [] \<longleftrightarrow> p \<in> set (map fst (files b)) \<and> p \<noteq> []" for p
    using map_of_eq_None_iff [of "files b" p] by (auto simp: file_at_def)
  have "(\<forall>p\<in>set (map fst (files b)). \<forall>q. prefix q p \<longrightarrow> q = p \<or> file_at b q = Some Dir)
      \<longleftrightarrow> (\<forall>p q. file_at b p \<noteq> None \<and> strict_prefix q p \<longrightarrow> file_at b q = Some Dir)" (is "?l \<longleftrightarrow> ?r")
  proof
    assume l: ?l
    show ?r
    proof (intro allI impI)
      fix p q assume pq: "file_at b p \<noteq> None \<and> strict_prefix q p"
      then have "p \<noteq> []" by auto
      with pq there have "p \<in> set (map fst (files b))" by blast
      with l pq show "file_at b q = Some Dir" unfolding strict_prefix_def by blast
    qed
  next
    assume r: ?r
    show ?l
    proof (intro ballI allI impI)
      fix p q assume p: "p \<in> set (map fst (files b))" and q: "prefix q p"
      show "q = p \<or> file_at b q = Some Dir"
      proof (cases "q = p")
        case False
        with q have "strict_prefix q p" by (simp add: strict_prefix_def)
        moreover from this have "p \<noteq> []" by auto
        with p there have "file_at b p \<noteq> None" by blast
        ultimately show ?thesis using r by blast
      qed simp
    qed
  qed
  then show ?thesis by (simp only: tree_ok_def list_all_iff set_prefixes_eq Ball_def mem_Collect_eq)
qed

lemma tree_okI:
  assumes "distinct (map fst (files b))" "distinct (map fst (contexts b))"
    and "\<And>p q. file_at b p \<noteq> None \<Longrightarrow> strict_prefix q p \<Longrightarrow> file_at b q = Some Dir"
  shows "tree_ok b"
  using assms unfolding tree_ok_iff by blast

lemma mkdirs_tree:
  assumes m: "mkdirs b p = Inr b'" and t: "tree_ok b"
  shows "tree_ok b'"
proof (rule tree_okI)
  show "distinct (map fst (files b'))" using files_distinct(1) [OF m] t by (simp add: tree_ok_iff)
  show "distinct (map fst (contexts b'))" using mkdirs_fields(3) [OF m] t by (simp add: tree_ok_iff)
  fix q r assume q: "file_at b' q \<noteq> None" "strict_prefix r q"
  show "file_at b' r = Some Dir"
  proof (cases "file_at b q = None")
    case True
    with q(1) have "prefix q p" by (auto simp: file_at_mkdirs [OF m] split: if_splits)
    with q(2) have "prefix r p" by (meson prefix_order.less_imp_le prefix_order.trans)
    with mkdirs_dirs [OF m] show ?thesis by (simp add: dirs_down_to_def)
  next
    case False
    with t q(2) have "file_at b r = Some Dir" unfolding tree_ok_iff by blast
    then show ?thesis by (rule dirs_kept(1) [OF m])
  qed
qed

lemma write_bytes_tree:
  assumes w: "write_bytes b p data = Inr b'" and t: "tree_ok b" and d: "dirs_down_to b (butlast p)"
  shows "tree_ok b'"
proof (rule tree_okI)
  show "distinct (map fst (files b'))" using files_distinct(2) [OF w] t by (simp add: tree_ok_iff)
  show "distinct (map fst (contexts b'))" using write_bytes_fields(3) [OF w] t by (simp add: tree_ok_iff)
  fix q r assume q: "file_at b' q \<noteq> None" "strict_prefix r q"
  have "file_at b r = Some Dir"
  proof (cases "q = p")
    case True
    with q(2) have "prefix r (butlast p)"
      by (metis append_butlast_last_id prefix_order.less_le prefix_snoc strict_prefix_simps(1) prefix_order.less_irrefl butlast.simps(1))
    with d show ?thesis by (simp add: dirs_down_to_def)
  next
    case False
    with q(1) have "file_at b q \<noteq> None" by (simp add: file_at_write_bytes(1) [OF w])
    with t q(2) show ?thesis unfolding tree_ok_iff by blast
  qed
  then show "file_at b' r = Some Dir" by (rule dirs_kept(2) [OF w])
qed

lemma unlink_tree:
  assumes w: "unlink b p = Inr b'" and t: "tree_ok b"
  shows "tree_ok b'"
proof (rule tree_okI)
  show "distinct (map fst (files b'))" using files_distinct(3) [OF w] t by (simp add: tree_ok_iff)
  show "distinct (map fst (contexts b'))" using unlink_fields(3) [OF w] t by (simp add: tree_ok_iff)
  fix q r assume q: "file_at b' q \<noteq> None" "strict_prefix r q"
  then have "file_at b q \<noteq> None" by (simp add: file_at_unlink [OF w] split: if_splits)
  with t q(2) have "file_at b r = Some Dir" unfolding tree_ok_iff by blast
  then show "file_at b' r = Some Dir" by (rule dirs_kept(3) [OF w])
qed

lemma context_tree:
  assumes "tree_ok b" and "files b' = files b" and "distinct (map fst (contexts b'))"
  shows "tree_ok b'"
proof -
  from assms(2) have "file_at b' p = file_at b p" for p by (simp add: file_at_def)
  with assms show ?thesis unfolding tree_ok_iff by simp
qed

lemma reload_tree: "reload_context L b n p pub = (r, b') \<Longrightarrow> tree_ok b \<Longrightarrow> tree_ok b'"
  by (rule context_tree)
    (auto simp: tree_ok_iff reload_context_fields dest: reload_context_distinct)

lemma remove_context_tree: "tree_ok b \<Longrightarrow> tree_ok (remove_context b n)"
  by (rule context_tree) (auto simp: remove_context_def tree_ok_iff distinct_delete)

lemma dirs_down_to_write: "write_bytes b p data = Inr b' \<Longrightarrow> dirs_down_to b q \<Longrightarrow> dirs_down_to b' q"
  unfolding dirs_down_to_def using dirs_kept(2) by blast

lemma store_step_tree: "store_step L b b' \<Longrightarrow> tree_ok b \<Longrightarrow> tree_ok b'"
proof (induction rule: store_step.induct)
  case (doc b u g r b')
  from doc(1) show ?case
  proof (cases rule: write_system_cases)
    case (written b1 b2 t)
    note t1 = mkdirs_tree [OF written(3) doc(2)]
    from write_bytes_tree [OF written(4) t1 mkdirs_dirs [OF written(3)]] reload_tree [OF written(5)]
    show ?thesis by blast
  qed (use doc(2) mkdirs_tree in auto)
next
  case (bin b u data ct r b')
  from bin(1) show ?case
  proof (cases rule: write_binary_cases)
    case (half b1 b2)
    from write_bytes_tree [OF half(3) mkdirs_tree [OF half(2) bin(2)] mkdirs_dirs [OF half(2)]] half(4)
    show ?thesis by simp
  next
    case (written b1 b2 b3 t)
    note t1 = mkdirs_tree [OF written(4) bin(2)]
    note t2 = write_bytes_tree [OF written(5) t1 mkdirs_dirs [OF written(4)]]
    have "bin_location b u \<noteq> []" by (rule file_at_write_bytes(2) [OF written(5)])
    then have "butlast (append_name (bin_location b u) ''.meta.ttl'') = butlast (bin_location b u)"
      by (simp add: append_name_def)
    with dirs_down_to_write [OF written(5) mkdirs_dirs [OF written(4)]]
    have "dirs_down_to b2 (butlast (append_name (bin_location b u) ''.meta.ttl''))" by simp
    from reload_tree [OF written(7)] write_bytes_tree [OF written(6) t2 this] show ?thesis by blast
  qed (use bin(2) mkdirs_tree in auto)
next
  case (del b u r b')
  from del(1) show ?case
    by (cases rule: delete_system_cases)
      (use del(2) in \<open>auto intro: remove_context_tree unlink_tree\<close>)
qed

section \<open>Invariants of the store\<close>

text \<open>
  What every operation of the backend keeps, every request keeps. The client is the application: it
  relies on nothing of the invariant but that.
\<close>

locale store_invariant =
  fixes L :: libs and inv :: "backend \<Rightarrow> bool"
  assumes step_keeps: "store_step L b b' \<Longrightarrow> inv b \<Longrightarrow> inv b'"
begin

lemma steps_keep: "store_steps L b b' \<Longrightarrow> inv b \<Longrightarrow> inv b'"
  by (induction rule: rtranclp_induct) (auto intro: step_keeps)

lemma request_keeps: "storage_app L f st b req = (x, b') \<Longrightarrow> inv b \<Longrightarrow> inv b'"
  by (rule steps_keep [OF storage_app_steps])

end

interpretation tree: store_invariant L tree_ok for L
  by unfold_locales (rule store_step_tree)

interpretation config: store_invariant L "same_config b\<^sub>0" for L b\<^sub>0
  by unfold_locales
    (auto elim!: store_step.cases dest: write_system_config write_binary_config delete_system_config
      intro: same_config_trans)

text \<open>C29. The store stays well formed under every request: whatever the method, path, headers and body,
  and however the request ends, the file tree stays a tree (one node for a path, every node in a
  directory), the dataset keeps one graph for a name, and root and base URI stay as configured.\<close>

theorem app_keeps_tree:
  assumes "storage_app L f st b req = (x, b')" and "tree_ok b"
  shows "tree_ok b' \<and> storage_root b' = storage_root b \<and> backend_base b' = backend_base b"
proof -
  have "same_config b b" by (simp add: same_config_def)
  from config.request_keeps [OF assms(1) this] tree.request_keeps [OF assms] show ?thesis
    by (simp add: same_config_def)
qed

lemma app_keeps_tree_witness:
  "\<exists>r b'. storage_app sys_libs demo_fresh demo_settings sys_store log_request = (Inr r, b') \<and> b' \<noteq> sys_store
     \<and> tree_ok b'"
proof -
  obtain r b' where p: "storage_app sys_libs demo_fresh demo_settings sys_store log_request = (Inr r, b')"
    and ne: "b' \<noteq> sys_store" using log_request_writes by blast
  have "tree_ok sys_store" by code_simp
  from app_keeps_tree [OF p this] p ne show ?thesis by blast
qed

end
