(* ===== verification/Handlers.thy ===== *)
theory Handlers
  imports StoreSteps LdpTheorems
begin

text \<open>
  The writing handlers of the data plane under concurrency. The handlers are synchronous functions
  that the server runs on a pool of threads; the backend's lock is held for one backend operation at
  a time, never for a whole handler. Here a handler is the sequence of its backend operations, one
  step for each, so that the steps of several handlers can interleave. Run alone, the steps are the
  handlers of \<open>LdpRouter\<close>; interleaved, they keep the tree but not each other's updates.
\<close>

section \<open>The handlers in steps\<close>

datatype write_request =
    Put string string "string option" "string option" "string option"
  | Post string string string "string option" "string option"
  | Delete string

text \<open>
  What a handler holds between two backend operations: the graph it is about to write, the listing
  of a container it has read, the answer it will give.
\<close>

datatype phase =
    Start
  | Put_Doc graph bool
  | Put_Bin string bool
  | Post_Doc graph string graph
  | Post_Bin graph string string
  | Remove
  | Attach string response
  | Detach string response
  | Listing string graph response
  | Done outcome

definition put_checked ::
  "string option \<Rightarrow> string option \<Rightarrow> string option \<Rightarrow> bool \<Rightarrow> phase \<Rightarrow> phase" where
  "put_checked if_match if_none_match etag existed next =
     (case check_preconditions if_match if_none_match etag existed of Inl e \<Rightarrow> Done (Inl e) | Inr _ \<Rightarrow> next)"

definition put_rdf_read ::
  "libs \<Rightarrow> backend \<Rightarrow> string \<Rightarrow> string \<Rightarrow> string \<Rightarrow> string \<Rightarrow> string option \<Rightarrow> string option \<Rightarrow> phase" where
  "put_rdf_read L b base path body content_type if_match if_none_match =
     (let uri = base @ path;
          plan = (\<lambda>stored existed.
            (case parse_rdf_body L body (Some content_type) uri of Inl e \<Rightarrow> Done (Inl e)
             | Inr g0 \<Rightarrow> (case merge_container base uri stored g0 of Inl e \<Rightarrow> Done (Inl e)
               | Inr g \<Rightarrow> Put_Doc g existed)))
      in case backend_read b uri of
           Inr sg \<Rightarrow> put_checked if_match if_none_match (Some (etag_for_graph L sg)) True (plan (Some sg) True)
         | Inl (Storage ResourceNotFound) \<Rightarrow>
             put_checked if_match if_none_match None False (plan None False)
         | Inl e \<Rightarrow> Done (Inl (storage_to_http e)))"

definition put_binary_read ::
  "libs \<Rightarrow> backend \<Rightarrow> string \<Rightarrow> string \<Rightarrow> string \<Rightarrow> string option \<Rightarrow> string option \<Rightarrow> phase" where
  "put_binary_read L b base path content_type if_match if_none_match =
     (case stream_binary b (base @ path) of
        Inr chs \<Rightarrow> put_checked if_match if_none_match (Some (etag_for_stream L chs)) True
          (Put_Bin content_type True)
      | Inl (Storage NotABinaryResource) \<Rightarrow>
          put_checked if_match if_none_match None False (Put_Bin content_type False)
      | Inl (Storage ResourceNotFound) \<Rightarrow>
          put_checked if_match if_none_match None False (Put_Bin content_type False)
      | Inl e \<Rightarrow> Done (Inl e))"

definition put_read ::
  "libs \<Rightarrow> backend \<Rightarrow> string \<Rightarrow> string \<Rightarrow> string \<Rightarrow> string option \<Rightarrow> string option \<Rightarrow> string option \<Rightarrow> phase"
  where
  "put_read L b base path body content_type if_match if_none_match =
     (let ct = normalize_media_type content_type ''application/octet-stream'' in
      if ct \<in> set RDF_CONTENT_TYPES then put_rdf_read L b base path body ct if_match if_none_match
      else put_binary_read L b base path ct if_match if_none_match)"

definition post_read ::
  "libs \<Rightarrow> backend \<Rightarrow> string \<Rightarrow> string \<Rightarrow> string \<Rightarrow> string \<Rightarrow> string option \<Rightarrow> string option \<Rightarrow> phase" where
  "post_read L b base uuid path body content_type slug =
     (case backend_read b (base @ path) of Inl e \<Rightarrow> Done (Inl (storage_to_http e))
      | Inr cg \<Rightarrow>
         if container_kind cg (base @ path) = None
         then Done (Inl (HTTPException 405 None [(''Allow'', ALLOW_RDF)]))
         else
           (let ct = normalize_media_type content_type ''application/octet-stream'';
                member = mint_member_uri uuid (base @ path) slug
            in if ct \<in> set RDF_CONTENT_TYPES then
                 (case parse_rdf_body L body (Some ct) member of Inl e \<Rightarrow> Done (Inl e)
                  | Inr mg \<Rightarrow> Post_Doc cg member mg)
               else Post_Bin cg member ct))"

definition delete_read :: "backend \<Rightarrow> string \<Rightarrow> string \<Rightarrow> phase" where
  "delete_read b base path =
     (case backend_read b (base @ path) of
        Inr g \<Rightarrow>
          if container_kind g (base @ path) \<noteq> None
            \<and> g_objects g (Some (URIRef (base @ path))) LDP_contains \<noteq> []
          then Done (Inl (HTTPException 409 None [(''Link'', constrained_by_link base)]))
          else Remove
      | Inl (Storage ResourceNotFound) \<Rightarrow> Remove
      | Inl e \<Rightarrow> Done (Inl (storage_to_http e)))"

text \<open>The answer of a backend operation, and what follows when it went well.\<close>

definition after :: "(exn, 'a) result \<times> backend \<Rightarrow> phase \<Rightarrow> backend \<times> phase" where
  "after x next = (case x of (Inl e, b') \<Rightarrow> (b', Done (Inl (storage_to_http e))) | (Inr _, b') \<Rightarrow> (b', next))"

definition post_link :: "graph \<Rightarrow> string \<Rightarrow> string \<Rightarrow> string \<Rightarrow> string \<Rightarrow> string \<Rightarrow> phase" where
  "post_link cg container member etag link allow =
     Listing container (g_add cg (URIRef container, LDP_contains, URIRef member))
       (plain_response 201 [(''Location'', member), (''ETag'', etag), (''Link'', link), (''Allow'', allow)])"

definition attach_read :: "backend \<Rightarrow> string \<Rightarrow> string \<Rightarrow> response \<Rightarrow> phase" where
  "attach_read b base uri reply =
     (let parent = parent_container_uri uri base in
      if parent = uri then Done (Inr reply)
      else (case backend_read b parent of
         Inl (Storage ResourceNotFound) \<Rightarrow> Done (Inr reply)
       | Inl e \<Rightarrow> Done (Inl (storage_to_http e))
       | Inr pg \<Rightarrow>
           if container_kind pg parent = None then Done (Inr reply)
           else Listing parent (g_add pg (URIRef parent, LDP_contains, URIRef uri)) reply))"

definition detach_read :: "backend \<Rightarrow> string \<Rightarrow> string \<Rightarrow> response \<Rightarrow> phase" where
  "detach_read b base uri reply =
     (let parent = parent_container_uri uri base in
      if parent = uri then Done (Inr reply)
      else (case backend_read b parent of
         Inl (Storage ResourceNotFound) \<Rightarrow> Done (Inr reply)
       | Inl e \<Rightarrow> Done (Inl (storage_to_http e))
       | Inr pg \<Rightarrow>
           Listing parent (g_remove pg (Some (URIRef parent)) (Some LDP_contains) (Some (URIRef uri))) reply))"

primrec request_uri :: "string \<Rightarrow> write_request \<Rightarrow> string" where
  "request_uri base (Put path body ct im inm) = base @ path"
| "request_uri base (Post uuid path body ct slug) = base @ path"
| "request_uri base (Delete path) = base @ path"

primrec request_body :: "write_request \<Rightarrow> string" where
  "request_body (Put path body ct im inm) = body"
| "request_body (Post uuid path body ct slug) = body"
| "request_body (Delete path) = []"

primrec start_step :: "libs \<Rightarrow> string \<Rightarrow> backend \<Rightarrow> write_request \<Rightarrow> phase" where
  "start_step L base b (Put path body ct im inm) = put_read L b base path body ct im inm"
| "start_step L base b (Post uuid path body ct slug) = post_read L b base uuid path body ct slug"
| "start_step L base b (Delete path) = delete_read b base path"

text \<open>One step holds the lock once.\<close>

primrec handler_step :: "libs \<Rightarrow> string \<Rightarrow> write_request \<Rightarrow> backend \<Rightarrow> phase \<Rightarrow> backend \<times> phase" where
  "handler_step L base req b Start = (b, start_step L base b req)"
| "handler_step L base req b (Put_Doc g existed) =
     (let uri = request_uri base req; reply = put_response existed (etag_for_graph L g) uri RDF_LINK ALLOW_RDF
      in after (backend_write L b uri g) (if existed then Done (Inr reply) else Attach uri reply))"
| "handler_step L base req b (Put_Bin ct existed) =
     (let uri = request_uri base req;
          reply = put_response existed (etag_for_binary L (request_body req)) uri (binary_link uri) ALLOW_BINARY
      in after (write_binary L b uri (request_body req) ct)
           (if existed then Done (Inr reply) else Attach uri reply))"
| "handler_step L base req b (Post_Doc cg member mg) =
     after (backend_write L b member mg)
       (post_link cg (request_uri base req) member (etag_for_graph L mg) RDF_LINK ALLOW_RDF)"
| "handler_step L base req b (Post_Bin cg member ct) =
     after (write_binary L b member (request_body req) ct)
       (post_link cg (request_uri base req) member (etag_for_binary L (request_body req))
          (binary_link member) ALLOW_BINARY)"
| "handler_step L base req b Remove =
     after (backend_delete b (request_uri base req)) (Detach (request_uri base req) (plain_response 204 []))"
| "handler_step L base req b (Attach uri reply) = (b, attach_read b base uri reply)"
| "handler_step L base req b (Detach uri reply) = (b, detach_read b base uri reply)"
| "handler_step L base req b (Listing uri g reply) = after (backend_write L b uri g) (Done (Inr reply))"
| "handler_step L base req b (Done r) = (b, Done r)"

text \<open>One handler run alone, for a number of steps.\<close>

primrec handler_run :: "nat \<Rightarrow> libs \<Rightarrow> string \<Rightarrow> write_request \<Rightarrow> backend \<Rightarrow> phase \<Rightarrow> backend \<times> phase" where
  "handler_run 0 L base req b ph = (b, ph)"
| "handler_run (Suc n) L base req b ph =
     (case handler_step L base req b ph of (b', ph') \<Rightarrow> handler_run n L base req b' ph')"

primrec sequential :: "libs \<Rightarrow> string \<Rightarrow> backend \<Rightarrow> write_request \<Rightarrow> outcome \<times> backend" where
  "sequential L base b (Put path body ct im inm) = put_resource L b base path body ct im inm"
| "sequential L base b (Post uuid path body ct slug) = post_member L uuid b base path body ct slug"
| "sequential L base b (Delete path) = delete_resource L b base path"

section \<open>Alone, the steps are the handler\<close>

lemma handler_run_done [simp]: "handler_run n L base req b (Done r) = (b, Done r)"
  by (induction n) auto

lemma after_simps [simp]:
  "after (Inr x, b') next = (b', next)" "after (Inl e, b') next = (b', Done (Inl (storage_to_http e)))"
  by (simp_all add: after_def)

lemma handler_run_listing:
  "handler_run (Suc n) L base req b (Listing u g reply) = (case backend_write L b u g of
     (Inl e, b') \<Rightarrow> (b', Done (Inl (storage_to_http e))) | (Inr _, b') \<Rightarrow> (b', Done (Inr reply)))"
  by (auto simp: after_def split: prod.splits sum.splits)

text \<open>Two steps attach a member to its container, or detach it.\<close>

lemma handler_run_attach:
  "handler_run (Suc (Suc n)) L base req b (Attach u reply) = (case attach_to_parent L b base u of
     (Inl e, b') \<Rightarrow> (b', Done (Inl e)) | (Inr _, b') \<Rightarrow> (b', Done (Inr reply)))"
  by (cases rule: backend_read_cases [of b "parent_container_uri u base"])
    (auto simp: attach_read_def attach_to_parent_def after_def Let_def split: prod.splits sum.splits)

lemma handler_run_detach:
  "handler_run (Suc (Suc n)) L base req b (Detach u reply) = (case detach_from_parent L b base u of
     (Inl e, b') \<Rightarrow> (b', Done (Inl e)) | (Inr _, b') \<Rightarrow> (b', Done (Inr reply)))"
  by (cases rule: backend_read_cases [of b "parent_container_uri u base"])
    (auto simp: detach_read_def detach_from_parent_def after_def Let_def split: prod.splits sum.splits)

abbreviation finished :: "outcome \<times> backend \<Rightarrow> backend \<times> phase" where
  "finished x \<equiv> (snd x, Done (fst x))"

lemma put_doc_run:
  "handler_run (Suc (Suc (Suc n))) L base (Put path body ct im inm) b (Put_Doc g existed) =
    (case backend_write L b (base @ path) g of
       (Inl e, b1) \<Rightarrow> (b1, Done (Inl (storage_to_http e)))
     | (Inr _, b1) \<Rightarrow>
         (case (if existed then (Inr (), b1) else attach_to_parent L b1 base (base @ path)) of
            (Inl e, b2) \<Rightarrow> (b2, Done (Inl e))
          | (Inr _, b2) \<Rightarrow>
              (b2, Done (Inr (put_response existed (etag_for_graph L g) (base @ path) RDF_LINK ALLOW_RDF)))))"
  by (subst handler_run.simps)
    (auto simp: Let_def handler_run_attach simp del: handler_run.simps split: prod.splits sum.splits)

lemma put_bin_run:
  "handler_run (Suc (Suc (Suc n))) L base (Put path body ct im inm) b (Put_Bin t existed) =
    (case write_binary L b (base @ path) body t of
       (Inl e, b1) \<Rightarrow> (b1, Done (Inl (storage_to_http e)))
     | (Inr _, b1) \<Rightarrow>
         (case (if existed then (Inr (), b1) else attach_to_parent L b1 base (base @ path)) of
            (Inl e, b2) \<Rightarrow> (b2, Done (Inl e))
          | (Inr _, b2) \<Rightarrow>
              (b2, Done (Inr (put_response existed (etag_for_binary L body) (base @ path)
                 (binary_link (base @ path)) ALLOW_BINARY)))))"
  by (subst handler_run.simps)
    (auto simp: Let_def handler_run_attach simp del: handler_run.simps split: prod.splits sum.splits)

lemma handler_run_start:
  "handler_run (Suc n) L base req b Start = handler_run n L base req b (start_step L base b req)"
  by simp

lemma run_put:
  "handler_run (Suc (Suc (Suc (Suc n)))) L base (Put path body ct im inm) b Start
     = finished (put_resource L b base path body ct im inm)"
proof (cases "normalize_media_type ct ''application/octet-stream'' \<in> set RDF_CONTENT_TYPES")
  case True
  then show ?thesis
    by (cases rule: backend_read_cases [of b "base @ path"])
      (auto simp: handler_run_start put_read_def put_resource_def put_rdf_read_def put_rdf_resource_def
        put_checked_def put_doc_run Let_def simp del: handler_run.simps split: sum.splits prod.splits)
next
  case False
  then show ?thesis
    using stream_binary_errors [of b "base @ path"]
    by (cases "stream_binary b (base @ path)")
      (auto simp: handler_run_start put_read_def put_resource_def put_binary_read_def put_binary_resource_def
        put_checked_def put_bin_run Let_def simp del: handler_run.simps split: sum.splits prod.splits)
qed

lemma run_post:
  "handler_run (Suc (Suc (Suc (Suc n)))) L base (Post uuid path body ct slug) b Start
     = finished (post_member L uuid b base path body ct slug)"
  by (auto simp: post_read_def post_member_def post_link_def after_def Let_def
      split: sum.splits prod.splits)

lemma run_delete:
  "handler_run (Suc (Suc (Suc (Suc n)))) L base (Delete path) b Start
     = finished (delete_resource L b base path)"
  by (cases rule: backend_read_cases [of b "base @ path"])
    (auto simp: handler_run_start delete_read_def delete_resource_def after_def Let_def
      handler_run.simps(2) [of "Suc (Suc n)"] handler_run_detach simp del: handler_run.simps
      split: sum.splits prod.splits)


section \<open>Handlers interleaved\<close>

text \<open>A schedule says which handler makes the next step.\<close>

type_synonym pool = "backend \<times> (nat \<Rightarrow> phase)"

definition pool_step :: "libs \<Rightarrow> string \<Rightarrow> (nat \<Rightarrow> write_request) \<Rightarrow> nat \<Rightarrow> pool \<Rightarrow> pool" where
  "pool_step L base reqs i s = (case handler_step L base (reqs i) (fst s) (snd s i) of
     (b', ph) \<Rightarrow> (b', (snd s)(i := ph)))"

primrec pool_run :: "libs \<Rightarrow> string \<Rightarrow> (nat \<Rightarrow> write_request) \<Rightarrow> nat list \<Rightarrow> pool \<Rightarrow> pool" where
  "pool_run L base reqs [] s = s"
| "pool_run L base reqs (i # is) s = pool_run L base reqs is (pool_step L base reqs i s)"

definition all_start :: "nat \<Rightarrow> phase" where
  "all_start i = Start"

lemma handler_step_steps: "handler_step L base req b ph = (b', ph') \<Longrightarrow> store_steps L b b'"
  by (cases ph) (auto simp: after_def Let_def dest!: backend_write_steps backend_delete_steps [where L = L]
      write_binary_steps split: prod.splits sum.splits)

lemma pool_run_steps: "store_steps L (fst s) (fst (pool_run L base reqs is s))"
proof (induction "is" arbitrary: s)
  case (Cons i "is")
  have "store_steps L (fst s) (fst (pool_step L base reqs i s))"
    by (auto simp: pool_step_def dest: handler_step_steps split: prod.splits)
  with Cons.IH [of "pool_step L base reqs i s"] show ?case by simp
qed simp


text \<open>So the interleaved handlers keep what the backend operations keep, the tree for one.\<close>

context store_invariant begin

lemma pool_keeps: "inv (fst s) \<Longrightarrow> inv (fst (pool_run L base reqs is s))"
  by (rule steps_keep [OF pool_run_steps])

end

lemma pool_keeps_tree: "tree_ok (fst s) \<Longrightarrow> tree_ok (fst (pool_run L base reqs is s))"
  by (rule tree.pool_keeps)

section \<open>What interleaving loses\<close>

lemma pool_step_eq:
  "handler_step L base (reqs i) b (ps i) = (b', ph) \<Longrightarrow> pool_step L base reqs i (b, ps) = (b', ps(i := ph))"
  by (simp add: pool_step_def)

lemma put_read_doc:
  assumes "backend_read b (base @ path) = Inr sg"
    and "normalize_media_type ct ''application/octet-stream'' = t" and "t \<in> set RDF_CONTENT_TYPES"
    and "parse_rdf_body L body (Some t) (base @ path) = Inr h"
    and "merge_container base (base @ path) (Some sg) h = Inr g"
  shows "put_read L b base path body ct (Some (etag_for_graph L sg)) None = Put_Doc g True"
proof -
  have "check_preconditions (Some (etag_for_graph L sg)) None (Some (etag_for_graph L sg)) True = Inr ()"
    by (simp add: check_preconditions_def)
  then show ?thesis using assms by (simp add: put_read_def put_rdf_read_def put_checked_def Let_def)
qed

text \<open>C4. No lock spans the check and the write of a \<open>PUT\<close>: when two clients replace the same version of
  a document, both naming its entity tag in \<open>If-Match\<close>, and the two checks come before the two writes, both
  are answered 200 and the first one's update is lost without trace; had the second run after the first, it
  would have been refused with 412.\<close>

theorem concurrent_puts_lose_update:
  fixes base path ct
  defines "u \<equiv> base @ path" and "t \<equiv> normalize_media_type ct ''application/octet-stream''"
  assumes "backend_read b u = Inr sg" and "t \<in> set RDF_CONTENT_TYPES"
    and "reqs 0 = Put path body0 ct (Some (etag_for_graph L sg)) None"
    and "reqs 1 = Put path body1 ct (Some (etag_for_graph L sg)) None"
    and "parse_rdf_body L body0 (Some t) u = Inr h0" and "merge_container base u (Some sg) h0 = Inr g0"
    and "parse_rdf_body L body1 (Some t) u = Inr h1" and "merge_container base u (Some sg) h1 = Inr g1"
    and "backend_write L b u g0 = (Inr (), b0)" and "backend_write L b0 u g1 = (Inr (), b1)"
    and "turtle_roundtrip L" and "etag_invariant L"
    and "etag_for_graph L sg \<noteq> ''*''" and "etag_for_graph L g0 \<noteq> etag_for_graph L sg"
  shows "(\<exists>ps h r0 r1. pool_run L base reqs [0, 1, 0, 1] (b, all_start) = (b1, ps)
      \<and> ps 0 = Done (Inr r0) \<and> status_code r0 = 200 \<and> ps 1 = Done (Inr r1) \<and> status_code r1 = 200
      \<and> backend_read b1 u = Inr h \<and> graph_iso g1 h)
    \<and> (\<exists>ps. pool_run L base reqs [0, 0, 1, 1] (b, all_start) = (b0, ps)
      \<and> ps 1 = Done (Inl (HTTPException 412 None [])))"
proof -
  have c0: "put_read L b base path body0 ct (Some (etag_for_graph L sg)) None = Put_Doc g0 True"
    using assms by (intro put_read_doc) auto
  have c1: "put_read L b base path body1 ct (Some (etag_for_graph L sg)) None = Put_Doc g1 True"
    using assms by (intro put_read_doc) auto
  from public.read_write [OF assms(11)] obtain k0 where k0: "backend_read b0 u = Inr k0" "stored_as L u g0 k0"
    by blast
  from public.read_write [OF assms(12)] obtain k1 where k1: "backend_read b1 u = Inr k1" "stored_as L u g1 k1"
    by blast
  let ?r = "\<lambda>g. put_response True (etag_for_graph L g) u RDF_LINK ALLOW_RDF"
  note reqs = assms(5) assms(6) [unfolded One_nat_def]
  have "pool_run L base reqs [0, 1, 0, 1] (b, all_start)
      = (b1, all_start(0 := Done (Inr (?r g0)), 1 := Done (Inr (?r g1))))"
    using assms(11,12) by (auto simp: pool_step_def all_start_def c0 c1 reqs u_def fun_upd_twist)
  moreover have "graph_iso g1 k1" by (rule stored_as_iso [OF k1(2) assms(13)])
  ultimately have "\<exists>ps h r0 r1. pool_run L base reqs [0, 1, 0, 1] (b, all_start) = (b1, ps)
      \<and> ps 0 = Done (Inr r0) \<and> status_code r0 = 200 \<and> ps 1 = Done (Inr r1) \<and> status_code r1 = 200
      \<and> backend_read b1 u = Inr h \<and> graph_iso g1 h"
    using k1(1) by (auto simp: put_response_def plain_response_def)
  moreover have "etag_for_graph L k0 = etag_for_graph L g0"
    by (rule etag_for_graph_iso [OF assms(14) stored_as_iso [OF k0(2) assms(13)]])
  with k0(1) assms(15,16) have "put_read L b0 base path body1 ct (Some (etag_for_graph L sg)) None
      = Done (Inl (HTTPException 412 None []))"
    using assms(4) by (simp add: put_read_def put_rdf_read_def put_checked_def check_preconditions_def
        u_def t_def Let_def)
  then have "pool_run L base reqs [0, 0, 1, 1] (b, all_start)
      = (b0, all_start(0 := Done (Inr (?r g0)), 1 := Done (Inl (HTTPException 412 None []))))"
    using assms(11) by (auto simp: pool_step_def all_start_def c0 reqs u_def)
  ultimately show ?thesis by auto
qed


text \<open>Two members with minted names are apart.\<close>

lemma minted_apart:
  assumes P: "container_path P" and w: "w \<noteq> []" "\<forall>c\<in>set w. slug_allowed c"
    and v: "v \<noteq> []" "\<forall>c\<in>set v. slug_allowed c" and ne: "v \<noteq> w"
  shows "apart b (backend_base b @ P @ w) (backend_base b @ P @ v)"
proof -
  have "\<not> slug_allowed CHR ''.''" by (simp add: slug_allowed_def is_ascii_lower_def is_digit_def ord_of_def)
  with w(2) v(2) have dot: "CHR ''.'' \<notin> set w" "CHR ''.'' \<notin> set v" by blast+
  then have "w \<noteq> v @ ''.ttl''" "v \<noteq> w @ ''.meta''" by auto
  moreover from this(2) have "v @ ''.ttl'' \<noteq> (w @ ''.meta'') @ ''.ttl''" by (simp only: append_same_eq not_False_eq_True)
  ultimately show ?thesis
    unfolding apart_def location_simps [OF P slug_name_plain [OF w]] location_simps [OF P slug_name_plain [OF v]]
    using ne by (auto simp: prefix_def)
qed

lemma post_read_doc:
  assumes "backend_read b (base @ path) = Inr cg" and "container_kind cg (base @ path) \<noteq> None"
    and "normalize_media_type ct ''application/octet-stream'' = t" and "t \<in> set RDF_CONTENT_TYPES"
    and "parse_rdf_body L body (Some t) (mint_member_uri uuid (base @ path) slug) = Inr g"
  shows "post_read L b base uuid path body ct slug = Post_Doc cg (mint_member_uri uuid (base @ path) slug) g"
  using assms by (simp add: post_read_def Let_def)

text \<open>C20. Nor does a lock span the reading and the writing of a container's listing: when two members are
  posted to one container, and both handlers have read the listing before either writes it, both are
  answered 201, but the container lists only the second member; the first is stored and in no listing.\<close>

theorem concurrent_posts_lose_member:
  fixes P uuid0 uuid1 slug0 slug1 ct
  defines "t \<equiv> normalize_media_type ct ''application/octet-stream''"
  assumes "base = backend_base b" and "container_path P" and "t \<in> set RDF_CONTENT_TYPES"
    and "backend_read b (base @ P) = Inr cg" and "container_kind cg (base @ P) \<noteq> None"
    and "reqs 0 = Post uuid0 P body0 ct slug0" and "reqs 1 = Post uuid1 P body1 ct slug1"
    and "\<forall>c\<in>set uuid0. slug_allowed c" and "8 \<le> length uuid0"
    and "\<forall>c\<in>set uuid1. slug_allowed c" and "8 \<le> length uuid1"
    and "mint_member_uri uuid0 (base @ P) slug0 = m0" and "mint_member_uri uuid1 (base @ P) slug1 = m1"
    and "m0 \<noteq> m1" and "(URIRef (base @ P), LDP_contains, URIRef m0) \<notin> set cg"
    and "parse_rdf_body L body0 (Some t) m0 = Inr g0" and "parse_rdf_body L body1 (Some t) m1 = Inr g1"
    and "backend_write L b m0 g0 = (Inr (), b1)"
    and "backend_write L b1 (base @ P) (g_add cg (URIRef (base @ P), LDP_contains, URIRef m0)) = (Inr (), b2)"
    and "backend_write L b2 m1 g1 = (Inr (), b3)"
    and "backend_write L b3 (base @ P) (g_add cg (URIRef (base @ P), LDP_contains, URIRef m1)) = (Inr (), b4)"
    and "turtle_roundtrip L"
  shows "\<exists>ps r0 r1 h k. pool_run L base reqs [0, 1, 0, 0, 1, 1] (b, all_start) = (b4, ps)
    \<and> ps 0 = Done (Inr r0) \<and> status_code r0 = 201 \<and> map_of (headers r0) ''Location'' = Some m0
    \<and> ps 1 = Done (Inr r1) \<and> status_code r1 = 201 \<and> map_of (headers r1) ''Location'' = Some m1
    \<and> backend_read b4 m0 = Inr k \<and> backend_read b4 (base @ P) = Inr h
    \<and> (URIRef (base @ P), LDP_contains, URIRef m0) \<notin> set h
    \<and> (URIRef (base @ P), LDP_contains, URIRef m1) \<in> set h"
proof -
  let ?C = "base @ P"
  note names = assms(13) assms(14)
  note reqs = assms(7) assms(8) [unfolded One_nat_def]
  have read0: "post_read L b base uuid0 P body0 ct slug0 = Post_Doc cg m0 g0"
    using post_read_doc [OF assms(5,6), of ct t L body0 uuid0 slug0 g0] assms(4,17) names t_def by simp
  have read1: "post_read L b base uuid1 P body1 ct slug1 = Post_Doc cg m1 g1"
    using post_read_doc [OF assms(5,6), of ct t L body1 uuid1 slug1 g1] assms(4,18) names t_def by simp
  let ?r = "\<lambda>m g. plain_response 201 [(''Location'', m), (''ETag'', etag_for_graph L g),
      (''Link'', RDF_LINK), (''Allow'', ALLOW_RDF)]"
  have run: "pool_run L base reqs [0, 1, 0, 0, 1, 1] (b, all_start)
      = (b4, all_start(0 := Done (Inr (?r m0 g0)), 1 := Done (Inr (?r m1 g1))))"
    using assms(19-22) by (auto simp: pool_step_def all_start_def read0 read1 reqs post_link_def fun_upd_twist)
  obtain w0 where w0: "m0 = ?C @ w0" "w0 \<noteq> []" "\<forall>c\<in>set w0. slug_allowed c"
    using minted_name [OF assms(9,10), of ?C slug0] names by metis
  obtain w1 where w1: "m1 = ?C @ w1" "w1 \<noteq> []" "\<forall>c\<in>set w1. slug_allowed c"
    using minted_name [OF assms(11,12), of ?C slug1] names by metis
  have cfg: "same_config b b1" "same_config b b2" "same_config b b3"
    using backend_write_config [OF assms(19)] backend_write_config [OF assms(20)] backend_write_config [OF assms(21)]
    by (auto intro: same_config_trans)
  have ap: "apart b ?C m0" "apart b m1 m0"
    using apart_member(2) [OF assms(3) slug_name_plain [OF w0(2,3)], of b] w0(1)
      minted_apart [OF assms(3) w1(2,3) w0(2,3), of b] w1(1) assms(2,15) by auto
  from public.read_write [OF assms(19)] obtain k where k: "backend_read b1 m0 = Inr k" by blast
  have "backend_read b4 m0 = Inr k"
    using k public.read_write_separate [OF assms(20), of m0] public.read_write_separate [OF assms(21), of m0]
      public.read_write_separate [OF assms(22), of m0] ap
    by (simp add: apart_config [OF cfg(1)] apart_config [OF cfg(2)] apart_config [OF cfg(3)])
  moreover from public.read_write [OF assms(22)] obtain h where h: "backend_read b4 ?C = Inr h"
    "stored_as L ?C (g_add cg (URIRef ?C, LDP_contains, URIRef m1)) h" by blast
  moreover have "(URIRef ?C, LDP_contains, URIRef m) \<in> set h \<longleftrightarrow>
      (URIRef ?C, LDP_contains, URIRef m) \<in> set cg \<or> m = m1" for m
    using stored_as_ground [OF h(2) assms(23)] by (auto simp: LDP_def)
  ultimately show ?thesis unfolding run using assms(15,16) by (auto simp: plain_response_def)
qed

section \<open>Two runs\<close>

definition twice :: "write_request \<Rightarrow> write_request \<Rightarrow> nat \<Rightarrow> write_request" where
  "twice r s i = (if i = 0 then r else s)"

lemma ok_unit: "is_ok (fst p) \<Longrightarrow> \<exists>b. p = (Inr (), b)"
  by (cases p; cases "fst p") auto

lemma concurrent_puts_lose_update_witness:
  "\<exists>reqs b1 ps r0 r1. pool_run demo_libs ''b:/'' reqs [0, 1, 0, 1] (demo_store, all_start) = (b1, ps)
     \<and> ps 0 = Done (Inr r0) \<and> status_code r0 = 200 \<and> ps 1 = Done (Inr r1) \<and> status_code r1 = 200"
proof -
  let ?t = "Some ''text/turtle''"
  let ?e = "etag_for_graph demo_libs demo_doc_graph"
  let ?reqs = "twice (Put ''c/m'' ''e'' ?t (Some ?e) None) (Put ''c/m'' ''d'' ?t (Some ?e) None)"
  let ?u = "''b:/'' @ ''c/m''"
  have reqs: "?reqs 0 = Put ''c/m'' ''e'' ?t (Some ?e) None" "?reqs 1 = Put ''c/m'' ''d'' ?t (Some ?e) None"
    by (simp_all add: twice_def)
  have ct: "normalize_media_type ?t ''application/octet-stream'' = ''text/turtle''"
    "''text/turtle'' \<in> set RDF_CONTENT_TYPES" by code_simp+
  have r: "backend_read demo_store ?u = Inr demo_doc_graph" by code_simp
  have p: "parse_rdf_body demo_libs ''e'' ?t ?u = Inr demo_doc2_graph"
    "parse_rdf_body demo_libs ''d'' ?t ?u = Inr demo_doc_graph" by code_simp+
  have m: "merge_container ''b:/'' ?u (Some demo_doc_graph) demo_doc2_graph = Inr demo_doc2_graph"
    "merge_container ''b:/'' ?u (Some demo_doc_graph) demo_doc_graph = Inr demo_doc_graph" by code_simp+
  have "is_ok (fst (backend_write demo_libs demo_store ?u demo_doc2_graph))" by code_simp
  then obtain b0 where b0: "backend_write demo_libs demo_store ?u demo_doc2_graph = (Inr (), b0)"
    using ok_unit by blast
  have "is_ok (fst (backend_write demo_libs (snd (backend_write demo_libs demo_store ?u demo_doc2_graph))
      ?u demo_doc_graph))" by code_simp
  then obtain b1 where b1: "backend_write demo_libs b0 ?u demo_doc_graph = (Inr (), b1)"
    using ok_unit unfolding b0 by fastforce
  have e: "?e \<noteq> ''*''" "etag_for_graph demo_libs demo_doc2_graph \<noteq> ?e" by code_simp+
  from concurrent_puts_lose_update [of demo_store "''b:/''" "''c/m''" demo_doc_graph ?t ?reqs "''e''" demo_libs
      "''d''", unfolded ct(1), OF r ct(2) reqs p(1) m(1) p(2) m(2) b0 b1 demo_libs_laws e]
  show ?thesis by blast
qed

text \<open>Two posts, with the slugs \<open>X!\<close> and \<open>Y\<close>.\<close>

definition post_libs :: libs where
  "post_libs = table_libs [(demo_c_graph, ''c''), (demo_doc_graph, ''d''),
     (g_add demo_c_graph (URIRef ''b:/c/'', LDP_contains, URIRef ''b:/c/x-01234567''), ''x''),
     (g_add demo_c_graph (URIRef ''b:/c/'', LDP_contains, URIRef ''b:/c/y-89abcdef''), ''y'')]"

lemma post_libs_roundtrip: "turtle_roundtrip post_libs"
  unfolding post_libs_def by (rule turtle_roundtrip_table) code_simp

lemma concurrent_posts_lose_member_witness:
  "\<exists>reqs b' ps k h. pool_run post_libs ''b:/'' reqs [0, 1, 0, 0, 1, 1] (demo_store, all_start) = (b', ps)
     \<and> backend_read b' ''b:/c/x-01234567'' = Inr k \<and> backend_read b' ''b:/c/'' = Inr h
     \<and> (URIRef ''b:/c/'', LDP_contains, URIRef ''b:/c/x-01234567'') \<notin> set h"
proof -
  let ?t = "Some ''text/turtle''"
  let ?C = "''b:/'' @ ''c/''"
  let ?i = "''0123456789''" and ?j = "''89abcdef''" and ?s = "Some ''X!''" and ?q = "Some ''Y''"
  let ?m = "''b:/c/x-01234567''" and ?n = "''b:/c/y-89abcdef''"
  let ?l = "\<lambda>m. g_add demo_c_graph (URIRef ?C, LDP_contains, URIRef m)"
  let ?reqs = "twice (Post ?i ''c/'' ''d'' ?t ?s) (Post ?j ''c/'' ''d'' ?t ?q)"
  have ct: "normalize_media_type ?t ''application/octet-stream'' = ''text/turtle''"
    "''text/turtle'' \<in> set RDF_CONTENT_TYPES" by code_simp+
  have reqs: "?reqs 0 = Post ?i ''c/'' ''d'' ?t ?s" "?reqs 1 = Post ?j ''c/'' ''d'' ?t ?q"
    and c: "container_path ''c/''" by (simp_all add: twice_def container_path_def)
  have base: "''b:/'' = backend_base demo_store" by (simp add: demo_store_def)
  have r: "backend_read demo_store ?C = Inr demo_c_graph" "container_kind demo_c_graph ?C \<noteq> None"
    by code_simp+
  have ids: "\<forall>c\<in>set ?i. slug_allowed c" "8 \<le> length ?i" "\<forall>c\<in>set ?j. slug_allowed c" "8 \<le> length ?j"
    by code_simp+
  have m: "mint_member_uri ?i ?C ?s = ?m" "mint_member_uri ?j ?C ?q = ?n" by code_simp+
  have ne: "?m \<noteq> ?n" "(URIRef ?C, LDP_contains, URIRef ?m) \<notin> set demo_c_graph" by code_simp+
  have p: "parse_rdf_body post_libs ''d'' ?t ?m = Inr demo_doc_graph"
    "parse_rdf_body post_libs ''d'' ?t ?n = Inr demo_doc_graph" by code_simp+
  let ?w1 = "backend_write post_libs demo_store ?m demo_doc_graph"
  let ?w2 = "backend_write post_libs (snd ?w1) ?C (?l ?m)"
  let ?w3 = "backend_write post_libs (snd ?w2) ?n demo_doc_graph"
  have ok: "is_ok (fst ?w1)" "is_ok (fst ?w2)" "is_ok (fst ?w3)"
    "is_ok (fst (backend_write post_libs (snd ?w3) ?C (?l ?n)))" by code_simp+
  obtain b1 where b1: "?w1 = (Inr (), b1)" using ok_unit [OF ok(1)] by blast
  obtain b2 where b2: "backend_write post_libs b1 ?C (?l ?m) = (Inr (), b2)"
    using ok_unit [OF ok(2)] unfolding b1 by auto
  obtain b3 where b3: "backend_write post_libs b2 ?n demo_doc_graph = (Inr (), b3)"
    using ok_unit [OF ok(3)] unfolding b1 snd_conv b2 by auto
  obtain b4 where b4: "backend_write post_libs b3 ?C (?l ?n) = (Inr (), b4)"
    using ok_unit [OF ok(4)] unfolding b1 snd_conv b2 b3 by auto
  from concurrent_posts_lose_member [of "''b:/''" demo_store "''c/''" ?t demo_c_graph ?reqs ?i "''d''" ?s ?j
      "''d''" ?q, unfolded ct(1), OF base c ct(2) r reqs ids m ne p b1 b2 b3 b4 post_libs_roundtrip]
  show ?thesis unfolding append.simps by blast
qed

end
