(* ===== verification/Bypass.thy ===== *)
theory Bypass
  imports LdpTheorems Documents
begin

text \<open>
  The limits of the guard of reserved names: it looks at the first segment of the URI as it is
  written, the file a URI is kept in is found after dot segments are resolved.
\<close>

lemma path_segments_dots:
  assumes "plain_segment a"
  shows "path_segments (a @ ''/../'' @ s) = a # ''..'' # path_segments s"
proof -
  have a: "path_segments a = [a]"
    using assms by (intro path_segments_name) (auto simp: plain_segment_def)
  have "path_segments (a @ ''/'' @ ''..'' @ ''/'' @ s) = path_segments a @ path_segments ''..'' @ path_segments s"
    unfolding path_segments_slash ..
  then show ?thesis using a by (simp add: path_segments_name)
qed

lemma dots_location:
  assumes "plain_segment a" and "s \<noteq> []" and "\<not> startswith s ''/''"
  shows "rdf_location b (backend_base b @ a @ ''/../'' @ s) = rdf_location b (backend_base b @ s)"
proof -
  have "\<not> startswith (a @ ''/../'' @ s @ ''.ttl'') ''/''"
    using assms(1) by (cases a) (auto simp: plain_segment_def startswith_def)
  moreover have "\<not> startswith (s @ ''.ttl'') ''/''" using assms(2,3) by (cases s) (auto simp: startswith_def)
  moreover have "a \<noteq> ''..''" using assms(1) by (auto simp: plain_segment_def)
  moreover have "resolve_from acc (a # ''..'' # p) = resolve_from acc p" if "a \<noteq> ''..''" for acc p
    using that by simp
  ultimately show ?thesis
    using path_segments_dots [OF assms(1), of "s @ ''.ttl''"]
    by (simp add: rdf_location_def uri_to_rdf_path_def join_path_def resolve_def resolve_from_append
        del: resolve_from.simps)
qed

lemma first_segment_slash:
  "CHR ''/'' \<notin> set a \<Longrightarrow> first_segment (base @ a @ ''/'' @ s) base = a"
  by (simp add: first_segment_def split_on_middle split_on_none)

lemma dots_pass_guard:
  assumes "plain_segment a" and "a \<notin> set RESERVED_SEGMENTS"
  shows "assert_public_uri (base @ a @ ''/../.system/'' @ r) base = Inr ()"
  using assms first_segment_slash [of a base "''../.system/'' @ r"]
  by (simp add: assert_public_uri_def plain_segment_def)



end
