(* ===== verification/ViewProps.thy ===== *)
theory ViewProps
  imports Views SystemProps "HOL-Library.Multiset"
begin

text \<open>
  A view definition from the owner to the engine: what \<open>to_view_graph\<close> writes for a submission,
  \<open>parse_view_record\<close> reads back from the stored record, although the blank nodes of the
  parameters are relabelled and their order is not kept on the way.
\<close>

section \<open>The stored form\<close>

lemma param_type_of_name [simp]: "param_type_of (param_type_name k) = Some k"
  by (cases k) (simp_all add: param_type_of_def param_type_name_def)

definition view_head :: "libs \<Rightarrow> string \<Rightarrow> view_submission \<Rightarrow> triple set" where
  "view_head L uri sub = (let s = URIRef uri; str = typed_lit L (XSD ''string'') in
     {(s, RDF_type, POD_View), (s, DC_title, str (sub_title sub)), (s, DC_description, str (sub_description sub)),
      (s, POD_constructTemplate, str (sub_template sub)), (s, POD_contentTypeHint, str (sub_hint sub)),
      (s, POD_viewRetrievalCount, typed_lit L (XSD ''integer'') (str_of_int 0))}
     \<union> {(s, POD_maxViewRetrievals, typed_lit L (XSD ''integer'') (str_of_int n)) | n. sub_max sub = Some n})"

lemma to_view_graph_set:
  "set (to_view_graph L labels uri sub) = view_head L uri sub
     \<union> (\<Union>x\<in>set (zip labels (sub_params sub)). set (param_triples L (URIRef uri) x))"
  by (cases "sub_max sub") (auto simp: to_view_graph_def view_head_def Let_def simp del: g_adds_simps)

text \<open>The record as it is read back, under a renaming of the blank nodes.\<close>

definition relabelled :: "libs \<Rightarrow> string list \<Rightarrow> string \<Rightarrow> view_submission \<Rightarrow> (string \<Rightarrow> string) \<Rightarrow> graph \<Rightarrow> bool" where
  "relabelled L labels uri sub f h \<longleftrightarrow> inj f \<and> distinct h \<and>
     set h = rename_triple f ` set (to_view_graph L labels uri sub)"

lemma relabelled_set:
  assumes "relabelled L labels uri sub f h"
  shows "set h = view_head L uri sub
     \<union> (\<Union>x\<in>set (zip labels (sub_params sub)). set (param_triples L (URIRef uri) (f (fst x), snd x)))"
proof -
  have "ground t" if "t \<in> view_head L uri sub" for t
    using that by (auto simp: view_head_def Let_def)
  then have "rename_triple f ` view_head L uri sub = view_head L uri sub"
    by (simp add: ground_rename cong: image_cong_simp)
  moreover have "rename_triple f ` set (param_triples L (URIRef uri) x)
      = set (param_triples L (URIRef uri) (f (fst x), snd x))" for x
    by (cases x) (simp add: param_triples_def rename_triple_def POD_def)
  ultimately show ?thesis
    using assms by (simp add: relabelled_def to_view_graph_set image_Un image_UN)
qed

text \<open>Its values: those of the submission, and of each parameter under its node.\<close>

lemma relabelled_head:
  assumes r: "relabelled L labels uri sub f h" and str: "string_lexical L"
  shows "value_str h (URIRef uri) DC_title = sub_title sub"
    and "value_str h (URIRef uri) DC_description = sub_description sub"
    and "value_str h (URIRef uri) POD_constructTemplate = sub_template sub"
    and "value_str h (URIRef uri) POD_contentTypeHint = sub_hint sub"
    and "g_value h (URIRef uri) POD_maxViewRetrievals
      = map_option (\<lambda>n. typed_lit L (XSD ''integer'') (str_of_int n)) (sub_max sub)"
proof -
  note s = relabelled_set [OF r]
  have val: "value_str h (URIRef uri) p = v"
    if "\<And>w. (URIRef uri, p, w) \<in> set h \<longleftrightarrow> w = typed_lit L (XSD ''string'') v" for p v
    using g_value_is [OF that] str by (simp add: value_str_def string_lexical_def)
  show "value_str h (URIRef uri) DC_title = sub_title sub"
    by (rule val) (auto simp: s view_head_def param_triples_def Let_def)
  show "value_str h (URIRef uri) DC_description = sub_description sub"
    by (rule val) (auto simp: s view_head_def param_triples_def Let_def)
  show "value_str h (URIRef uri) POD_constructTemplate = sub_template sub"
    by (rule val) (auto simp: s view_head_def param_triples_def Let_def)
  show "value_str h (URIRef uri) POD_contentTypeHint = sub_hint sub"
    by (rule val) (auto simp: s view_head_def param_triples_def Let_def)
  show "g_value h (URIRef uri) POD_maxViewRetrievals
      = map_option (\<lambda>n. typed_lit L (XSD ''integer'') (str_of_int n)) (sub_max sub)"
  proof (cases "sub_max sub")
    case None
    then show ?thesis
      by (auto simp: g_value_None s view_head_def param_triples_def Let_def)
  next
    case (Some n)
    have "g_value h (URIRef uri) POD_maxViewRetrievals = Some (typed_lit L (XSD ''integer'') (str_of_int n))"
      by (rule g_value_is) (auto simp: s view_head_def param_triples_def Let_def Some)
    with Some show ?thesis by simp
  qed
qed

lemma relabelled_param:
  assumes r: "relabelled L labels uri sub f h" and str: "string_lexical L" and d: "distinct labels"
    and x: "(l, p) \<in> set (zip labels (sub_params sub))"
  shows "param_of_node h (BNode (f l)) = Some p"
proof -
  note s = relabelled_set [OF r]
  have keys: "distinct (map fst (zip labels (sub_params sub)))"
    by (simp add: map_fst_zip_take d distinct_take)
  have one: "f l' = f l \<Longrightarrow> p' = p" if "(l', p') \<in> set (zip labels (sub_params sub))" for l' p'
    using r eq_key_imp_eq_value [OF keys x] that unfolding relabelled_def by (auto dest: injD)
  have val: "value_str h (BNode (f l)) q = v"
    if "\<And>w. (BNode (f l), q, w) \<in> set h \<longleftrightarrow> w = typed_lit L (XSD ''string'') v" for q v
    using g_value_is [OF that] str by (simp add: value_str_def string_lexical_def)
  let ?str = "typed_lit L (XSD ''string'')"
  have key: "(BNode (f l), q, w) \<in> set h \<longleftrightarrow> (\<exists>x\<in>set (zip labels (sub_params sub)).
      (BNode (f l), q, w) \<in> set (param_triples L (URIRef uri) (f (fst x), snd x)))" for q w
    by (auto simp: s view_head_def Let_def)
  have "(BNode (f l), POD_paramName, w) \<in> set h \<longleftrightarrow> w = ?str (param_name p)" for w
  proof
    assume "(BNode (f l), POD_paramName, w) \<in> set h"
    then obtain l' p' where "(l', p') \<in> set (zip labels (sub_params sub))" "f l' = f l" "w = ?str (param_name p')"
      by (auto simp: key param_triples_def)
    with one show "w = ?str (param_name p)" by blast
  qed (use x in \<open>auto simp: key param_triples_def intro!: bexI [of _ "(l, p)"]\<close>)
  then have "value_str h (BNode (f l)) POD_paramName = param_name p" by (rule val)
  moreover have "(BNode (f l), POD_paramType, w) \<in> set h \<longleftrightarrow> w = ?str (param_type_name (param_kind p))" for w
  proof
    assume "(BNode (f l), POD_paramType, w) \<in> set h"
    then obtain l' p' where "(l', p') \<in> set (zip labels (sub_params sub))" "f l' = f l"
      "w = ?str (param_type_name (param_kind p'))" by (auto simp: key param_triples_def)
    with one show "w = ?str (param_type_name (param_kind p))" by blast
  qed (use x in \<open>auto simp: key param_triples_def intro!: bexI [of _ "(l, p)"]\<close>)
  then have "value_str h (BNode (f l)) POD_paramType = param_type_name (param_kind p)" by (rule val)
  ultimately show ?thesis by (simp add: param_of_node_def)
qed

text \<open>The parameter nodes, each once and with its declaration, in some order.\<close>

lemma params_of_nodes_map:
  "list_all (\<lambda>n. param_of_node g n = Some (dec n)) ns \<Longrightarrow> params_of_nodes g ns = Some (map dec ns)"
  by (induction ns) auto

lemma relabelled_params:
  assumes r: "relabelled L labels uri sub f h" and str: "string_lexical L" and d: "distinct labels"
    and len: "length (sub_params sub) \<le> length labels"
  shows "\<exists>ps. params_of_nodes h (g_objects h (Some (URIRef uri)) POD_parameter) = Some ps
    \<and> mset ps = mset (sub_params sub)"
proof -
  let ?ns = "g_objects h (Some (URIRef uri)) POD_parameter"
  let ?zip = "zip labels (sub_params sub)"
  let ?node = "\<lambda>x. BNode (f (fst x))"
  let ?dec = "\<lambda>n. the (param_of_node h n)"
  note s = relabelled_set [OF r]
  have ns: "set ?ns = set (map ?node ?zip)"
    by (auto simp: s view_head_def param_triples_def Let_def) (metis fst_conv)
  have "inj f" "distinct h" using r by (simp_all add: relabelled_def)
  have "distinct (map fst ?zip)" by (simp add: map_fst_zip_take d distinct_take)
  then have "distinct (map ?node ?zip)"
    using \<open>inj f\<close> by (auto simp: distinct_map inj_on_def dest: injD)
  moreover have "distinct ?ns"
    using \<open>distinct h\<close> by (auto simp: g_objects_def distinct_map inj_on_def pat_match_def)
  ultimately have same: "mset ?ns = mset (map ?node ?zip)"
    using ns by (simp only: set_eq_iff_mset_eq_distinct)
  have dec: "param_of_node h (?node x) = Some (snd x)" if "x \<in> set ?zip" for x
    using relabelled_param [OF r str d, of "fst x" "snd x"] that by simp
  have "list_all (\<lambda>n. param_of_node h n = Some (?dec n)) ?ns"
    unfolding list_all_iff ns using dec by auto
  note all = params_of_nodes_map [OF this]
  have "mset (map ?dec ?ns) = image_mset ?dec (mset (map ?node ?zip))"
    unfolding mset_map same ..
  also have "\<dots> = mset (map ?dec (map ?node ?zip))" by (simp only: mset_map)
  also have "map ?dec (map ?node ?zip) = map snd ?zip" using dec by simp
  also have "map snd ?zip = sub_params sub" using len by (simp add: map_snd_zip_take)
  finally show ?thesis using all by blast
qed

section \<open>From the owner to the engine\<close>

lemma store_view_relabelled:
  assumes s: "store_view L labels b st uri sub = (Inr r, b')" and rt: "turtle_roundtrip L"
  shows "\<exists>f h. backend_read b' uri = Inr h \<and> relabelled L labels uri sub f h"
proof -
  from s obtain x where w: "write_system L b uri (to_view_graph L labels uri sub) = (Inr x, b')"
    by (auto simp: store_view_def Let_def split: sum.splits prod.splits option.splits)
  from write_system_ok [OF w] obtain h where h: "backend_read b' uri = Inr h"
    "stored_as L uri (to_view_graph L labels uri sub) h" by blast
  have "distinct h" using h(2) by (auto simp: stored_as_def)
  with stored_as_iso [OF h(2) rt] h(1) show ?thesis
    unfolding relabelled_def graph_iso_def by blast
qed

text \<open>C31. Round trip of a view: what the owner submits is what the engine serves. After a successful
  create, the stored record reads back as the view of that URI, with the title, description,
  template and content type of the submission and exactly its parameter declarations (in some
  order, with new node labels), and with its limit on retrievals and no other.\<close>

theorem created_view_reads_back:
  assumes "create_view L labels fresh b base auth body ct slug = (Inr r, b')"
    and "submission_or_422 L body ct (make_system_ns base @ ''views/'') = Inr sub"
    and "distinct labels" and "length (sub_params sub) \<le> length labels"
    and "turtle_roundtrip L" and "string_lexical L"
  shows "\<exists>uri h v. map_of (headers r) ''Location'' = Some uri \<and> backend_read b' uri = Inr h
    \<and> parse_view_record h uri = Inr v \<and> view_uri v = uri
    \<and> view_title v = sub_title sub \<and> view_description v = sub_description sub
    \<and> construct_template v = sub_template sub \<and> content_type_hint v = sub_hint sub
    \<and> mset (params v) = mset (sub_params sub)
    \<and> g_value h (URIRef uri) POD_maxViewRetrievals
        = map_option (\<lambda>n. typed_lit L (XSD ''integer'') (str_of_int n)) (sub_max sub)"
proof -
  let ?uri = "make_system_ns base @ ''views/'' @ mint_view_id fresh slug"
  from assms(1,2) have s: "store_view L labels b 201 ?uri sub = (Inr r, b')"
    by (auto simp: create_view_def Let_def split: sum.splits)
  then have loc: "map_of (headers r) ''Location'' = Some ?uri"
    by (auto simp: store_view_def turtle_reply_def Let_def split: sum.splits prod.splits option.splits)
  from store_view_relabelled [OF s assms(5)] obtain f h where
    h: "backend_read b' ?uri = Inr h" "relabelled L labels ?uri sub f h" by blast
  from relabelled_params [OF h(2) assms(6,3,4)] obtain ps where
    ps: "params_of_nodes h (g_objects h (Some (URIRef ?uri)) POD_parameter) = Some ps"
    "mset ps = mset (sub_params sub)" by blast
  show ?thesis
    using loc h(1) ps relabelled_head [OF h(2) assms(6)] by (simp add: parse_view_record_def)
qed

section \<open>A view\<close>

text \<open>A submission with one parameter, as the body \<open>v\<close>, and what is stored of it, as \<open>w\<close>.\<close>

definition submitted_graph :: graph where
  "submitted_graph = (let s = URIRef ''b:/.system/views/'' in
     [(s, RDF_type, POD_View), (s, DC_title, Lit ''t'' None None),
      (s, POD_constructTemplate, Lit ''q ?x'' None None), (s, POD_parameter, BNode ''p''),
      (BNode ''p'', POD_paramName, Lit ''x'' None None), (BNode ''p'', POD_paramType, Lit ''int'' None None)])"

definition sample_submission :: view_submission where
  "sample_submission = \<lparr>sub_title = ''t'', sub_description = [], sub_template = ''q ?x'',
     sub_hint = ''text/turtle'', sub_params = [\<lparr>param_name = ''x'', param_kind = PInt\<rparr>], sub_max = None\<rparr>"

definition view_libs :: libs where
  "view_libs = (token_libs [(token_sample ''b:/.system/tokens/a'' ''a'' ''AdminToken'', ''a''),
     (submitted_graph, ''v''),
     (to_view_graph (table_libs []) [''l''] ''b:/.system/views/my-view'' sample_submission, ''w'')])
     \<lparr>parse_query := (\<lambda>q. Some \<lparr>query_name = ''ConstructQuery'', dataset_clause = False, has_template = True\<rparr>)\<rparr>"

lemma view_libs_laws: "turtle_roundtrip view_libs" "string_lexical view_libs"
proof -
  let ?t = "[(token_sample ''b:/.system/tokens/a'' ''a'' ''AdminToken'', ''a''), (submitted_graph, ''v''),
     (to_view_graph (table_libs []) [''l''] ''b:/.system/views/my-view'' sample_submission, ''w'')]"
  have "table_ok ?t" by (simp add: table_ok_def ord_of_def)
  from token_libs_laws(5) [OF this] show "turtle_roundtrip view_libs"
    by (simp add: turtle_roundtrip_def view_libs_def)
  show "string_lexical view_libs"
    using token_libs_laws(4) [of ?t] by (simp add: string_lexical_def view_libs_def)
qed

lemma created_view_reads_back_witness:
  "\<exists>r b' h v. create_view view_libs [''l''] ''0123'' sys_store ''b:/'' (Some ''Bearer a'') ''v'' (Some ''text/turtle'')
       (Some ''My View'') = (Inr r, b')
     \<and> backend_read b' ''b:/.system/views/my-view'' = Inr h
     \<and> parse_view_record h ''b:/.system/views/my-view'' = Inr v
     \<and> mset (params v) = {#\<lparr>param_name = ''x'', param_kind = PInt\<rparr>#}"
proof -
  let ?p = "create_view view_libs [''l''] ''0123'' sys_store ''b:/'' (Some ''Bearer a'') ''v'' (Some ''text/turtle'')
       (Some ''My View'')"
  let ?u = "''b:/.system/views/my-view''"
  let ?g = "to_view_graph view_libs [''l''] ?u sample_submission"
  have admin: "is_ok (get_admin_token view_libs sys_store (Some ''Bearer a''))" by code_simp
  have ns: "make_system_ns ''b:/'' @ ''views/'' = ''b:/.system/views/''" by code_simp
  have id: "mint_view_id ''0123'' (Some ''My View'') = ''my-view''" by code_simp
  have parsed: "parse_rdf_body view_libs ''v'' (Some ''text/turtle'') ''b:/.system/views/'' = Inr submitted_graph"
    "parse_view_submission submitted_graph = Inr sample_submission"
    "validate_construct_template view_libs (sub_template sample_submission) = Inr ()"
    "check_params_against_template view_libs (sub_template sample_submission) (sub_params sample_submission) = Inr ()"
    "sub_hint sample_submission \<in> set RDF_CONTENT_TYPES" by code_simp+
  have s: "submission_or_422 view_libs ''v'' (Some ''text/turtle'') (make_system_ns ''b:/'' @ ''views/'')
      = Inr sample_submission"
    unfolding ns submission_or_422_def using parsed by simp
  have w: "is_ok (fst (write_system view_libs sys_store ?u ?g))" "serialize_graph view_libs ''turtle'' ?g = Some ''w''"
    by code_simp+
  then obtain b' where "write_system view_libs sys_store ?u ?g = (Inr (), b')"
    by (cases "write_system view_libs sys_store ?u ?g"; cases "fst (write_system view_libs sys_store ?u ?g)") auto
  with w(2) have st: "store_view view_libs [''l''] sys_store 201 ?u sample_submission
      = (Inr (turtle_reply 201 [(''Location'', ?u)] ''w''), b')" by (simp add: store_view_def)
  obtain t where "get_admin_token view_libs sys_store (Some ''Bearer a'') = Inr t" using admin by (auto simp: is_ok_iff)
  then have p: "?p = (Inr (turtle_reply 201 [(''Location'', ?u)] ''w''), b')"
    using s st by (simp add: create_view_def Let_def ns id)
  then have loc: "map_of (headers (turtle_reply 201 [(''Location'', ?u)] ''w'')) ''Location'' = Some ?u"
    by (simp add: turtle_reply_def)
  have l: "distinct [''l'']" "length (sub_params sample_submission) \<le> length [''l'']"
    by (simp_all add: sample_submission_def)
  from created_view_reads_back [OF p s l view_libs_laws] loc p show ?thesis
    by (auto simp: sample_submission_def)
qed

end
