(* ===== verification/Divergences.thy ===== *)
theory Divergences
  imports Handlers ViewProps Apps Proxies
begin

text \<open>
  Small facts on single operations where the code does not do what a comment, a published document
  or the operation next to it says. Each is general in what it can be, or evaluates one input.
\<close>

section \<open>Preconditions and kinds of resources\<close>

text \<open>
  The published constraints say that an update of an existing resource needs \<open>If-Match\<close>. A
  \<open>PUT\<close> of a binary asks for a binary only: where a document is, it goes ahead without.
\<close>

lemma binary_put_ignores_document:
  assumes "stream_binary b (base @ path) = Inl (Storage NotABinaryResource)"
  shows "put_binary_read L b base path ct None None = Put_Bin ct False"
  using assms by (simp add: put_binary_read_def put_checked_def check_preconditions_def)

lemma document_put_ignores_binary:
  assumes "stream_binary b (base @ path) = Inr chs"
    and "backend_read b (base @ path) = Inl (Storage ResourceNotFound)"
    and "parse_rdf_body L body (Some ct) (base @ path) = Inr g" and "container_kind g (base @ path) = None"
  shows "put_rdf_read L b base path body ct None None = Put_Doc g False"
  using assms(2-4)
  by (simp add: put_rdf_read_def put_checked_def check_preconditions_def merge_container_def)

section \<open>Containers\<close>

text \<open>
  \<open>PUT\<close> drops the containment a client states; \<open>POST\<close> stores the posted member as it was
  sent, a container with members that do not exist included.
\<close>

lemma post_keeps_containment:
  assumes "post_read L b base uuid path body ct slug = Post_Doc cg member mg"
  shows "parse_rdf_body L body (Some (normalize_media_type ct ''application/octet-stream'')) member = Inr mg"
  using assms by (auto simp: post_read_def Let_def split: sum.splits if_splits)

text \<open>
  The membership triples of a direct container are dropped before it is stored. When its member
  relation is \<open>ldp:contains\<close> itself, that is its containment.
\<close>

definition direct_graph :: "triple list \<Rightarrow> graph" where
  "direct_graph ts = [(URIRef ''b:/c/'', RDF_type, LDP_DirectContainer),
     (URIRef ''b:/c/'', LDP_membershipResource, URIRef ''b:/c/''),
     (URIRef ''b:/c/'', LDP_hasMemberRelation, LDP_contains)] @ ts"

lemma put_drops_direct_containment:
  "merge_container ''b:/'' ''b:/c/'' (Some (direct_graph [(URIRef ''b:/c/'', LDP_contains, URIRef ''b:/c/m'')]))
     (direct_graph []) = Inr (direct_graph [])"
  by code_simp

text \<open>
  A container may have a URI without a trailing slash. The members minted for it are then not below
  it: their parent is the container's own parent.
\<close>

lemma slashless_container_mints_outside:
  "container_kind [(URIRef ''b:/c'', RDF_type, LDP_BasicContainer)] ''b:/c'' \<noteq> None"
  "mint_member_uri ''0123456789abcdef'' ''b:/c'' None = ''b:/c0123456789abcdef''"
  "parent_container_uri ''b:/c0123456789abcdef'' ''b:/'' = ''b:/''"
  by code_simp+

section \<open>Restart\<close>

text \<open>
  A member below a name that ends in \<open>.ttl\<close> makes a directory of that name, which the next
  start takes for a document: the server no longer starts.
\<close>

lemma ttl_directory_stops_restart:
  "is_ok (fst (put_resource demo_libs demo_store ''b:/'' ''a.ttl/m'' ''d'' (Some ''text/turtle'') None None))"
  "\<not> is_ok (backend_init demo_libs [''s''] ''b:/''
     (files (snd (put_resource demo_libs demo_store ''b:/'' ''a.ttl/m'' ''d'' (Some ''text/turtle'') None None))))"
  by code_simp+

text \<open>So does a binary of such a name that is no Turtle.\<close>

definition junk_libs :: libs where
  "junk_libs = table_libs [(demo_root_graph, ''r''), (demo_c_graph, ''c''), (demo_doc_graph, ''d''),
     (g_add demo_root_graph (URIRef ''b:/'', LDP_contains, URIRef ''b:/a.ttl''), ''x''),
     (binary_meta ''b:/a.ttl'' ''text/plain'', ''n'')]"

lemma ttl_binary_stops_restart:
  "is_ok (fst (put_resource junk_libs demo_store ''b:/'' ''a.ttl'' ''junk'' (Some ''text/plain'') None None))"
  "\<not> is_ok (backend_init junk_libs [''s''] ''b:/''
     (files (snd (put_resource junk_libs demo_store ''b:/'' ''a.ttl'' ''junk'' (Some ''text/plain'') None None))))"
  by code_simp+

section \<open>Views\<close>

text \<open>A replaced view starts its count of retrievals anew, also when the body states the count.\<close>

lemma replaced_view_restarts_count:
  assumes "relabelled L labels uri sub f h"
  shows "g_value h (URIRef uri) POD_viewRetrievalCount = Some (typed_lit L (XSD ''integer'') (str_of_int 0))"
  by (rule g_value_is) (auto simp: relabelled_set [OF assms] view_head_def param_triples_def Let_def)

text \<open>A create with the slug of another view replaces that view.\<close>

lemma repeated_slug_overwrites:
  assumes "sanitize_slug s \<noteq> []"
  shows "mint_view_id fresh (Some s) = mint_view_id fresh' (Some s)"
proof -
  have "sanitize_slug [] = []" by code_simp
  with assms show ?thesis by (auto simp: mint_view_id_def)
qed

text \<open>A parameter named \<open>uri\<close> takes the place of the resource in the proxy URLs of a view.\<close>

lemma uri_parameter_replaces_resource:
  "proxy_url base vid [(''uri'', x)] u = proxy_url base vid [(''uri'', x)] u'"
  by (simp add: proxy_url_def proxy_pairs_def)

section \<open>Routes\<close>

text \<open>
  The management routes serve \<open>GET\<close> and \<open>DELETE\<close>, though the containers they synthesize
  announce \<open>HEAD\<close> and \<open>OPTIONS\<close>; these fall through to the data plane, where neither the
  containers are known nor the engine's token is held to what it may read.
\<close>

lemma system_head_reaches_data_plane:
  assumes "a_method req = ''HEAD'' \<or> a_method req = ''OPTIONS''"
  shows "system_routes L f st b req = None" and "internal_routes L f st b req = None"
    and "views_routes L f st b req = None"
  using assms by (auto simp: system_routes_def internal_routes_def views_routes_def Let_def split: option.splits)

section \<open>Proxies\<close>

text \<open>
  The test suite's proxy puts in its own credential under the capitalised name, and so does not
  replace one that the client sent in small letters.
\<close>

lemma suite_forwards_both_credentials:
  "suite_headers ''t'' ''h'' [(''authorization'', ''Bearer x'')]
     = [(''authorization'', ''Bearer x''), (''Authorization'', ''Bearer t''), (''Host'', ''h'')]"
  by code_simp

end
