(* ===== verification/ApiDocs.thy ===== *)
theory ApiDocs
  imports Apps
begin

text \<open>
  What the applications say of themselves: \<open>ldp_common/apidocs.py\<close>, the operation object each
  route declares in its decorator (the responses it documents, the credential it asks for, its
  request body and prose), the OpenAPI document's post-processing and the CORS settings of
  \<open>ldp_common/appkit.py\<close>. The document itself is made by \<open>get_openapi\<close> of FastAPI, an argument
  here. A JSON object is an association list in the order of the code's dictionary; prose is
  verbatim, with the two characters outside Latin-1 written as the UTF-8 bytes they are
  served as.
\<close>

section \<open>JSON\<close>

datatype json = JStr string | JBool bool | JArr "json list" | JObj "(string \<times> json) list"

type_synonym obj = "(string \<times> json) list"

text \<open>\<open>value.get(key, {})\<close>: \<open>None\<close> is the \<open>AttributeError\<close> of a value that is no object.\<close>

definition jget :: "string \<Rightarrow> json \<Rightarrow> json option" where
  "jget key v = (case v of
     JObj members \<Rightarrow> Some (case map_of members key of None \<Rightarrow> JObj [] | Some w \<Rightarrow> w)
   | _ \<Rightarrow> None)"

text \<open>Replacing a member of an object in place; other values have none.\<close>

definition jset :: "string \<Rightarrow> json \<Rightarrow> json \<Rightarrow> json" where
  "jset key w v = (case v of JObj members \<Rightarrow> JObj (AList.update key w members) | _ \<Rightarrow> v)"

section \<open>Fragments (apidocs.py)\<close>

type_synonym responses = "(nat \<times> obj) list"

definition em_dash :: string where
  "em_dash = [CHR 0xE2, CHR 0x80, CHR 0x94]"

definition ellipsis :: string where
  "ellipsis = [CHR 0xE2, CHR 0x80, CHR 0xA6]"

definition RDF_MEDIA_TYPES :: "string list" where
  "RDF_MEDIA_TYPES =
     [''text/turtle'', ''application/ld+json'', ''application/n-triples'', ''application/rdf+xml'']"

definition ADMIN_AUTH :: json where
  "ADMIN_AUTH = JArr [JObj [(''AdminToken'', JArr [])]]"

definition STORAGE_AUTH :: json where
  "STORAGE_AUTH = JArr [JObj [(''AdminToken'', JArr [])], JObj [(''EngineToken'', JArr [])]]"

definition CONSUMER_AUTH :: json where
  "CONSUMER_AUTH = JArr [JObj [(''ConsumerToken'', JArr [])]]"

definition SECURITY_SCHEMES :: obj where
  "SECURITY_SCHEMES =
     [(''AdminToken'', JObj ([(''type'', JStr ''http''),
          (''scheme'', JStr ''bearer''),
          (''description'', JStr (''The pod owner's administrative bearer token, supplied at startup via the ''
             @ ''required `LDP_ADMIN_TOKEN` environment variable; only its SHA-256 hash ''
             @ ''is stored and the plaintext is never written to the server log. ''
             @ ''Authorizes the full surface: every data read and write, the `.system/` ''
             @ ''management tree, the SPARQL endpoint, and `/.engine/stats`.''))])),
      (''EngineToken'', JObj ([(''type'', JStr ''http''),
          (''scheme'', JStr ''bearer''),
          (''description'', JStr (''The view engine's internal credential for the storage surface, ''
             @ ''bootstrapped at startup. Grants reads plus standard-LDP enforcement ''
             @ ''writes: a conditional PUT that may change only a record's delivery ''
             @ ''counters, and a POST that appends to the access-log container. Never ''
             @ ''held by end users; a frontend client has no use for it.''))])),
      (''ConsumerToken'', JObj ([(''type'', JStr ''http''),
          (''scheme'', JStr ''bearer''),
          (''description'', JStr (''A data consumer's grant, issued by the pod owner via `POST ''
             @ ''/.system/tokens` (the plaintext is the `pod:tokenSecret` literal in that ''
             @ ''one response) and delivered out of band. Valid only on the consumer ''
             @ ''surface: `/.engine/discovery`, `/.engine/views/{view_id}`, and ''
             @ ''`/.engine/blob/{view_id}`.''))]))]"

definition UNAUTHORIZED :: obj where
  "UNAUTHORIZED =
     [(''description'', JStr (''Authentication failed. Deliberately identical for every cause '' @ em_dash
         @ '' missing header, malformed header, unknown token, revoked token, or a token ''
         @ ''of the wrong kind '' @ em_dash
         @ '' so a response never reveals whether a credential exists.''))]"

text \<open>\<open>content["text/turtle"]["example"] = example\<close>, when there is one.\<close>

definition with_example :: "string option \<Rightarrow> obj \<Rightarrow> obj" where
  "with_example example media = (case example of None \<Rightarrow> media
     | Some e \<Rightarrow> (case map_of media ''text/turtle'' of None \<Rightarrow> media
        | Some entry \<Rightarrow> AList.update ''text/turtle'' (jset ''example'' (JStr e) entry) media))"

definition rdf_content :: "string option \<Rightarrow> obj" where
  "rdf_content example = with_example example
     (map (\<lambda>media. (media, JObj [(''schema'', JObj [(''type'', JStr ''string'')])])) RDF_MEDIA_TYPES)"

definition rdf_request_body :: "string \<Rightarrow> string \<Rightarrow> obj" where
  "rdf_request_body description example =
     [(''required'', JBool True), (''description'', JStr description),
      (''content'', JObj (rdf_content (Some example)))]"

definition rdf_response :: "string \<Rightarrow> string option \<Rightarrow> obj" where
  "rdf_response description example =
     [(''description'', JStr description), (''content'', JObj (rdf_content example))]"

definition turtle_response :: "string \<Rightarrow> string option \<Rightarrow> obj" where
  "turtle_response description example =
     [(''description'', JStr description),
      (''content'', JObj (with_example example
         [(''text/turtle'', JObj [(''schema'', JObj [(''type'', JStr ''string'')])])]))]"

section \<open>Operations\<close>

text \<open>
  A route's decorator: its method and path template (\<open>/a\<close>, \<open>/a/{id}\<close> and
  \<open>/a/{path:path}\<close>), its \<open>status_code\<close> (200 where none is given) and what it documents. The
  description defaults to the handler's docstring.
\<close>

datatype template = Exact string | OneSegment string | AnyPath string

record operation =
  op_id :: string
  op_method :: string
  op_template :: template
  op_status :: nat
  op_summary :: string
  op_description :: string
  op_responses :: responses
  op_extra :: obj

definition template_matches :: "template \<Rightarrow> string \<Rightarrow> bool" where
  "template_matches t p = (case t of
     Exact q \<Rightarrow> p = q
   | OneSegment pre \<Rightarrow> one_segment pre p \<noteq> None
   | AnyPath pre \<Rightarrow> any_path pre p \<noteq> None)"

definition operation_matches :: "app_request \<Rightarrow> operation \<Rightarrow> bool" where
  "operation_matches req op \<longleftrightarrow>
     op_method op = a_method req \<and> template_matches (op_template op) (a_path req)"

text \<open>The statuses the document lists for an operation: FastAPI adds the route's own.\<close>

definition documented :: "operation \<Rightarrow> nat list" where
  "documented op = op_status op # map fst (op_responses op)"

section \<open>The SPARQL endpoint (sparql/router.py)\<close>

definition QUERY_DESCRIPTION :: string where
  "QUERY_DESCRIPTION =
     (''Evaluate a read-only SPARQL 1.1 query over the pod's RDF data (every stored ''
     @ ''resource, as one union graph).'' @ nl @ nl
     @ ''* `SELECT` / `ASK` results negotiate via `Accept` among ''
     @ ''`application/sparql-results+json` (default), `application/sparql-results+xml`, ''
     @ ''and `text/csv` (`SELECT` only).'' @ nl
     @ ''* `CONSTRUCT` / `DESCRIBE` results negotiate among the four RDF serializations ''
     @ ''(default `text/turtle`).'' @ nl
     @ ''* Protocol extension: a request parameter `binding-<name>` binds the SPARQL ''
     @ ''variable `?<name>` to that value before evaluation '' @ em_dash
     @ '' the injection-safe way to parameterize a fixed query instead of splicing values ''
     @ ''into the query text. An optional companion `bindingtype-<name>` gives that value ''
     @ ''an XSD datatype IRI, so it binds as a typed term (`\"2026-07-06\"^^xsd:date`) '' @ em_dash
     @ '' required to compare a parameter against typed date literals.'' @ nl
     @ ''* Protocol extension: the reserved `.system/` records (views, tokens, policies, ''
     @ ''the access log) are excluded from evaluation by default, so view CONSTRUCTs ''
     @ ''never see them; `include-system=true` widens the scope to the full dataset.'' @ nl
     @ ''* SPARQL Update is not supported anywhere on this server.'' @ nl)"

definition QUERY_RESPONSES :: "responses" where
  "QUERY_RESPONSES =
     [(200, [(''description'', JStr ''The query result in the negotiated format.''),
        (''content'', JObj ([(''application/sparql-results+json'', JObj [(''schema'', JObj [(''type'', JStr ''object'')])]),
            (''application/sparql-results+xml'', JObj [(''schema'', JObj [(''type'', JStr ''string'')])]),
            (''text/csv'', JObj [(''schema'', JObj [(''type'', JStr ''string'')])])] @ rdf_content None))]),
      (400, [(''description'', JStr ''Missing query, invalid SPARQL syntax, or an evaluation error.'')]),
      (401, UNAUTHORIZED),
      (406, [(''description'', JStr ''`text/csv` was requested for a non-`SELECT` result.'')])]"

definition sparqlQueryGet_op :: operation where
  "sparqlQueryGet_op = \<lparr>op_id = ''sparqlQueryGet'', op_method = ''GET'',
     op_template = Exact ''/sparql'', op_status = 200,
     op_summary = ''Run a SPARQL query (query string)'',
     op_description = QUERY_DESCRIPTION,
     op_responses = QUERY_RESPONSES,
     op_extra = [(''security'', STORAGE_AUTH)]\<rparr>"

definition sparqlQueryPost_op :: operation where
  "sparqlQueryPost_op = \<lparr>op_id = ''sparqlQueryPost'', op_method = ''POST'',
     op_template = Exact ''/sparql'', op_status = 200,
     op_summary = ''Run a SPARQL query (request body)'',
     op_description = QUERY_DESCRIPTION,
     op_responses = QUERY_RESPONSES @ [(405, [(''description'', JStr ''`application/sparql-update` bodies are rejected.'')]),
        (415, [(''description'', JStr ''Body must be `application/sparql-query` or a form.'')])],
     op_extra = [(''security'', STORAGE_AUTH),
        (''requestBody'', JObj ([(''required'', JBool True),
            (''description'', JStr (''Either the bare query (`application/sparql-query`) or a form whose ''
               @ ''`query` field carries it; `binding-<name>` form fields or query-string ''
               @ ''parameters bind SPARQL variables, and `include-system=true` widens the ''
               @ ''scope to the reserved `.system/` records.'')),
            (''content'', JObj [(''application/sparql-query'', JObj [(''schema'', JObj [(''type'', JStr ''string'')]),
                    (''example'', JStr ''SELECT ?s ?p ?o WHERE { ?s ?p ?o } LIMIT 10'')]),
                (''application/x-www-form-urlencoded'', JObj [(''schema'', JObj [(''type'', JStr ''object''),
                        (''properties'', JObj [(''query'', JObj [(''type'', JStr ''string'')])]),
                        (''required'', JArr [JStr ''query'']),
                        (''additionalProperties'', JObj [(''type'', JStr ''string'')])])])])]))]\<rparr>"

definition SPARQL_OPERATIONS :: "operation list" where
  "SPARQL_OPERATIONS = [sparqlQueryGet_op, sparqlQueryPost_op]"

section \<open>Views (views/router.py)\<close>

definition VIEW_BODY :: "obj" where
  "VIEW_BODY =
     rdf_request_body (''Exactly one subject typed `pod:View` (the subject term is irrelevant) with: ''
       @ ''`dcterms:title` (required); `dcterms:description`; `pod:constructTemplate` '' @ em_dash
       @ '' a SPARQL CONSTRUCT query, the sole filter on what the view exposes ''
       @ ''(required); `pod:contentTypeHint` '' @ em_dash
       @ '' the result serialization, one of the four RDF media types (default ''
       @ ''`text/turtle`); `pod:maxViewRetrievals` '' @ em_dash
       @ '' a delivery ceiling shared across all grants on this view; and one ''
       @ ''`pod:parameter` blank node per consumer-suppliable parameter, carrying ''
       @ ''`pod:paramName` and `pod:paramType` (one of `str`, `int`, `iri`, `date`, or ''
       @ ''`dateTime`). Every declared parameter must appear as `?name` in the template; ''
       @ ''values are bound as RDF terms, never spliced into the query text. An `int` ''
       @ ''value still binds as a plain literal, so templates should coerce explicitly ''
       @ ''(e.g. `FILTER(xsd:integer(?n) > 5)`); `date` and `dateTime` bind as typed ''
       @ ''literals and compare directly.'')
       (POD_TTL_PREFIX
       @ (''@prefix dcterms: <http://purl.org/dc/terms/> .'' @ nl @ nl
       @ ''[] a pod:View ;'' @ nl
       @ ''    dcterms:title \"Reading list\" ;'' @ nl
       @ ''    dcterms:description \"Public books, filtered by author\" ;'' @ nl
       @ ''    pod:constructTemplate \"\"\"PREFIX schema: <http://schema.org/>'' @ nl
       @ ''CONSTRUCT { ?book schema:name ?title }'' @ nl
       @ ''WHERE { ?book a schema:Book ; schema:author ?author ; schema:name ?title }\"\"\" ;'' @ nl
       @ ''    pod:contentTypeHint \"text/turtle\" ;'' @ nl
       @ ''    pod:maxViewRetrievals \"100\"^^<http://www.w3.org/2001/XMLSchema#integer> ;'' @ nl
       @ ''    pod:parameter [ pod:paramName \"author\" ; pod:paramType \"str\" ] .''))"

definition VIEW_422 :: "obj" where
  "VIEW_422 =
     [(''description'', JStr (''Rejected definition: not exactly one `pod:View` subject, a missing title or ''
         @ ''template, a template that is not syntactically valid CONSTRUCT, a declared ''
         @ ''parameter absent from the template, an ill-typed parameter, or an ''
         @ ''unsupported content-type hint. The `detail` names the problem.''))]"

definition createView_op :: operation where
  "createView_op = \<lparr>op_id = ''createView'', op_method = ''POST'',
     op_template = Exact ''/.system/views'', op_status = 201,
     op_summary = ''Create a view definition'',
     op_description = (''Define a named, parameterized SPARQL CONSTRUCT view. The view id is minted ''
       @ ''from the `Slug` header when possible, randomly otherwise; the definition is ''
       @ ''live for consumers immediately. Consumers fetch results at ''
       @ ''`/.engine/views/{view_id}` once a grant links the view.''),
     op_responses = [(201, turtle_response ''The stored definition; `Location` names it.'' None),
        (400, [(''description'', JStr ''The RDF body does not parse.'')]),
        (401, UNAUTHORIZED),
        (415, [(''description'', JStr ''`Content-Type` is not one of the four RDF media types.'')]),
        (422, VIEW_422)],
     op_extra = [(''security'', ADMIN_AUTH),
        (''requestBody'', JObj VIEW_BODY)]\<rparr>"

definition replaceView_op :: operation where
  "replaceView_op = \<lparr>op_id = ''replaceView'', op_method = ''PUT'',
     op_template = OneSegment ''/.system/views/'', op_status = 200,
     op_summary = ''Create or replace a view definition at a chosen id'',
     op_description = (''Full replace (no merge) of the definition at this id, creating it when absent. ''
       @ ''The stored shape is exactly what a `GET /.system/views/{view_id}` returns, so ''
       @ ''a GET-edit-PUT roundtrip works with any client. The view engine reuses this ''
       @ ''same conditional PUT to bump the view's `pod:viewRetrievalCount`; on its ''
       @ ''credential the request must carry `If-Match` and change nothing but that ''
       @ ''counter.''),
     op_responses = [(200, turtle_response ''Replaced; the stored definition.'' None),
        (201, turtle_response ''Created; the stored definition.'' None),
        (400, [(''description'', JStr ''The RDF body does not parse.'')]),
        (401, UNAUTHORIZED),
        (403, [(''description'', JStr ''The engine credential changed a field outside the counter.'')]),
        (412, [(''description'', JStr ''`If-Match` did not match the current representation.'')]),
        (415, [(''description'', JStr ''`Content-Type` is not one of the four RDF media types.'')]),
        (422, VIEW_422),
        (428, [(''description'', JStr ''The engine's counter bump requires an `If-Match` precondition.'')])],
     op_extra = [(''security'', STORAGE_AUTH),
        (''requestBody'', JObj VIEW_BODY)]\<rparr>"

definition deleteView_op :: operation where
  "deleteView_op = \<lparr>op_id = ''deleteView'', op_method = ''DELETE'',
     op_template = OneSegment ''/.system/views/'', op_status = 204,
     op_summary = ''Delete a view definition'',
     op_description = (''Remove the definition; consumers lose access immediately. Grants that still ''
       @ ''link the view keep working for their other views and list the stale member in ''
       @ ''discovery without metadata until the owner reissues or revokes them.''),
     op_responses = [(204, [(''description'', JStr ''Deleted.'')]),
        (401, UNAUTHORIZED),
        (404, [(''description'', JStr ''No view at this id.'')])],
     op_extra = [(''security'', ADMIN_AUTH)]\<rparr>"

definition VIEWS_OPERATIONS :: "operation list" where
  "VIEWS_OPERATIONS = [createView_op, replaceView_op, deleteView_op]"

section \<open>The writes of the engine (storage/router.py)\<close>

definition INTERNAL_NOTE :: string where
  "INTERNAL_NOTE =
     (''Engine-internal state write via standard LDP; documented for completeness and ''
     @ ''split deployments. A frontend client never calls this.'')"

definition ENFORCEMENT_RESPONSES :: "responses" where
  "ENFORCEMENT_RESPONSES =
     [(200, [(''description'', JStr ''Updated; the new ETag identifies the stored representation.'')]),
      (401, UNAUTHORIZED),
      (403, [(''description'', JStr ''The request would change a field outside the enforcement scope.'')]),
      (404, [(''description'', JStr ''No record at this id.'')]),
      (412, [(''description'', JStr ''`If-Match` did not match the current representation.'')]),
      (415, [(''description'', JStr ''`Content-Type` is not one of the four RDF media types.'')]),
      (428, [(''description'', JStr ''Updating a record requires an `If-Match` precondition.'')])]"

definition putTokenEnforcement_op :: operation where
  "putTokenEnforcement_op = \<lparr>op_id = ''putTokenEnforcement'', op_method = ''PUT'',
     op_template = OneSegment ''/.system/tokens/'', op_status = 200,
     op_summary = ''Bump a grant's delivery counter (engine-internal)'',
     op_description = INTERNAL_NOTE,
     op_responses = ENFORCEMENT_RESPONSES,
     op_extra = [(''security'', STORAGE_AUTH)]\<rparr>"

definition appendAccessLog_op :: operation where
  "appendAccessLog_op = \<lparr>op_id = ''appendAccessLog'', op_method = ''POST'',
     op_template = Exact ''/.system/access-log'', op_status = 201,
     op_summary = ''Append an access-log entry (engine-internal)'',
     op_description = INTERNAL_NOTE,
     op_responses = [(201, [(''description'', JStr ''Appended; `Location` names the minted entry.'')]),
        (401, UNAUTHORIZED),
        (415, [(''description'', JStr ''`Content-Type` is not one of the four RDF media types.'')]),
        (422, [(''description'', JStr ''The body does not describe a single access-log entry.'')])],
     op_extra = [(''security'', STORAGE_AUTH)]\<rparr>"

definition INTERNAL_OPERATIONS :: "operation list" where
  "INTERNAL_OPERATIONS = [putTokenEnforcement_op, appendAccessLog_op]"

section \<open>Management (authentication/router.py)\<close>

definition issueToken_op :: operation where
  "issueToken_op = \<lparr>op_id = ''issueToken'', op_method = ''POST'',
     op_template = Exact ''/.system/tokens'', op_status = 201,
     op_summary = ''Issue a consumer grant'',
     op_description = (''Issue a grant from an RDF description of the views it unlocks.'' @ nl @ nl
       @ ''The response is the created record's representation plus one triple that'' @ nl
       @ ''exists nowhere else: ``pod:tokenSecret``, the plaintext bearer token,'' @ nl
       @ ''surfaced exactly once '' @ em_dash
       @ '' only its SHA-256 hash is stored on the record.''),
     op_responses = [(201, turtle_response (''The created record. `pod:tokenSecret` is the consumer's plaintext bearer ''
           @ ''token, surfaced only here and never retrievable again; `dcterms:title` ''
           @ ''echoes the grant's optional owner-chosen name; `pod:policyRef` names the ''
           @ ''policy resource to `PUT` for bounding this grant; `Location` names the ''
           @ ''record for later revocation.'')
           (Some (POD_TTL_PREFIX
             @ (''@prefix dcterms: <http://purl.org/dc/terms/> .'' @ nl @ nl
             @ ''<https://pod.example/.system/tokens/NGlxYzZa> a pod:Token , ''
             @ ''pod:ConsumerToken ;'' @ nl
             @ ''    dcterms:title \"colleagues\" ;'' @ nl
             @ ''    pod:linkedView <https://pod.example/.system/views/reading-list> ;'' @ nl
             @ ''    pod:policyRef <https://pod.example/.system/tokens/policies/NGlxYzZa> ''
             @ '';'' @ nl
             @ ''    pod:enforcementCount 0 ;'' @ nl
             @ ''    pod:tokenSecret \"3q2xkY'' @ ellipsis
             @ ''M8slQ\" .'')))),
        (400, [(''description'', JStr ''The RDF body does not parse.'')]),
        (401, UNAUTHORIZED),
        (415, [(''description'', JStr ''`Content-Type` is not one of the four RDF media types.'')])],
     op_extra = [(''security'', ADMIN_AUTH),
        (''requestBody'', JObj (rdf_request_body (''An RDF description whose `pod:linkedView` objects name the views this ''
             @ ''grant unlocks (any number, including none; the subject term is ''
             @ ''irrelevant). An optional `dcterms:title` names the grant for the owner's ''
             @ ''own recognition '' @ em_dash
             @ '' e.g. `access-bob` or `colleagues` '' @ em_dash
             @ '' and never affects validation.'')
             (POD_TTL_PREFIX
             @ (''@prefix dcterms: <http://purl.org/dc/terms/> .'' @ nl @ nl
             @ ''[] dcterms:title \"colleagues\" ;'' @ nl
             @ ''   pod:linkedView <https://pod.example/.system/views/reading-list> ,'' @ nl
             @ ''                  <https://pod.example/.system/views/schedule> .''))))]\<rparr>"

definition writePolicy_op :: operation where
  "writePolicy_op = \<lparr>op_id = ''writePolicy'', op_method = ''PUT'',
     op_template = OneSegment ''/.system/tokens/policies/'', op_status = 200,
     op_summary = ''Create or replace a grant's policy'',
     op_description = (''Create or replace a policy from its RDF representation (full PUT, no merge).'' @ nl @ nl
       @ ''Exactly one subject typed ``pod:Policy`` is required '' @ em_dash
       @ '' the shape a GET'' @ nl
       @ ''returns, so a GET-edit-PUT roundtrip with any LDP client works. Constraint'' @ nl
       @ ''values are re-rooted at the canonical policy URI and stored with their XSD'' @ nl
       @ ''datatypes; omitted constraints are cleared, unknown triples are dropped.''),
     op_responses = [(200, turtle_response ''Replaced; the canonicalized policy as stored.'' None),
        (201, turtle_response ''Created; the canonicalized policy as stored.'' None),
        (400, [(''description'', JStr ''The RDF body does not parse.'')]),
        (401, UNAUTHORIZED),
        (415, [(''description'', JStr ''`Content-Type` is not one of the four RDF media types.'')]),
        (422, [(''description'', JStr (''Not exactly one `pod:Policy` subject, or a constraint value outside its ''
             @ ''datatype (`xsd:dateTime` / `xsd:integer`).''))])],
     op_extra = [(''security'', ADMIN_AUTH),
        (''requestBody'', JObj (rdf_request_body (''One `pod:Policy` subject carrying any subset of the five constraints: ''
             @ ''`pod:expiresAt`, `pod:validFrom`, `pod:validUntil` (`xsd:dateTime`); ''
             @ ''`pod:maxRetrievals` (total deliveries for the grant) and ''
             @ ''`pod:minInterval` (seconds between deliveries, `xsd:integer`). Omitted ''
             @ ''constraints do not bind. The `{policy_id}` to PUT to is the last path ''
             @ ''segment of the grant's `pod:policyRef`.'')
             (POD_TTL_PREFIX
             @ (''@prefix xsd: <http://www.w3.org/2001/XMLSchema#> .'' @ nl @ nl
             @ ''[] a pod:Policy ;'' @ nl
             @ ''    pod:expiresAt \"2026-12-31T23:59:59Z\"^^xsd:dateTime ;'' @ nl
             @ ''    pod:maxRetrievals \"20\"^^xsd:integer ;'' @ nl
             @ ''    pod:minInterval \"60\"^^xsd:integer .''))))]\<rparr>"

definition readSystemResource_op :: operation where
  "readSystemResource_op = \<lparr>op_id = ''readSystemResource'', op_method = ''GET'',
     op_template = AnyPath ''/.system/'', op_status = 200,
     op_summary = ''Browse the management tree'',
     op_description = (''Read a management record or one of the synthesized LDP Basic Containers that ''
       @ ''list them: `` ``(the `.system/` root), `views/`, `tokens/`, ''
       @ ''`tokens/policies/`, and `access-log/`. Container listings are derived live ''
       @ ''from the records' `rdf:type` markers, so they are always current. Responses ''
       @ ''are `text/turtle`. Token records never contain the plaintext secret '' @ em_dash
       @ '' only its hash. The engine's credential can read `views/` and `tokens/` only; ''
       @ ''the admin token reads everything.''),
     op_responses = [(200, turtle_response ''The record or container listing.''
           (Some (''@prefix ldp: <http://www.w3.org/ns/ldp#> .'' @ nl @ nl
             @ ''<https://pod.example/.system/views/> a ldp:BasicContainer ;'' @ nl
             @ ''    ldp:contains <https://pod.example/.system/views/reading-list> ,'' @ nl
             @ ''                 <https://pod.example/.system/views/schedule> .''))),
        (401, UNAUTHORIZED),
        (403, [(''description'', JStr ''The engine credential asked for a record kind outside its scope.'')]),
        (404, [(''description'', JStr ''No record at this path.'')])],
     op_extra = [(''security'', STORAGE_AUTH)]\<rparr>"

definition revokeSystemResource_op :: operation where
  "revokeSystemResource_op = \<lparr>op_id = ''revokeSystemResource'', op_method = ''DELETE'',
     op_template = AnyPath ''/.system/'', op_status = 204,
     op_summary = ''Revoke a grant or delete a management record'',
     op_description = (''Delete the record at this path. Deleting a token record (`tokens/{id}`) ''
       @ ''revokes the grant instantly: the very next request bearing that token '' @ em_dash
       @ '' consumer or engine '' @ em_dash
       @ '' fails with the uniform 401.''),
     op_responses = [(204, [(''description'', JStr ''Deleted; a revoked token is dead immediately.'')]),
        (401, UNAUTHORIZED),
        (404, [(''description'', JStr ''No record at this path.'')])],
     op_extra = [(''security'', ADMIN_AUTH)]\<rparr>"

definition SYSTEM_OPERATIONS :: "operation list" where
  "SYSTEM_OPERATIONS = [issueToken_op, writePolicy_op, readSystemResource_op, revokeSystemResource_op]"

section \<open>The data plane (ldp/router.py)\<close>

definition GET_DESCRIPTION :: string where
  "GET_DESCRIPTION =
     (''Dereference the resource at this pod-relative path: an RDF document, an LDP ''
     @ ''container, or a stored binary.'' @ nl @ nl
     @ ''* RDF responses are negotiated via `Accept` among the four supported ''
     @ ''serializations (default `text/turtle`). Binaries return the media type recorded ''
     @ ''when they were stored and ignore `Accept`.'' @ nl
     @ ''* Container representations list members as `ldp:contains` triples; Direct ''
     @ ''Containers additionally synthesize their membership triples into the response. A ''
     @ ''`Prefer: return=representation` header with `include`/`omit` of ''
     @ ''`ldp:PreferContainment`, `ldp:PreferMembership`, or `ldp:PreferMinimalContainer` ''
     @ ''tailors which of those appear; when honored the response echoes ''
     @ ''`Preference-Applied: return=representation`.'' @ nl
     @ ''* Every response carries an `ETag` (echo it in `If-None-Match` to get `304`), a ''
     @ ''`Link` header advertising the resource's LDP types (`rel=\"type\"`), and an ''
     @ ''`Allow` header naming the verbs the resource supports.'' @ nl
     @ ''* `HEAD` is also accepted: same status and headers, no body.'' @ nl)"

definition GET_RESPONSES :: "responses" where
  "GET_RESPONSES =
     [(200, rdf_response (''The representation. A binary streams as its stored media type instead (any ''
         @ ''type, not only the RDF four).'') None),
      (304, [(''description'', JStr ''Representation unchanged (`If-None-Match` matched); no body.'')]),
      (401, UNAUTHORIZED),
      (404, [(''description'', JStr ''No resource at this path.'')])]"

definition PUT_DESCRIPTION :: string where
  "PUT_DESCRIPTION =
     (''Create or replace the resource at this exact path.'' @ nl @ nl
     @ ''* `Content-Type` selects the write path: one of the four RDF media types is ''
     @ ''parsed and stored as an RDF resource; any other type (or none) is stored ''
     @ ''verbatim as a binary.'' @ nl
     @ ''* A body whose subject is typed `ldp:BasicContainer` (or another container type) ''
     @ ''creates a container.'' @ nl
     @ ''* Preconditions: replacing an existing resource **requires** `If-Match: <etag>` ''
     @ ''(a bare update is refused with `428`) so a blind overwrite cannot clobber a ''
     @ ''concurrent change; `If-None-Match: *` makes the request create-only.'' @ nl
     @ ''* Containment is server-managed: `ldp:contains` triples in the body are ignored ''
     @ ''when they echo the stored set and **rejected with `409`** when they differ ''
     @ ''(stored containment is preserved), and a newly created resource is added to its ''
     @ ''parent container's listing automatically.'' @ nl)"

definition PUT_BODY :: "obj" where
  "PUT_BODY =
     [(''required'', JBool True),
      (''description'', JStr (''The new representation: RDF in one of the four supported media types, or any ''
         @ ''other media type to store the bytes as a binary.'')),
      (''content'', JObj (rdf_content (Some (''@prefix dcterms: <http://purl.org/dc/terms/> .'' @ nl @ nl
           @ ''<> dcterms:title \"Meeting notes\" ;'' @ nl
           @ ''   dcterms:description \"Notes from the 2026-07-01 sync\" .'')) @ [(''application/octet-stream'', JObj [(''schema'', JObj [(''type'', JStr ''string''),
                  (''format'', JStr ''binary'')])])]))]"

definition PUT_RESPONSES :: "responses" where
  "PUT_RESPONSES =
     [(200, [(''description'', JStr ''Replaced. Headers as on create.'')]),
      (201, [(''description'', JStr (''Created. `Location` names the resource; `ETag` identifies the stored ''
           @ ''representation.''))]),
      (400, [(''description'', JStr ''The RDF body does not parse in the declared `Content-Type`.'')]),
      (401, UNAUTHORIZED),
      (403, [(''description'', JStr ''The path lies under the reserved `.system/` prefix.'')]),
      (409, [(''description'', JStr ''The body would modify the container's server-managed `ldp:contains`.'')]),
      (412, [(''description'', JStr ''`If-Match` / `If-None-Match` precondition failed.'')]),
      (428, [(''description'', JStr ''Updating an existing resource requires an `If-Match` precondition.'')])]"

definition POST_DESCRIPTION :: string where
  "POST_DESCRIPTION =
     (''Create a member inside the container at this path.'' @ nl @ nl
     @ ''The member URI is minted by the server (a `Slug` header is honored when free); ''
     @ ''it is returned in `Location` and added to the container's `ldp:contains`. The ''
     @ ''body follows the same RDF/binary split as `PUT`.'' @ nl)"

definition POST_RESPONSES :: "responses" where
  "POST_RESPONSES =
     [(201, [(''description'', JStr ''Member created; `Location` names it.'')]),
      (400, [(''description'', JStr ''The RDF body does not parse in the declared `Content-Type`.'')]),
      (401, UNAUTHORIZED),
      (403, [(''description'', JStr ''The path lies under the reserved `.system/` prefix.'')]),
      (404, [(''description'', JStr ''No resource at this path.'')]),
      (405, [(''description'', JStr ''The target exists but is not a container; `Allow` lists its verbs.'')])]"

definition DELETE_RESPONSES :: "responses" where
  "DELETE_RESPONSES =
     [(204, [(''description'', JStr ''Deleted; the parent container's listing is updated.'')]),
      (401, UNAUTHORIZED),
      (403, [(''description'', JStr ''The path lies under the reserved `.system/` prefix.'')]),
      (404, [(''description'', JStr ''No resource at this path.'')]),
      (409, [(''description'', JStr ''The container still has members; delete them first.'')])]"

definition OPTIONS_RESPONSES :: "responses" where
  "OPTIONS_RESPONSES =
     [(200, [(''description'', JStr (''`Allow` lists the verbs this specific resource supports (containers add ''
           @ ''`POST`, binaries drop it).''))]),
      (401, UNAUTHORIZED),
      (404, [(''description'', JStr ''No resource at this path.'')])]"

definition getRoot_op :: operation where
  "getRoot_op = \<lparr>op_id = ''getRoot'', op_method = ''GET'',
     op_template = Exact ''/'', op_status = 200,
     op_summary = ''Read the pod root container'',
     op_description = GET_DESCRIPTION,
     op_responses = GET_RESPONSES,
     op_extra = [(''security'', STORAGE_AUTH)]\<rparr>"

definition getResource_op :: operation where
  "getResource_op = \<lparr>op_id = ''getResource'', op_method = ''GET'',
     op_template = AnyPath ''/'', op_status = 200,
     op_summary = ''Read a resource, container, or binary'',
     op_description = GET_DESCRIPTION,
     op_responses = GET_RESPONSES,
     op_extra = [(''security'', STORAGE_AUTH)]\<rparr>"

definition putRoot_op :: operation where
  "putRoot_op = \<lparr>op_id = ''putRoot'', op_method = ''PUT'',
     op_template = Exact ''/'', op_status = 200,
     op_summary = ''Replace the pod root container's description'',
     op_description = PUT_DESCRIPTION,
     op_responses = PUT_RESPONSES,
     op_extra = [(''security'', ADMIN_AUTH),
        (''requestBody'', JObj PUT_BODY)]\<rparr>"

definition putResource_op :: operation where
  "putResource_op = \<lparr>op_id = ''putResource'', op_method = ''PUT'',
     op_template = AnyPath ''/'', op_status = 200,
     op_summary = ''Create or replace a resource at a chosen path'',
     op_description = PUT_DESCRIPTION,
     op_responses = PUT_RESPONSES,
     op_extra = [(''security'', ADMIN_AUTH),
        (''requestBody'', JObj PUT_BODY)]\<rparr>"

definition postToRoot_op :: operation where
  "postToRoot_op = \<lparr>op_id = ''postToRoot'', op_method = ''POST'',
     op_template = Exact ''/'', op_status = 200,
     op_summary = ''Create a member in the pod root container'',
     op_description = POST_DESCRIPTION,
     op_responses = POST_RESPONSES,
     op_extra = [(''security'', ADMIN_AUTH),
        (''requestBody'', JObj PUT_BODY)]\<rparr>"

definition postToContainer_op :: operation where
  "postToContainer_op = \<lparr>op_id = ''postToContainer'', op_method = ''POST'',
     op_template = AnyPath ''/'', op_status = 200,
     op_summary = ''Create a member in a container'',
     op_description = POST_DESCRIPTION,
     op_responses = POST_RESPONSES,
     op_extra = [(''security'', ADMIN_AUTH),
        (''requestBody'', JObj PUT_BODY)]\<rparr>"

definition deleteResource_op :: operation where
  "deleteResource_op = \<lparr>op_id = ''deleteResource'', op_method = ''DELETE'',
     op_template = AnyPath ''/'', op_status = 204,
     op_summary = ''Delete a resource, empty container, or binary'',
     op_description = (''Remove the resource at this path and drop it from its parent container's ''
       @ ''listing. A container must be emptied of members first.''),
     op_responses = DELETE_RESPONSES,
     op_extra = [(''security'', ADMIN_AUTH)]\<rparr>"

definition optionsRoot_op :: operation where
  "optionsRoot_op = \<lparr>op_id = ''optionsRoot'', op_method = ''OPTIONS'',
     op_template = Exact ''/'', op_status = 200,
     op_summary = ''Capabilities of the pod root'',
     op_description = ''Report, via the `Allow` header, the verbs the pod root supports.'',
     op_responses = OPTIONS_RESPONSES,
     op_extra = [(''security'', STORAGE_AUTH)]\<rparr>"

definition optionsResource_op :: operation where
  "optionsResource_op = \<lparr>op_id = ''optionsResource'', op_method = ''OPTIONS'',
     op_template = AnyPath ''/'', op_status = 200,
     op_summary = ''Capabilities of a resource'',
     op_description = (''Report, via the `Allow` header, the verbs the resource at this path actually ''
       @ ''supports: containers add `POST`, binaries drop it.''),
     op_responses = OPTIONS_RESPONSES,
     op_extra = [(''security'', STORAGE_AUTH)]\<rparr>"

definition LDP_OPERATIONS :: "operation list" where
  "LDP_OPERATIONS = [getRoot_op, getResource_op, putRoot_op, putResource_op, postToRoot_op,
     postToContainer_op, deleteResource_op, optionsRoot_op, optionsResource_op]"

section \<open>The engine (ldp_view_engine/engine.py, ldp_view_engine/discovery.py)\<close>

definition getViewResult_op :: operation where
  "getViewResult_op = \<lparr>op_id = ''getViewResult'', op_method = ''GET'',
     op_template = OneSegment ''/.engine/views/'', op_status = 200,
     op_summary = ''Fetch a view's result (consumer)'',
     op_description = (''Run the view's CONSTRUCT and return the result in the view's declared content ''
       @ ''type. The bearer token must link this view (discover ids and parameter shapes ''
       @ ''at `/.engine/discovery`). Declared parameters are optional: supply any as a ''
       @ ''query-string field, `?name=value`, to narrow the result; omit them to receive ''
       @ ''the view's full, un-narrowed output. Pod-local resource references in the ''
       @ ''result '' @ em_dash
       @ '' including binaries '' @ em_dash
       @ '' are rewritten to `/.engine/blob/{view_id}?'' @ ellipsis
       @ ''` proxy URLs; dereference them as-is with the same token. Each successful ''
       @ ''delivery counts against the grant's policy ceilings; a denial is a `403` whose ''
       @ ''`detail` names the violated constraint (e.g. `policy: max retrievals reached`).''),
     op_responses = [(200, rdf_response ''The view result, serialized as the view's content-type hint.'' None),
        (401, UNAUTHORIZED),
        (403, [(''description'', JStr (''The view is outside this grant's scope, or a policy constraint denied ''
             @ ''the request (`detail` names it).''))]),
        (404, [(''description'', JStr ''No view definition at this id.'')]),
        (422, [(''description'', JStr ''A supplied parameter fails its declared type check.'')]),
        (502, [(''description'', JStr ''The engine could not reach storage (its credential may be revoked).'')])],
     op_extra = [(''security'', CONSUMER_AUTH)]\<rparr>"

definition getViewBlob_op :: operation where
  "getViewBlob_op = \<lparr>op_id = ''getViewBlob'', op_method = ''GET'',
     op_template = OneSegment ''/.engine/blob/'', op_status = 200,
     op_summary = ''Dereference a proxied resource from a view result (consumer)'',
     op_description = (''The gated proxy behind the rewritten URLs inside view results. Clients ''
       @ ''normally dereference those URLs verbatim '' @ em_dash
       @ '' they already carry `uri` and the view's parameter bindings. The engine ''
       @ ''re-validates the token and scope, re-runs the view's CONSTRUCT with the ''
       @ ''supplied bindings, confirms the target still appears in the current result, ''
       @ ''and only then streams the resource with its stored media type. Deliveries ''
       @ ''count against the same policy ceilings as the primary view.''),
     op_responses = [(200, [(''description'', JStr ''The resource bytes with their stored media type.''),
          (''content'', JObj [(''application/octet-stream'', JObj [(''schema'', JObj [(''type'', JStr ''string''),
                      (''format'', JStr ''binary'')])])])]),
        (400, [(''description'', JStr (''`uri` missing, it does not name a pod-local resource, or it names a ''
             @ ''reserved `.system/` record.''))]),
        (401, UNAUTHORIZED),
        (403, [(''description'', JStr (''The view is outside this grant's scope, or a policy constraint denied ''
             @ ''the request (`detail` names it).''))]),
        (404, [(''description'', JStr (''No view at this id, the target no longer appears in the view's current ''
             @ ''result, or the upstream resource is gone.''))]),
        (422, [(''description'', JStr ''A supplied parameter fails its declared type check.'')]),
        (502, [(''description'', JStr ''The engine could not reach storage (its credential may be revoked).'')])],
     op_extra = [(''security'', CONSUMER_AUTH),
        (''parameters'', JArr [JObj [(''name'', JStr ''uri''),
            (''in'', JStr ''query''),
            (''required'', JBool True),
            (''schema'', JObj [(''type'', JStr ''string'')]),
            (''description'', JStr (''The pod-local URI of the shared resource, percent-encoded '' @ em_dash
               @ '' present in rewritten proxy URLs already. Any view parameters used on ''
               @ ''the primary fetch must accompany it with the same values, so the proxy ''
               @ ''re-runs the identical (equally narrowed) CONSTRUCT.''))]])]\<rparr>"

definition VIEW_OPERATIONS :: "operation list" where
  "VIEW_OPERATIONS = [getViewResult_op, getViewBlob_op]"

definition discoverViews_op :: operation where
  "discoverViews_op = \<lparr>op_id = ''discoverViews'', op_method = ''GET'',
     op_template = Exact ''/.engine/discovery'', op_status = 200,
     op_summary = ''List the views this grant unlocks (consumer)'',
     op_description = (''A consumer client's entry point: an LDP Basic Container, synthesized per ''
       @ ''request, whose members are the views the presented token links. Each member ''
       @ ''carries `dcterms:title`, `dcterms:description`, and one `pod:parameter` node ''
       @ ''per query-string parameter (`pod:paramName`, `pod:paramType` of `str`, `int`, ''
       @ ''`iri`, `date`, or `dateTime`) the view expects at `/.engine/views/{view_id}`. ''
       @ ''A grant with no views yields a valid empty container.''),
     op_responses = [(200, turtle_response ''The discovery container.''
           (Some (((''@prefix ldp: <http://www.w3.org/ns/ldp#> .'' @ nl
             @ ''@prefix dcterms: <http://purl.org/dc/terms/> .'' @ nl)
             @ POD_TTL_PREFIX)
             @ (nl
             @ ''<https://pod.example/.engine/discovery> a ldp:BasicContainer ;'' @ nl
             @ ''    ldp:contains <https://pod.example/.engine/views/reading-list> .'' @ nl @ nl
             @ ''<https://pod.example/.engine/views/reading-list> a pod:View ;'' @ nl
             @ ''    dcterms:title \"Reading list\" ;'' @ nl
             @ ''    dcterms:description \"Public books, filtered by author\" ;'' @ nl
             @ ''    pod:parameter [ pod:paramName \"author\" ; pod:paramType \"str\" ] .'')))),
        (401, UNAUTHORIZED),
        (502, [(''description'', JStr ''The engine could not reach storage (its credential may be revoked).'')])],
     op_extra = [(''security'', CONSUMER_AUTH)]\<rparr>"

definition getStats_op :: operation where
  "getStats_op = \<lparr>op_id = ''getStats'', op_method = ''GET'',
     op_template = Exact ''/.engine/stats'', op_status = 200,
     op_summary = ''Delivery statistics over the access log (owner)'',
     op_description = (''Aggregates the immutable access log on demand: total deliveries, a per-view ''
       @ ''breakdown with each view's most recent delivery instant, and a per-grant ''
       @ ''breakdown keyed by token record URI '' @ em_dash
       @ '' how often, by whom, and when. Counts reflect successful deliveries only, ''
       @ ''never denied attempts.''),
     op_responses = [(401, UNAUTHORIZED),
        (502, [(''description'', JStr ''The engine could not reach storage.'')])],
     op_extra = [(''security'', ADMIN_AUTH)]\<rparr>"

definition DISCOVERY_OPERATIONS :: "operation list" where
  "DISCOVERY_OPERATIONS = [discoverViews_op, getStats_op]"

section \<open>The applications' operations\<close>

text \<open>
  The operations in the order of \<open>include_router\<close>; the first that matches a request is the
  one Starlette runs. (\<open>HEAD\<close> routes and the two public pages are left out: they document
  nothing of their own.)
\<close>

definition STORAGE_OPERATIONS :: "operation list" where
  "STORAGE_OPERATIONS = SPARQL_OPERATIONS @ VIEWS_OPERATIONS @ INTERNAL_OPERATIONS @ SYSTEM_OPERATIONS
     @ LDP_OPERATIONS"

definition ENGINE_OPERATIONS :: "operation list" where
  "ENGINE_OPERATIONS = VIEW_OPERATIONS @ DISCOVERY_OPERATIONS"

definition POD_OPERATIONS :: "operation list" where
  "POD_OPERATIONS = SPARQL_OPERATIONS @ VIEWS_OPERATIONS @ INTERNAL_OPERATIONS @ SYSTEM_OPERATIONS
     @ VIEW_OPERATIONS @ DISCOVERY_OPERATIONS @ LDP_OPERATIONS"

definition operation_of :: "operation list \<Rightarrow> app_request \<Rightarrow> operation option" where
  "operation_of ops req = find (operation_matches req) ops"

section \<open>The OpenAPI document (appkit.py)\<close>

text \<open>
  \<open>openapi_with_security\<close>: the security schemes are added, and the \<open>application/json\<close> entry
  FastAPI makes for a parameter of type \<open>bytes\<close> is removed where the operation declares its own
  media types. \<open>None\<close> is the exception of a document that has not the expected shape.
\<close>

definition bytes_placeholder :: "json \<Rightarrow> bool option" where
  "bytes_placeholder json_schema = (case (jget ''format'' json_schema, jget ''contentMediaType'' json_schema) of
     (Some fmt, Some media) \<Rightarrow> Some (fmt = JStr ''binary'' \<or> media = JStr ''application/octet-stream'')
   | _ \<Rightarrow> None)"

definition secure_operation :: "json \<Rightarrow> json option" where
  "secure_operation op =
     (case jget ''requestBody'' op of None \<Rightarrow> None
      | Some body \<Rightarrow> (case jget ''content'' body of None \<Rightarrow> None
        | Some media \<Rightarrow> (case jget ''application/json'' media of None \<Rightarrow> None
          | Some entry \<Rightarrow> (case jget ''schema'' entry of None \<Rightarrow> None
            | Some json_schema \<Rightarrow> (case (bytes_placeholder json_schema, media) of
                (Some placeholder, JObj members) \<Rightarrow>
                  Some (if length members > 1 \<and> placeholder
                        then jset ''requestBody'' (jset ''content''
                               (JObj (filter (\<lambda>(k, _). k \<noteq> ''application/json'') members)) body) op
                        else op)
              | _ \<Rightarrow> None)))))"

fun secure_members :: "(json \<Rightarrow> json option) \<Rightarrow> obj \<Rightarrow> obj option" where
  "secure_members f [] = Some []"
| "secure_members f ((k, v) # rest) = (case f v of None \<Rightarrow> None
     | Some w \<Rightarrow> map_option (Cons (k, w)) (secure_members f rest))"

definition secure_object :: "(json \<Rightarrow> json option) \<Rightarrow> json \<Rightarrow> json option" where
  "secure_object f v = (case v of JObj members \<Rightarrow> map_option JObj (secure_members f members) | _ \<Rightarrow> None)"

definition secure_schema :: "obj \<Rightarrow> obj option" where
  "secure_schema schema =
     (case jget ''components'' (JObj schema) of
        Some (JObj members) \<Rightarrow>
          (let schema' = AList.update ''components''
                 (JObj (AList.update ''securitySchemes'' (JObj SECURITY_SCHEMES) members)) schema
           in case map_of schema' ''paths'' of None \<Rightarrow> None
              | Some paths \<Rightarrow> map_option (\<lambda>secured. AList.update ''paths'' secured schema')
                  (secure_object (secure_object secure_operation) paths))
      | _ \<Rightarrow> None)"

text \<open>The document is made once; \<open>cached\<close> is \<open>app.openapi_schema\<close>.\<close>

definition openapi_with_security :: "obj option \<Rightarrow> obj \<Rightarrow> (obj \<times> obj option) option" where
  "openapi_with_security cached generated = (case cached of
     Some (m # ms) \<Rightarrow> Some (m # ms, cached)
   | _ \<Rightarrow> map_option (\<lambda>schema. (schema, Some schema)) (secure_schema generated))"

section \<open>CORS (appkit.py)\<close>

definition CORS_METHODS :: "string list" where
  "CORS_METHODS = [''GET'', ''HEAD'', ''POST'', ''PUT'', ''DELETE'', ''OPTIONS'']"

definition CORS_ALLOW_HEADERS :: "string list" where
  "CORS_ALLOW_HEADERS = [''Authorization'', ''Content-Type'', ''Accept'', ''If-Match'', ''If-None-Match'',
     ''Prefer'', ''Slug'']"

definition CORS_EXPOSE_HEADERS :: "string list" where
  "CORS_EXPOSE_HEADERS = [''ETag'', ''Location'', ''Link'', ''Allow'', ''Accept-Post'',
     ''Preference-Applied'', ''WWW-Authenticate'']"

text \<open>The arguments \<open>add_cors\<close> gives Starlette's middleware.\<close>

record cors_options =
  allowed_origins :: "string list"
  allow_credentials :: bool
  allow_methods :: "string list"
  allow_headers :: "string list"
  expose_headers :: "string list"
  max_age :: nat

definition add_cors :: "string \<Rightarrow> cors_options" where
  "add_cors cors_allow_origins =
     \<lparr>allowed_origins = allow_origins cors_allow_origins, allow_credentials = False,
      allow_methods = CORS_METHODS, allow_headers = CORS_ALLOW_HEADERS,
      expose_headers = CORS_EXPOSE_HEADERS, max_age = 600\<rparr>"

end
