(* ===== verification/Answers.thy ===== *)
theory Answers
  imports ApiDocs LdpProps AppProps EngineProps
begin

text \<open>
  What every handler can answer: the statuses it may have, whether it returns or raises, the headers
  it sets and the form of its refusals. The lemmas follow the code from the operations of the store
  up to the handlers; theory \<open>ApiProps\<close> compares them with the API documents.
\<close>

section \<open>Conforming answers\<close>

definition conforms :: "nat set \<Rightarrow> outcome \<Rightarrow> bool" where
  "conforms S x \<longleftrightarrow> status_code (app_reply x) \<in> S
     \<and> fst ` set (headers (app_reply x)) \<subseteq> set CORS_EXPOSE_HEADERS
     \<and> (status_code (app_reply x) = 401 \<longrightarrow> x = Inl unauthorized)"

lemma conforms_mono: "conforms S x \<Longrightarrow> S \<subseteq> T \<Longrightarrow> conforms T x"
  by (auto simp: conforms_def)

lemma exposed [simp]:
  "''ETag'' \<in> set CORS_EXPOSE_HEADERS" "''Location'' \<in> set CORS_EXPOSE_HEADERS"
  "''Link'' \<in> set CORS_EXPOSE_HEADERS" "''Allow'' \<in> set CORS_EXPOSE_HEADERS"
  "''Accept-Post'' \<in> set CORS_EXPOSE_HEADERS" "''Preference-Applied'' \<in> set CORS_EXPOSE_HEADERS"
  "''WWW-Authenticate'' \<in> set CORS_EXPOSE_HEADERS"
  by (simp_all add: CORS_EXPOSE_HEADERS_def)

text \<open>Which answers conform, by their form.\<close>

lemma conforms_replies [simp]:
  "conforms S (Inr \<lparr>status_code = n, headers = hs, media_type = m, content = t\<rparr>) \<longleftrightarrow>
     n \<in> S \<and> n \<noteq> 401 \<and> fst ` set hs \<subseteq> set CORS_EXPOSE_HEADERS"
  "conforms S (Inr (plain_response n hs)) \<longleftrightarrow>
     n \<in> S \<and> n \<noteq> 401 \<and> fst ` set hs \<subseteq> set CORS_EXPOSE_HEADERS"
  "conforms S (Inr (turtle_reply n hs t)) \<longleftrightarrow>
     n \<in> S \<and> n \<noteq> 401 \<and> fst ` set hs \<subseteq> set CORS_EXPOSE_HEADERS"
  "conforms S (Inr (put_response existed etag u link allow)) \<longleftrightarrow> (if existed then 200 else 201) \<in> S"
  "conforms S (Inr (stats_json r)) \<longleftrightarrow> 200 \<in> S"
  "conforms S (Inr (head_of resp)) \<longleftrightarrow> conforms S (Inr resp)"
  by (auto simp: conforms_def app_reply_def plain_response_def turtle_reply_def put_response_def
      stats_json_def head_of_def)

lemma conforms_errors [simp]:
  "conforms S (Inl (HTTPException n d hs)) \<longleftrightarrow> n \<in> S \<and> fst ` set hs \<subseteq> set CORS_EXPOSE_HEADERS
     \<and> (n = 401 \<longrightarrow> HTTPException n d hs = unauthorized)"
  "conforms S (Inl (Storage e)) \<longleftrightarrow> 500 \<in> S"
  "conforms S (Inl (ValueError t)) \<longleftrightarrow> 500 \<in> S"
  "conforms S (Inl (RuntimeError t)) \<longleftrightarrow> 500 \<in> S"
  "conforms S (Inl OSError) \<longleftrightarrow> 500 \<in> S"
  "conforms S (Inl UnicodeError) \<longleftrightarrow> 500 \<in> S"
  "conforms S (Inl LibraryError) \<longleftrightarrow> 500 \<in> S"
  "conforms S (Inl (UpstreamError n)) \<longleftrightarrow> 502 \<in> S"
  "conforms S (Inl (UpstreamNotFound t)) \<longleftrightarrow> 502 \<in> S"
  "conforms S (Inl unauthorized) \<longleftrightarrow> 401 \<in> S"
  by (auto simp: conforms_def app_reply_def exn_response_def plain_response_def unauthorized_def)

section \<open>What the operations of the store raise\<close>

lemma parse_rdf_body_errors:
  "parse_rdf_body L body ct base = Inl e \<Longrightarrow> conforms {400, 415} (Inl e)"
  by (auto simp: parse_rdf_body_def split: option.splits)

lemma check_preconditions_errors:
  "check_preconditions im inm etag ex = Inl e \<Longrightarrow> conforms {412, 428} (Inl e)"
  by (auto simp: check_preconditions_def split: if_splits)

lemma negotiate_media_errors: "negotiate_media accept formats d = Inl e \<Longrightarrow> conforms {406} (Inl e)"
proof -
  have "negotiate_entries es formats d = Inl e \<Longrightarrow> conforms {406} (Inl e)" for es
    by (induction es) (auto simp: Let_def split: if_splits option.splits)
  then show "negotiate_media accept formats d = Inl e \<Longrightarrow> conforms {406} (Inl e)"
    by (auto simp: negotiate_media_def split: option.splits if_splits)
qed

lemma negotiate_errors: "negotiate accept = Inl e \<Longrightarrow> conforms {406} (Inl e)"
  by (auto simp: negotiate_def split: sum.splits dest: negotiate_media_errors)

lemma read_text_errors: "read_text b p = Inl e \<Longrightarrow> e = UnicodeError \<or> e = OSError"
  by (auto simp: read_text_def split: option.splits fnode.splits)

lemma reload_context_errors:
  "reload_context L b u p v = (Inl e, b') \<Longrightarrow> e = UnicodeError \<or> e = OSError \<or> e = LibraryError"
  by (auto simp: reload_context_def Let_def split: sum.splits option.splits dest: read_text_errors)

lemma guard_errors: "guard_within_root b p = Inl e \<Longrightarrow> e = Storage StorageError"
  by (simp add: guard_within_root_def Let_def split: if_splits)

lemma public_errors: "assert_public_uri u base = Inl e \<Longrightarrow> e = Storage PrefixViolation"
  by (simp add: assert_public_uri_def split: if_splits)

lemma write_system_errors:
  "write_system L b u g = (Inl e, b') \<Longrightarrow>
   e = Storage StorageError \<or> e = UnicodeError \<or> e = OSError \<or> e = LibraryError"
  by (auto simp: write_system_def split: sum.splits option.splits
      dest: guard_errors mkdirs_errors write_bytes_errors reload_context_errors)

lemma backend_write_errors:
  "backend_write L b u g = (Inl e, b') \<Longrightarrow> conforms {403, 500} (Inl (storage_to_http e))"
  by (auto simp: backend_write_def storage_to_http_def http_error_def split: sum.splits
      dest!: public_errors write_system_errors)

lemma write_binary_errors:
  "write_binary L b u d ct = (Inl e, b') \<Longrightarrow> conforms {403, 500} (Inl (storage_to_http e))"
  by (auto simp: write_binary_def storage_to_http_def http_error_def split: sum.splits option.splits
      dest!: public_errors guard_errors mkdirs_errors write_bytes_errors reload_context_errors)

lemma unlink_errors: "unlink b p = Inl e \<Longrightarrow> e = OSError"
  by (auto simp: unlink_def split: option.splits fnode.splits)

lemma delete_system_errors:
  "delete_system b u = (Inl e, b') \<Longrightarrow>
   e = Storage StorageError \<or> e = Storage ResourceNotFound \<or> e = OSError"
  by (auto simp: delete_system_def Let_def split: sum.splits if_splits
      dest: guard_errors unlink_errors)

lemma backend_delete_errors:
  "backend_delete b u = (Inl e, b') \<Longrightarrow> conforms {403, 404, 500} (Inl (storage_to_http e))"
  by (auto simp: backend_delete_def storage_to_http_def http_error_def split: sum.splits
      dest!: public_errors delete_system_errors)

lemma write_raw_errors: "write_system L b u g = (Inl e, b') \<Longrightarrow> conforms {500} (Inl e)"
  by (auto dest!: write_system_errors)

text \<open>What a token check answers when it refuses.\<close>

lemma match_errors: "match_token_rows rows p a = Inl e \<Longrightarrow> conforms {401, 500} (Inl e)"
proof -
  have "first_match ts hs p a us = Inl e' \<Longrightarrow> conforms {401, 500} (Inl e')" for ts hs us e'
    by (induction us) (auto simp: Let_def compare_digest_def split: option.splits sum.splits bool.splits if_splits)
  then show "match_token_rows rows p a = Inl e \<Longrightarrow> conforms {401, 500} (Inl e)"
    by (auto simp: match_token_rows_def split: prod.splits)
qed

lemma token_record_errors: "token_record_from_graph g u ty = Inl e \<Longrightarrow> \<exists>t. e = ValueError t"
  by (auto simp: token_record_from_graph_def Let_def split: option.splits)

lemma validate_errors:
  "validate_token_one_of L b raw allowed = Inl e \<Longrightarrow> conforms {401, 500} (Inl e)"
  by (auto simp: validate_token_one_of_def Let_def split: sum.splits query_answer.splits
      prod.splits dest!: match_errors token_record_errors backend_read_errors)

lemma storage_token_errors: "get_storage_token L b auth = Inl e \<Longrightarrow> conforms {401, 500} (Inl e)"
  by (auto simp: get_storage_token_def require_bearer_def split: sum.splits option.splits if_splits
      dest: validate_errors)

lemma admin_token_errors: "get_admin_token L b auth = Inl e \<Longrightarrow> conforms {401, 500} (Inl e)"
  by (auto simp: get_admin_token_def validate_token_def require_bearer_def
      split: sum.splits option.splits if_splits dest: validate_errors)

lemmas store_errors = parse_rdf_body_errors check_preconditions_errors negotiate_errors
  negotiate_media_errors backend_write_errors write_binary_errors backend_delete_errors
  backend_read_errors write_raw_errors storage_token_errors admin_token_errors

section \<open>The data plane's handlers\<close>

lemma get_binary_conforms:
  "case get_binary_resource L b u inm of Inl e \<Rightarrow> conforms {200, 304, 404, 500} (Inl e)
   | Inr None \<Rightarrow> True | Inr (Some r) \<Rightarrow> conforms {200, 304, 404, 500} (Inr r)"
  using stream_binary_errors [of b u]
  by (auto simp: get_binary_resource_def binary_content_type_def Let_def
      split: sum.splits option.splits exn.splits storage_error.splits query_answer.splits)

lemma get_resource_conforms:
  "conforms {200, 304, 404, 406, 500} (get_resource L b base path accept inm pf)"
proof -
  have "conforms {200, 304, 404, 406, 500} (get_rdf_resource L b base path accept inm pf)"
    by (auto simp: get_rdf_resource_def http_error_def Let_def split: sum.splits option.splits prod.splits
        dest!: store_errors elim!: conforms_mono)
  with get_binary_conforms [of L b "base @ path" inm] show ?thesis
    by (auto simp: get_resource_def split: sum.splits option.splits elim!: conforms_mono)
qed

lemma head_resource_conforms:
  "conforms {200, 304, 404, 406, 500} (head_resource L b base path accept inm pf)"
  using get_resource_conforms [of L b base path accept inm pf]
  by (auto simp: head_resource_def split: sum.splits)

lemma attach_errors:
  "attach_to_parent L b base u = (Inl e, b') \<Longrightarrow> conforms {403, 500} (Inl e)"
  by (auto simp: attach_to_parent_def http_error_def Let_def split: if_splits sum.splits prod.splits exn.splits
      storage_error.splits dest!: backend_read_errors backend_write_errors elim!: conforms_mono)

lemma detach_errors:
  "detach_from_parent L b base u = (Inl e, b') \<Longrightarrow> conforms {403, 500} (Inl e)"
  by (auto simp: detach_from_parent_def http_error_def Let_def split: if_splits sum.splits prod.splits exn.splits
      storage_error.splits dest!: backend_read_errors backend_write_errors elim!: conforms_mono)

lemma merge_errors: "merge_container base u sg g = Inl e \<Longrightarrow> conforms {409} (Inl e)"
  by (auto simp: merge_container_def Let_def split: if_splits)

lemmas handler_errors = store_errors attach_errors detach_errors merge_errors

text \<open>A body whose media type the route has checked cannot be refused for it.\<close>

lemma checked_body_errors:
  assumes "t \<in> set RDF_CONTENT_TYPES" and "parse_rdf_body L body (Some t) u = Inl e"
  shows "conforms {400} (Inl e)"
proof -
  have "list_all (\<lambda>t. map_of SUPPORTED (normalize_media_type (Some t) '''') \<noteq> None) RDF_CONTENT_TYPES"
    by code_simp
  with assms show ?thesis by (auto simp: parse_rdf_body_def list_all_iff split: option.splits)
qed

lemma put_rdf_conforms:
  assumes "ct \<in> set RDF_CONTENT_TYPES"
  shows "conforms {200, 201, 400, 403, 409, 412, 428, 500} (fst (put_rdf_resource L b base path body ct im inm))"
  using assms
  by (auto simp: put_rdf_resource_def http_error_def Let_def split: sum.splits prod.splits if_splits exn.splits
        storage_error.splits dest: checked_body_errors dest!: backend_read_errors check_preconditions_errors backend_write_errors
        attach_errors merge_errors elim!: conforms_mono)

lemma put_binary_conforms:
  "conforms {200, 201, 403, 412, 428, 500} (fst (put_binary_resource L b base path body ct im inm))"
  by (auto simp: put_binary_resource_def Let_def split: sum.splits prod.splits if_splits
      exn.splits storage_error.splits dest!: stream_binary_errors handler_errors elim!: conforms_mono)

lemma post_conforms:
  "conforms {201, 400, 403, 404, 405, 500} (fst (post_member L uuid b base path body ct slug))"
  by (auto simp: post_member_def http_error_def Let_def split: sum.splits prod.splits if_splits
        dest: checked_body_errors dest!: backend_read_errors backend_write_errors write_binary_errors
        elim!: conforms_mono)

lemma delete_conforms: "conforms {204, 403, 404, 409, 500} (fst (delete_resource L b base path))"
  by (auto simp: delete_resource_def http_error_def Let_def split: sum.splits prod.splits if_splits
      option.splits exn.splits storage_error.splits dest!: backend_read_errors backend_delete_errors detach_errors
      elim!: conforms_mono)

lemma options_conforms: "conforms {200, 404, 500} (options_response b base path)"
  by (auto simp: options_response_def http_error_def Let_def split: sum.splits if_splits exn.splits
      storage_error.splits dest!: backend_read_errors stream_binary_errors)

lemma put_conforms:
  "conforms {200, 201, 400, 403, 409, 412, 428, 500} (fst (put_resource L b base path body ct im inm))"
  by (auto simp: put_resource_def Let_def put_rdf_conforms intro: conforms_mono [OF put_binary_conforms])

section \<open>The management handlers\<close>

lemma enforcement_conforms:
  "conforms {200, 400, 403, 404, 412, 415, 428, 500} (fst (enforcement_put L b u enf body ct im inm))"
proof -
  have g: "guard_enforcement_put L b u sub enf im inm = Inl e \<Longrightarrow> conforms {403, 404, 412, 428, 500} (Inl e)"
    for sub e
    by (auto simp: guard_enforcement_put_def Let_def split: sum.splits if_splits exn.splits
        storage_error.splits dest!: backend_read_errors check_preconditions_errors elim!: conforms_mono)
  have r: "replace_if_unchanged L b u sub etag f = (Inl e, b') \<Longrightarrow> conforms {500} (Inl e)" for sub etag f e b'
    by (auto simp: replace_if_unchanged_def split: sum.splits if_splits prod.splits
        dest!: guard_errors write_raw_errors)
  show ?thesis
    by (auto simp: enforcement_put_def apply_enforcement_put_def split: sum.splits prod.splits if_splits
        dest!: g r parse_rdf_body_errors elim!: conforms_mono)
qed

lemma put_token_conforms:
  "conforms {200, 400, 401, 403, 404, 412, 415, 428, 500}
     (fst (put_token_enforcement L b base auth i body ct im inm))"
  by (auto simp: put_token_enforcement_def split: sum.splits
      intro: conforms_mono [OF enforcement_conforms] dest!: storage_token_errors elim!: conforms_mono)

lemma access_log_conforms:
  "conforms {201, 400, 401, 415, 422, 500} (fst (append_access_log L i b base auth body ct))"
proof -
  have c: "canonical_entry L u sub = Inl e \<Longrightarrow> conforms {422} (Inl e)" for u sub e
    by (auto simp: canonical_entry_def Let_def split: if_splits option.splits node.splits)
  show ?thesis
    by (auto simp: append_access_log_def Let_def split: sum.splits prod.splits
        dest!: c storage_token_errors parse_rdf_body_errors write_raw_errors elim!: conforms_mono)
qed

lemma issue_grant_conforms:
  "conforms {201, 400, 401, 415, 500} (fst (issue_grant L secret i b base auth body ct))"
proof -
  have t: "issue_token L p i b ns linked ty name = (Inl e, b') \<Longrightarrow> conforms {500} (Inl e)" for p ns linked ty name e b'
    by (auto simp: issue_token_def allocate_record_id_def write_record_def Let_def
        split: sum.splits prod.splits exn.splits storage_error.splits
        dest!: backend_read_errors write_raw_errors)
  show ?thesis
    by (auto simp: issue_grant_def Let_def split: sum.splits prod.splits option.splits
        dest!: t admin_token_errors parse_rdf_body_errors backend_read_errors elim!: conforms_mono)
qed

lemma write_policy_conforms:
  "conforms {200, 201, 400, 401, 415, 422, 500} (fst (write_policy L b base auth i body ct))"
proof -
  have c: "canonical_policy L g s c ps acc = Inl e \<Longrightarrow> conforms {422} (Inl e)" for g s c ps acc e
    by (induction ps arbitrary: acc) (auto split: option.splits if_splits)
  show ?thesis
    by (auto simp: write_policy_def Let_def split: sum.splits prod.splits option.splits list.splits exn.splits
        storage_error.splits dest!: c admin_token_errors parse_rdf_body_errors backend_read_errors
        write_raw_errors elim!: conforms_mono)
qed

lemma read_system_conforms: "conforms {200, 401, 403, 404, 500} (read_system L b base auth path)"
proof -
  have c: "container_members L b base key u = Inl e \<Longrightarrow> conforms {500} (Inl e)" for key u e
    by (auto simp: container_members_def split: if_splits sum.splits query_answer.splits)
  have "conforms {200, 500} (synthesize_container L b base key)" for key
    unfolding synthesize_container_def Let_def
    by (auto split: sum.splits option.splits dest!: c elim!: conforms_mono)
  then show ?thesis
    by (auto simp: read_system_def http_error_def Let_def split: sum.splits option.splits
        dest!: storage_token_errors backend_read_errors elim!: conforms_mono intro: conforms_mono)
qed

lemma revoke_system_conforms: "conforms {204, 401, 404, 500} (fst (revoke_system L b base auth path))"
  by (auto simp: revoke_system_def revoke_token_def http_error_def storage_to_http_def
      split: sum.splits prod.splits dest!: admin_token_errors delete_system_errors elim!: conforms_mono)

section \<open>Views and queries\<close>

lemma submission_errors:
  "submission_or_422 L body ct base = Inl e \<Longrightarrow> conforms {400, 415, 422, 500} (Inl e)"
proof -
  have 1: "parse_view_submission g = Inl e \<Longrightarrow> \<exists>t. e = ValueError t" for g e
    by (auto simp: parse_view_submission_def Let_def split: list.splits option.splits)
  have 2: "validate_construct_template L t = Inl e \<Longrightarrow> \<exists>t. e = ValueError t" for t e
    by (auto simp: validate_construct_template_def split: option.splits if_splits)
  have 3: "check_params_against_template L t ds = Inl e \<Longrightarrow> (\<exists>t. e = ValueError t) \<or> e = LibraryError" for t ds e
    by (auto simp: check_params_against_template_def Let_def split: option.splits if_splits)
  show "submission_or_422 L body ct base = Inl e \<Longrightarrow> conforms {400, 415, 422, 500} (Inl e)"
    by (auto simp: submission_or_422_def value_error_to_422_def split: sum.splits if_splits
        dest!: 1 2 3 parse_rdf_body_errors elim!: conforms_mono)
qed

lemma store_view_conforms: "n \<noteq> 401 \<Longrightarrow> conforms {n, 500} (fst (store_view L labels b n u sub))"
  by (auto simp: store_view_def Let_def split: sum.splits prod.splits option.splits
      dest!: write_raw_errors elim!: conforms_mono)

lemma create_view_conforms:
  "conforms {201, 400, 401, 415, 422, 500} (fst (create_view L labels i b base auth body ct slug))"
  by (auto simp: create_view_def Let_def split: sum.splits intro: conforms_mono [OF store_view_conforms]
      dest!: admin_token_errors submission_errors elim!: conforms_mono)

lemma replace_view_conforms:
  "conforms {200, 201, 400, 401, 403, 404, 412, 415, 422, 428, 500}
     (fst (replace_view L labels b base auth i body ct im inm))"
  by (auto simp: replace_view_def Let_def split: sum.splits exn.splits storage_error.splits
      intro: conforms_mono [OF store_view_conforms] conforms_mono [OF enforcement_conforms]
      dest!: storage_token_errors submission_errors backend_read_errors elim!: conforms_mono)

lemma delete_view_conforms: "conforms {204, 401, 404, 500} (fst (delete_view L b base auth i))"
  by (auto simp: delete_view_def split: sum.splits prod.splits exn.splits storage_error.splits
      dest!: admin_token_errors delete_system_errors elim!: conforms_mono)

lemma run_sparql_conforms:
  "conforms {200, 400, 406, 500} (run_sparql L b q accept ib wide ts sg)"
proof -
  have "conforms {200, 400, 406, 500} (answer_response L a accept)" for a
    by (auto simp: answer_response_def query_fault_def split: query_answer.splits sum.splits option.splits
        query_error.splits if_splits dest!: negotiate_media_errors elim!: conforms_mono)
  then show ?thesis
    by (auto simp: run_sparql_def query_fault_def Let_def split: prod.splits sum.splits query_error.splits)
qed

lemma query_get_conforms: "conforms {200, 400, 401, 406, 500} (query_get L b sg auth ps accept)"
  by (auto simp: query_get_def split: sum.splits intro: conforms_mono [OF run_sparql_conforms]
      dest!: storage_token_errors elim!: conforms_mono)

lemma query_post_conforms:
  "conforms {200, 400, 401, 405, 406, 415, 500} (query_post L b sg auth ps body ct accept)"
  by (auto simp: query_post_def Let_def split: sum.splits option.splits
      intro: conforms_mono [OF run_sparql_conforms] dest!: storage_token_errors elim!: conforms_mono)

section \<open>The engine\<close>

text \<open>The faults of an upstream call: 502, or 500 where its answer cannot be read.\<close>

lemma expect_errors: "expect r n = Inl e \<Longrightarrow> conforms {500, 502} (Inl e)"
  by (auto simp: expect_def split: if_splits)

lemma read_graph_errors: "read_graph L up c s u = (Inl e, s') \<Longrightarrow> conforms {500, 502} (Inl e)"
  by (auto simp: read_graph_def parse_text_def split: prod.splits if_splits sum.splits option.splits
      dest!: expect_errors)

lemma post_query_errors: "post_query up s q a base hs = (Inl e, s') \<Longrightarrow> conforms {500, 502} (Inl e)"
  by (auto simp: post_query_def split: prod.splits sum.splits dest!: expect_errors)

lemma select_errors:
  "construct L up c s q = (Inl e, s') \<Longrightarrow> conforms {500, 502} (Inl e)"
  "select_state L up c s q = (Inl e, s') \<Longrightarrow> conforms {500, 502} (Inl e)"
  "select_data L up c s q = (Inl e, s') \<Longrightarrow> conforms {500, 502} (Inl e)"
  by (auto simp: construct_def select_state_def select_data_def parse_text_def rows_of_def
      split: prod.splits sum.splits option.splits dest!: post_query_errors)

lemma open_stream_errors: "open_binary_stream up c s u = (Inl e, s') \<Longrightarrow> conforms {500, 502} (Inl e)"
  by (auto simp: open_binary_stream_def split: prod.splits if_splits)

lemma bump_errors: "bump_loop n L up c s u k f = (Inl e, s') \<Longrightarrow> conforms {500, 502} (Inl e)"
proof (induction n arbitrary: s)
  case (Suc n)
  have "read_record_with_etag L up c s u = (Inl e, s1) \<Longrightarrow> conforms {500, 502} (Inl e)" for s1
    by (auto simp: read_record_with_etag_def parse_text_def split: prod.splits if_splits sum.splits
        option.splits dest!: expect_errors)
  with Suc show ?case
    by (auto simp: conditional_put_def split: prod.splits sum.splits option.splits if_splits)
qed auto

lemma record_delivery_errors:
  "record_delivery L up c s t v stamp = (Inl e, s') \<Longrightarrow> conforms {500, 502} (Inl e)"
  by (auto simp: record_delivery_def bump_token_enforcement_def bump_view_enforcement_def
      client_append_access_log_def split: prod.splits sum.splits dest!: bump_errors expect_errors)

lemma state_scoped_errors: "state_scoped c q = Inl e \<Longrightarrow> \<exists>t. e = ValueError t"
  by (auto simp: state_scoped_def split: option.splits)

lemma engine_token_errors:
  "get_engine_token L up c s auth ty = (Inl e, s') \<Longrightarrow> conforms {401, 500, 502} (Inl e)"
  by (auto simp: get_engine_token_def require_bearer_def validate_via_storage_def inject_values_block_def Let_def
      split: option.splits if_splits sum.splits prod.splits exn.splits
      dest!: state_scoped_errors select_errors match_errors token_record_errors read_graph_errors
      elim!: conforms_mono)

lemma policy_errors: "check_policy L now rec pg vg u = Inl e \<Longrightarrow> conforms {403, 500} (Inl e)"
proof -
  have checks: "all_checks rs = Inl e \<Longrightarrow> Inl e \<in> set rs" for rs :: "(exn, unit) result list" and e
    by (induction rs) (auto split: sum.splits)
  have m: "with_moment v P t = Inl e \<Longrightarrow> conforms {403, 500} (Inl e)" for v P t e
    by (auto simp: with_moment_def denied_def split: option.splits if_splits)
  have n: "with_number v P t = Inl e \<Longrightarrow> conforms {403, 500} (Inl e)" for v P t e
    by (auto simp: with_number_def denied_def split: option.splits if_splits)
  have i: "check_interval rec v now = Inl e \<Longrightarrow> conforms {403, 500} (Inl e)" for rec v now e
    by (auto simp: check_interval_def split: option.splits if_splits dest: n)
  have g: "check_grant_policy rec g now = Inl e \<Longrightarrow> conforms {403, 500} (Inl e)" for g e
    unfolding check_grant_policy_def Let_def
    by (drule checks) (auto dest: m [OF sym] n [OF sym] i [OF sym])
  have v: "check_view_limit L g u = Inl e \<Longrightarrow> conforms {403, 500} (Inl e)" for g u e
    by (auto simp: check_view_limit_def Let_def split: option.splits dest: n)
  show "check_policy L now rec pg vg u = Inl e \<Longrightarrow> conforms {403, 500} (Inl e)"
    unfolding check_policy_def
    by (drule checks) (auto split: option.splits dest: g [OF sym] v [OF sym])
qed

lemma bind_errors: "bind_loop L raw ds bound = Inl e \<Longrightarrow> \<exists>t. e = ValueError t"
  by (induction ds arbitrary: bound) (auto split: option.splits)

lemma inject_errors: "inject_values L t bound ds = Inl e \<Longrightarrow> \<exists>t. e = ValueError t"
proof -
  have "serialize_terms L bound ds' = Inl e \<Longrightarrow> \<exists>t. e = ValueError t" for ds' e
    by (induction ds') (auto simp: serialize_term_def split: sum.splits option.splits)
  then show "inject_values L t bound ds = Inl e \<Longrightarrow> \<exists>t. e = ValueError t"
    by (auto simp: inject_values_def values_block_def Let_def split: if_splits sum.splits option.splits)
qed

lemma parse_view_errors: "parse_view_record g u = Inl e \<Longrightarrow> \<exists>t. e = ValueError t"
  by (auto simp: parse_view_record_def Let_def split: option.splits)

lemma load_view_errors: "load_view L up c s u = (Inl e, s') \<Longrightarrow> conforms {404, 500, 502} (Inl e)"
  by (auto simp: load_view_def split: prod.splits sum.splits exn.splits
      dest!: read_graph_errors parse_view_errors elim!: conforms_mono)

lemma load_policy_errors: "load_policy L up c s p = (Inl e, s') \<Longrightarrow> conforms {500, 502} (Inl e)"
  by (auto simp: load_policy_def split: option.splits prod.splits sum.splits exn.splits
      dest!: read_graph_errors)

lemma view_pipeline_errors:
  assumes "view_pipeline L up c now s token view gd ps = (Inl e, s')"
    and gd: "\<And>e. gd = Inl e \<Longrightarrow> conforms T (Inl e)" and T: "{403, 404, 422, 500, 502} \<subseteq> T"
  shows "conforms T (Inl e)"
proof -
  have m: "conforms S x \<Longrightarrow> S \<subseteq> {403, 404, 422, 500, 502} \<Longrightarrow> conforms T x" for S x
    using T by (meson conforms_mono order_trans)
  from assms(1) show ?thesis unfolding view_pipeline_def bind_params_def
    by (auto simp: value_error_to_422_def split: if_splits sum.splits prod.splits
        dest!: load_view_errors bind_errors load_policy_errors policy_errors inject_errors select_errors
        intro: gd elim!: m) (use T in auto)
qed

lemma rewrite_errors:
  "rewrite_upstream_uris L up c s g d e i bound = (Inl x, s') \<Longrightarrow> conforms {500, 502} (Inl x)"
  by (auto simp: rewrite_upstream_uris_def Let_def split: if_splits prod.splits sum.splits
      dest!: select_errors)

lemma get_view_conforms:
  "conforms {200, 401, 403, 404, 422, 500, 502} (fst (get_view L up c st now stamp s auth i ps))"
proof -
  have p: "view_pipeline L up c now s0 t v (Inr ()) ps = (Inl e, s1) \<Longrightarrow>
      conforms {403, 404, 422, 500, 502} (Inl e)" for s0 t v s1 e
    by (erule view_pipeline_errors) simp_all
  show ?thesis
    by (auto simp: get_view_def Let_def split: prod.splits sum.splits option.splits
        dest!: engine_token_errors p rewrite_errors record_delivery_errors elim!: conforms_mono)
qed

lemma get_blob_conforms:
  "conforms {200, 400, 401, 403, 404, 422, 500, 502} (fst (get_blob L up c st now stamp s auth i ps))"
proof -
  have g: "blob_guard st u = Inl e \<Longrightarrow> conforms {400} (Inl e)" for u e
    by (auto simp: blob_guard_def split: option.splits if_splits)
  have p: "view_pipeline L up c now s0 t v (blob_guard st u) ps = (Inl e, s1) \<Longrightarrow>
      conforms {400, 403, 404, 422, 500, 502} (Inl e)" for s0 t v u s1 e
    by (erule view_pipeline_errors) (auto dest!: g elim!: conforms_mono)
  show ?thesis
    by (auto simp: get_blob_def Let_def split: prod.splits sum.splits option.splits exn.splits if_splits
        dest!: engine_token_errors p open_stream_errors record_delivery_errors elim!: conforms_mono) fastforce+
qed

lemma describe_errors: "describe_all L up c st label s j g us = (Inl e, s') \<Longrightarrow> conforms {500, 502} (Inl e)"
proof (induction us arbitrary: s g)
  case (Cons u us)
  have "describe_member L up c l s g m u = (Inl e, s1) \<Longrightarrow> conforms {500, 502} (Inl e)" for l s g m s1
    by (auto simp: describe_member_def split: prod.splits sum.splits exn.splits
        dest!: read_graph_errors parse_view_errors)
  with Cons show ?case by (auto simp: Let_def split: prod.splits sum.splits)
qed simp

lemma discover_conforms: "conforms {200, 401, 500, 502} (fst (discover L up c st label s auth))"
  by (auto simp: discover_def Let_def split: prod.splits sum.splits option.splits
      dest!: engine_token_errors describe_errors elim!: conforms_mono)

lemma stats_errors: "stats L up c s auth = (Inl e, s') \<Longrightarrow> conforms {401, 500, 502} (Inl e)"
proof -
  have "select_scoped L up c s q = (Inl e, s') \<Longrightarrow> conforms {401, 500, 502} (Inl e)" for s q e s'
    by (auto simp: select_scoped_def split: sum.splits dest!: state_scoped_errors select_errors
        elim!: conforms_mono)
  then have "compute_stats L up c s = (Inl e, s') \<Longrightarrow> conforms {401, 500, 502} (Inl e)" for s e s'
    by (auto simp: compute_stats_def split: prod.splits sum.splits option.splits)
  then show "stats L up c s auth = (Inl e, s') \<Longrightarrow> conforms {401, 500, 502} (Inl e)"
    by (auto simp: stats_def split: prod.splits sum.splits dest: engine_token_errors)
qed

end
