(* ===== verification/ApiProps.thy ===== *)
theory ApiProps
  imports Answers Consumer
begin

text \<open>
  The applications keep what their API documents say: every request of a documented operation is
  answered with a status that operation lists, or with 500, and with headers a browser client may
  read under the CORS settings; the credentials the document asks for are enforced. The few statuses
  the tables miss are listed in \<open>undocumented\<close> and shown to occur.
\<close>

section \<open>The statuses of the tables\<close>

lemmas operation_defs =
    sparqlQueryGet_op_def sparqlQueryPost_op_def createView_op_def replaceView_op_def
    deleteView_op_def putTokenEnforcement_op_def appendAccessLog_op_def issueToken_op_def
    writePolicy_op_def readSystemResource_op_def revokeSystemResource_op_def getRoot_op_def
    getResource_op_def putRoot_op_def putResource_op_def postToRoot_op_def
    postToContainer_op_def deleteResource_op_def optionsRoot_op_def optionsResource_op_def
    getViewResult_op_def getViewBlob_op_def discoverViews_op_def getStats_op_def

lemmas response_defs = QUERY_RESPONSES_def ENFORCEMENT_RESPONSES_def GET_RESPONSES_def PUT_RESPONSES_def POST_RESPONSES_def
  DELETE_RESPONSES_def OPTIONS_RESPONSES_def

lemma documented_statuses:
  "documented sparqlQueryGet_op = [200, 200, 400, 401, 406]"
  "documented sparqlQueryPost_op = [200, 200, 400, 401, 406, 405, 415]"
  "documented createView_op = [201, 201, 400, 401, 415, 422]"
  "documented replaceView_op = [200, 200, 201, 400, 401, 403, 412, 415, 422, 428]"
  "documented deleteView_op = [204, 204, 401, 404]"
  "documented putTokenEnforcement_op = [200, 200, 401, 403, 404, 412, 415, 428]"
  "documented appendAccessLog_op = [201, 201, 401, 415, 422]"
  "documented issueToken_op = [201, 201, 400, 401, 415]"
  "documented writePolicy_op = [200, 200, 201, 400, 401, 415, 422]"
  "documented readSystemResource_op = [200, 200, 401, 403, 404]"
  "documented revokeSystemResource_op = [204, 204, 401, 404]"
  "documented getRoot_op = [200, 200, 304, 401, 404]"
  "documented getResource_op = [200, 200, 304, 401, 404]"
  "documented putRoot_op = [200, 200, 201, 400, 401, 403, 409, 412, 428]"
  "documented putResource_op = [200, 200, 201, 400, 401, 403, 409, 412, 428]"
  "documented postToRoot_op = [200, 201, 400, 401, 403, 404, 405]"
  "documented postToContainer_op = [200, 201, 400, 401, 403, 404, 405]"
  "documented deleteResource_op = [204, 204, 401, 403, 404, 409]"
  "documented optionsRoot_op = [200, 200, 401, 404]"
  "documented optionsResource_op = [200, 200, 401, 404]"
  "documented getViewResult_op = [200, 200, 401, 403, 404, 422, 502]"
  "documented getViewBlob_op = [200, 200, 400, 401, 403, 404, 422, 502]"
  "documented discoverViews_op = [200, 200, 401, 502]"
  "documented getStats_op = [200, 401, 502]"
  unfolding documented_def operation_defs response_defs operation.select_convs list.map fst_conv
    append.simps by (rule refl)+

lemma operation_routes:
  "op_id sparqlQueryGet_op = ''sparqlQueryGet''" "op_method sparqlQueryGet_op = ''GET''"
  "op_template sparqlQueryGet_op = Exact ''/sparql''"
  "op_id sparqlQueryPost_op = ''sparqlQueryPost''" "op_method sparqlQueryPost_op = ''POST''"
  "op_template sparqlQueryPost_op = Exact ''/sparql''"
  "op_id createView_op = ''createView''" "op_method createView_op = ''POST''"
  "op_template createView_op = Exact ''/.system/views''"
  "op_id replaceView_op = ''replaceView''" "op_method replaceView_op = ''PUT''"
  "op_template replaceView_op = OneSegment ''/.system/views/''"
  "op_id deleteView_op = ''deleteView''" "op_method deleteView_op = ''DELETE''"
  "op_template deleteView_op = OneSegment ''/.system/views/''"
  "op_id putTokenEnforcement_op = ''putTokenEnforcement''" "op_method putTokenEnforcement_op = ''PUT''"
  "op_template putTokenEnforcement_op = OneSegment ''/.system/tokens/''"
  "op_id appendAccessLog_op = ''appendAccessLog''" "op_method appendAccessLog_op = ''POST''"
  "op_template appendAccessLog_op = Exact ''/.system/access-log''"
  "op_id issueToken_op = ''issueToken''" "op_method issueToken_op = ''POST''"
  "op_template issueToken_op = Exact ''/.system/tokens''"
  "op_id writePolicy_op = ''writePolicy''" "op_method writePolicy_op = ''PUT''"
  "op_template writePolicy_op = OneSegment ''/.system/tokens/policies/''"
  "op_id readSystemResource_op = ''readSystemResource''" "op_method readSystemResource_op = ''GET''"
  "op_template readSystemResource_op = AnyPath ''/.system/''"
  "op_id revokeSystemResource_op = ''revokeSystemResource''" "op_method revokeSystemResource_op = ''DELETE''"
  "op_template revokeSystemResource_op = AnyPath ''/.system/''"
  "op_id getRoot_op = ''getRoot''" "op_method getRoot_op = ''GET''"
  "op_template getRoot_op = Exact ''/''"
  "op_id getResource_op = ''getResource''" "op_method getResource_op = ''GET''"
  "op_template getResource_op = AnyPath ''/''"
  "op_id putRoot_op = ''putRoot''" "op_method putRoot_op = ''PUT''"
  "op_template putRoot_op = Exact ''/''"
  "op_id putResource_op = ''putResource''" "op_method putResource_op = ''PUT''"
  "op_template putResource_op = AnyPath ''/''"
  "op_id postToRoot_op = ''postToRoot''" "op_method postToRoot_op = ''POST''"
  "op_template postToRoot_op = Exact ''/''"
  "op_id postToContainer_op = ''postToContainer''" "op_method postToContainer_op = ''POST''"
  "op_template postToContainer_op = AnyPath ''/''"
  "op_id deleteResource_op = ''deleteResource''" "op_method deleteResource_op = ''DELETE''"
  "op_template deleteResource_op = AnyPath ''/''"
  "op_id optionsRoot_op = ''optionsRoot''" "op_method optionsRoot_op = ''OPTIONS''"
  "op_template optionsRoot_op = Exact ''/''"
  "op_id optionsResource_op = ''optionsResource''" "op_method optionsResource_op = ''OPTIONS''"
  "op_template optionsResource_op = AnyPath ''/''"
  "op_id getViewResult_op = ''getViewResult''" "op_method getViewResult_op = ''GET''"
  "op_template getViewResult_op = OneSegment ''/.engine/views/''"
  "op_id getViewBlob_op = ''getViewBlob''" "op_method getViewBlob_op = ''GET''"
  "op_template getViewBlob_op = OneSegment ''/.engine/blob/''"
  "op_id discoverViews_op = ''discoverViews''" "op_method discoverViews_op = ''GET''"
  "op_template discoverViews_op = Exact ''/.engine/discovery''"
  "op_id getStats_op = ''getStats''" "op_method getStats_op = ''GET''"
  "op_template getStats_op = Exact ''/.engine/stats''"
  unfolding operation_defs operation.select_convs by (rule refl)+

lemmas operation_simps = documented_statuses operation_routes

text \<open>
  The statuses a request may be answered with that its operation does not list: an \<open>Accept\<close>
  header nothing satisfies, an enforcement write whose body does not parse, and the engine's
  count of a view that is gone.
\<close>

definition undocumented :: "operation \<Rightarrow> nat set" where
  "undocumented op =
     (if op_id op = ''getRoot'' \<or> op_id op = ''getResource'' then {406}
      else if op_id op = ''putTokenEnforcement'' \<or> op_id op = ''appendAccessLog'' then {400}
      else if op_id op = ''replaceView'' then {404} else {})"

definition allowed :: "operation \<Rightarrow> nat set" where
  "allowed op = set (documented op) \<union> undocumented op \<union> {500}"

text \<open>A router and its operations agree: it answers exactly the requests they describe, each as
  \<open>Q\<close> says of its operation.\<close>

definition routed :: "(operation \<Rightarrow> 'r \<Rightarrow> bool) \<Rightarrow> operation list \<Rightarrow> app_request \<Rightarrow> 'r option \<Rightarrow> bool" where
  "routed Q ops req r = (case r of
     None \<Rightarrow> operation_of ops req = None
   | Some x \<Rightarrow> (\<exists>op. operation_of ops req = Some op \<and> Q op x))"

abbreviation answered :: "operation list \<Rightarrow> app_request \<Rightarrow> (outcome \<times> 's) option \<Rightarrow> bool" where
  "answered \<equiv> routed (\<lambda>op r. conforms (allowed op) (fst r))"

lemma routed_simps [simp]:
  "routed Q ops req None \<longleftrightarrow> operation_of ops req = None"
  "routed Q ops req (Some x) \<longleftrightarrow> (\<exists>op. operation_of ops req = Some op \<and> Q op x)"
  by (simp_all add: routed_def)

lemma find_append: "find P (xs @ ys) = (case find P xs of None \<Rightarrow> find P ys | Some x \<Rightarrow> Some x)"
  by (induction xs) auto

lemma operation_of_append:
  "operation_of (xs @ ys) req =
     (case operation_of xs req of None \<Rightarrow> operation_of ys req | Some op \<Rightarrow> Some op)"
  by (auto simp: operation_of_def find_append split: option.split)

lemma operation_of_simps:
  "operation_of [] req = None"
  "operation_of (op # ops) req = (if a_method req = op_method op \<and> template_matches (op_template op) (a_path req)
     then Some op else operation_of ops req)"
  by (auto simp: operation_of_def operation_matches_def)

section \<open>The routers keep their tables\<close>

lemmas table_simps = operation_of_simps operation_simps template_matches_def allowed_def undocumented_def

lemma sparql_answered: "answered SPARQL_OPERATIONS req (sparql_routes L st b req)"
  by (auto simp: SPARQL_OPERATIONS_def sparql_routes_def table_simps
      intro: conforms_mono [OF query_get_conforms] conforms_mono [OF query_post_conforms])

lemma views_answered: "answered VIEWS_OPERATIONS req (views_routes L f st b req)"
  by (auto simp: VIEWS_OPERATIONS_def views_routes_def table_simps split: option.splits
      intro: conforms_mono [OF create_view_conforms] conforms_mono [OF replace_view_conforms]
        conforms_mono [OF delete_view_conforms])

lemma internal_answered: "answered INTERNAL_OPERATIONS req (internal_routes L f st b req)"
  by (auto simp: INTERNAL_OPERATIONS_def internal_routes_def table_simps split: option.splits
      intro: conforms_mono [OF put_token_conforms] conforms_mono [OF access_log_conforms])

lemma system_answered: "answered SYSTEM_OPERATIONS req (system_routes L f st b req)"
  by (auto simp: SYSTEM_OPERATIONS_def system_routes_def table_simps Let_def split: option.splits
      intro: conforms_mono [OF issue_grant_conforms] conforms_mono [OF write_policy_conforms]
        conforms_mono [OF read_system_conforms] conforms_mono [OF revoke_system_conforms])

lemma engine_answered:
  "answered (VIEW_OPERATIONS @ DISCOVERY_OPERATIONS) req (engine_routes L up c st clk label s req)"
proof -
  note tabs = VIEW_OPERATIONS_def DISCOVERY_OPERATIONS_def engine_routes_def table_simps Let_def
  consider (other) "a_method req \<noteq> ''GET''"
    | (views) i where "a_method req = ''GET''" "one_segment ''/.engine/views/'' (a_path req) = Some i"
    | (blobs) i where "a_method req = ''GET''" "one_segment ''/.engine/views/'' (a_path req) = None"
        "one_segment ''/.engine/blob/'' (a_path req) = Some i"
    | (rest) "a_method req = ''GET''" "one_segment ''/.engine/views/'' (a_path req) = None"
        "one_segment ''/.engine/blob/'' (a_path req) = None"
    by (cases "one_segment ''/.engine/views/'' (a_path req)";
        cases "one_segment ''/.engine/blob/'' (a_path req)") blast+
  then show ?thesis
  proof cases
    case other
    then show ?thesis by (auto simp: tabs)
  next
    case views
    then show ?thesis by (simp add: tabs) (rule conforms_mono [OF get_view_conforms], simp)
  next
    case blobs
    then show ?thesis by (simp add: tabs) (rule conforms_mono [OF get_blob_conforms], simp)
  next
    case rest
    have "stats L up c s auth = (Inl e, s') \<Longrightarrow> conforms {500, 200, 401, 502} (Inl e)" for auth e s'
      by (drule stats_errors) (erule conforms_mono, simp)
    moreover have "conforms {500, 200, 401, 502} (fst (discover L up c st label s auth))" for auth
      using discover_conforms by (rule conforms_mono) simp
    moreover have "one_segment ''/.engine/views/'' ''/.engine/discovery'' = None"
      "one_segment ''/.engine/blob/'' ''/.engine/discovery'' = None"
      "one_segment ''/.engine/views/'' ''/.engine/stats'' = None"
      "one_segment ''/.engine/blob/'' ''/.engine/stats'' = None" by code_simp+
    ultimately show ?thesis using rest
      by (cases "a_path req = ''/.engine/discovery''"; cases "a_path req = ''/.engine/stats''")
        (simp_all add: tabs split: prod.split sum.split)
  qed
qed

lemma reads_conform:
  "conforms S x \<Longrightarrow> {401, 500} \<union> S \<subseteq> T \<Longrightarrow>
   conforms T (fst (with_token (get_storage_token L b auth) b (x, b)))"
  by (auto simp: with_token_def split: sum.splits dest: storage_token_errors elim: conforms_mono)

lemma writes_conform:
  "conforms S (fst act) \<Longrightarrow> {401, 500} \<union> S \<subseteq> T \<Longrightarrow>
   conforms T (fst (with_token (get_admin_token L b auth) b act))"
  by (auto simp: with_token_def split: sum.splits dest: admin_token_errors elim: conforms_mono)

lemma ldp_answered:
  assumes "operation_of LDP_OPERATIONS req = Some op"
  shows "conforms (allowed op) (fst (ldp_routes L f st b req path))"
proof -
  have "(a_method req = ''GET'' \<and> allowed op = {200, 304, 401, 404, 406, 500})
      \<or> (a_method req = ''PUT'' \<and> allowed op = {200, 201, 400, 401, 403, 409, 412, 428, 500})
      \<or> (a_method req = ''POST'' \<and> allowed op = {200, 201, 400, 401, 403, 404, 405, 500})
      \<or> (a_method req = ''DELETE'' \<and> allowed op = {204, 401, 403, 404, 409, 500})
      \<or> (a_method req = ''OPTIONS'' \<and> allowed op = {200, 401, 404, 500})"
    using assms by (auto simp: LDP_OPERATIONS_def table_simps split: if_splits)
  then show ?thesis
    by (elim disjE conjE) (simp_all add: ldp_routes_def Let_def
        reads_conform [OF get_resource_conforms] reads_conform [OF options_conforms]
        writes_conform [OF put_conforms] writes_conform [OF post_conforms] writes_conform [OF delete_conforms])
qed

text \<open>The routers in a row, the data plane last.\<close>

lemma first_route_routed:
  assumes "list_all2 (\<lambda>ops r. routed Q ops req r) opss rs"
    and "operation_of ops req = Some op \<Longrightarrow> Q op d"
    and "operation_of (concat opss @ ops) req = Some op"
  shows "Q op (first_route rs d)"
  using assms(1,3)
proof (induction opss rs rule: list_all2_induct)
  case Nil
  with assms(2) show ?case by simp
next
  case (Cons o1 os r rs)
  then show ?case by (cases r) (auto simp: operation_of_append)
qed

lemma storage_answers_documented:
  assumes "public_routes req = None" and "operation_of STORAGE_OPERATIONS req = Some op"
  shows "conforms (allowed op) (fst (storage_app L f st b req))"
proof -
  let ?ops = "[SPARQL_OPERATIONS, VIEWS_OPERATIONS, INTERNAL_OPERATIONS, SYSTEM_OPERATIONS]"
  have "conforms (allowed op) (fst (first_route [sparql_routes L st b req, views_routes L f st b req,
      internal_routes L f st b req, system_routes L f st b req] (ldp_routes L f st b req (tl (a_path req)))))"
    by (rule first_route_routed [of "\<lambda>op r. conforms (allowed op) (fst r)" req ?ops _ LDP_OPERATIONS])
      (use assms(2) in \<open>simp_all add: sparql_answered views_answered internal_answered system_answered
         ldp_answered STORAGE_OPERATIONS_def\<close>)
  then show ?thesis by (simp add: storage_app_def assms(1))
qed


definition pod_answer :: "app_request \<Rightarrow> outcome" where
  "pod_answer req = fst (bundled_app (Suc 0) sys_libs demo_fresh demo_settings desk_client
     \<lparr>clk_now = 0, clk_stamp = ''t''\<rparr> (\<lambda>u k. u) sys_store req)"

lemma log_request_operation: "operation_of POD_OPERATIONS log_request = Some appendAccessLog_op"
  unfolding POD_OPERATIONS_def SPARQL_OPERATIONS_def VIEWS_OPERATIONS_def INTERNAL_OPERATIONS_def
  by (simp add: operation_of_simps operation_routes template_matches_def log_request_def one_segment_def)


section \<open>The credentials of the tables\<close>

text \<open>The names of the security schemes an operation accepts.\<close>

definition op_schemes :: "operation \<Rightarrow> string list" where
  "op_schemes op = (case map_of (op_extra op) ''security'' of
     Some (JArr alternatives) \<Rightarrow>
       concat (map (\<lambda>a. case a of JObj members \<Rightarrow> map fst members | _ \<Rightarrow> []) alternatives)
   | _ \<Rightarrow> [])"

lemma operation_schemes:
  "op_schemes sparqlQueryGet_op = [''AdminToken'', ''EngineToken'']"
  "op_schemes sparqlQueryPost_op = [''AdminToken'', ''EngineToken'']"
  "op_schemes createView_op = [''AdminToken'']"
  "op_schemes replaceView_op = [''AdminToken'', ''EngineToken'']"
  "op_schemes deleteView_op = [''AdminToken'']"
  "op_schemes putTokenEnforcement_op = [''AdminToken'', ''EngineToken'']"
  "op_schemes appendAccessLog_op = [''AdminToken'', ''EngineToken'']"
  "op_schemes issueToken_op = [''AdminToken'']"
  "op_schemes writePolicy_op = [''AdminToken'']"
  "op_schemes readSystemResource_op = [''AdminToken'', ''EngineToken'']"
  "op_schemes revokeSystemResource_op = [''AdminToken'']"
  "op_schemes getRoot_op = [''AdminToken'', ''EngineToken'']"
  "op_schemes getResource_op = [''AdminToken'', ''EngineToken'']"
  "op_schemes putRoot_op = [''AdminToken'']"
  "op_schemes putResource_op = [''AdminToken'']"
  "op_schemes postToRoot_op = [''AdminToken'']"
  "op_schemes postToContainer_op = [''AdminToken'']"
  "op_schemes deleteResource_op = [''AdminToken'']"
  "op_schemes optionsRoot_op = [''AdminToken'', ''EngineToken'']"
  "op_schemes optionsResource_op = [''AdminToken'', ''EngineToken'']"
  unfolding op_schemes_def operation_defs operation.select_convs ADMIN_AUTH_def STORAGE_AUTH_def
  by simp_all

text \<open>The check an operation's schemes ask for: the owner's token, or either storage token.\<close>

definition documented_check :: "libs \<Rightarrow> backend \<Rightarrow> operation \<Rightarrow> app_request \<Rightarrow> (exn, token_record) result" where
  "documented_check L b op req =
     (if ''EngineToken'' \<in> set (op_schemes op) then get_storage_token L b (hdr req ''authorization'')
      else get_admin_token L b (hdr req ''authorization''))"

lemmas check_simps = documented_check_def operation_schemes operation_of_simps operation_routes
  template_matches_def



section \<open>What a browser client may send\<close>

text \<open>
  The request headers CORS lets through are all the storage role reads: two requests that differ in
  other headers only are answered alike.
\<close>

lemma only_allowed_headers_matter:
  assumes "a_method req' = a_method req" "a_path req' = a_path req" "a_params req' = a_params req"
    "a_body req' = a_body req"
    and "\<forall>h\<in>set CORS_ALLOW_HEADERS. hdr req' h = hdr req h"
  shows "storage_app L f st b req' = storage_app L f st b req"
proof -
  have low: "lower h = lower k \<Longrightarrow> hdr r h = hdr r k" for h k r by (simp add: hdr_def)
  have h: "hdr req' h = hdr req h" if "k \<in> set CORS_ALLOW_HEADERS" "lower h = lower k" for h k
    using that assms(5) low by metis
  note names = CORS_ALLOW_HEADERS_def
  have hs: "hdr req' ''authorization'' = hdr req ''authorization''" "hdr req' ''accept'' = hdr req ''accept''"
    "hdr req' ''content-type'' = hdr req ''content-type''" "hdr req' ''if-match'' = hdr req ''if-match''"
    "hdr req' ''if-none-match'' = hdr req ''if-none-match''" "hdr req' ''prefer'' = hdr req ''prefer''"
    "hdr req' ''slug'' = hdr req ''slug''"
    by (rule h [of "''Authorization''"], simp add: names, code_simp)
      (rule h [of "''Accept''"], simp add: names, code_simp,
       rule h [of "''Content-Type''"], simp add: names, code_simp,
       rule h [of "''If-Match''"], simp add: names, code_simp,
       rule h [of "''If-None-Match''"], simp add: names, code_simp,
       rule h [of "''Prefer''"], simp add: names, code_simp,
       rule h [of "''Slug''"], simp add: names, code_simp)
  show ?thesis
    by (simp only: storage_app_def public_routes_def sparql_routes_def views_routes_def internal_routes_def
        system_routes_def ldp_routes_def assms(1-4) hs)
qed

section \<open>The statuses the tables miss\<close>

text \<open>Each of them occurs.\<close>

lemma read_not_acceptable:
  assumes "stream_binary b (base @ path) = Inl (Storage NotABinaryResource)"
    and "backend_read b (base @ path) = Inr g" and "negotiate accept = Inl e"
  shows "get_resource L b base path accept inm pf = Inl e \<and> conforms {406} (Inl e)"
  using assms negotiate_errors [OF assms(3)]
  by (simp add: get_resource_def get_binary_resource_def get_rdf_resource_def)

lemma entry_unparsable:
  assumes "get_storage_token L b auth = Inr t" and "map_of SUPPORTED (normalize_media_type ct '''') = Some fmt"
    and "parse_graph L body fmt (Some (make_system_ns base @ ''access-log/'' @ i)) = None"
  shows "status_code (app_reply (fst (append_access_log L i b base auth body ct))) = 400"
  using assms by (simp add: append_access_log_def parse_rdf_body_def app_reply_def exn_response_def Let_def)

lemma count_unparsable:
  assumes "get_storage_token L b auth = Inr t" and "map_of SUPPORTED (normalize_media_type ct '''') = Some fmt"
    and "parse_graph L body fmt (Some (make_system_ns base @ ''tokens/'' @ i)) = None"
  shows "status_code (app_reply (fst (put_token_enforcement L b base auth i body ct im inm))) = 400"
  using assms by (simp add: put_token_enforcement_def enforcement_put_def parse_rdf_body_def app_reply_def
      exn_response_def)

lemma counted_view_gone:
  assumes "get_storage_token L b auth = Inr t" and "token_type t = node_str POD_EngineToken"
    and "parse_rdf_body L body ct (make_system_ns base @ ''views/'' @ i) = Inr g"
    and "backend_read b (make_system_ns base @ ''views/'' @ i) = Inl (Storage ResourceNotFound)"
  shows "status_code (app_reply (fst (replace_view L labels b base auth i body ct im inm))) = 404"
  using assms by (simp add: replace_view_def enforcement_put_def guard_enforcement_put_def app_reply_def
      exn_response_def)

text \<open>A 304 carries the entity tag alone, without the \<open>Link\<close> and \<open>Allow\<close> every response is said to carry.\<close>

lemma unchanged_is_bare:
  assumes "stream_binary b (base @ path) = Inl (Storage NotABinaryResource)"
    and "backend_read b (base @ path) = Inr g" and "negotiate accept = Inr fm"
    and "inm = Some (etag_for_graph L g)"
  shows "get_resource L b base path accept inm pf = Inr (plain_response 304 [(''ETag'', etag_for_graph L g)])"
  using assms by (cases fm) (simp add: get_resource_def get_binary_resource_def get_rdf_resource_def not_modified_def)

section \<open>The served document\<close>

text \<open>
  What \<open>openapi_with_security\<close> serves: the schemes are in it, securing it again changes
  nothing (no operation is left with a placeholder beside its own media types), and once made it is
  what every later request gets.
\<close>

lemma map_of_filter_key: "map_of (filter (\<lambda>(k, _). k \<noteq> a) ms) a = None"
  by (induction ms) auto

lemma update_same: "map_of ms k = Some v \<Longrightarrow> AList.update k v ms = ms"
  by (induction ms) (auto split: if_splits)

lemma secure_operation_again:
  assumes "secure_operation op = Some op'"
  shows "secure_operation op' = Some op'"
proof (cases "op' = op")
  case False
  with assms obtain body members entry json_schema where
    1: "jget ''requestBody'' op = Some body" "jget ''content'' body = Some (JObj members)"
      "1 < length members"
    and op': "op' = jset ''requestBody'' (jset ''content''
        (JObj (filter (\<lambda>(k, _). k \<noteq> ''application/json'') members)) body) op"
    by (auto simp: secure_operation_def split: option.splits json.splits if_splits)
  from 1 obtain bms where b: "body = JObj bms"
    by (auto simp: jget_def split: json.splits)
  with 1 obtain oms where o: "op = JObj oms" by (auto simp: jget_def split: json.splits)
  show ?thesis
    by (simp add: op' b o secure_operation_def jget_def jset_def update_conv' map_of_filter_key
        bytes_placeholder_def)
qed (use assms in simp)

lemma secure_members_again:
  assumes f: "\<And>v w. f v = Some w \<Longrightarrow> f w = Some w"
  shows "secure_members f ms = Some ms' \<Longrightarrow> secure_members f ms' = Some ms'"
proof (induction ms arbitrary: ms')
  case (Cons m ms)
  obtain k v where m: "m = (k, v)" by (rule prod.exhaust)
  with Cons.prems obtain w rest where "f v = Some w" "secure_members f ms = Some rest" "ms' = (k, w) # rest"
    by (auto split: option.splits)
  with f [of v w] Cons.IH show ?case by simp
qed simp

lemma secure_object_again:
  assumes f: "\<And>v w. f v = Some w \<Longrightarrow> f w = Some w" and "secure_object f v = Some w"
  shows "secure_object f w = Some w"
proof -
  from assms(2) obtain ms ms' where "secure_members f ms = Some ms'" "w = JObj ms'"
    by (auto simp: secure_object_def split: json.splits)
  with secure_members_again [OF f] show ?thesis by (simp add: secure_object_def)
qed

lemma secured_document:
  assumes "secure_schema g = Some d"
  shows "secure_schema d = Some d"
    and "\<exists>ms. map_of d ''components'' = Some (JObj ms)
           \<and> map_of ms ''securitySchemes'' = Some (JObj SECURITY_SCHEMES)"
proof -
  from assms obtain ms paths secured where
    d: "d = AList.update ''paths'' secured (AList.update ''components''
          (JObj (AList.update ''securitySchemes'' (JObj SECURITY_SCHEMES) ms)) g)"
    and s: "secure_object (secure_object secure_operation) paths = Some secured"
    by (auto simp: secure_schema_def Let_def split: option.splits json.splits)
  let ?ms = "AList.update ''securitySchemes'' (JObj SECURITY_SCHEMES) ms"
  have c: "map_of d ''components'' = Some (JObj ?ms)" and p: "map_of d ''paths'' = Some secured"
    by (simp_all add: d update_conv')
  have sch: "map_of ?ms ''securitySchemes'' = Some (JObj SECURITY_SCHEMES)" by (simp add: update_conv')
  have "secure_object (secure_object secure_operation) secured = Some secured"
    using s by (rule secure_object_again [rotated]) (rule secure_object_again [OF secure_operation_again])
  then show "secure_schema d = Some d"
    by (simp add: secure_schema_def jget_def c p update_same [OF sch] update_same [OF c] update_same [OF p])
  from c sch show "\<exists>ms. map_of d ''components'' = Some (JObj ms)
      \<and> map_of ms ''securitySchemes'' = Some (JObj SECURITY_SCHEMES)" by blast
qed

lemma document_served_again:
  assumes "openapi_with_security cached g = Some (d, cached')"
  shows "openapi_with_security cached' g' = Some (d, cached')"
proof -
  have "secure_schema g = Some d' \<Longrightarrow> d' \<noteq> []" for d' using secured_document(2) by fastforce
  with assms show ?thesis
    by (auto simp: openapi_with_security_def split: option.splits list.splits)
qed


text \<open>No two operations share an identifier, as clients generated from the document need.\<close>

lemma operation_ids_distinct: "distinct (map op_id POD_OPERATIONS)"
  by (simp add: POD_OPERATIONS_def SPARQL_OPERATIONS_def VIEWS_OPERATIONS_def INTERNAL_OPERATIONS_def
      SYSTEM_OPERATIONS_def VIEW_OPERATIONS_def DISCOVERY_OPERATIONS_def LDP_OPERATIONS_def operation_routes)

text \<open>The engine on its own keeps its part of the document.\<close>

lemma engine_answers_documented:
  assumes "a_path req \<noteq> ''/health''" and "operation_of ENGINE_OPERATIONS req = Some op"
  shows "conforms (allowed op) (fst (engine_app L up c st clk label s req))"
proof (cases "engine_routes L up c st clk label s req")
  case None
  with engine_answered [of req L up c st clk label s] assms(2) show ?thesis
    by (simp add: ENGINE_OPERATIONS_def)
next
  case (Some r)
  with engine_answered [of req L up c st clk label s] assms show ?thesis
    by (simp add: ENGINE_OPERATIONS_def engine_app_def)
qed

end
