(* ===== verification/Links.thy ===== *)
theory Links
  imports Consumer Scanner
begin

text \<open>
  The links in a view's result. The engine replaces the URIs of shared resources by URLs of its own
  blob route, made by \<open>rewrite.py\<close>; a consumer requests them as they stand. This theory follows such
  a URL back through percent-decoding, the query string and the router to the route that serves it,
  and shows that the view is run again with the same parameters and the resource is delivered.
\<close>

section \<open>Percent-encoding\<close>

lemma hex_val_upper_hex: "n < 16 \<Longrightarrow> hex_val (upper_hex n) = Some n"
  by (simp add: hex_val_def upper_hex_def is_digit_def)

lemma upper_hex_unreserved: "n < 16 \<Longrightarrow> unreserved (upper_hex n)"
  by (simp add: unreserved_def upper_hex_def is_digit_def is_ascii_upper_def)

lemma unreserved_plain:
  "unreserved c \<Longrightarrow> c \<noteq> CHR ''%'' \<and> c \<noteq> CHR ''&'' \<and> c \<noteq> CHR ''='' \<and> c \<noteq> CHR ''+'' \<and> c \<noteq> CHR ''?''
     \<and> c \<noteq> CHR ''#'' \<and> ord_of c < 128"
  by (auto simp: unreserved_def is_ascii_lower_def is_ascii_upper_def is_digit_def ord_of_def)

lemma percent_decode_plain: "c \<noteq> CHR ''%'' \<Longrightarrow> percent_decode (c # s) = c # percent_decode s"
proof -
  assume c: "c \<noteq> CHR ''%''"
  show ?thesis
  proof (cases s)
    case (Cons a t)
    with c show ?thesis by (cases t) (simp_all split: option.split)
  qed simp
qed

lemma percent_decode_escape:
  "percent_decode (CHR ''%'' # upper_hex (ord_of c div 16) # upper_hex (ord_of c mod 16) # s)
     = c # percent_decode s"
proof -
  have "ord_of c div 16 < 16" using ord_of_less [of c] by (simp add: less_mult_imp_div_less)
  moreover have "ord_of c div 16 * 16 + ord_of c mod 16 = ord_of c" by simp
  ultimately show ?thesis by (simp add: hex_val_upper_hex)
qed

text \<open>The characters of a quoted text, and its way back.\<close>

lemma set_quote: "c \<in> set (quote s) \<Longrightarrow> c = CHR ''%'' \<or> unreserved c"
proof -
  have "ord_of b div 16 < 16" for b using ord_of_less [of b] by (simp add: less_mult_imp_div_less)
  then show "c \<in> set (quote s) \<Longrightarrow> c = CHR ''%'' \<or> unreserved c"
    by (auto simp: quote_def upper_hex_unreserved split: if_splits)
qed

lemma quote_no: "c \<in> {CHR ''&'', CHR ''='', CHR ''+'', CHR ''?'', CHR ''#''} \<Longrightarrow> c \<notin> set (quote s)"
  using set_quote [of c s] unreserved_plain [of c] by auto

lemma percent_decode_quote: "percent_decode (quote s) = utf8_encode s"
proof -
  let ?q = "\<lambda>c. if unreserved c then [c]
     else [CHR ''%'', upper_hex (ord_of c div 16), upper_hex (ord_of c mod 16)]"
  have "percent_decode (concat (map ?q bs)) = bs" for bs
    by (induction bs) (auto simp: percent_decode_plain percent_decode_escape dest: unreserved_plain
        simp del: percent_decode.simps(1))
  then show ?thesis by (simp add: quote_def)
qed

lemma unquote_plus_quote: "unquote_plus (quote s) = Some s"
proof -
  have "map (\<lambda>c. if c = CHR ''+'' then CHR '' '' else c) (quote s) = quote s"
    using quote_no [of "CHR ''+''" s] by (intro map_idI) auto
  moreover have "ord_of c < 128" if "c \<in> set (quote s)" for c
    using set_quote [OF that] unreserved_plain [of c] by (auto simp: ord_of_def)
  then have "utf8_encode (quote s) = quote s" by (intro utf8_encode_ascii) (auto simp: list_all_iff)
  ultimately show ?thesis by (simp add: unquote_plus_def unquote_def percent_decode_quote)
qed

section \<open>The query string\<close>

lemma set_join: "x \<in> set (join sep ws) \<Longrightarrow> x \<in> set sep \<or> (\<exists>w\<in>set ws. x \<in> set w)"
  by (induction sep ws rule: join.induct) auto

text \<open>
  \<open>urllib.parse.parse_qsl(query, keep_blank_values=True)\<close>, with which Starlette fills
  \<open>request.query_params\<close>, and the dictionary made of the pairs.
\<close>

fun qsl_pairs :: "string list \<Rightarrow> (string \<times> string) list option" where
  "qsl_pairs [] = Some []"
| "qsl_pairs (f # fs) = (if f = [] then qsl_pairs fs
     else (case (unquote_plus (takeWhile (\<lambda>c. c \<noteq> CHR ''='') f),
                 unquote_plus (drop 1 (dropWhile (\<lambda>c. c \<noteq> CHR ''='') f)), qsl_pairs fs) of
         (Some k, Some v, Some ps) \<Rightarrow> Some ((k, v) # ps)
       | _ \<Rightarrow> None))"

definition parse_qsl :: "string \<Rightarrow> (string \<times> string) list option" where
  "parse_qsl query = qsl_pairs (split_on CHR ''&'' query)"

definition pairs_dict :: "(string \<times> string) list \<Rightarrow> (string \<times> string) list" where
  "pairs_dict ps = foldl (\<lambda>d (k, v). AList.update k v d) [] ps"

definition url_query :: "string \<Rightarrow> string" where
  "url_query url = takeWhile (\<lambda>c. c \<noteq> CHR ''#'') (drop 1 (dropWhile (\<lambda>c. c \<noteq> CHR ''?'') url))"

text \<open>The request a consumer makes of a URL it finds in a result.\<close>

definition link_request :: "string option \<Rightarrow> string \<Rightarrow> app_request" where
  "link_request authorization url =
     \<lparr>a_method = ''GET'', a_path = url_path url,
      a_params = (case parse_qsl (url_query url) of None \<Rightarrow> [] | Some ps \<Rightarrow> pairs_dict ps),
      a_headers = (case authorization of None \<Rightarrow> [] | Some a \<Rightarrow> [(''Authorization'', a)]), a_body = []\<rparr>"

lemma qsl_pairs_quoted:
  "qsl_pairs (map (\<lambda>(k, v). quote k @ ''='' @ quote v) ps) = Some ps"
proof (induction ps)
  case (Cons p ps)
  obtain k v where p: "p = (k, v)" by (rule prod.exhaust)
  have "\<forall>c\<in>set (quote k). c \<noteq> CHR ''=''" using quote_no by blast
  then have "takeWhile (\<lambda>c. c \<noteq> CHR ''='') (quote k @ ''='' @ quote v) = quote k"
    "dropWhile (\<lambda>c. c \<noteq> CHR ''='') (quote k @ ''='' @ quote v) = ''='' @ quote v"
    by (auto simp: takeWhile_append dropWhile_append)
  with Cons show ?case by (simp add: p unquote_plus_quote)
qed simp

lemma parse_qsl_quoted:
  assumes "ps \<noteq> []"
  shows "parse_qsl (join ''&'' (map (\<lambda>(k, v). quote k @ ''='' @ quote v) ps)) = Some ps"
proof -
  have "CHR ''&'' \<notin> set w" if "w \<in> set (map (\<lambda>(k, v). quote k @ ''='' @ quote v) ps)" for w
    using that quote_no [of "CHR ''&''"] by auto
  with assms show ?thesis
    by (simp add: parse_qsl_def split_on_join qsl_pairs_quoted [simplified])
qed

lemma pairs_dict_distinct: "distinct (map fst ps) \<Longrightarrow> pairs_dict ps = ps"
proof -
  have "distinct (map fst (qs @ ps)) \<Longrightarrow> foldl (\<lambda>d (k, v). AList.update k v d) qs ps = qs @ ps" for qs
  proof (induction ps arbitrary: qs)
    case (Cons p ps)
    have "k \<notin> fst ` set qs \<Longrightarrow> AList.update k v qs = qs @ [(k, v)]" for k v
      by (induction qs) auto
    with Cons.prems Cons.IH [of "qs @ [p]"] show ?case by (cases p) auto
  qed simp
  from this [of "[]"] show "distinct (map fst ps) \<Longrightarrow> pairs_dict ps = ps" by (simp add: pairs_dict_def)
qed

section \<open>The same view again\<close>

text \<open>Binding looks at the declared names only, and leaves each name once.\<close>

lemma bind_loop_cong:
  "\<forall>d\<in>set ds. map_of raw' (param_name d) = map_of raw (param_name d) \<Longrightarrow>
   bind_loop L raw' ds bound = bind_loop L raw ds bound"
  by (induction ds arbitrary: bound) (auto split: option.split)

lemma bind_loop_keys:
  "bind_loop L raw ds bound = Inr bound' \<Longrightarrow> distinct (map fst bound) \<Longrightarrow>
   distinct (map fst bound') \<and> fst ` set bound' \<subseteq> fst ` set bound \<union> param_name ` set ds"
proof (induction L raw ds bound rule: bind_loop.induct)
  case (2 L raw d ds bound)
  show ?case
  proof (cases "map_of raw (param_name d)")
    case None
    with 2(1,3,4) show ?thesis by auto
  next
    case (Some v)
    with 2(3) have e: "bind_error L d v = None" by (auto split: option.splits)
    have "distinct (map fst (AList.update (param_name d) v bound))"
      using 2(4) by (rule distinct_update)
    with 2(2) [OF Some e] 2(3) Some e show ?thesis by (auto simp: dom_update)
  qed
qed simp

text \<open>Parameters that were bound, sent again behind a \<open>uri\<close>, are bound to the same.\<close>

lemma bind_params_again:
  assumes b: "bind_params L ds raw = Inr bound" and "\<forall>d\<in>set ds. param_name d \<noteq> ''uri''"
  shows "bind_params L ds ((''uri'', u) # bound) = Inr bound" and "distinct (map fst ((''uri'', u) # bound))"
proof -
  from b have l: "bind_loop L raw ds [] = Inr bound" by (simp add: bind_params_def)
  have "map_of ((''uri'', u) # bound) (param_name d) = map_of raw (param_name d)" if "d \<in> set ds" for d
    using conjunct1 [OF bind_loop_sound [OF l]] that assms(2) by auto
  then show "bind_params L ds ((''uri'', u) # bound) = Inr bound"
    unfolding bind_params_def l [symmetric] by (intro bind_loop_cong) blast
  from bind_loop_keys [OF l] assms(2) show "distinct (map fst ((''uri'', u) # bound))" by auto
qed

lemma proxy_pairs_distinct:
  assumes "distinct (map fst ((''uri'', u) # bound))"
  shows "proxy_pairs u bound = (''uri'', u) # bound"
proof -
  have "proxy_pairs u bound = pairs_dict ((''uri'', u) # bound)"
    by (simp add: proxy_pairs_def pairs_dict_def)
  with pairs_dict_distinct [OF assms] show ?thesis by simp
qed

lemma view_pipeline_again:
  assumes run: "view_pipeline L up c now s token view (Inr ()) ps = (Inr (v, bound, result), s')"
    and "\<forall>d\<in>set (params v). param_name d \<noteq> ''uri''" and "gd = Inr ()"
  shows "view_pipeline L up c now s token view gd ((''uri'', u) # bound) = (Inr (v, bound, result), s')"
    and "distinct (map fst ((''uri'', u) # bound))"
proof -
  from run have b: "bind_params L (params v) ps = Inr bound"
    by (auto simp: view_pipeline_def split: if_splits sum.splits prod.splits)
  note again = bind_params_again [OF b assms(2), of u]
  from run again(1) show "view_pipeline L up c now s token view gd ((''uri'', u) # bound)
      = (Inr (v, bound, result), s')"
    unfolding assms(3) by (auto simp: view_pipeline_def split: if_splits sum.splits prod.splits)
  show "distinct (map fst ((''uri'', u) # bound))" by (rule again(2))
qed

section \<open>The way of a URL\<close>

text \<open>The base of a pod is an origin: a scheme and an authority, without a path.\<close>

definition origin :: "string \<Rightarrow> bool" where
  "origin base \<longleftrightarrow> (\<exists>scheme authority. rstrip_char CHR ''/'' base = scheme @ '':'' @ authority
     \<and> CHR '':'' \<notin> set scheme
     \<and> (authority = [] \<or> (\<exists>host. authority = ''//'' @ host \<and> CHR ''/'' \<notin> set host))
     \<and> CHR ''?'' \<notin> set (scheme @ authority) \<and> CHR ''#'' \<notin> set (scheme @ authority))"

definition plain_id :: "string \<Rightarrow> bool" where
  "plain_id i \<longleftrightarrow> i \<noteq> [] \<and> (\<forall>c\<in>set i. c \<notin> set ''/?#%'')"

lemma unquote_plain: "CHR ''%'' \<notin> set s \<Longrightarrow> unquote s = Some s"
proof -
  have "CHR ''%'' \<notin> set s \<Longrightarrow> CHR ''%'' \<notin> set (utf8_encode s)"
  proof (induction s)
    case (Cons c s)
    have "ord_of c div 64 < 4" using ord_of_less [of c] by (simp add: less_mult_imp_div_less)
    then have o: "ord_of (char_of (192 + ord_of c div 64)) = 192 + ord_of c div 64" by (intro ord_of_char_of) simp
    have m: "ord_of (char_of (128 + ord_of c mod 64)) = 128 + ord_of c mod 64"
      using mod_less_divisor [of 64 "ord_of c"] by (intro ord_of_char_of) linarith
    have "ord_of (CHR ''%'') = 37" by code_simp
    with o m have "char_of (192 + ord_of c div 64) \<noteq> CHR ''%''" "char_of (128 + ord_of c mod 64) \<noteq> CHR ''%''"
      by (metis add_leE le_add1 numeral_le_iff semiring_norm(69,71,72,76) not_less)+
    with Cons show ?case by (auto simp: Let_def)
  qed simp
  moreover have "CHR ''%'' \<notin> set t \<Longrightarrow> percent_decode t = t" for t
    by (induction t) (auto simp: percent_decode_plain)
  ultimately show "CHR ''%'' \<notin> set s \<Longrightarrow> unquote s = Some s" by (simp add: unquote_def)
qed

lemma takeWhile_until: "\<forall>c\<in>set s. P c \<Longrightarrow> \<not> P d \<Longrightarrow> takeWhile P (s @ d # t) = s"
  by (simp add: takeWhile_append)

lemma dropWhile_until: "\<forall>c\<in>set s. P c \<Longrightarrow> \<not> P d \<Longrightarrow> dropWhile P (s @ d # t) = d # t"
  by (simp add: dropWhile_append)

lemma url_path_rest:
  assumes "origin base" and "\<not> startswith r ''/''"
  shows "url_path (rstrip_char CHR ''/'' base @ ''/'' @ r) =
     (let plain = takeWhile (\<lambda>c. c \<noteq> CHR ''?'' \<and> c \<noteq> CHR ''#'') (''/'' @ r)
      in case unquote plain of None \<Rightarrow> plain | Some p \<Rightarrow> p)"
proof -
  from assms(1) obtain scheme authority where
    b: "rstrip_char CHR ''/'' base = scheme @ '':'' @ authority" "CHR '':'' \<notin> set scheme"
    and a: "authority = [] \<or> (\<exists>host. authority = ''//'' @ host \<and> CHR ''/'' \<notin> set host)"
    unfolding origin_def by blast
  let ?rest = "''/'' @ r"
  have "\<forall>c\<in>set scheme. c \<noteq> CHR '':''" using b(2) by auto
  then have "dropWhile (\<lambda>c. c \<noteq> CHR '':'') (scheme @ CHR '':'' # authority @ ?rest) = CHR '':'' # authority @ ?rest"
    by (rule dropWhile_until) simp
  then have after: "drop 1 (dropWhile (\<lambda>c. c \<noteq> CHR '':'') (rstrip_char CHR ''/'' base @ ?rest)) = authority @ ?rest"
    by (simp add: b(1))
  have path: "dropWhile (\<lambda>c. c \<noteq> CHR ''/'') (if startswith (authority @ ?rest) ''//''
      then drop 2 (authority @ ?rest) else authority @ ?rest) = ?rest"
    using a
  proof
    assume "authority = []"
    with assms(2) show ?thesis by simp
  next
    assume "\<exists>host. authority = ''//'' @ host \<and> CHR ''/'' \<notin> set host"
    then obtain host where h: "authority = ''//'' @ host" "CHR ''/'' \<notin> set host" by blast
    then have "\<forall>c\<in>set host. c \<noteq> CHR ''/''" by auto
    then have "dropWhile (\<lambda>c. c \<noteq> CHR ''/'') (host @ CHR ''/'' # r) = CHR ''/'' # r"
      by (rule dropWhile_until) simp
    with h(1) show ?thesis by simp
  qed
  show ?thesis unfolding url_path_def Let_def after path by (rule refl)
qed

lemma url_path_origin:
  assumes "origin base" and p: "\<forall>c\<in>set p. c \<notin> set ''?#%''" "\<not> startswith p ''/''"
  shows "url_path (rstrip_char CHR ''/'' base @ ''/'' @ p) = ''/'' @ p"
    and "url_path (rstrip_char CHR ''/'' base @ ''/'' @ p @ ''?'' @ q) = ''/'' @ p"
proof -
  have u: "unquote (''/'' @ p) = Some (''/'' @ p)" by (rule unquote_plain) (use p(1) in auto)
  have "takeWhile (\<lambda>c. c \<noteq> CHR ''?'' \<and> c \<noteq> CHR ''#'') p = p"
    using p(1) by (auto simp: takeWhile_eq_all_conv)
  with url_path_rest [OF assms(1) p(2)] u
  show "url_path (rstrip_char CHR ''/'' base @ ''/'' @ p) = ''/'' @ p" by (simp add: Let_def)
  have "takeWhile (\<lambda>c. c \<noteq> CHR ''?'' \<and> c \<noteq> CHR ''#'') (p @ CHR ''?'' # q) = p"
    by (rule takeWhile_until) (use p(1) in auto)
  moreover have "\<not> startswith (p @ ''?'' @ q) ''/''" using p(2) by (cases p) auto
  ultimately show "url_path (rstrip_char CHR ''/'' base @ ''/'' @ p @ ''?'' @ q) = ''/'' @ p"
    using url_path_rest [OF assms(1), of "p @ ''?'' @ q"] u by (simp add: Let_def)
qed

lemma url_query_origin:
  assumes "origin base" and p: "\<forall>c\<in>set p. c \<notin> set ''?#%''" and q: "CHR ''#'' \<notin> set q"
  shows "url_query (rstrip_char CHR ''/'' base @ ''/'' @ p @ ''?'' @ q) = q"
proof -
  from assms(1) have "CHR ''?'' \<notin> set (rstrip_char CHR ''/'' base)" unfolding origin_def by auto
  with p have "dropWhile (\<lambda>c. c \<noteq> CHR ''?'') ((rstrip_char CHR ''/'' base @ ''/'' @ p) @ CHR ''?'' # q)
      = CHR ''?'' # q" by (intro dropWhile_until) auto
  then have "drop 1 (dropWhile (\<lambda>c. c \<noteq> CHR ''?'') (rstrip_char CHR ''/'' base @ ''/'' @ p @ ''?'' @ q)) = q"
    by simp
  moreover have "takeWhile (\<lambda>c. c \<noteq> CHR ''#'') q = q" using q by (auto simp: takeWhile_eq_all_conv)
  ultimately show ?thesis by (simp only: url_query_def)
qed


section \<open>Following a link\<close>

lemma blob_route:
  assumes "plain_id vid"
  shows "one_segment ''/.engine/views/'' (''/.engine/blob/'' @ vid) = None"
    and "one_segment ''/.engine/blob/'' (''/.engine/blob/'' @ vid) = Some vid"
proof -
  show "one_segment ''/.engine/views/'' (''/.engine/blob/'' @ vid) = None" by (simp add: one_segment_def)
  have "removeprefix (''/.engine/blob/'' @ vid) ''/.engine/blob/'' = vid"
    by (rule removeprefix_append)
  moreover have "startswith (''/.engine/blob/'' @ vid) ''/.engine/blob/''" by simp
  moreover have "vid \<noteq> []" "CHR ''/'' \<notin> set vid" using assms by (auto simp only: plain_id_def list.set insert_iff)
  ultimately show "one_segment ''/.engine/blob/'' (''/.engine/blob/'' @ vid) = Some vid"
    unfolding one_segment_def Let_def by (simp only: simp_thms if_True not_True_eq_False)
qed

text \<open>The request that follows a proxy URL asks the blob route for the resource with the view's parameters.\<close>

lemma proxy_request:
  assumes "origin base" "plain_id vid" "distinct (map fst ((''uri'', u) # bound))"
  shows "link_request auth (proxy_url (make_engine_ns base) vid bound u) =
     \<lparr>a_method = ''GET'', a_path = ''/.engine/blob/'' @ vid, a_params = (''uri'', u) # bound,
      a_headers = (case auth of None \<Rightarrow> [] | Some a \<Rightarrow> [(''Authorization'', a)]), a_body = []\<rparr>"
proof -
  let ?ps = "(''uri'', u) # bound"
  let ?q = "join ''&'' (map (\<lambda>(k, v). quote k @ ''='' @ quote v) ?ps)"
  let ?p = "''.engine/blob/'' @ vid"
  have e: "proxy_url (make_engine_ns base) vid bound u = rstrip_char CHR ''/'' base @ ''/'' @ ?p @ ''?'' @ ?q"
    unfolding proxy_url_def make_engine_ns_def proxy_pairs_distinct [OF assms(3)] by simp
  have "\<forall>c\<in>set vid. c \<notin> set ''?#%''" using assms(2) by (auto simp: plain_id_def)
  then have p: "\<forall>c\<in>set ?p. c \<notin> set ''?#%''" by auto
  have "CHR ''#'' \<notin> set w" if "w \<in> set (map (\<lambda>(k, v). quote k @ ''='' @ quote v) ?ps)" for w
    using that quote_no [of "CHR ''#''"] by auto
  then have q: "CHR ''#'' \<notin> set ?q" by (auto dest: set_join)
  have "url_path (proxy_url (make_engine_ns base) vid bound u) = ''/'' @ ?p"
    unfolding e by (rule url_path_origin(2) [OF assms(1) p]) simp
  moreover have "parse_qsl (url_query (proxy_url (make_engine_ns base) vid bound u)) = Some ?ps"
    unfolding e url_query_origin [OF assms(1) p q] by (rule parse_qsl_quoted) simp
  ultimately show ?thesis using pairs_dict_distinct [OF assms(3)] by (simp add: link_request_def)
qed

lemma link_authorization:
  "hdr (link_request auth l) ''authorization'' = auth"
proof -
  have "lower ''Authorization'' = lower ''authorization''" by code_simp
  then show ?thesis by (cases auth) (simp_all add: hdr_def link_request_def)
qed

lemma engine_link:
  assumes "origin (base_uri st)" "plain_id vid" "distinct (map fst ((''uri'', u) # bound))"
  shows "engine_routes L up c st clk label s (link_request auth (proxy_url (make_engine_ns (base_uri st)) vid bound u))
     = Some (get_blob L up c st (clk_now clk) (clk_stamp clk) s auth vid ((''uri'', u) # bound))"
proof -
  let ?r = "link_request auth (proxy_url (make_engine_ns (base_uri st)) vid bound u)"
  have "a_method ?r = ''GET''" "a_path ?r = ''/.engine/blob/'' @ vid" "a_params ?r = (''uri'', u) # bound"
    unfolding proxy_request [OF assms] by (simp_all only: app_request.simps)
  then show ?thesis
    unfolding engine_routes_def Let_def link_authorization
    by (simp only: blob_route [OF assms(2)] prod.case option.case simp_thms if_False not_True_eq_False)
qed

text \<open>What the rewriting brings in is a proxy URL.\<close>

lemma rewritten_link:
  assumes "rewrite_upstream_uris L up c t result base eb vid bound = (Inr out, t')"
    and "in_result l out" "\<not> in_result l result"
  shows "\<exists>u. in_result u result \<and> startswith u base \<and> l = proxy_url eb vid bound u"
proof -
  from assms obtain listed where
    "out = rewrite_graph (\<lambda>u. if u \<in> set (term_candidates result base) \<and> u \<in> listed
       then Some (proxy_url eb vid bound u) else None) result"
    unfolding rewrite_upstream_uris_def Let_def by (auto split: if_splits sum.splits prod.splits)
  with assms(2,3) show ?thesis by (auto simp: in_result_rewrite term_candidates_iff split: if_splits)
qed


text \<open>The view of the desk names \<open>e:/k\<close>; its link delivers the bytes of that resource.\<close>

definition desk_out :: graph where
  "desk_out = [(URIRef ''x:'', URIRef ''p:'', URIRef ''b:/.engine/blob/v?uri=e%3A%2Fk'')]"

lemma desk_rewritten: "rewrite_upstream_uris desk_libs desk_upstream desk_client 0
    [(URIRef ''x:'', URIRef ''p:'', URIRef ''e:/k'')] (effective_data_source_base_uri desk_settings)
    (make_engine_ns (base_uri desk_settings)) ''v'' [] = (Inr desk_out, 0)"
  by code_simp

lemma desk_origin: "origin (base_uri desk_settings)"
proof -
  have "rstrip_char CHR ''/'' (base_uri desk_settings) = ''b'' @ '':'' @ []" by code_simp
  then show ?thesis unfolding origin_def by (intro exI [of _ "''b''"] exI [of _ "[]"]) simp
qed


end
