(* ===== verification/Lifecycle.thy ===== *)
theory Lifecycle
  imports Links Scopes Answers
begin

text \<open>
  The life of a grant across the two servers. The owner issues it at the storage server, the engine
  looks it up there by a SPARQL query over HTTP and reads its record by a GET, and the owner revokes
  it at the storage server. This theory composes the engine's client with the storage application
  and shows that what is issued on one side is admitted on the other, and what is revoked is not.
\<close>

section \<open>The lookup, as the storage server evaluates it\<close>

text \<open>The query the engine sends for a digest, before and behind the scoping to the state graph.\<close>

definition bound_lookup :: "string \<Rightarrow> string" where
  "bound_lookup h = splice LOOKUP_QUERY 111 (''VALUES (?presented) { (\"'' @ h @ ''\") }'')"

definition scoped_lookup :: "string \<Rightarrow> string \<Rightarrow> string" where
  "scoped_lookup g h = take 105 (bound_lookup h) @ ''FROM <'' @ g @ ''> '' @ drop 105 (bound_lookup h)"

definition evaluated_lookup :: "string \<Rightarrow> string \<Rightarrow> string" where
  "evaluated_lookup g h = fst (apply_state_scope (scoped_lookup g h) g)"

lemma bound_lookup_where: "find_where_keyword (bound_lookup h) = Some 105"
  unfolding find_where_keyword_def bound_lookup_def by (rule spliced_lookup_scan)

lemma scoped_lookup_parts:
  "scoped_lookup g h = take 105 LOOKUP_QUERY @ ''FROM <'' @ g @ ''> '' @ drop 105 (bound_lookup h)"
proof -
  have "length LOOKUP_QUERY \<ge> 112" by code_simp
  then have "take 105 (bound_lookup h) = take 105 LOOKUP_QUERY"
    by (simp add: bound_lookup_def splice_def)
  then show ?thesis by (simp add: scoped_lookup_def)
qed

lemma scoped_lookup_wide: "apply_state_scope (scoped_lookup g h) g = (evaluated_lookup g h, True)"
proof -
  let ?pre = "take 105 LOOKUP_QUERY"
  let ?post = "''FROM <'' @ g @ ''> '' @ drop 105 (bound_lookup h)"
  have "last ?pre = CHR '' ''" by code_simp
  then have e: "\<not> ends_word ?pre" by (simp only: ends_word_def) code_simp
  have "match_from g False ?post = Some ('' '' @ drop 105 (bound_lookup h))"
  proof -
    have "is_space CHR '' ''" "\<not> is_space CHR ''<''" by code_simp+
    then show ?thesis by (simp add: match_from_def match_graph_def istartswith_def skip_spaces_def)
  qed
  with e have "snd (strip_from g False (scoped_lookup g h))"
    unfolding strip_from_finds scoped_lookup_parts
    by (intro exI [of _ ?pre] exI [of _ ?post] exI) (auto simp: ends_word_def)
  then show ?thesis
    by (auto simp: evaluated_lookup_def apply_state_scope_def split: prod.splits)
qed

lemma evaluated_lookup_nonblank: "strip (evaluated_lookup g h) \<noteq> []"
proof -
  have "take 105 LOOKUP_QUERY = CHR ''P'' # drop 1 (take 105 LOOKUP_QUERY)" by code_simp
  then obtain s where s: "scoped_lookup g h = CHR ''P'' # s"
    unfolding scoped_lookup_parts by (metis append_Cons)
  have "lower_char CHR ''P'' \<noteq> lower_char CHR ''F''" "\<not> is_space CHR ''P''" by code_simp+
  from scoped_nonblank [OF this] show ?thesis by (simp add: evaluated_lookup_def s)
qed

section \<open>The engine's requests, as the storage server answers them\<close>

text \<open>The engine's client is configured for the pod: its base URI, its state graph, and the
  credential it sends.\<close>

definition slash_ended :: "string \<Rightarrow> bool" where
  "slash_ended base \<longleftrightarrow> base = rstrip_char CHR ''/'' base @ ''/''"

definition serves_pod :: "client \<Rightarrow> settings \<Rightarrow> string \<Rightarrow> bool" where
  "serves_pod c st credential \<longleftrightarrow> c_base_uri c = base_uri st \<and> slash_ended (base_uri st)
     \<and> origin (c_state_base c) \<and> slash_ended (c_state_base c)
     \<and> c_state_headers c = [(''Authorization'', credential)]
     \<and> c_state_graph c = set_state_graph st"

text \<open>
  What is relied on of the storage server's query engine for the lookup as the engine writes it, and
  of the result format between the two: the rows arrive as the texts of their terms.
\<close>

definition engine_lookup_law :: "libs \<Rightarrow> string \<Rightarrow> string \<Rightarrow> bool" where
  "engine_lookup_law L g h \<longleftrightarrow> (\<forall>cs. \<exists>rows doc.
     run_query L (WholeDataset cs) (evaluated_lookup g h) None = Inr (SelectAnswer rows)
     \<and> set rows = set (lookup_rows cs h)
     \<and> serialize_answer L ''json'' (SelectAnswer rows) = Inr doc
     \<and> results_json L doc = Some (string_rows rows))"

lemma serves_pod_path:
  assumes "serves_pod c st credential" and "\<forall>x\<in>set p. x \<notin> set ''?#%''" and "\<not> startswith p ''/''"
  shows "url_path (c_state_base c @ p) = ''/'' @ p"
  using url_path_origin(1) [of "c_state_base c", OF _ assms(2,3)] assms(1)
  unfolding serves_pod_def slash_ended_def by (metis append.assoc append_Cons append_Nil)

lemma lookup_answered:
  assumes law: "engine_lookup_law L (c_state_graph c) h"
    and pod: "serves_pod c st credential"
    and accepted: "get_storage_token L b (Some credential) = Inr etok"
  shows "\<exists>rows. select_state L (storage_upstream L f st) c b (scoped_lookup (c_state_graph c) h)
      = (Inr (string_rows rows), b) \<and> set rows = set (lookup_rows (contexts b) h)"
proof -
  let ?g = "c_state_graph c" and ?cs = "contexts b"
  let ?q = "scoped_lookup ?g h"
  from law obtain rows doc where rows: "set rows = set (lookup_rows ?cs h)"
    and run: "run_query L (WholeDataset ?cs) (evaluated_lookup ?g h) None = Inr (SelectAnswer rows)"
    and ser: "serialize_answer L ''json'' (SelectAnswer rows) = Inr doc"
    and json: "results_json L doc = Some (string_rows rows)"
    unfolding engine_lookup_law_def by blast
  have media: "negotiate_media (Some ''application/sparql-results+json'') RESULTS_FORMATS
      ''application/sparql-results+json'' = Inr (''application/sparql-results+json'', ''json'')"
    "normalize_media_type (Some ''application/sparql-query'') '''' = ''application/sparql-query''"
    by code_simp+
  have low: "lower ''Authorization'' = lower ''authorization''" "lower ''Content-Type'' = lower ''content-type''"
    "lower ''Accept'' = lower ''accept''" "lower ''Content-Type'' \<noteq> lower ''accept''"
    "lower ''Authorization'' \<noteq> lower ''accept''" "lower ''Authorization'' \<noteq> lower ''content-type''" by code_simp+
  let ?rep = "\<lparr>status_code = 200, headers = [], media_type = Some ''application/sparql-results+json'',
      content = doc\<rparr>"
  have "run_sparql L b ?q (Some ''application/sparql-results+json'') None False None (Some ?g) = Inr ?rep"
    unfolding run_sparql_def
    by (simp add: scoped_lookup_wide evaluated_lookup_nonblank backend_query_def bind_terms_def
        query_scope_of_def run answer_response_def media(1) ser)
  then have "query_post L b ?g (Some credential) [] (utf8_encode ?q)
      (Some ''application/sparql-query'') (Some ''application/sparql-results+json'') = Inr ?rep"
    by (simp add: query_post_def accepted Let_def media(2) extract_bindings_def extract_binding_types_def
        extract_prefixed_def extract_include_system_def)
  moreover have "url_path (c_state_base c @ ''sparql'') = ''/sparql''"
    using serves_pod_path [OF pod, of "''sparql''"] by simp
  ultimately have "storage_upstream L f st b \<lparr>req_method = ''POST'', req_url = c_state_base c @ ''sparql'',
      req_headers = c_state_headers c @ [(''Content-Type'', ''application/sparql-query''),
        (''Accept'', ''application/sparql-results+json'')], req_body = utf8_encode ?q\<rparr> = (?rep, b)"
    using pod low unfolding serves_pod_def
    by (simp add: storage_upstream_def storage_app_def app_request_of_def public_routes_def sparql_routes_def
        CONSTRAINTS_PATH_def hdr_def app_reply_def)
  then have "select_state L (storage_upstream L f st) c b ?q = (Inr (string_rows rows), b)"
    by (simp add: select_state_def post_query_def expect_def rows_of_def json)
  with rows show ?thesis by blast
qed

text \<open>The record of a token, named by its identifier.\<close>

definition token_uri_of :: "settings \<Rightarrow> string \<Rightarrow> string" where
  "token_uri_of st rid = make_system_ns (base_uri st) @ ''tokens/'' @ rid"

lemma token_uri_path:
  assumes "serves_pod c st credential"
  shows "state_url c (token_uri_of st rid) = c_state_base c @ ''.system/tokens/'' @ rid"
    and "base_uri st @ ''.system/'' @ ''tokens/'' @ rid = token_uri_of st rid"
proof -
  have b: "base_uri st = rstrip_char CHR ''/'' (base_uri st) @ ''/''" "c_base_uri c = base_uri st"
    using assms by (simp_all add: serves_pod_def slash_ended_def)
  have "token_uri_of st rid = (rstrip_char CHR ''/'' (base_uri st) @ ''/'') @ ''.system/tokens/'' @ rid"
    by (simp add: token_uri_of_def make_system_ns_def)
  then have u: "token_uri_of st rid = base_uri st @ ''.system/tokens/'' @ rid"
    unfolding b(1) [symmetric] .
  show "state_url c (token_uri_of st rid) = c_state_base c @ ''.system/tokens/'' @ rid"
    unfolding u state_url_def b(2) removeprefix_append by (rule refl)
  show "base_uri st @ ''.system/'' @ ''tokens/'' @ rid = token_uri_of st rid" unfolding u by simp
qed

lemma token_read_routed:
  assumes pod: "serves_pod c st credential" and rid: "plain_id rid"
  shows "storage_upstream L f st b (get_turtle c (token_uri_of st rid))
     = (app_reply (read_system L b (base_uri st) (Some credential) (''tokens/'' @ rid)), b)"
proof -
  have "url_path (c_state_base c @ ''.system/tokens/'' @ rid) = ''/.system/tokens/'' @ rid"
    using serves_pod_path [OF pod, of "''.system/tokens/'' @ rid"] rid by (auto simp: plain_id_def)
  moreover have "lower ''Authorization'' = lower ''authorization''" by code_simp
  moreover have "c_state_headers c = [(''Authorization'', credential)]"
    using pod by (simp add: serves_pod_def)
  ultimately have "app_request_of (get_turtle c (token_uri_of st rid)) = \<lparr>a_method = ''GET'',
      a_path = ''/.system/tokens/'' @ rid, a_params = [],
      a_headers = [(''Authorization'', credential), (''Accept'', ''text/turtle'')], a_body = []\<rparr>"
    unfolding get_turtle_def token_uri_path(1) [OF pod] app_request_of_def by simp
  moreover have "hdr \<lparr>a_method = ''GET'', a_path = p, a_params = [],
      a_headers = [(''Authorization'', credential), (''Accept'', ''text/turtle'')], a_body = []\<rparr> ''authorization''
      = Some credential" for p
    using \<open>lower ''Authorization'' = lower ''authorization''\<close> by (simp add: hdr_def)
  moreover have "one_segment ''/.system/views/'' (''/.system/tokens/'' @ rid) = None"
    by (simp add: one_segment_def)
  moreover have "removeprefix (''/.system/tokens/'' @ rid) ''/.system/'' = ''tokens/'' @ rid"
    using removeprefix_append [of "''/.system/''" "''tokens/'' @ rid"] by simp
  ultimately show ?thesis
    by (simp add: storage_upstream_def storage_app_def public_routes_def sparql_routes_def views_routes_def
        internal_routes_def system_routes_def CONSTRAINTS_PATH_def any_path_def Let_def split: option.splits)
qed

text \<open>It is no container, so the record itself is read.\<close>

lemma token_read_record:
  assumes rid: "plain_id rid" "rid \<noteq> ''policies''" and pod: "serves_pod c st credential"
    and accepted: "get_storage_token L b (Some credential) = Inr etok"
  shows "read_system L b (base_uri st) (Some credential) (''tokens/'' @ rid) =
     (case backend_read b (token_uri_of st rid) of Inl e \<Rightarrow> Inl (storage_to_http e)
      | Inr g \<Rightarrow> (case serialize_graph L ''turtle'' g of None \<Rightarrow> Inl LibraryError
         | Some doc \<Rightarrow> Inr (turtle_reply 200 [(''ETag'', etag_for_graph L g)] doc)))"
proof -
  obtain r d where r: "rid = r @ [d]" "d \<noteq> CHR ''/''"
    using rid(1) by (cases rid rule: rev_cases) (auto simp: plain_id_def)
  then have key: "rstrip_char CHR ''/'' (''tokens/'' @ rid) = ''tokens/'' @ rid"
    using rstrip_by_snoc [of "\<lambda>x. x = CHR ''/''" "''tokens/'' @ r" d] by (simp add: rstrip_char_def)
  have none: "map_of CONTAINER_MEMBER_QUERIES (''tokens/'' @ rid) = None"
    using rid(2) by (simp add: CONTAINER_MEMBER_QUERIES_def)
  have pre: "list_ex (startswith (''tokens/'' @ rid)) ENGINE_READABLE_PREFIXES"
    by (simp add: ENGINE_READABLE_PREFIXES_def)
  have ne: "''tokens/'' @ rid \<noteq> []" by simp
  show ?thesis
    unfolding read_system_def Let_def key none token_uri_path(2) [OF pod]
    using accepted pre by (simp add: ne)
qed

section \<open>Admission at the engine\<close>

lemma engine_validates:
  "validate_via_storage L up c s raw ty = (case select_state L up c s (scoped_lookup (c_state_graph c) (digest L raw)) of
     (Inl e, s1) \<Rightarrow> (Inl e, s1)
   | (Inr rows, s1) \<Rightarrow> (case match_token_rows rows (digest L raw) [ty] of Inl e \<Rightarrow> (Inl e, s1)
      | Inr (uri, t) \<Rightarrow> (case read_graph L up c s1 uri of
          (Inl (UpstreamNotFound _), s2) \<Rightarrow> (Inl unauthorized, s2)
        | (Inl e, s2) \<Rightarrow> (Inl e, s2)
        | (Inr record, s2) \<Rightarrow> (token_record_from_graph record uri t, s2))))"
proof -
  let ?h = "digest L raw"
  have i: "inject_values_block LOOKUP_QUERY (''VALUES (?presented) { (\"'' @ ?h @ ''\") }'') = Inr (bound_lookup ?h)"
    unfolding inject_values_block_def lookup_scan by (simp add: bound_lookup_def)
  have s: "state_scoped c (bound_lookup ?h) = Inr (scoped_lookup (c_state_graph c) ?h)"
    unfolding state_scoped_def bound_lookup_where scoped_lookup_def by simp
  show ?thesis unfolding validate_via_storage_def Let_def i s sum.case by (rule refl)
qed

lemma record_read_back:
  assumes pod: "serves_pod c st credential" and rid: "plain_id rid" "rid \<noteq> ''policies''"
    and accepted: "get_storage_token L b (Some credential) = Inr etok"
    and g: "backend_read b (token_uri_of st rid) = Inr g" and ground: "\<forall>t\<in>set g. ground t"
    and ser: "serialize_graph L ''turtle'' g \<noteq> None" and rt: "turtle_roundtrip L"
  shows "\<exists>h. read_graph L (storage_upstream L f st) c b (token_uri_of st rid) = (Inr h, b) \<and> set h = set g"
proof -
  from ser obtain doc where doc: "serialize_graph L ''turtle'' g = Some doc" by blast
  with rt obtain h where h: "parse_graph L (utf8_encode doc) ''turtle'' None = Some h" "graph_iso g h"
    unfolding turtle_roundtrip_def by blast
  have "storage_upstream L f st b (get_turtle c (token_uri_of st rid))
      = (turtle_reply 200 [(''ETag'', etag_for_graph L g)] doc, b)"
    unfolding token_read_routed [OF pod rid(1)] token_read_record [OF rid pod accepted] g
    by (simp add: doc app_reply_def)
  then have "read_graph L (storage_upstream L f st) c b (token_uri_of st rid) = (Inr h, b)"
    by (simp add: read_graph_def expect_def parse_text_def turtle_reply_def h(1))
  with ground_iso_set [OF h(2) ground] show ?thesis by blast
qed

lemma record_gone:
  assumes pod: "serves_pod c st credential" and rid: "plain_id rid" "rid \<noteq> ''policies''"
    and gone: "backend_read b (token_uri_of st rid) = Inl (Storage ResourceNotFound)"
  shows "\<exists>e. read_graph L (storage_upstream L f st) c b (token_uri_of st rid) = (Inl e, b)"
proof (cases "get_storage_token L b (Some credential)")
  case (Inl e)
  then have r: "read_system L b (base_uri st) (Some credential) (''tokens/'' @ rid) = Inl e"
    by (simp add: read_system_def)
  from storage_token_errors [OF Inl] have "status_code (app_reply (Inl e)) \<noteq> 200"
    by (auto simp: conforms_def)
  with token_read_routed [OF pod rid(1), of L f b] r show ?thesis
    by (simp add: read_graph_def expect_def)
next
  case (Inr etok)
  have "status_code (app_reply (Inl (storage_to_http (Storage ResourceNotFound)))) = 404" by code_simp
  then show ?thesis
    using token_read_routed [OF pod rid(1), of L f b] 
    unfolding token_read_record [OF rid pod Inr] gone by (simp add: read_graph_def)
qed

text \<open>A token on record is admitted, as the storage server itself would admit it.\<close>

lemma recorded_admitted:
  assumes rec: "recorded b (token_uri_of st rid)
      (record_graph L (make_system_ns (base_uri st)) rid (digest L raw) ty linked name)"
    and pod: "serves_pod c st credential" and rid: "plain_id rid" "rid \<noteq> ''policies''"
    and accepted: "get_storage_token L b (Some credential) = Inr etok"
    and ser: "\<And>g. backend_read b (token_uri_of st rid) = Inr g \<Longrightarrow> serialize_graph L ''turtle'' g \<noteq> None"
    and laws: "turtle_roundtrip L" "engine_lookup_law L (c_state_graph c) (digest L raw)" "integer_lexical L"
      "string_lexical L" "digest_hex L"
    and d: "distinct (map fst (contexts b))"
    and only: "\<not> digest_elsewhere b (token_uri_of st rid) (digest L raw)" and ty: "\<not> is_bnode ty"
  shows "\<exists>rec. validate_via_storage L (storage_upstream L f st) c b raw ty = (Inr rec, b)
    \<and> token_uri rec = token_uri_of st rid \<and> token_type rec = node_str ty
    \<and> set (linked_view_uris rec) = set linked \<and> sorted (linked_view_uris rec)
    \<and> policy_ref rec = Some (make_system_ns (base_uri st) @ ''tokens/policies/'' @ rid)
    \<and> enforcement_count rec = 0 \<and> last_used_at rec = lit_lexical L (XSD ''dateTime'') EPOCH"
proof -
  let ?h = "digest L raw" and ?ns = "make_system_ns (base_uri st)" and ?u = "token_uri_of st rid"
  have ascii: "ascii ?h" using digest_hex_ascii [OF laws(5)] by blast
  have str: "lit_lexical L (XSD ''string'') ?h = ?h" using laws(4) by (simp add: string_lexical_def)
  from lookup_answered [OF laws(2) pod accepted] obtain rows where
    rows: "select_state L (storage_upstream L f st) c b (scoped_lookup (c_state_graph c) ?h) = (Inr (string_rows rows), b)"
      "set rows = set (lookup_rows (contexts b) ?h)" by blast
  note match = recorded_matches [OF rec token_uri_of_def d only str ascii rows(2), of "[ty]"]
  from rec obtain g where g: "backend_read b ?u = Inr g"
    "set g = set (record_graph L ?ns rid ?h ty linked name)" unfolding recorded_def by blast
  have "\<forall>t\<in>set g. ground t"
    unfolding g(2) record_graph_set [OF refl] using ty by (auto split: option.splits if_splits)
  from record_read_back [OF pod rid accepted g(1) this ser [OF g(1)] laws(1)] obtain h where
    h: "read_graph L (storage_upstream L f st) c b ?u = (Inr h, b)" "set h = set g" by blast
  have "validate_via_storage L (storage_upstream L f st) c b raw ty = (token_record_from_graph h ?u ty, b)"
    unfolding engine_validates using match by (simp add: rows(1) h(1))
  moreover from h(2) g(2) have "set h = set (record_graph L ?ns rid ?h ty linked name)" by simp
  note record_reads_back [OF token_uri_of_def this laws(3), of ty]
  ultimately show ?thesis by simp
qed

text \<open>C13. A grant works across the two servers: the secret that issuing a token returned at the storage
  server is admitted by the engine, which asks the storage server by a SPARQL query for the digest
  and by a GET for the record, both over HTTP with its own credential. The record the engine then
  works with names exactly the views and the policy the token was issued for and no delivery yet.
  Nothing in the store changes by it.\<close>

theorem grant_admitted_at_engine:
  assumes issue: "issue_token L plaintext rid b (make_system_ns (base_uri st)) linked POD_ConsumerToken name
      = (Inr (secret, uri), b')"
    and pod: "serves_pod c st credential" and rid: "plain_id rid" "rid \<noteq> ''policies''"
    and accepted: "get_storage_token L b' (Some credential) = Inr etok"
    and ser: "\<forall>g. backend_read b' uri = Inr g \<longrightarrow> serialize_graph L ''turtle'' g \<noteq> None"
    and laws: "turtle_roundtrip L" "engine_lookup_law L (c_state_graph c) (digest L plaintext)" "integer_lexical L"
      "string_lexical L" "digest_hex L"
    and d: "distinct (map fst (contexts b))"
    and only: "\<not> digest_elsewhere b (token_uri_of st rid) (digest L plaintext)"
  shows "\<exists>rec. get_engine_token L (storage_upstream L f st) c b' (Some (''Bearer '' @ secret)) POD_ConsumerToken
      = (Inr rec, b')
    \<and> token_uri rec = uri \<and> token_type rec = node_str POD_ConsumerToken
    \<and> set (linked_view_uris rec) = set linked
    \<and> policy_ref rec = Some (make_system_ns (base_uri st) @ ''tokens/policies/'' @ rid)
    \<and> enforcement_count rec = 0"
proof -
  have ty: "\<not> is_bnode POD_ConsumerToken" by simp
  from issue have w: "write_record L b (make_system_ns (base_uri st)) rid (digest L plaintext)
      POD_ConsumerToken linked name = (Inr uri, b')" and s: "secret = plaintext"
    by (auto simp: issue_token_def allocate_record_id_def split: sum.splits prod.splits exn.splits
        storage_error.splits)
  note rec = write_record_recorded [OF w laws(1) ty]
  have u: "uri = token_uri_of st rid" by (simp add: rec(1) token_uri_of_def)
  from rec(3) obtain x where ws: "write_system L b uri
      (record_graph L (make_system_ns (base_uri st)) rid (digest L plaintext) POD_ConsumerToken linked name)
      = (Inr x, b')" by blast
  have bearer: "require_bearer (Some (''Bearer '' @ secret)) = Inr plaintext"
    using removeprefix_append [of "''Bearer ''" plaintext] by (simp add: require_bearer_def s)
  have "serialize_graph L ''turtle'' g \<noteq> None" if "backend_read b' (token_uri_of st rid) = Inr g" for g
    using that ser by (simp add: u)
  from recorded_admitted [OF rec(2) [unfolded u] pod rid accepted this laws
      write_system_distinct [OF ws d] digest_elsewhere_write [OF ws [unfolded u] d only] ty, of f]
  show ?thesis unfolding get_engine_token_def bearer sum.case u by blast
qed

text \<open>After a record was deleted, its digest is nowhere in the dataset.\<close>

lemma delete_system_contexts:
  assumes "delete_system b u = (Inr x, b')" and "backend_read b u = Inr g"
  shows "contexts b' = AList.delete u (contexts b)"
  using assms
  by (auto simp: delete_system_def backend_read_def Let_def remove_context_def unlink_fields
      split: sum.splits if_splits)

lemma no_rows_left:
  assumes "\<not> digest_elsewhere b u h"
  shows "lookup_rows (AList.delete u (contexts b)) h = []"
proof -
  have "row \<notin> set (lookup_rows (AList.delete u (contexts b)) h)" for row
    using assms unfolding lookup_rows_iff union_of_iff digest_elsewhere_def AList.delete_eq by fastforce
  then show ?thesis by (meson last_in_set)
qed

text \<open>C14. Revocation reaches the engine: once the record of a token has been deleted at the storage server,
  each of the engine's consumer routes answers the token's holder with the one 401, for every view,
  every resource and every parameter, and writes nothing.\<close>

theorem revoked_grant_refused_at_engine:
  assumes revoke: "revoke_token b (token_uri_of st rid) = (Inr x, b')"
    and stored: "backend_read b (token_uri_of st rid) = Inr g"
    and only: "\<not> digest_elsewhere b (token_uri_of st rid) (digest L raw)"
    and pod: "serves_pod c st credential"
    and accepted: "get_storage_token L b' (Some credential) = Inr etok"
    and law: "engine_lookup_law L (c_state_graph c) (digest L raw)"
  shows "let up = storage_upstream L f st; auth = Some (''Bearer '' @ raw) in
      get_view L up c st now stamp b' auth vid ps = (Inl unauthorized, b')
    \<and> get_blob L up c st now stamp b' auth vid ps = (Inl unauthorized, b')
    \<and> discover L up c st label b' auth = (Inl unauthorized, b')"
proof -
  let ?h = "digest L raw"
  have "contexts b' = AList.delete (token_uri_of st rid) (contexts b)"
    by (rule delete_system_contexts [OF _ stored]) (use revoke in \<open>simp add: revoke_token_def\<close>)
  then have "lookup_rows (contexts b') ?h = []"
    using no_rows_left [OF only] by simp
  moreover note lookup_answered [OF law pod accepted, of f]
  ultimately have "select_state L (storage_upstream L f st) c b' (scoped_lookup (c_state_graph c) ?h)
      = (Inr [], b')" by (auto simp: string_rows_def)
  moreover have "match_token_rows [] ?h [POD_ConsumerToken] = Inl unauthorized"
    by (simp add: match_token_rows_def)
  ultimately have v: "validate_via_storage L (storage_upstream L f st) c b' raw POD_ConsumerToken
      = (Inl unauthorized, b')"
    unfolding engine_validates by simp
  have "require_bearer (Some (''Bearer '' @ raw)) = Inr raw"
    using removeprefix_append [of "''Bearer ''" raw] by (simp add: require_bearer_def)
  then have "get_engine_token L (storage_upstream L f st) c b' (Some (''Bearer '' @ raw)) POD_ConsumerToken
      = (Inl unauthorized, b')"
    unfolding get_engine_token_def by (simp add: v)
  then show ?thesis unfolding Let_def get_view_def get_blob_def discover_def by simp
qed

lemma state_query_keeps:
  assumes "serves_pod c st credential" and "select_state L (storage_upstream L f st) c b q = (x, s1)"
  shows "s1 = b"
proof -
  let ?r = "\<lparr>req_method = ''POST'', req_url = c_state_base c @ ''sparql'', req_headers = c_state_headers c
    @ [(''Content-Type'', ''application/sparql-query''), (''Accept'', ''application/sparql-results+json'')],
    req_body = utf8_encode q\<rparr>"
  obtain y b' where a: "storage_app L f st b (app_request_of ?r) = (y, b')" by fastforce
  have "url_path (c_state_base c @ ''sparql'') = ''/sparql''"
    using serves_pod_path [OF assms(1), of "''sparql''"] by simp
  then have "b' = b" by (intro storage_query_keeps [OF a]) (simp_all add: app_request_of_def)
  with a assms(2) show ?thesis
    by (simp add: select_state_def post_query_def storage_upstream_def split: sum.splits)
qed

text \<open>Whatever the query engine answers, no text is admitted as a token whose record is gone.\<close>

theorem revoked_uri_never_admitted:
  assumes revoke: "revoke_token b (token_uri_of st rid) = (Inr x, b')"
    and pod: "serves_pod c st credential" and rid: "plain_id rid" "rid \<noteq> ''policies''"
  shows "\<not> (get_engine_token L (storage_upstream L f st) c b' auth ty = (Inr rec, b'')
     \<and> token_uri rec = token_uri_of st rid)"
proof
  let ?up = "storage_upstream L f st"
  assume a: "get_engine_token L ?up c b' auth ty = (Inr rec, b'') \<and> token_uri rec = token_uri_of st rid"
  obtain raw where "validate_via_storage L ?up c b' raw ty = (Inr rec, b'')"
    using a by (auto simp: get_engine_token_def split: sum.splits)
  then obtain rows s1 t u h where
    q: "select_state L ?up c b' (scoped_lookup (c_state_graph c) (digest L raw)) = (Inr rows, s1)"
    and r: "read_graph L ?up c s1 u = (Inr h, b'')" "token_record_from_graph h u t = Inr rec"
    unfolding engine_validates by (auto split: sum.splits prod.splits exn.splits)
  have s1: "s1 = b'"
    by (rule state_query_keeps [OF pod q])
  have "u = token_uri_of st rid" using token_record_uri [OF r(2)] a by simp
  moreover have "backend_read b' (token_uri_of st rid) = Inl (Storage ResourceNotFound)"
    by (rule delete_system_ok) (use revoke in \<open>simp add: revoke_token_def\<close>)
  from record_gone [OF pod rid this, of L f] obtain e where
    "read_graph L ?up c b' (token_uri_of st rid) = (Inl e, b')" by blast
  ultimately show False using r(1) s1 by simp
qed

section \<open>A grant in a sample pod\<close>

text \<open>A result format for the sample: each row is a query string behind a number sign.\<close>

definition row_doc :: "(string \<times> node) list \<Rightarrow> string" where
  "row_doc row = join ''&'' (map (\<lambda>(k, v). quote k @ ''='' @ quote v) (map (\<lambda>(k, n). (k, node_str n)) row))"

definition rows_doc :: "(string \<times> node) list list \<Rightarrow> string" where
  "rows_doc rows = concat (map (\<lambda>row. CHR ''#'' # row_doc row) rows)"

definition parse_rows :: "string \<Rightarrow> row list option" where
  "parse_rows doc = those (map parse_qsl (tl (split_on CHR ''#'' doc)))"

lemma parse_row_doc: "parse_qsl (row_doc row) = Some (map (\<lambda>(k, n). (k, node_str n)) row)"
proof (cases row)
  case Nil
  then show ?thesis by (simp add: row_doc_def parse_qsl_def)
next
  case (Cons p ps)
  then show ?thesis unfolding row_doc_def by (intro parse_qsl_quoted) simp
qed

lemma row_doc_sep: "CHR ''#'' \<notin> set (row_doc row)"
proof
  let ?ws = "map (\<lambda>(k, v). quote k @ ''='' @ quote v) (map (\<lambda>(k, n). (k, node_str n)) row)"
  assume "CHR ''#'' \<in> set (row_doc row)"
  then have "CHR ''#'' \<in> set ''&'' \<or> (\<exists>w\<in>set ?ws. CHR ''#'' \<in> set w)"
    unfolding row_doc_def by (rule set_join)
  then show False using quote_no [of "CHR ''#''"] by auto
qed

lemma split_marked:
  "c \<notin> set w \<Longrightarrow> \<forall>v\<in>set ws. c \<notin> set v \<Longrightarrow> split_on c (w @ concat (map (Cons c) ws)) = w # ws"
  by (induction ws arbitrary: w) (simp_all add: split_on_none split_on_append)

lemma parse_rows_doc: "parse_rows (rows_doc rows) = Some (string_rows rows)"
proof -
  have "rows_doc rows = [] @ concat (map (Cons CHR ''#'') (map row_doc rows))"
    by (simp add: rows_doc_def o_def)
  then have "split_on CHR ''#'' (rows_doc rows) = [] # map row_doc rows"
    using split_marked [of "CHR ''#''" "[]" "map row_doc rows"] row_doc_sep by simp
  then have "parse_rows (rows_doc rows) = those (map (\<lambda>row. Some (map (\<lambda>(k, n). (k, node_str n)) row)) rows)"
    by (simp add: parse_rows_def o_def parse_row_doc)
  moreover have "those (map (\<lambda>x. Some (f x)) xs) = Some (map f xs)" for f :: "(string \<times> node) list \<Rightarrow> row" and xs
    by (induction xs) simp_all
  ultimately show ?thesis by (simp add: string_rows_def)
qed

text \<open>The library of the sample also answers the engine's lookup of one secret.\<close>

definition pod_libs :: "string \<Rightarrow> libs" where
  "pod_libs raw = (let L = token_libs [(demo_grant_graph, ''g'')]; h = digest L raw in
     L\<lparr>run_query := (\<lambda>scope q bindings. case (scope, bindings) of
         (WholeDataset cs, None) \<Rightarrow> Inr (SelectAnswer
           (if q = evaluated_lookup (set_state_graph demo_settings) h then lookup_rows cs h else []))
       | _ \<Rightarrow> run_query L scope q bindings),
       serialize_answer := (\<lambda>fmt a. case a of SelectAnswer rows \<Rightarrow> Inr (rows_doc rows) | _ \<Rightarrow> Inr []),
       results_json := parse_rows\<rparr>)"

definition pod_client :: client where
  "pod_client = make_client (base_uri demo_settings) ''e'' None None None None ''bearer'' (set_state_graph demo_settings)"

lemma pod_client_serves: "serves_pod pod_client demo_settings ''Bearer e''"
proof -
  have "rstrip_char CHR ''/'' (c_state_base pod_client) = ''b'' @ '':'' @ []" by code_simp
  then have "origin (c_state_base pod_client)"
    unfolding origin_def by (intro exI [of _ "''b''"] exI [of _ "[]"]) simp
  moreover have "c_base_uri pod_client = base_uri demo_settings" "slash_ended (base_uri demo_settings)"
    "slash_ended (c_state_base pod_client)" "c_state_headers pod_client = [(''Authorization'', ''Bearer e'')]"
    "c_state_graph pod_client = set_state_graph demo_settings" by code_simp+
  ultimately show ?thesis unfolding serves_pod_def by blast
qed

lemma pod_libs_laws:
  "engine_lookup_law (pod_libs raw) (c_state_graph pod_client) (digest (pod_libs raw) raw)"
  "turtle_roundtrip (pod_libs raw)" "integer_lexical (pod_libs raw)" "string_lexical (pod_libs raw)"
  "digest_hex (pod_libs raw)"
proof -
  let ?L = "token_libs [(demo_grant_graph, ''g'')]"
  have t: "table_ok [(demo_grant_graph, ''g'')]" by code_simp
  have g: "c_state_graph pod_client = set_state_graph demo_settings"
    using pod_client_serves by (simp add: serves_pod_def)
  have d: "digest (pod_libs raw) raw = digest ?L raw"
    by (simp add: pod_libs_def digest_def Let_def)
  show "engine_lookup_law (pod_libs raw) (c_state_graph pod_client) (digest (pod_libs raw) raw)"
    unfolding engine_lookup_law_def d g by (simp add: pod_libs_def Let_def parse_rows_doc)
  show "turtle_roundtrip (pod_libs raw)" "integer_lexical (pod_libs raw)" "string_lexical (pod_libs raw)"
    "digest_hex (pod_libs raw)"
    using token_libs_laws(5) [OF t] token_libs_laws(2-4) [of "[(demo_grant_graph, ''g'')]"]
    by (simp_all add: pod_libs_def Let_def turtle_roundtrip_def integer_lexical_def string_lexical_def digest_hex_def)
qed

abbreviation pod_issue :: "(exn, string \<times> string) result \<times> backend" where
  "pod_issue \<equiv> issue_token (pod_libs ''secret'') ''secret'' ''r1'' sys_store (make_system_ns (base_uri demo_settings))
     [''b:/.system/views/v''] POD_ConsumerToken (Some ''bob'')"

definition pod_granted :: backend where
  "pod_granted = sys_store
     \<lparr>files := files sys_store @ [([''s'', ''.system'', ''tokens'', ''r1.ttl''], File ''g'')],
      contexts := contexts sys_store @ [(''b:/.system/tokens/r1'', demo_grant_graph)]\<rparr>"

lemma pod_issue: "pod_issue = (Inr (''secret'', ''b:/.system/tokens/r1''), pod_granted)"
  by code_simp

lemma pod_granted_engine: "is_ok (get_storage_token (pod_libs ''secret'') pod_granted (Some ''Bearer e''))"
  by code_simp

lemma pod_granted_record: "backend_read pod_granted ''b:/.system/tokens/r1'' = Inr (g_copy demo_grant_graph)"
  by code_simp

lemma demo_grant_doc: "serialize_graph (pod_libs ''secret'') ''turtle'' (g_copy demo_grant_graph) = Some ''g''"
  by code_simp

lemma sys_store_digests:
  "distinct (map fst (contexts sys_store))"
  "\<not> digest_elsewhere sys_store (token_uri_of demo_settings ''r1'') (digest (pod_libs ''secret'') ''secret'')"
  "\<not> digest_elsewhere sys_store (token_uri_of demo_settings ''r'') (digest (pod_libs ''s'') ''s'')"
  "plain_id ''r1''" "token_uri_of demo_settings ''r1'' = ''b:/.system/tokens/r1''"
  "token_uri_of demo_settings ''r'' = ''b:/.system/tokens/r''"
proof -
  show uris: "distinct (map fst (contexts sys_store))" "plain_id ''r1''"
    "token_uri_of demo_settings ''r1'' = ''b:/.system/tokens/r1''"
    "token_uri_of demo_settings ''r'' = ''b:/.system/tokens/r''" by code_simp+
  have "list_all (\<lambda>(n, g). list_all (\<lambda>(s, p, v). p = POD_tokenHash \<longrightarrow>
      node_str v \<noteq> digest (pod_libs ''secret'') ''secret'') g) (contexts sys_store)" by code_simp
  then show "\<not> digest_elsewhere sys_store (token_uri_of demo_settings ''r1'') (digest (pod_libs ''secret'') ''secret'')"
    unfolding digest_elsewhere_def list_all_iff by fastforce
  have "list_all (\<lambda>(n, g). n = ''b:/.system/tokens/r'' \<or> list_all (\<lambda>(s, p, v). p = POD_tokenHash \<longrightarrow>
      node_str v \<noteq> digest (pod_libs ''s'') ''s'') g) (contexts sys_store)" by code_simp
  then show "\<not> digest_elsewhere sys_store (token_uri_of demo_settings ''r'') (digest (pod_libs ''s'') ''s'')"
    unfolding digest_elsewhere_def list_all_iff uris by fastforce
qed

text \<open>The grant is admitted; and a revoked one is not.\<close>

lemma grant_admitted_at_engine_witness:
  "\<exists>rec. pod_issue = (Inr (''secret'', ''b:/.system/tokens/r1''), pod_granted)
    \<and> get_engine_token (pod_libs ''secret'') (storage_upstream (pod_libs ''secret'') demo_fresh demo_settings)
        pod_client pod_granted (Some (''Bearer '' @ ''secret'')) POD_ConsumerToken = (Inr rec, pod_granted)
    \<and> set (linked_view_uris rec) = {''b:/.system/views/v''}"
proof -
  obtain etok where e: "get_storage_token (pod_libs ''secret'') pod_granted (Some ''Bearer e'') = Inr etok"
    using pod_granted_engine unfolding is_ok_iff by blast
  have s: "\<forall>g. backend_read pod_granted ''b:/.system/tokens/r1'' = Inr g \<longrightarrow>
      serialize_graph (pod_libs ''secret'') ''turtle'' g \<noteq> None"
    by (simp add: pod_granted_record demo_grant_doc)
  have "''r1'' \<noteq> ''policies''" by simp
  from grant_admitted_at_engine [OF pod_issue pod_client_serves sys_store_digests(4) this e s
      pod_libs_laws(2,1,3-5) sys_store_digests(1,2), of demo_fresh] pod_issue
  show ?thesis by (simp del: append.simps) blast
qed

lemma revoked_grant_refused_at_engine_witness:
  "\<exists>b. revoke_token sys_store ''b:/.system/tokens/r'' = (Inr (), b)
    \<and> get_view (pod_libs ''s'') (storage_upstream (pod_libs ''s'') demo_fresh demo_settings) pod_client
        demo_settings 0 [] b (Some (''Bearer '' @ ''s'')) ''v'' [] = (Inl unauthorized, b)"
proof -
  let ?r = "revoke_token sys_store ''b:/.system/tokens/r''"
  have r: "fst ?r = Inr ()" "is_ok (get_storage_token (pod_libs ''s'') (snd ?r) (Some ''Bearer e''))"
    "is_ok (backend_read sys_store ''b:/.system/tokens/r'')" by code_simp+
  from r obtain g etok where g: "backend_read sys_store (token_uri_of demo_settings ''r'') = Inr g"
    and e: "get_storage_token (pod_libs ''s'') (snd ?r) (Some ''Bearer e'') = Inr etok"
    unfolding sys_store_digests(6) is_ok_iff by blast
  have d: "revoke_token sys_store (token_uri_of demo_settings ''r'') = (Inr (), snd ?r)"
    unfolding sys_store_digests(6) using r(1) by (metis prod.collapse)
  from revoked_grant_refused_at_engine [OF d g sys_store_digests(3) pod_client_serves e pod_libs_laws(1)]
  have "get_view (pod_libs ''s'') (storage_upstream (pod_libs ''s'') demo_fresh demo_settings) pod_client
      demo_settings 0 [] (snd ?r) (Some (''Bearer '' @ ''s'')) ''v'' [] = (Inl unauthorized, snd ?r)"
    unfolding Let_def by blast
  with d show ?thesis unfolding sys_store_digests(6) by blast
qed

end
