(* ===== verification/Traces.thy ===== *)
theory Traces
  imports StoreSteps SystemProps
begin

text \<open>
  Sequences of requests to the storage server. Files come and go by requests of the owner only: the
  engine's writes add access-log entries and replace what is there. So a token that is accepted at
  the end of any history was either on record at its beginning or has been put there by the owner.
\<close>

section \<open>Histories\<close>

inductive served :: "libs \<Rightarrow> settings \<Rightarrow> backend \<Rightarrow> (fresh \<times> app_request) list \<Rightarrow> backend \<Rightarrow> bool"
  for L st b where
  start: "served L st b [] b"
| request: "served L st b reqs b1 \<Longrightarrow> storage_app L f st b1 req = (x, b2) \<Longrightarrow>
    served L st b (reqs @ [(f, req)]) b2"

inductive_simps served_Nil [simp]: "served L st b [] b'"

lemma served_keeps: "served L st b reqs b' \<Longrightarrow> tree_ok b \<Longrightarrow> tree_ok b' \<and> same_config b b'"
proof (induction rule: served.induct)
  case (request reqs b1 f req x b2)
  with tree.request_keeps [OF request(2)] config.request_keeps [OF request(2)] show ?case by blast
qed simp

section \<open>The files the engine's writes touch\<close>

lemma write_system_keeps_files:
  assumes w: "write_system L b u g = (r, b')" and p: "path_exists b p"
  shows "path_exists b' p"
  using w
proof (cases rule: write_system_cases)
  case (dirs b1)
  with p show ?thesis by (simp add: path_exists_def file_at_mkdirs [OF dirs(2)])
next
  case (written b1 b2 doc)
  with p show ?thesis
    by (auto simp: path_exists_def reload_context_fields(4) [OF written(5)] file_at_write_bytes(1) [OF written(4)]
        file_at_mkdirs [OF written(3)])
qed (use p in simp)

lemma replace_keeps_tree:
  assumes w: "replace_if_unchanged L b u g etag tag = (r, b')" and t: "tree_ok b"
  shows "path_exists b' p \<longleftrightarrow> path_exists b p"
proof (cases "b' = b")
  case False
  with w obtain r' where w': "write_system L b u g = (r', b')" and e: "path_exists b (rdf_location b u)"
    by (auto simp: replace_if_unchanged_def guard_within_root_def rdf_location_def Let_def
        split: if_splits sum.splits prod.splits)
  show ?thesis
  proof (cases "prefix p (rdf_location b u)")
    case True
    with t e have "path_exists b p"
      unfolding tree_ok_iff path_exists_def strict_prefix_def by (metis option.distinct(1))
    with write_system_keeps_files [OF w'] show ?thesis by blast
  next
    case False
    from write_system_files [OF w' this] show ?thesis by (simp add: path_exists_def)
  qed
qed simp

text \<open>The document of an access-log entry.\<close>

definition entry_uri :: "settings \<Rightarrow> fresh \<Rightarrow> string" where
  "entry_uri st f = make_system_ns (base_uri st) @ ''access-log/'' @ f_entry_id f"

lemma engine_write_files:
  assumes e: "engine_write L f st b req (x, b')" and t: "tree_ok b"
    and p: "\<not> prefix p (rdf_location b (entry_uri st f))"
  shows "path_exists b' p \<longleftrightarrow> path_exists b p"
proof -
  from e consider (log) "append_access_log L (f_entry_id f) b (base_uri st)
          (hdr req ''authorization'') (a_body req) (hdr req ''content-type'') = (x, b')"
    | (put) u enf where "enforcement_put L b u enf (a_body req) (hdr req ''content-type'')
          (hdr req ''if-match'') (hdr req ''if-none-match'') = (x, b')"
    unfolding engine_write_def by blast
  then show ?thesis
  proof cases
    case log
    show ?thesis
    proof (cases "b' = b")
      case False
      with log obtain g r where "write_system L b (entry_uri st f) g = (r, b')"
        by (auto simp: append_access_log_def entry_uri_def Let_def split: sum.splits prod.splits)
      from write_system_files [OF this p] show ?thesis by (simp add: path_exists_def)
    qed simp
  next
    case put
    show ?thesis
    proof (cases "b' = b")
      case False
      with put obtain g etag r where "replace_if_unchanged L b u g etag (etag_for_graph L) = (r, b')"
        by (auto simp: enforcement_put_def apply_enforcement_put_def split: sum.splits prod.splits if_splits)
      from replace_keeps_tree [OF this t] show ?thesis .
    qed simp
  qed
qed

section \<open>Who put a file there\<close>

lemma file_traced_to_owner:
  assumes "served L st b reqs b'" and "tree_ok b" and "path_exists b p \<noteq> path_exists b' p"
    and "\<forall>(f, req)\<in>set reqs. \<not> prefix p (rdf_location b (entry_uri st f))"
  shows "\<exists>pre f req post b1 b2 x. reqs = pre @ (f, req) # post \<and> served L st b pre b1
    \<and> storage_app L f st b1 req = (x, b2) \<and> path_exists b1 p = path_exists b p
    \<and> path_exists b2 p = path_exists b' p \<and> owner_request L b1 req"
  using assms(1,3,4)
proof (induction rule: served.induct)
  case (request reqs b1 f req x b2)
  show ?case
  proof (cases "path_exists b p = path_exists b1 p")
    case False
    from request(3) [OF False] request(5) obtain pre f' req' post c1 c2 y where
      r: "reqs = pre @ (f', req') # post" "served L st b pre c1" "storage_app L f' st c1 req' = (y, c2)"
      "path_exists c1 p = path_exists b p" "path_exists c2 p = path_exists b1 p" "owner_request L c1 req'"
      by auto
    have "path_exists c2 p = path_exists b2 p" using r(4,5) False request(4) by blast
    moreover have "reqs @ [(f, req)] = pre @ (f', req') # (post @ [(f, req)])" using r(1) by simp
    ultimately show ?thesis using r(2-4,6) by blast
  next
    case True
    with request(4) have ne: "path_exists b1 p \<noteq> path_exists b2 p" "b2 \<noteq> b1" by auto
    from served_keeps [OF request(1) assms(2)] have t: "tree_ok b1" "same_config b b1" by auto
    have "\<not> prefix p (rdf_location b1 (entry_uri st f))"
      using request(5) same_config_paths [OF t(2)] by simp
    with engine_write_files [OF _ t(1)] ne(1) have "\<not> engine_write L f st b1 req (x, b2)" by blast
    with store_change_needs_credential [OF request(2) ne(2)] have "owner_request L b1 req" by blast
    with request(1,2) True show ?thesis by blast
  qed
qed simp

text \<open>C15. Every accepted token is the owner's doing: when a token is accepted after any history of
  requests to the storage server, by anyone and in any order, then its record was on file before
  the first of them, or there is a request in the history that put it there, and that request was
  made with a credential of an administrator accepted at that moment. (Of the identifiers of new
  access-log entries only that they do not name the record's file is used.)\<close>

theorem accepted_token_traced_to_owner:
  assumes "served L st b reqs b'" and "tree_ok b"
    and "validate_token_one_of L b' raw allowed = Inr rec"
    and "\<forall>(f, req)\<in>set reqs. \<not> prefix (rdf_location b (token_uri rec)) (rdf_location b (entry_uri st f))"
  shows "path_exists b (rdf_location b (token_uri rec)) \<or>
    (\<exists>pre f req post b1 b2 x. reqs = pre @ (f, req) # post \<and> served L st b pre b1
      \<and> storage_app L f st b1 req = (x, b2) \<and> owner_request L b1 req
      \<and> \<not> path_exists b1 (rdf_location b (token_uri rec)) \<and> path_exists b2 (rdf_location b (token_uri rec)))"
proof -
  let ?p = "rdf_location b (token_uri rec)"
  from assms(3) obtain g where "backend_read b' (token_uri rec) = Inr g"
    by (cases rule: validate_ok) (auto dest: token_record_uri)
  then have "path_exists b' (rdf_location b' (token_uri rec))"
    by (auto simp: backend_read_def guard_within_root_def rdf_location_def Let_def split: if_splits)
  moreover have "same_config b b'" using served_keeps [OF assms(1,2)] by blast
  ultimately have "path_exists b' ?p" using same_config_paths by metis
  with file_traced_to_owner [OF assms(1,2) _ assms(4)] show ?thesis by blast
qed

section \<open>A history\<close>

definition new_record :: graph where
  "new_record = record_graph (token_libs []) ''b:/.system/'' ''n'' (digest (token_libs []) ''x'')
     POD_ConsumerToken [''b:/.system/views/v''] None"

definition history_libs :: libs where
  "history_libs = token_libs
     [([(BNode ''0'', POD_linkedView, URIRef ''b:/.system/views/v'')], ''q''), (new_record, ''g''),
      (g_add new_record (URIRef ''b:/.system/tokens/n'', POD_tokenSecret, Lit ''x'' (Some (XSD ''string'')) None), ''h'')]"

definition issue_request :: app_request where
  "issue_request = \<lparr>a_method = ''POST'', a_path = ''/.system/tokens'', a_params = [],
     a_headers = [(''Authorization'', ''Bearer a''), (''Content-Type'', ''text/turtle'')], a_body = ''q''\<rparr>"

definition issued_store :: backend where
  "issued_store = sys_store
     \<lparr>files := files sys_store @ [([''s'', ''.system'', ''tokens'', ''n.ttl''], File ''g'')],
      contexts := contexts sys_store @ [(''b:/.system/tokens/n'', new_record)]\<rparr>"

lemma issued_by_request:
  "\<exists>r. storage_app history_libs demo_fresh demo_settings sys_store issue_request = (Inr r, issued_store)"
proof -
  let ?p = "issue_grant history_libs ''x'' ''n'' sys_store ''b:/'' (Some ''Bearer a'') ''q'' (Some ''text/turtle'')"
  have h: "hdr issue_request ''authorization'' = Some ''Bearer a''"
    "hdr issue_request ''content-type'' = Some ''text/turtle''" by code_simp+
  have "storage_app history_libs demo_fresh demo_settings sys_store issue_request = ?p"
    using h by (simp add: storage_app_def public_routes_def sparql_routes_def views_routes_def
        internal_routes_def system_routes_def issue_request_def demo_settings_def demo_fresh_def one_segment_def
        CONSTRAINTS_PATH_def Let_def)
  moreover have "case ?p of (x, b) \<Rightarrow> is_ok x \<and> b = issued_store" by code_simp
  ultimately show ?thesis by (auto simp: is_ok_iff split: prod.splits)
qed

lemma accepted_token_traced_to_owner_witness:
  "\<exists>rec. served history_libs demo_settings sys_store [(demo_fresh, issue_request)] issued_store
    \<and> validate_token_one_of history_libs issued_store ''x'' [POD_ConsumerToken] = Inr rec
    \<and> owner_request history_libs sys_store issue_request"
proof -
  let ?v = "validate_token_one_of history_libs issued_store ''x'' [POD_ConsumerToken]"
  obtain r where r: "storage_app history_libs demo_fresh demo_settings sys_store issue_request = (Inr r, issued_store)"
    using issued_by_request by blast
  have s: "served history_libs demo_settings sys_store [(demo_fresh, issue_request)] issued_store"
    using served.request [OF served.start r] by simp
  have "case ?v of Inl e \<Rightarrow> False | Inr rec \<Rightarrow> token_uri rec = ''b:/.system/tokens/n''" by code_simp
  then obtain rec where v: "?v = Inr rec" "token_uri rec = ''b:/.system/tokens/n''" by (auto split: sum.splits)
  have t: "tree_ok sys_store" "\<not> path_exists sys_store (rdf_location sys_store ''b:/.system/tokens/n'')"
    "\<not> prefix (rdf_location sys_store ''b:/.system/tokens/n'')
        (rdf_location sys_store (entry_uri demo_settings demo_fresh))" by code_simp+
  then have l: "\<forall>(f, req)\<in>set [(demo_fresh, issue_request)]. \<not> prefix (rdf_location sys_store (token_uri rec))
      (rdf_location sys_store (entry_uri demo_settings f))" by (simp add: v(2))
  from accepted_token_traced_to_owner [OF s t(1) v(1) l] t(2) obtain pre f req post b1 where
    o: "[(demo_fresh, issue_request)] = pre @ (f, req) # post" "served history_libs demo_settings sys_store pre b1"
      "owner_request history_libs b1 req"
    unfolding v(2) by (elim disjE exE conjE) (blast, rule that)
  from o(1) have "pre = []" "req = issue_request" by (auto simp: Cons_eq_append_conv)
  with o(2,3) have "owner_request history_libs sys_store issue_request" by simp
  with s v(1) show ?thesis by blast
qed

end
