(* ===== verification/AppDocs.thy ===== *)
theory AppDocs
  imports ApiDocs
begin

text \<open>
  The three applications as they describe themselves: title, version, prose and the groups of
  operations that \<open>FastAPI(...)\<close> is given in \<open>ldp_personal_store/main.py\<close>, \<open>ldp_personal_store/app.py\<close>
  and \<open>ldp_view_engine/app.py\<close>, beside the tag each router declares. Every group an application
  mounts is described, and nothing else but the liveness probe.
\<close>

section \<open>Descriptions\<close>

record app_document =
  app_title :: string
  app_version :: string
  app_description :: string
  app_tags :: "(string \<times> string) list"

text \<open>A router is its tag and its operations.\<close>

type_synonym router = "string \<times> operation list"

definition app_operations :: "router list \<Rightarrow> operation list" where
  "app_operations routers = concat (map snd routers)"


section \<open>The bundled pod (main.py)\<close>

definition POD_DESCRIPTION :: string where
  "POD_DESCRIPTION =
     (''A self-hostable personal Linked Data Platform (LDP) pod: RDF and binary storage ''
     @ ''behind a'' @ nl
     @ ''uniform LDP/HTTP surface, a read-only SPARQL 1.1 Protocol endpoint, and a view ''
     @ ''engine that'' @ nl
     @ ''shares named, parameterized SPARQL CONSTRUCT views under revocable bearer tokens ''
     @ ''with'' @ nl
     @ ''per-grant policies. This description plus the per-operation documentation is ''
     @ ''intended to be'' @ nl
     @ ''sufficient, on its own, to build a complete client.'' @ nl @ nl
     @ ''## Credentials'' @ nl @ nl
     @ ''Three bearer tokens exist (see *Authorize* / `securitySchemes` for details):'' @ nl @ nl
     @ ''| Credential | Held by | Surface |'' @ nl
     @ ''|---|---|---|'' @ nl
     @ ''| **AdminToken** | pod owner | everything: data, `/.system/*`, `/sparql`, ''
     @ ''`/.engine/stats` |'' @ nl
     @ ''| **EngineToken** | the view engine itself | internal storage reads + ''
     @ ''enforcement writes |'' @ nl
     @ ''| **ConsumerToken** | a data consumer | `/.engine/` discovery, views, and blob ''
     @ ''endpoints |'' @ nl @ nl
     @ ''A frontend for the **pod owner** authenticates every request with the admin ''
     @ ''token.'' @ nl
     @ ''A frontend for a **consumer** needs only the consumer token the owner handed ''
     @ ''over.'' @ nl @ nl
     @ ''## Data model'' @ nl @ nl
     @ ''Everything the owner manages '' @ em_dash
     @ '' data resources, containers, view definitions, grants,'' @ nl
     @ ''policies, the access log '' @ em_dash
     @ '' is an RDF resource. RDF request and response bodies are'' @ nl
     @ ''exchanged in four serializations, negotiated via `Content-Type` / `Accept`:'' @ nl
     @ ''`text/turtle` (default), `application/ld+json`, `application/n-triples`,'' @ nl
     @ ''`application/rdf+xml`. Any other `Content-Type` on a write stores the body as an ''
     @ ''opaque'' @ nl
     @ ''binary. The system vocabulary uses the prefix `pod:` ='' @ nl
     @ ''`https://lukasberka.github.io/ldp-personal-store/vocab#`;'' @ nl
     @ ''`dcterms:` = `http://purl.org/dc/terms/`; `ldp:` = `http://www.w3.org/ns/ldp#`.'' @ nl @ nl
     @ ''## Owner workflow'' @ nl @ nl
     @ ''1. `PUT` / `POST` data anywhere outside the reserved `.system/` and `.engine/` ''
     @ ''prefixes.'' @ nl
     @ ''2. `POST /.system/views` '' @ em_dash
     @ '' define a view: a SPARQL CONSTRUCT template plus typed parameters.'' @ nl
     @ ''3. `POST /.system/tokens` '' @ em_dash
     @ '' issue a grant naming the views it unlocks; capture the one-time'' @ nl
     @ ''   `pod:tokenSecret` from the response and hand it to the consumer out of band.'' @ nl
     @ ''4. `PUT /.system/tokens/policies/{id}` '' @ em_dash
     @ '' optionally bound the grant (expiry, validity'' @ nl
     @ ''   window, retrieval count, rate).'' @ nl
     @ ''5. `GET /.engine/stats` audits deliveries; `DELETE /.system/tokens/{id}` revokes ''
     @ ''a grant'' @ nl
     @ ''   instantly.'' @ nl @ nl
     @ ''## Consumer workflow'' @ nl @ nl
     @ ''1. `GET /.engine/discovery` '' @ em_dash
     @ '' list the views this token unlocks, with their parameter shapes.'' @ nl
     @ ''2. `GET /.engine/views/{id}?param=value'' @ ellipsis
     @ ''` '' @ em_dash
     @ '' fetch a view's result.'' @ nl
     @ ''3. Results reference other shared resources (including binaries) only through'' @ nl
     @ ''   `/.engine/blob/{id}?uri='' @ ellipsis
     @ ''` proxy URLs; dereference them with the same token, unchanged.'' @ nl @ nl
     @ ''## Error contract'' @ nl @ nl
     @ ''* Every authentication failure is an identical `401` '' @ em_dash
     @ '' the response never reveals whether'' @ nl
     @ ''  a token exists, is revoked, or is of the wrong kind.'' @ nl
     @ ''* `403` on the consumer surface means the view is outside the grant's scope or a ''
     @ ''policy'' @ nl
     @ ''  constraint denied the request (the JSON `detail` names the violated ''
     @ ''constraint).'' @ nl
     @ ''* `400` unparsable RDF or SPARQL, `409` deleting a non-empty container, `412` ''
     @ ''failed'' @ nl
     @ ''  `If-Match`/`If-None-Match` precondition, `415` unsupported media type, `422` ''
     @ ''invalid'' @ nl
     @ ''  view/policy/parameter shape (the `detail` explains), `502` the engine could ''
     @ ''not reach'' @ nl
     @ ''  storage (e.g. its credential was revoked).'' @ nl)"

definition POD_TAGS :: "(string \<times> string) list" where
  "POD_TAGS =
    [(''health'',
       ''Unauthenticated liveness probe.''),
     (''ldp'',
       (''The pod's data plane: LDP resources, containers, and binaries at arbitrary ''
       @ ''paths. Reads accept the admin or engine token; writes are owner-only. The ''
       @ ''`.system/` and `.engine/` prefixes are reserved and handled by their own ''
       @ ''endpoint groups.'')),
     (''sparql'',
       (''Read-only SPARQL 1.1 Protocol endpoint over the pod's full RDF data, for the ''
       @ ''owner and the engine (consumers query only through views).'')),
     (''views'',
       (''Owner-side management of view definitions: named SPARQL CONSTRUCT templates ''
       @ ''with typed parameters. Reading a definition or listing the catalog is a plain ''
       @ ''`GET` on `/.system/views/'' @ ellipsis
       @ ''` (see the *system* group).'')),
     (''system'',
       (''The reserved `.system/` management tree: issuing grants, authoring policies, ''
       @ ''browsing views, tokens, policies, and the access log as LDP containers, and ''
       @ ''revoking records. RDF in and out, like the rest of the pod.'')),
     (''system-internal'',
       (''Enforcement writes used by the view engine after each delivery. Documented for ''
       @ ''completeness and split deployments; a frontend client never calls these.'')),
     (''engine'',
       (''The consumer surface: fetch a view's result and dereference the gated proxy ''
       @ ''URLs found inside it. Authenticate with the consumer token from the pod owner.'')),
     (''discovery'',
       (''Consumer discovery and owner statistics: what a grant unlocks, and how often ''
       @ ''each view was delivered to whom.''))]"

definition POD_DOCUMENT :: app_document where
  "POD_DOCUMENT = \<lparr>app_title = ''LDP Personal Store'', app_version = ''0.1.0'',
     app_description = POD_DESCRIPTION, app_tags = POD_TAGS\<rparr>"

definition POD_ROUTERS :: "router list" where
  "POD_ROUTERS =
     [(''sparql'', SPARQL_OPERATIONS),
      (''views'', VIEWS_OPERATIONS),
      (''system-internal'', INTERNAL_OPERATIONS),
      (''system'', SYSTEM_OPERATIONS),
      (''engine'', VIEW_OPERATIONS),
      (''discovery'', DISCOVERY_OPERATIONS),
      (''ldp'', LDP_OPERATIONS)]"

section \<open>The storage server (app.py)\<close>

definition STORAGE_DESCRIPTION :: string where
  "STORAGE_DESCRIPTION =
     (''The **storage role** of the LDP Personal Store: RDF and binary storage behind a ''
     @ ''uniform'' @ nl
     @ ''LDP/HTTP surface, a read-only SPARQL 1.1 Protocol endpoint, and the pod owner's ''
     @ ''`.system/`'' @ nl
     @ ''administration tree (views, grants, policies, the access log). This is a standard'' @ nl
     @ ''LDP + SPARQL 1.1 server; the view engine is a separate product that reads ''
     @ ''through it.'' @ nl @ nl
     @ ''Two bearer credentials operate here: the **AdminToken** (owner; the full ''
     @ ''surface) and the'' @ nl
     @ ''**EngineToken** (a separately-deployed view engine's storage credential: reads ''
     @ ''plus the'' @ nl
     @ ''standard-LDP enforcement writes). Consumers never talk to this server directly '' @ em_dash
     @ '' they hold'' @ nl
     @ ''a ConsumerToken and read through the engine.'' @ nl)"

definition STORAGE_TAGS :: "(string \<times> string) list" where
  "STORAGE_TAGS =
    [(''health'',
       ''Unauthenticated liveness probe.''),
     (''ldp'',
       (''The pod's data plane: LDP resources, containers, and binaries at arbitrary ''
       @ ''paths. Reads accept the admin or engine token; writes are owner-only. The ''
       @ ''`.system/` prefix is reserved and handled by its own endpoint groups.'')),
     (''sparql'',
       (''Read-only SPARQL 1.1 Protocol endpoint over the pod's full RDF data, for the ''
       @ ''owner and the engine (consumers query only through views).'')),
     (''views'',
       (''Owner-side management of view definitions: named SPARQL CONSTRUCT templates ''
       @ ''with typed parameters.'')),
     (''system'',
       (''The reserved `.system/` management tree: issuing grants, authoring policies, ''
       @ ''browsing views, tokens, policies, and the access log as LDP containers, and ''
       @ ''revoking records.'')),
     (''system-internal'',
       (''Enforcement writes used by the view engine after each delivery. Documented for ''
       @ ''completeness and split deployments; a frontend client never calls these.''))]"

definition STORAGE_DOCUMENT :: app_document where
  "STORAGE_DOCUMENT = \<lparr>app_title = (''LDP Personal Store '' @ em_dash
     @ '' Storage''), app_version = ''0.1.0'',
     app_description = STORAGE_DESCRIPTION, app_tags = STORAGE_TAGS\<rparr>"

definition STORAGE_ROUTERS :: "router list" where
  "STORAGE_ROUTERS =
     [(''sparql'', SPARQL_OPERATIONS),
      (''views'', VIEWS_OPERATIONS),
      (''system-internal'', INTERNAL_OPERATIONS),
      (''system'', SYSTEM_OPERATIONS),
      (''ldp'', LDP_OPERATIONS)]"

section \<open>The view engine (ldp_view_engine/app.py)\<close>

definition ENGINE_DESCRIPTION :: string where
  "ENGINE_DESCRIPTION =
     (''The **view engine**: it shares named, parameterized SPARQL CONSTRUCT views under'' @ nl
     @ ''revocable consumer bearer tokens with per-grant policies, obtaining the data it ''
     @ ''serves'' @ nl
     @ ''from an arbitrary standard LDP + SPARQL 1.1 storage server over HTTP.'' @ nl @ nl
     @ ''Consumers authenticate with a **ConsumerToken** handed over by the pod owner and ''
     @ ''read only'' @ nl
     @ ''through this surface (`/.engine/discovery`, `/.engine/views/{id}`, ''
     @ ''`/.engine/blob/{id}`);'' @ nl
     @ ''`/.engine/stats` is an owner read authenticated with the **AdminToken**.'' @ nl)"

definition ENGINE_TAGS :: "(string \<times> string) list" where
  "ENGINE_TAGS =
    [(''health'',
       ''Unauthenticated liveness probe.''),
     (''engine'',
       (''The consumer surface: fetch a view's result and dereference the gated proxy ''
       @ ''URLs found inside it. Authenticate with the consumer token from the pod owner.'')),
     (''discovery'',
       (''Consumer discovery and owner statistics: what a grant unlocks, and how often ''
       @ ''each view was delivered to whom.''))]"

definition ENGINE_DOCUMENT :: app_document where
  "ENGINE_DOCUMENT = \<lparr>app_title = (''LDP Personal Store '' @ em_dash
     @ '' View Engine''), app_version = ''0.1.0'',
     app_description = ENGINE_DESCRIPTION, app_tags = ENGINE_TAGS\<rparr>"

definition ENGINE_ROUTERS :: "router list" where
  "ENGINE_ROUTERS =
     [(''engine'', VIEW_OPERATIONS),
      (''discovery'', DISCOVERY_OPERATIONS)]"

section \<open>Groups\<close>

text \<open>The groups of an application are described, each once, and beside them the liveness probe only.\<close>

definition groups_described :: "app_document \<Rightarrow> router list \<Rightarrow> bool" where
  "groups_described doc routers \<longleftrightarrow> distinct (map fst (app_tags doc)) \<and> distinct (map fst routers)
     \<and> set (map fst (app_tags doc)) = insert ''health'' (set (map fst routers))
     \<and> (\<forall>(tag, prose)\<in>set (app_tags doc). prose \<noteq> [])"

lemmas pod_docs = POD_DOCUMENT_def POD_TAGS_def POD_ROUTERS_def
lemmas storage_docs = STORAGE_DOCUMENT_def STORAGE_TAGS_def STORAGE_ROUTERS_def
lemmas engine_docs = ENGINE_DOCUMENT_def ENGINE_TAGS_def ENGINE_ROUTERS_def

theorem applications_described:
  "groups_described POD_DOCUMENT POD_ROUTERS" "groups_described STORAGE_DOCUMENT STORAGE_ROUTERS"
  "groups_described ENGINE_DOCUMENT ENGINE_ROUTERS"
  by (auto simp: groups_described_def pod_docs storage_docs engine_docs)

text \<open>The routers in the order they are mounted are the operations of the application.\<close>

lemma mounted_operations:
  "app_operations POD_ROUTERS = POD_OPERATIONS" "app_operations STORAGE_ROUTERS = STORAGE_OPERATIONS"
  "app_operations ENGINE_ROUTERS = ENGINE_OPERATIONS"
  by (simp_all add: app_operations_def pod_docs storage_docs engine_docs POD_OPERATIONS_def
      STORAGE_OPERATIONS_def ENGINE_OPERATIONS_def)

text \<open>
  The bundled pod mounts what the two servers mount apart, with the data plane last, and describes
  their groups in the same words except where it has both surfaces to tell apart.
\<close>

theorem bundled_is_both:
  "set POD_ROUTERS = set STORAGE_ROUTERS \<union> set ENGINE_ROUTERS"
  "map fst (filter (\<lambda>t. t \<notin> set POD_TAGS) (STORAGE_TAGS @ ENGINE_TAGS)) = [''ldp'', ''views'', ''system'']"
proof -
  show "set POD_ROUTERS = set STORAGE_ROUTERS \<union> set ENGINE_ROUTERS"
    unfolding POD_ROUTERS_def STORAGE_ROUTERS_def ENGINE_ROUTERS_def by auto
  show "map fst (filter (\<lambda>t. t \<notin> set POD_TAGS) (STORAGE_TAGS @ ENGINE_TAGS)) = [''ldp'', ''views'', ''system'']"
    by code_simp
qed

end
